(* ===== verification/Prelude.thy ===== *)
theory Prelude
  imports Complex_Main
begin

section \<open>Prelude: shared types, automation and generic lemmas\<close>

text \<open>
  What every component shares: the collections its facts are filed in, the result type of an
  operation that can raise, the runs of an event-driven component (a step function folded over a
  list of events) with the two induction principles the components use (invariants and
  monotone counters), and a few facts on association lists.
\<close>

named_theorems frame \<open>what an operation leaves unchanged\<close>
named_theorems mono_facts \<open>counters that never go back\<close>
named_theorems inv_facts \<open>preservation of component invariants\<close>

text \<open>The outcome of code that can raise: \<open>Inl\<close> the error, \<open>Inr\<close> the value.\<close>

type_synonym ('e, 'a) outcome = "'e + 'a"

abbreviation is_ok :: "('e, 'a) outcome \<Rightarrow> bool" where
  "is_ok r \<equiv> \<not> isl r"

text \<open>Sequencing of code that can raise: a guard, and the continuation on a value.\<close>

definition require :: "bool \<Rightarrow> 'e \<Rightarrow> ('e, 'a) outcome \<Rightarrow> ('e, 'a) outcome" where
  "require c e k = (if c then k else Inl e)"

definition and_then :: "('e, 'a) outcome \<Rightarrow> ('a \<Rightarrow> ('e, 'b) outcome) \<Rightarrow> ('e, 'b) outcome" where
  "and_then r k = (case r of Inl e \<Rightarrow> Inl e | Inr a \<Rightarrow> k a)"

fun map_outcome :: "('a \<Rightarrow> ('e, 'b) outcome) \<Rightarrow> 'a list \<Rightarrow> ('e, 'b list) outcome" where
  "map_outcome f [] = Inr []"
| "map_outcome f (x # xs) = and_then (f x) (\<lambda>y. and_then (map_outcome f xs) (\<lambda>ys. Inr (y # ys)))"

lemma require_Inr [simp]: "require c e k = Inr a \<longleftrightarrow> c \<and> k = Inr a"
  by (simp add: require_def)

lemma and_then_Inr [simp]: "and_then r k = Inr b \<longleftrightarrow> (\<exists>a. r = Inr a \<and> k a = Inr b)"
  by (cases r) (simp_all add: and_then_def)

lemma map_outcome_Inr: "map_outcome f xs = Inr ys \<Longrightarrow> list_all2 (\<lambda>x y. f x = Inr y) xs ys"
  by (induction xs arbitrary: ys) auto

subsection \<open>Runs of a step function\<close>

fun run :: "('e \<Rightarrow> 's \<Rightarrow> 's) \<Rightarrow> 'e list \<Rightarrow> 's \<Rightarrow> 's" where
  "run f [] s = s"
| "run f (e # es) s = run f es (f e s)"

lemma run_append: "run f (xs @ ys) s = run f ys (run f xs s)"
  by (induction xs arbitrary: s) auto

lemma run_invariant:
  assumes "\<And>e s. I s \<Longrightarrow> I (f e s)" and "I s"
  shows "I (run f es s)"
  using assms(2) by (induction es arbitrary: s) (auto intro: assms(1))

lemma run_mono:
  fixes m :: "'s \<Rightarrow> 'b::preorder"
  assumes "\<And>e s. m s \<le> m (f e s)"
  shows "m s \<le> m (run f es s)"
proof (induction es arbitrary: s)
  case (Cons e es)
  have "m s \<le> m (f e s)" by (rule assms)
  also have "\<dots> \<le> m (run f es (f e s))" by (rule Cons.IH)
  finally show ?case by simp
qed simp

lemma run_unchanged:
  assumes "\<And>e s. e \<in> set es \<Longrightarrow> m (f e s) = m s"
  shows "m (run f es s) = m s"
  using assms by (induction es arbitrary: s) auto

subsection \<open>Lists and association lists\<close>

lemma map_of_filter_key:
  "map_of (filter (\<lambda>(k, _). P k) xs) k = (if P k then map_of xs k else None)"
  by (induction xs) auto

lemma length_filter_update:
  "length (filter P (map f xs)) = length (filter (P \<circ> f) xs)"
  by (induction xs) auto

lemma find_None_set: "find P xs = None \<longleftrightarrow> (\<forall>x \<in> set xs. \<not> P x)"
  by (auto simp: find_None_iff)

lemma find_append: "List.find P (xs @ ys) = (case List.find P xs of Some x \<Rightarrow> Some x | None \<Rightarrow> List.find P ys)"
  by (induction xs) auto

lemma find_SomeD: "find P xs = Some x \<Longrightarrow> x \<in> set xs \<and> P x"
  by (auto simp: find_Some_iff)

text \<open>A computed answer, as its two components.\<close>

lemma not_isl_pair: "\<not> isl r \<Longrightarrow> \<exists>a b. r = Inr (a, b)"
  by (cases r) auto

end
