(* ===== verification/Desktop_Lease.thy ===== *)
theory Desktop_Lease
  imports Py_Values
begin

section \<open>The desktop lease (agent\_core/desktop\_control.py, class DesktopLease)\<close>

text \<open>
  Who controls the desktop, and in which epoch. The lease file and the next write's fate are part
  of the state (\<open>lease_file\<close>, \<open>disk_error\<close>), the clock is what the caller reads now, and the
  in-memory epoch is \<open>epoch_seen\<close>. A file is what \<open>json.loads\<close> makes of it.
\<close>

datatype holder = Human | Agent

datatype file_content =
    No_File
  | Read_Fails string
  | Blank
  | Bad_Json string
  | Doc json

record lease_state =
  ls_holder :: holder
  ls_viewer :: json
  ls_since :: json
  ls_reason :: string
  ls_epoch :: int

record lease =
  lease_file :: file_content
  disk_error :: "string option"
  clock :: string
  epoch_seen :: int
  state_cache :: lease_state

definition no_lease_reason :: string where
  "no_lease_reason = ''chua co tep lease - agent giu mac dinh''"

definition empty_lease_reason :: string where
  "empty_lease_reason = ''tep lease rong - coi nhu khong doc duoc''"

text \<open>\<open>_read_json\<close>: the data and a readable error. A missing file is no error.\<close>

definition read_json :: "file_content \<Rightarrow> (string \<times> json) list \<times> string" where
  "read_json f = (case f of
       No_File \<Rightarrow> ([], [])
     | Read_Fails e \<Rightarrow> ([], ''khong doc duoc: '' @ e)
     | Blank \<Rightarrow> ([], [])
     | Bad_Json e \<Rightarrow> ([], ''JSON hong: '' @ e)
     | Doc v \<Rightarrow> (case v of JObj kvs \<Rightarrow> kvs | _ \<Rightarrow> [], []))"

text \<open>\<open>_write_json\<close>: atomic, so a failed write leaves the old file.\<close>

definition write_json :: "json \<Rightarrow> lease \<Rightarrow> string \<times> lease" where
  "write_json v l = (case disk_error l of
       Some e \<Rightarrow> (''khong ghi duoc: '' @ e, l)
     | None \<Rightarrow> ([], l\<lparr>lease_file := Doc v\<rparr>))"

definition new_lease :: "file_content \<Rightarrow> string \<Rightarrow> lease" where
  "new_lease f now =
     \<lparr>lease_file = f, disk_error = None, clock = now, epoch_seen = 0,
      state_cache = \<lparr>ls_holder = Agent, ls_viewer = JNull, ls_since = JNull,
                     ls_reason = no_lease_reason, ls_epoch = 0\<rparr>\<rparr>"

definition holder_of :: "string \<Rightarrow> holder" where
  "holder_of s = (if s = ''agent'' then Agent else Human)"

definition holder_name :: "holder \<Rightarrow> string" where
  "holder_name h = (case h of Human \<Rightarrow> ''human'' | Agent \<Rightarrow> ''agent'')"

text \<open>\<open>int(epoch) if isinstance(epoch, int) and epoch >= 0 else 0\<close>\<close>

definition epoch_field :: "json \<Rightarrow> int" where
  "epoch_field v = (case instance_int v of Some n \<Rightarrow> if n \<ge> 0 then n else 0 | None \<Rightarrow> 0)"

definition read_lease :: "lease \<Rightarrow> lease_state \<times> lease" where
  "read_lease l =
     (let exists = (lease_file l \<noteq> No_File);
          (data, error) = read_json (lease_file l)
      in if error \<noteq> [] \<or> (exists \<and> data = []) then
           let st = \<lparr>ls_holder = Human, ls_viewer = JNull, ls_since = JNull,
                     ls_reason = (if error \<noteq> [] then error else empty_lease_reason),
                     ls_epoch = epoch_seen l\<rparr>
           in (st, l\<lparr>state_cache := st\<rparr>)
         else if \<not> exists then
           let st = \<lparr>ls_holder = Agent, ls_viewer = JNull, ls_since = JNull,
                     ls_reason = no_lease_reason, ls_epoch = epoch_seen l\<rparr>
           in (st, l\<lparr>state_cache := st\<rparr>)
         else
           let h = lower (strip (py_str (py_or (dict_get data ''holder'') (JStr []))));
               ep = max (epoch_seen l) (epoch_field (dict_get data ''epoch''));
               st = \<lparr>ls_holder = holder_of h,
                     ls_viewer = py_or (dict_get data ''viewerId'') JNull,
                     ls_since = py_or (dict_get data ''since'') JNull,
                     ls_reason = py_str (py_or (dict_get data ''reason'') (JStr [])),
                     ls_epoch = ep\<rparr>
           in (st, l\<lparr>epoch_seen := ep, state_cache := st\<rparr>))"

text \<open>The document a commit writes.\<close>

definition lease_doc :: "lease_state \<Rightarrow> json" where
  "lease_doc st = JObj
     [(''holder'', JStr (holder_name (ls_holder st))), (''viewerId'', ls_viewer st),
      (''since'', ls_since st), (''reason'', JStr (ls_reason st)), (''epoch'', JInt (ls_epoch st))]"

definition commit_lease ::
  "holder \<Rightarrow> string \<Rightarrow> json \<Rightarrow> lease \<Rightarrow> (lease_state \<times> string) \<times> lease" where
  "commit_lease h reason viewer l0 =
     (let l = snd (read_lease l0);
          ep = epoch_seen l + 1;
          st = \<lparr>ls_holder = h, ls_viewer = viewer, ls_since = JStr (clock l),
                ls_reason = reason, ls_epoch = ep\<rparr>;
          (error, l1) = write_json (lease_doc st) (l\<lparr>epoch_seen := ep\<rparr>)
      in ((st, error), l1\<lparr>state_cache := st\<rparr>))"

text \<open>\<open>acquire\<close> answers with the state and the write's error, or refuses with a code.\<close>

datatype acquire_result = Granted lease_state string | Refused string

definition HUMAN_HAS_CONTROL :: string where
  "HUMAN_HAS_CONTROL = ''HUMAN_HAS_CONTROL''"

definition acquire_lease ::
  "string \<Rightarrow> json \<Rightarrow> bool \<Rightarrow> lease \<Rightarrow> acquire_result \<times> lease" where
  "acquire_lease reason viewer force l0 =
     (let (st, l) = read_lease l0
      in if ls_holder st = Agent then (Granted st [], l)
         else if \<not> force then (Refused HUMAN_HAS_CONTROL, l)
         else let ((st', error), l') = commit_lease Agent reason viewer l
              in (Granted st' error, l'))"

definition release_to_human_lease ::
  "string \<Rightarrow> json \<Rightarrow> lease \<Rightarrow> (lease_state \<times> string) \<times> lease" where
  "release_to_human_lease reason viewer l = commit_lease Human reason viewer l"

definition bump_lease :: "string \<Rightarrow> lease \<Rightarrow> (lease_state \<times> string) \<times> lease" where
  "bump_lease reason l0 =
     (let (st, l) = read_lease l0 in commit_lease (ls_holder st) reason (ls_viewer st) l)"

definition lease_holder :: "lease \<Rightarrow> holder" where
  "lease_holder l = ls_holder (fst (read_lease l))"

definition lease_epoch :: "lease \<Rightarrow> int" where
  "lease_epoch l = ls_epoch (fst (read_lease l))"

subsection \<open>Reading\<close>

lemmas read_lease_defs = read_lease_def read_json_def Let_def

lemma read_lease_frame [frame]:
  "lease_file (snd (read_lease l)) = lease_file l"
  "disk_error (snd (read_lease l)) = disk_error l"
  "clock (snd (read_lease l)) = clock l"
  by (auto simp: read_lease_defs split: prod.splits)

lemma read_lease_epoch: "ls_epoch (fst (read_lease l)) = epoch_seen (snd (read_lease l))"
  by (auto simp: read_lease_defs split: prod.splits)

lemma read_lease_mono [mono_facts]: "epoch_seen l \<le> epoch_seen (snd (read_lease l))"
  by (auto simp: read_lease_defs split: prod.splits)

text \<open>Reading twice reads the same: the second read neither moves the epoch nor the holder.\<close>

lemma read_lease_idem: "read_lease (snd (read_lease l)) = read_lease l"
proof (cases "lease_file l")
  case (Doc v)
  then show ?thesis
    by (cases "case v of JObj kvs \<Rightarrow> kvs | _ \<Rightarrow> []") (auto simp: read_lease_defs)
qed (auto simp: read_lease_defs)

lemma read_lease_holder_indep:
  assumes "lease_file l = lease_file l'"
  shows "ls_holder (fst (read_lease l)) = ls_holder (fst (read_lease l'))"
  using assms by (auto simp: read_lease_defs split: prod.splits)

subsection \<open>Writing\<close>

lemma py_str_or_str [simp]: "py_str (py_or (JStr s) (JStr [])) = s"
  by (cases s) (auto simp: py_or_def)

lemma strip_name [simp]: "lower (strip (holder_name h)) = holder_name h"
  by (cases h) (simp_all add: holder_name_def strip_def lstrip_def rstrip_def is_space_def
      lower_def lower_char_def)

lemma holder_of_name [simp]: "holder_of (holder_name h) = h"
  by (cases h) (simp_all add: holder_of_def holder_name_def)

lemma commit_lease_epoch:
  "epoch_seen (snd (commit_lease h r v l)) = epoch_seen (snd (read_lease l)) + 1"
  by (auto simp: commit_lease_def write_json_def Let_def split: prod.splits option.splits)

lemma commit_lease_epoch_strict [mono_facts]:
  "epoch_seen l < epoch_seen (snd (commit_lease h r v l))"
  using read_lease_mono [of l] by (simp add: commit_lease_epoch)

lemma commit_lease_frame [frame]:
  "disk_error (snd (commit_lease h r v l)) = disk_error l"
  "clock (snd (commit_lease h r v l)) = clock l"
  by (auto simp: commit_lease_def write_json_def Let_def frame split: prod.splits option.splits)

lemma commit_lease_result:
  "fst (fst (commit_lease h r v l)) =
     \<lparr>ls_holder = h, ls_viewer = v, ls_since = JStr (clock l), ls_reason = r,
      ls_epoch = epoch_seen (snd (read_lease l)) + 1\<rparr>"
  by (auto simp: commit_lease_def write_json_def Let_def frame split: prod.splits option.splits)

lemma commit_lease_file:
  "disk_error l = None \<Longrightarrow>
     lease_file (snd (commit_lease h r v l)) = Doc (lease_doc (fst (fst (commit_lease h r v l))))"
  by (auto simp: commit_lease_def write_json_def Let_def frame split: prod.splits option.splits)

lemma commit_lease_error:
  "snd (fst (commit_lease h r v l)) =
     (case disk_error l of None \<Rightarrow> [] | Some e \<Rightarrow> ''khong ghi duoc: '' @ e)"
  by (auto simp: commit_lease_def write_json_def Let_def frame split: prod.splits option.splits)

lemma commit_lease_file_failed:
  "disk_error l = Some e \<Longrightarrow> lease_file (snd (commit_lease h r v l)) = lease_file l"
  by (auto simp: commit_lease_def write_json_def Let_def frame split: prod.splits option.splits)

lemma read_lease_doc:
  assumes "lease_file l = Doc (lease_doc st)" and "epoch_seen l = ls_epoch st" and "0 \<le> ls_epoch st"
  shows "fst (read_lease l) =
    st\<lparr>ls_viewer := py_or (ls_viewer st) JNull, ls_since := py_or (ls_since st) JNull\<rparr>"
  using assms
  by (cases st)
     (simp add: read_lease_defs lease_doc_def dict_get_or_def epoch_field_def)

text \<open>The in-memory epoch is never negative: the invariant a fresh lease has and every read keeps.\<close>

definition lease_ok :: "lease \<Rightarrow> bool" where
  "lease_ok l \<longleftrightarrow> 0 \<le> epoch_seen l"

lemma lease_ok_new [inv_facts]: "lease_ok (new_lease f now)"
  by (simp add: lease_ok_def new_lease_def)

lemma lease_ok_read [inv_facts]: "lease_ok l \<Longrightarrow> lease_ok (snd (read_lease l))"
  using read_lease_mono [of l] by (simp add: lease_ok_def)

lemma lease_ok_commit [inv_facts]: "lease_ok l \<Longrightarrow> lease_ok (snd (commit_lease h r v l))"
  using commit_lease_epoch_strict [of l h r v] by (simp add: lease_ok_def)

lemma commit_then_read:
  assumes "lease_ok l" and "disk_error l = None"
  shows "fst (read_lease (snd (commit_lease h r v l))) =
    \<lparr>ls_holder = h, ls_viewer = py_or v JNull, ls_since = py_or (JStr (clock l)) JNull,
     ls_reason = r, ls_epoch = epoch_seen (snd (read_lease l)) + 1\<rparr>"
proof -
  let ?c = "commit_lease h r v l"
  have ep: "0 \<le> epoch_seen (snd (read_lease l))"
    using lease_ok_read [OF assms(1)] by (simp add: lease_ok_def)
  have "fst (read_lease (snd ?c)) = (fst (fst ?c))
     \<lparr>ls_viewer := py_or (ls_viewer (fst (fst ?c))) JNull,
      ls_since := py_or (ls_since (fst (fst ?c))) JNull\<rparr>"
    by (rule read_lease_doc)
       (use ep assms(2) in \<open>simp_all add: commit_lease_file commit_lease_epoch commit_lease_result\<close>)
  then show ?thesis by (simp add: commit_lease_result)
qed

lemma acquire_lease_cases:
  "acquire_lease r v force l =
     (if lease_holder l = Agent then (Granted (fst (read_lease l)) [], snd (read_lease l))
      else if \<not> force then (Refused HUMAN_HAS_CONTROL, snd (read_lease l))
      else (let c = commit_lease Agent r v (snd (read_lease l))
            in (Granted (fst (fst c)) (snd (fst c)), snd c)))"
  by (auto simp: acquire_lease_def lease_holder_def Let_def split: prod.splits)

lemma acquire_lease_mono [mono_facts]: "epoch_seen l \<le> epoch_seen (snd (acquire_lease r v f l))"
  using read_lease_mono [of l] commit_lease_epoch_strict [of "snd (read_lease l)" Agent r v]
  by (auto simp: acquire_lease_cases Let_def)

lemma bump_lease_mono [mono_facts]: "epoch_seen l < epoch_seen (snd (bump_lease r l))"
proof -
  obtain st l' where rd: "read_lease l = (st, l')" by fastforce
  have "epoch_seen l \<le> epoch_seen l'" using read_lease_mono [of l] rd by simp
  also have "\<dots> < epoch_seen (snd (commit_lease (ls_holder st) r (ls_viewer st) l'))"
    by (rule commit_lease_epoch_strict)
  finally show ?thesis by (simp add: bump_lease_def rd)
qed

end
