(* ===== verification/Desktop_Control.thy ===== *)
theory Desktop_Control
  imports Desktop_Lease
begin

section \<open>Desktop control (agent\_core/desktop\_control.py, InputMutex and DesktopControl)\<close>

text \<open>
  The coordinator the host executor calls before it injects input: the lease, the epoch and
  generation fence around every action, the detection of a human touching the machine, the
  emergency stop and the verification ladder. The operating system is the injected
  \<open>platform\<close>: a record of the methods the code looks up with \<open>getattr\<close> (\<open>None\<close> for a missing
  one), each a function of a world \<open>'w\<close> that is part of the state.
\<close>

subsection \<open>State\<close>

datatype hook_kind = Keyboard | Mouse

record hook_event =
  he_injected :: bool
  he_vkey :: int

datatype hook_parse = Hook_Raises | Hook_Nothing | Hook_Is hook_event

record 'w platform =
  create_mutex :: "(string \<Rightarrow> 'w \<Rightarrow> nat \<times> 'w) option"
  acquire_mutex :: "(nat \<Rightarrow> nat \<Rightarrow> 'w \<Rightarrow> bool \<times> 'w) option"
  release_mutex :: "(nat \<Rightarrow> 'w \<Rightarrow> 'w) option"
  close_handle :: "(nat \<Rightarrow> 'w \<Rightarrow> 'w) option"
  install_input_hooks :: "('w \<Rightarrow> bool \<times> 'w) option"
  stop_input_hooks :: "('w \<Rightarrow> 'w) option"
  set_keyboard_hook :: "('w \<Rightarrow> bool \<times> 'w) option"
  set_mouse_hook :: "('w \<Rightarrow> bool \<times> 'w) option"
  unhook_keyboard :: "('w \<Rightarrow> 'w) option"
  unhook_mouse :: "('w \<Rightarrow> 'w) option"
  hook_event_of :: "(hook_kind \<Rightarrow> int \<Rightarrow> int \<Rightarrow> 'w \<Rightarrow> hook_parse) option"
  call_next_hook :: "(int \<Rightarrow> int \<Rightarrow> int \<Rightarrow> 'w \<Rightarrow> int \<times> 'w) option"
  last_input_tick :: "('w \<Rightarrow> int \<times> 'w) option"
  idle_seconds :: "('w \<Rightarrow> rat option) option"
  release_stuck_input :: "('w \<Rightarrow> int option \<times> 'w) option"

record 'w control =
  lease :: lease
  world :: 'w
  generation :: nat
  mutex_handle :: "nat option"
  hooks_installed :: bool
  last_idle :: "rat option"
  screen_hashes :: "string \<Rightarrow> (string \<times> nat) option"
  own_input_tick :: int
  pending_hook :: "hook_kind option"
  escape_revision :: nat
  handled_escape :: nat

record action_token =
  tk_action :: string
  tk_target :: json
  tk_epoch :: int
  tk_generation :: nat
  tk_geometry :: json
  tk_mutex_held :: bool
  tk_issued_at :: string

definition new_control :: "lease \<Rightarrow> 'w \<Rightarrow> 'w control" where
  "new_control l w =
     \<lparr>lease = l, world = w, generation = 0, mutex_handle = None, hooks_installed = False,
      last_idle = None, screen_hashes = (\<lambda>_. None), own_input_tick = 0, pending_hook = None,
      escape_revision = 0, handled_escape = 0\<rparr>"

definition CONTROL_BUSY :: string where "CONTROL_BUSY = ''CONTROL_BUSY''"
definition HUMAN_TOOK_OVER :: string where "HUMAN_TOOK_OVER = ''HUMAN_TOOK_OVER''"
definition OS_PERMISSION_REQUIRED :: string where
  "OS_PERMISSION_REQUIRED = ''OS_PERMISSION_REQUIRED''"
definition UNSUPPORTED_IN_HOST_MODE :: string where
  "UNSUPPORTED_IN_HOST_MODE = ''UNSUPPORTED_IN_HOST_MODE''"
definition MUTEX_NAME :: string where
  "MUTEX_NAME = ''Local'' @ [char_of (92::nat)] @ ''BoxFoxDesktopInput-v1''"

text \<open>The platform calls that only touch the world.\<close>

definition on_world :: "('w \<Rightarrow> 'w) option \<Rightarrow> 'w control \<Rightarrow> 'w control" where
  "on_world f c = (case f of None \<Rightarrow> c | Some g \<Rightarrow> c\<lparr>world := g (world c)\<rparr>)"

subsection \<open>The input mutex\<close>

text \<open>\<open>InputMutex.acquire\<close>: no queueing, and a platform without a mutex is busy.\<close>

definition mutex_acquire :: "'w platform \<Rightarrow> 'w control \<Rightarrow> (bool \<times> string) \<times> 'w control" where
  "mutex_acquire p c =
     (case (create_mutex p, acquire_mutex p) of
        (Some create, Some wait) \<Rightarrow>
          (let (h, w1) = create MUTEX_NAME (world c)
           in if h = 0 then ((False, CONTROL_BUSY), c\<lparr>world := w1\<rparr>)
              else let (got, w2) = wait h 0 w1
                   in if got then ((True, []), c\<lparr>world := w2, mutex_handle := Some h\<rparr>)
                      else ((False, CONTROL_BUSY),
                            on_world (map_option (\<lambda>f. f h) (close_handle p)) (c\<lparr>world := w2\<rparr>)))
      | _ \<Rightarrow> ((False, CONTROL_BUSY), c))"

definition mutex_release :: "'w platform \<Rightarrow> 'w control \<Rightarrow> 'w control" where
  "mutex_release p c =
     (case mutex_handle c of
        None \<Rightarrow> c
      | Some h \<Rightarrow>
          (on_world (map_option (\<lambda>f. f h) (close_handle p))
            (on_world (map_option (\<lambda>f. f h) (release_mutex p)) c))\<lparr>mutex_handle := None\<rparr>)"

subsection \<open>Lease, human detection and emergency stop\<close>

definition note_own_input :: "'w platform \<Rightarrow> 'w control \<Rightarrow> int \<times> 'w control" where
  "note_own_input p c =
     (case last_input_tick p of
        None \<Rightarrow> (own_input_tick c, c)
      | Some rd \<Rightarrow> let (t, w) = rd (world c)
                   in (t, c\<lparr>world := w, own_input_tick := t\<rparr>))"

definition control_release :: "string \<Rightarrow> json \<Rightarrow> 'w control \<Rightarrow> (lease_state \<times> string) \<times> 'w control" where
  "control_release reason viewer c =
     (let (r, l) = release_to_human_lease reason viewer (lease c)
      in (r, c\<lparr>generation := generation c + 1, lease := l\<rparr>))"

record stop_report =
  sr_reason :: string
  sr_released :: int
  sr_epoch :: int
  sr_generation :: nat
  sr_error :: string

definition emergency_stop :: "'w platform \<Rightarrow> string \<Rightarrow> 'w control \<Rightarrow> stop_report \<times> 'w control" where
  "emergency_stop p reason c0 =
     (let c1 = c0\<lparr>generation := generation c0 + 1\<rparr>;
          (released, c2) =
            (case release_stuck_input p of
               None \<Rightarrow> (0, c1)
             | Some f \<Rightarrow> let (n, w) = f (world c1)
                         in (case n of Some k \<Rightarrow> k | None \<Rightarrow> 0, c1\<lparr>world := w\<rparr>));
          c3 = mutex_release p c2;
          ((st, error), l) = release_to_human_lease reason JNull (lease c3)
      in (\<lparr>sr_reason = reason, sr_released = released, sr_epoch = ls_epoch st,
           sr_generation = generation c3, sr_error = error\<rparr>, c3\<lparr>lease := l\<rparr>))"

definition touch_reason :: "hook_kind \<Rightarrow> string" where
  "touch_reason k = ''nguoi dung cham '' @ (if k = Keyboard then ''ban phim'' else ''chuot'')"

definition escape_reason :: string where "escape_reason = ''nguoi dung bam Esc''"

definition VK_ESCAPE :: int where "VK_ESCAPE = 27"

text \<open>\<open>_on_hook\<close> runs inside the operating system's callback and only touches memory. A parser
  that raises is swallowed by the \<open>finally: return\<close>, after which the next hook is still called.\<close>

definition call_next :: "'w platform \<Rightarrow> int \<Rightarrow> int \<Rightarrow> int \<Rightarrow> 'w control \<Rightarrow> int \<times> 'w control" where
  "call_next p code wparam lparam c =
     (case call_next_hook p of
        None \<Rightarrow> (0, c)
      | Some f \<Rightarrow> let (r, w) = f code wparam lparam (world c) in (r, c\<lparr>world := w\<rparr>))"

definition parsed_event :: "'w platform \<Rightarrow> hook_kind \<Rightarrow> int \<Rightarrow> int \<Rightarrow> int \<Rightarrow> 'w \<Rightarrow> hook_parse" where
  "parsed_event p kind code wparam lparam w =
     (if code < 0 then Hook_Nothing
      else case hook_event_of p of None \<Rightarrow> Hook_Nothing | Some f \<Rightarrow> f kind wparam lparam w)"

definition on_hook ::
  "'w platform \<Rightarrow> hook_kind \<Rightarrow> int \<Rightarrow> int \<Rightarrow> int \<Rightarrow> 'w control \<Rightarrow> int \<times> 'w control" where
  "on_hook p kind code wparam lparam c =
     (let c1 = (case parsed_event p kind code wparam lparam (world c) of
                  Hook_Is ev \<Rightarrow>
                    if he_injected ev then c
                    else c\<lparr>generation := generation c + 1,
                           escape_revision :=
                             (if kind = Keyboard \<and> he_vkey ev = VK_ESCAPE
                              then escape_revision c + 1 else escape_revision c),
                           pending_hook := Some kind\<rparr>
                | _ \<Rightarrow> c)
      in call_next p code wparam lparam c1)"

definition flush_hook_events :: "'w platform \<Rightarrow> 'w control \<Rightarrow> bool \<times> 'w control" where
  "flush_hook_events p c0 =
     (let kind = pending_hook c0;
          c = c0\<lparr>pending_hook := None\<rparr>;
          rev = escape_revision c;
          escape = rev > handled_escape c
      in if kind = None \<and> \<not> escape then (False, c)
         else if escape then (True, snd (emergency_stop p escape_reason (c\<lparr>handled_escape := rev\<rparr>)))
         else let (st, l) = read_lease (lease c); c' = c\<lparr>lease := l\<rparr>
              in (True, if ls_holder st = Agent
                        then snd (control_release (touch_reason (the kind)) JNull c')
                        else c'))"

record control_snapshot =
  cs_lease :: lease_state
  cs_generation :: nat
  cs_hooks :: bool
  cs_mutex_held :: bool

definition control_snapshot_of :: "'w platform \<Rightarrow> 'w control \<Rightarrow> control_snapshot \<times> 'w control" where
  "control_snapshot_of p c0 =
     (let c = snd (flush_hook_events p c0); (st, l) = read_lease (lease c)
      in (\<lparr>cs_lease = st, cs_generation = generation c, cs_hooks = hooks_installed c,
           cs_mutex_held = (mutex_handle c \<noteq> None)\<rparr>, c\<lparr>lease := l\<rparr>))"

definition agent_lease ::
  "'w platform \<Rightarrow> string \<Rightarrow> json \<Rightarrow> bool \<Rightarrow> 'w control \<Rightarrow> acquire_result \<times> 'w control" where
  "agent_lease p reason viewer force c0 =
     (let c = snd (flush_hook_events p c0);
          (r, l) = acquire_lease reason viewer force (lease c);
          c' = c\<lparr>lease := l\<rparr>
      in case r of
           Refused code \<Rightarrow> (r, c')
         | Granted st e \<Rightarrow> (r, if force then snd (note_own_input p c') else c'))"

definition uninstall_hooks :: "'w platform \<Rightarrow> 'w control \<Rightarrow> 'w control" where
  "uninstall_hooks p c =
     (case stop_input_hooks p of
        Some f \<Rightarrow> (on_world (Some f) c)\<lparr>hooks_installed := False\<rparr>
      | None \<Rightarrow> (on_world (unhook_mouse p) (on_world (unhook_keyboard p) c))\<lparr>hooks_installed := False\<rparr>)"

definition install_hooks :: "'w platform \<Rightarrow> 'w control \<Rightarrow> (bool \<times> string) \<times> 'w control" where
  "install_hooks p c =
     (if hooks_installed c then ((True, []), c)
      else case install_input_hooks p of
        Some f \<Rightarrow> (let (ok, w) = f (world c)
                   in (if ok then (True, []) else (False, OS_PERMISSION_REQUIRED),
                       c\<lparr>world := w, hooks_installed := ok\<rparr>))
      | None \<Rightarrow> (case (set_keyboard_hook p, set_mouse_hook p) of
            (Some fk, Some fm) \<Rightarrow>
              (let (kb, w1) = fk (world c); (ms, w2) = fm w1; c2 = c\<lparr>world := w2\<rparr>
               in if kb \<and> ms then ((True, []), c2\<lparr>hooks_installed := True\<rparr>)
                  else ((False, OS_PERMISSION_REQUIRED), uninstall_hooks p c2))
          | _ \<Rightarrow> ((False, UNSUPPORTED_IN_HOST_MODE), c)))"

definition note_hook_event :: "hook_kind \<Rightarrow> hook_event \<Rightarrow> 'w control \<Rightarrow> bool \<times> 'w control" where
  "note_hook_event kind ev c =
     (if he_injected ev then (False, c)
      else (True, snd (control_release (touch_reason kind) JNull c)))"

definition check_escape :: "'w platform \<Rightarrow> hook_event \<Rightarrow> 'w control \<Rightarrow> bool \<times> 'w control" where
  "check_escape p ev c =
     (if he_injected ev then (False, c)
      else if he_vkey ev \<noteq> VK_ESCAPE then (False, c)
      else (True, snd (emergency_stop p escape_reason c)))"

definition idle_reason :: string where
  "idle_reason = ''input he thong doi trong luc agent dang giu quyen''"

definition poll_idle :: "'w platform \<Rightarrow> 'w control \<Rightarrow> bool \<times> 'w control" where
  "poll_idle p c =
     (case last_input_tick p of
        None \<Rightarrow> (False, c)
      | Some rd \<Rightarrow>
          (let (tick, w) = rd (world c); c1 = c\<lparr>world := w\<rparr>
           in if tick = 0 then (False, c1)
              else
                let previous = own_input_tick c1;
                    c2 = c1\<lparr>own_input_tick := tick,
                            last_idle := (case idle_seconds p of None \<Rightarrow> None | Some f \<Rightarrow> f w)\<rparr>
                in if previous = 0 \<or> tick = previous then (False, c2)
                   else let (st, l) = read_lease (lease c2); c3 = c2\<lparr>lease := l\<rparr>
                        in if ls_holder st \<noteq> Agent then (False, c3)
                           else (True, snd (control_release idle_reason JNull c3))))"

subsection \<open>The fence\<close>

definition begin_action ::
  "'w platform \<Rightarrow> string \<Rightarrow> json \<Rightarrow> json \<Rightarrow> bool \<Rightarrow> 'w control
    \<Rightarrow> (action_token option \<times> string) \<times> 'w control" where
  "begin_action p action target geometry take_mutex c0 =
     (let (r, c) = agent_lease p (''agent bat dau '' @ action) JNull False c0
      in case r of
           Refused _ \<Rightarrow> ((None, HUMAN_HAS_CONTROL), c)
         | Granted st _ \<Rightarrow>
             (let ((held, code), c') = (if take_mutex then mutex_acquire p c else ((True, []), c))
              in if \<not> held then ((None, code), c')
                 else ((Some \<lparr>tk_action = action, tk_target = target, tk_epoch = ls_epoch st,
                              tk_generation = generation c', tk_geometry = geometry,
                              tk_mutex_held = (mutex_handle c' \<noteq> None),
                              tk_issued_at = clock (lease c')\<rparr>, []), c')))"

definition fence :: "'w platform \<Rightarrow> action_token option \<Rightarrow> 'w control \<Rightarrow> string \<times> 'w control" where
  "fence p token c0 =
     (let c1 = snd (flush_hook_events p c0);
          (st, l) = read_lease (lease c1);
          c = c1\<lparr>lease := l\<rparr>
      in (if ls_holder st \<noteq> Agent then HUMAN_HAS_CONTROL
          else case token of
                 None \<Rightarrow> HUMAN_TOOK_OVER
               | Some tk \<Rightarrow> if ls_epoch st \<noteq> tk_epoch tk \<or> generation c \<noteq> tk_generation tk
                            then HUMAN_TOOK_OVER else [], c))"

definition EFFECTS :: "string list" where
  "EFFECTS = [''confirmed'', ''partial'', ''unverifiable'', ''suspected_noop'', ''refused'']"

definition NO_RETRY_EFFECTS :: "string list" where
  "NO_RETRY_EFFECTS = [''partial'', ''unverifiable'', ''suspected_noop'']"

record action_report =
  ar_ok :: bool
  ar_action :: string
  ar_target :: json
  ar_route :: string
  ar_effect :: string
  ar_verified :: "bool option"
  ar_code :: string
  ar_note :: string
  ar_epoch :: int
  ar_geometry :: json
  ar_escalation :: json

definition end_action ::
  "'w platform \<Rightarrow> action_token option \<Rightarrow> string \<Rightarrow> bool option \<Rightarrow> string \<Rightarrow> string \<Rightarrow> json \<Rightarrow> string
    \<Rightarrow> 'w control \<Rightarrow> action_report \<times> 'w control" where
  "end_action p token effect0 verified code note escalation route c0 =
     (let c1 = mutex_release p c0;
          c = (if route = ''send_input'' \<and> effect0 \<noteq> ''refused'' then snd (note_own_input p c1) else c1);
          effect = (if effect0 \<notin> set EFFECTS then ''unverifiable'' else effect0)
      in (\<lparr>ar_ok = (effect \<noteq> ''refused''),
           ar_action = (case token of Some t \<Rightarrow> tk_action t | None \<Rightarrow> []),
           ar_target = (case token of Some t \<Rightarrow> tk_target t | None \<Rightarrow> JObj []),
           ar_route = route, ar_effect = effect, ar_verified = verified, ar_code = code,
           ar_note = note, ar_epoch = (case token of Some t \<Rightarrow> tk_epoch t | None \<Rightarrow> 0),
           ar_geometry = (case token of Some t \<Rightarrow> tk_geometry t | None \<Rightarrow> JNull),
           ar_escalation =
             py_or escalation (JObj [(''recommended'', JStr ''none''), (''reason'', JStr [])])\<rparr>, c))"

definition may_retry_effect :: "string \<Rightarrow> bool" where
  "may_retry_effect effect = (effect \<notin> set NO_RETRY_EFFECTS)"

subsection \<open>Verification and frame repetition\<close>

text \<open>\<open>verify_state\<close>: \<open>STABLE_SAMPLES\<close> readings of the sampler, each judged true, false or
  unknown. The sampler reads the world.\<close>

definition STABLE_SAMPLES :: nat where "STABLE_SAMPLES = 2"

fun take_samples :: "nat \<Rightarrow> ('w \<Rightarrow> 's \<times> 'w) \<Rightarrow> ('s \<Rightarrow> bool option) \<Rightarrow> 'w \<Rightarrow> ('s \<times> bool option) list \<times> 'w" where
  "take_samples 0 sampler expect w = ([], w)"
| "take_samples (Suc n) sampler expect w =
     (let (s, w1) = sampler w; (rest, w2) = take_samples n sampler expect w1
      in ((s, expect s) # rest, w2))"

definition ladder_verdict :: "bool option list \<Rightarrow> bool option \<times> string" where
  "ladder_verdict vs =
     (if list_all (\<lambda>v. v = Some True) vs then (Some True, ''confirmed'')
      else if list_ex (\<lambda>v. v = None) vs \<and> \<not> list_ex (\<lambda>v. v = Some False) vs then (None, ''unverifiable'')
      else if list_all (\<lambda>v. v = Some False) vs then (Some False, ''suspected_noop'')
      else (Some False, ''partial''))"

definition verify_state ::
  "('w \<Rightarrow> 's \<times> 'w) \<Rightarrow> ('s \<Rightarrow> bool option) \<Rightarrow> 'w control
    \<Rightarrow> ((bool option \<times> string) \<times> ('s \<times> bool option) list) \<times> 'w control" where
  "verify_state sampler expect c =
     (let (samples, w) = take_samples STABLE_SAMPLES sampler expect (world c)
      in ((ladder_verdict (map snd samples), samples), c\<lparr>world := w\<rparr>))"

definition SCREEN_UNCHANGED_LIMIT :: nat where "SCREEN_UNCHANGED_LIMIT = 2"

text \<open>\<open>screen_hash\<close>: \<open>sha\<close> is SHA-256 in hexadecimal, \<open>dumps\<close> the canonical JSON text.\<close>

definition screen_hash ::
  "('b \<Rightarrow> string) \<Rightarrow> (json \<Rightarrow> string) \<Rightarrow> 'b \<Rightarrow> json \<Rightarrow> string \<Rightarrow> 'w control
    \<Rightarrow> (string \<times> bool) \<times> 'w control" where
  "screen_hash sha dumps data target session c =
     (let digest = sha data;
          key = session @ ''|'' @ dumps (py_or target (JObj []));
          (previous, count0) = (case screen_hashes c key of
                                  None \<Rightarrow> (None, 0) | Some (d, n) \<Rightarrow> (Some d, n));
          count = (if previous = Some digest then count0 + 1 else 1)
      in ((digest, count > SCREEN_UNCHANGED_LIMIT),
          c\<lparr>screen_hashes := (screen_hashes c)(key \<mapsto> (digest, count))\<rparr>))"

end
