(* ===== verification/Desktop_Fence.thy ===== *)
theory Desktop_Fence
  imports Desktop_Control
begin

section \<open>The fence over runs: lease, generation and epoch\<close>

text \<open>
  Everything that can happen to a desktop control between two actions, as events: the operations
  the API, the executor and the idle watch call, the hook callbacks of the operating system, and
  what other parties do to the lease file and the platform. The order is the order of the events.
\<close>

datatype 'w desktop_event =
    Ev_Hook hook_kind int int int
  | Ev_Flush
  | Ev_Poll_Idle
  | Ev_Note_Hook hook_kind hook_event
  | Ev_Check_Escape hook_event
  | Ev_Snapshot
  | Ev_Agent_Lease string json bool
  | Ev_Release string json
  | Ev_Stop string
  | Ev_Begin string json json bool
  | Ev_Fence "action_token option"
  | Ev_End "action_token option" string "bool option" string string json string
  | Ev_Install
  | Ev_Uninstall
  | Ev_Lease_File file_content "string option" string
  | Ev_World 'w

fun desktop_step :: "'w platform \<Rightarrow> 'w desktop_event \<Rightarrow> 'w control \<Rightarrow> 'w control" where
  "desktop_step p (Ev_Hook k code wp lp) c = snd (on_hook p k code wp lp c)"
| "desktop_step p Ev_Flush c = snd (flush_hook_events p c)"
| "desktop_step p Ev_Poll_Idle c = snd (poll_idle p c)"
| "desktop_step p (Ev_Note_Hook k ev) c = snd (note_hook_event k ev c)"
| "desktop_step p (Ev_Check_Escape ev) c = snd (check_escape p ev c)"
| "desktop_step p Ev_Snapshot c = snd (control_snapshot_of p c)"
| "desktop_step p (Ev_Agent_Lease r v force) c = snd (agent_lease p r v force c)"
| "desktop_step p (Ev_Release r v) c = snd (control_release r v c)"
| "desktop_step p (Ev_Stop r) c = snd (emergency_stop p r c)"
| "desktop_step p (Ev_Begin a t g m) c = snd (begin_action p a t g m c)"
| "desktop_step p (Ev_Fence tk) c = snd (fence p tk c)"
| "desktop_step p (Ev_End tk e v cd n es rt) c = snd (end_action p tk e v cd n es rt c)"
| "desktop_step p Ev_Install c = snd (install_hooks p c)"
| "desktop_step p Ev_Uninstall c = uninstall_hooks p c"
| "desktop_step p (Ev_Lease_File f e now) c =
     c\<lparr>lease := (lease c)\<lparr>lease_file := f, disk_error := e, clock := now\<rparr>\<rparr>"
| "desktop_step p (Ev_World w) c = c\<lparr>world := w\<rparr>"

abbreviation desktop_run :: "'w platform \<Rightarrow> 'w desktop_event list \<Rightarrow> 'w control \<Rightarrow> 'w control" where
  "desktop_run p \<equiv> run (desktop_step p)"

text \<open>The events by which a human takes the desktop back.\<close>

fun takeover :: "'w platform \<Rightarrow> 'w desktop_event \<Rightarrow> 'w control \<Rightarrow> bool" where
  "takeover p (Ev_Hook k code wp lp) c =
     (case parsed_event p k code wp lp (world c) of Hook_Is ev \<Rightarrow> \<not> he_injected ev | _ \<Rightarrow> False)"
| "takeover p (Ev_Note_Hook k ev) c = (\<not> he_injected ev)"
| "takeover p (Ev_Check_Escape ev) c = (\<not> he_injected ev \<and> he_vkey ev = VK_ESCAPE)"
| "takeover p (Ev_Release r v) c = True"
| "takeover p (Ev_Stop r) c = True"
| "takeover p e c = False"

subsection \<open>What each operation does to the counters\<close>

text \<open>One state is later than another when neither counter went back.\<close>

definition advances :: "'w control \<Rightarrow> 'w control \<Rightarrow> bool" where
  "advances c c' \<longleftrightarrow>
     generation c \<le> generation c' \<and> epoch_seen (lease c) \<le> epoch_seen (lease c')"

lemma advances_refl [simp]: "advances c c"
  by (simp add: advances_def)

lemma advances_trans: "advances a b \<Longrightarrow> advances b c \<Longrightarrow> advances a c"
  by (auto simp: advances_def)

lemma advances_lease: "epoch_seen (lease c) \<le> epoch_seen l \<Longrightarrow> advances c (c\<lparr>lease := l\<rparr>)"
  by (simp add: advances_def)

lemmas unfold_pairs = Let_def case_prod_beta

lemma on_world_frame [frame]:
  "lease (on_world f c) = lease c" "generation (on_world f c) = generation c"
  "mutex_handle (on_world f c) = mutex_handle c"
  "pending_hook (on_world f c) = pending_hook c"
  "escape_revision (on_world f c) = escape_revision c"
  "handled_escape (on_world f c) = handled_escape c"
  by (auto simp: on_world_def split: option.splits)

lemma mutex_frame [frame]:
  "lease (mutex_release p c) = lease c" "generation (mutex_release p c) = generation c"
  "lease (snd (mutex_acquire p c)) = lease c" "generation (snd (mutex_acquire p c)) = generation c"
  by (auto simp: mutex_release_def mutex_acquire_def unfold_pairs frame split: option.splits)

lemma note_own_frame [frame]:
  "lease (snd (note_own_input p c)) = lease c"
  "generation (snd (note_own_input p c)) = generation c"
  "mutex_handle (snd (note_own_input p c)) = mutex_handle c"
  by (auto simp: note_own_input_def unfold_pairs split: option.splits)

lemma hooks_frame [frame]:
  "lease (uninstall_hooks p c) = lease c" "generation (uninstall_hooks p c) = generation c"
  "lease (snd (install_hooks p c)) = lease c" "generation (snd (install_hooks p c)) = generation c"
  by (auto simp: uninstall_hooks_def install_hooks_def unfold_pairs frame split: option.splits)

lemma call_next_frame [frame]:
  "lease (snd (call_next p a b d c)) = lease c"
  "generation (snd (call_next p a b d c)) = generation c"
  by (auto simp: call_next_def unfold_pairs split: option.splits)

lemma control_release_counts:
  "generation (snd (control_release r v c)) = generation c + 1"
  "epoch_seen (lease c) < epoch_seen (lease (snd (control_release r v c)))"
  using commit_lease_epoch_strict [of "lease c" Human r v]
  by (simp_all add: control_release_def release_to_human_lease_def unfold_pairs)

lemma emergency_stop_counts:
  "generation (snd (emergency_stop p r c)) = generation c + 1"
  "epoch_seen (lease c) < epoch_seen (lease (snd (emergency_stop p r c)))"
  using commit_lease_epoch_strict [of "lease c" Human r JNull]
  by (auto simp: emergency_stop_def release_to_human_lease_def unfold_pairs frame split: option.splits)

lemma advances_release: "advances c (snd (control_release r v c))"
  using control_release_counts [where r = r and v = v and c = c] by (simp add: advances_def)

lemma advances_stop: "advances c (snd (emergency_stop p r c))"
  using emergency_stop_counts [where p = p and r = r and c = c] by (simp add: advances_def)

lemma advances_read: "advances c (c\<lparr>lease := snd (read_lease (lease c))\<rparr>)"
  by (rule advances_lease) (rule read_lease_mono)

lemma advances_flush: "advances c (snd (flush_hook_events p c))"
proof -
  let ?d = "c\<lparr>pending_hook := None\<rparr>"
  have d: "advances c ?d" by (simp add: advances_def)
  have e: "advances c (?d\<lparr>handled_escape := n\<rparr>)" for n by (simp add: advances_def)
  have f: "advances c (?d\<lparr>lease := snd (read_lease (lease ?d))\<rparr>)"
    by (rule advances_trans [OF d advances_read])
  show ?thesis
    using d f
    by (auto simp: flush_hook_events_def unfold_pairs
        intro: advances_trans [OF e advances_stop] advances_trans [OF f [simplified] advances_release])
qed

lemma advances_agent_lease: "advances c (snd (agent_lease p r v force c))"
proof -
  let ?d = "snd (flush_hook_events p c)"
  have "advances ?d (snd (agent_lease p r v force c))"
    using acquire_lease_mono [of "lease ?d" r v force]
    by (auto simp: agent_lease_def unfold_pairs advances_def frame split: acquire_result.splits)
  then show ?thesis by (rule advances_trans [OF advances_flush])
qed

lemma advances_begin: "advances c (snd (begin_action p a t g m c))"
proof -
  let ?d = "snd (agent_lease p (''agent bat dau '' @ a) JNull False c)"
  have "advances ?d (snd (begin_action p a t g m c))"
    by (auto simp: begin_action_def unfold_pairs advances_def frame split: acquire_result.splits)
  then show ?thesis by (rule advances_trans [OF advances_agent_lease])
qed

lemma advances_fence: "advances c (snd (fence p tk c))"
proof -
  have "advances (snd (flush_hook_events p c)) (snd (fence p tk c))"
    by (simp add: fence_def unfold_pairs advances_def read_lease_mono)
  then show ?thesis by (rule advances_trans [OF advances_flush])
qed

lemma advances_snapshot: "advances c (snd (control_snapshot_of p c))"
proof -
  have "advances (snd (flush_hook_events p c)) (snd (control_snapshot_of p c))"
    by (simp add: control_snapshot_of_def unfold_pairs advances_def read_lease_mono)
  then show ?thesis by (rule advances_trans [OF advances_flush])
qed

lemma advances_end: "advances c (snd (end_action p tk e v cd n es rt c))"
  by (simp add: end_action_def unfold_pairs advances_def frame)

lemma advances_hook: "advances c (snd (on_hook p k code wp lp c))"
  by (auto simp: on_hook_def unfold_pairs advances_def frame split: hook_parse.splits)

lemma advances_poll: "advances c (snd (poll_idle p c))"
proof -
  have "advances c (snd (control_release idle_reason JNull (c\<lparr>world := w, own_input_tick := t,
      last_idle := i, lease := snd (read_lease (lease c))\<rparr>)))" for w t i
    by (rule advances_trans [OF _ advances_release]) (simp add: advances_def read_lease_mono)
  then show ?thesis
    by (auto simp: poll_idle_def unfold_pairs advances_def read_lease_mono split: option.splits)
qed

lemma desktop_step_advances: "advances c (desktop_step p e c)"
proof (cases e)
  case (Ev_Check_Escape ev)
  then show ?thesis by (auto simp: check_escape_def intro: advances_stop)
next
  case (Ev_Note_Hook k ev)
  then show ?thesis by (auto simp: note_hook_event_def intro: advances_release)
qed (simp_all add: advances_hook advances_flush advances_poll advances_snapshot
      advances_agent_lease advances_release advances_stop advances_begin advances_fence advances_end,
      simp_all add: advances_def frame)

lemma desktop_run_advances: "advances c (desktop_run p es c)"
  by (induction es arbitrary: c) (auto intro: advances_trans desktop_step_advances)

lemma takeover_generation: "takeover p e c \<Longrightarrow> generation c < generation (desktop_step p e c)"
  by (cases e)
     (auto simp: on_hook_def unfold_pairs frame note_hook_event_def check_escape_def
       control_release_counts emergency_stop_counts split: hook_parse.splits)

subsection \<open>What a token stands for\<close>

lemma begin_action_token:
  assumes "begin_action p a t g m c = ((Some tk, code), c')"
  shows "tk_generation tk = generation c'" and "code = []" and "tk_action tk = a"
    and "tk_target tk = t"
  using assms by (auto simp: begin_action_def unfold_pairs split: acquire_result.splits if_splits)

lemma fence_ok_iff:
  "fst (fence p tk c) = [] \<longleftrightarrow>
     (let c1 = snd (flush_hook_events p c); st = fst (read_lease (lease c1))
      in ls_holder st = Agent \<and>
         (\<exists>k. tk = Some k \<and> tk_epoch k = ls_epoch st \<and> tk_generation k = generation c1))"
  by (auto simp: fence_def unfold_pairs HUMAN_HAS_CONTROL_def HUMAN_TOOK_OVER_def
      split: option.splits)

lemma fence_ok_generation:
  assumes "fst (fence p (Some tk) c) = []"
  shows "generation c \<le> tk_generation tk"
proof -
  have "generation c \<le> generation (snd (flush_hook_events p c))"
    using advances_flush [of c p] by (simp add: advances_def)
  then show ?thesis using assms by (simp add: fence_ok_iff Let_def)
qed

lemma fence_ok_epoch:
  assumes "fst (fence p (Some tk) c) = []"
  shows "epoch_seen (lease c) \<le> tk_epoch tk"
proof -
  let ?c1 = "snd (flush_hook_events p c)"
  have "epoch_seen (lease c) \<le> epoch_seen (lease ?c1)"
    using advances_flush [of c p] by (simp add: advances_def)
  also have "\<dots> \<le> epoch_seen (snd (read_lease (lease ?c1)))" by (rule read_lease_mono)
  finally show ?thesis using assms by (simp add: fence_ok_iff Let_def read_lease_epoch)
qed

end
