(* ===== verification/X11_Platform.thy ===== *)
theory X11_Platform
  imports Desktop_Fence
begin

section \<open>The X11 platform's mutex and idle watch (sandbox/x11/platform.py)\<close>

text \<open>
  The part of the X11 platform the desktop control relies on: a lock file held with \<open>flock\<close> by
  open file description, and the counter that grows when the pointer or the focused window
  changed in a way the agent did not cause. The kernel (descriptions, who holds the lock) and what
  X reports (pointer, focus, monotonic clock) are fields of the world.
\<close>

datatype lock_owner = Ours nat | Other_Process

record x11_world =
  next_fd :: nat
  lock_owner_of :: "lock_owner option"
  can_open :: bool
  cursor_pos :: "(int \<times> int) option"
  foreground_window :: "int option"
  monotonic :: rat
  input_tick :: int
  last_pointer :: "(int \<times> int) option"
  last_foreground :: "int option"
  own_pointer :: "(int \<times> int) option"
  own_foreground :: "int option"
  last_change_at :: "rat option"

definition x11_create_mutex :: "string \<Rightarrow> x11_world \<Rightarrow> nat \<times> x11_world" where
  "x11_create_mutex name w =
     (if can_open w then (Suc (next_fd w), w\<lparr>next_fd := Suc (next_fd w)\<rparr>) else (0, w))"

text \<open>\<open>LOCK_EX | LOCK_NB\<close> until the deadline; nobody else moves during the call, so waiting
  changes nothing.\<close>

definition x11_acquire_mutex :: "nat \<Rightarrow> nat \<Rightarrow> x11_world \<Rightarrow> bool \<times> x11_world" where
  "x11_acquire_mutex h timeout_ms w =
     (if h = 0 then (False, w)
      else case lock_owner_of w of
             None \<Rightarrow> (True, w\<lparr>lock_owner_of := Some (Ours h)\<rparr>)
           | Some (Ours k) \<Rightarrow> (k = h, w)
           | Some Other_Process \<Rightarrow> (False, w))"

definition x11_release_mutex :: "nat \<Rightarrow> x11_world \<Rightarrow> x11_world" where
  "x11_release_mutex h w =
     (if lock_owner_of w = Some (Ours h) then w\<lparr>lock_owner_of := None\<rparr> else w)"

text \<open>Closing the last reference to a description drops its lock.\<close>

definition x11_close_handle :: "nat \<Rightarrow> x11_world \<Rightarrow> x11_world" where
  "x11_close_handle h w =
     (if lock_owner_of w = Some (Ours h) then w\<lparr>lock_owner_of := None\<rparr> else w)"

definition x11_note_own_pointer :: "int \<Rightarrow> int \<Rightarrow> x11_world \<Rightarrow> x11_world" where
  "x11_note_own_pointer x y w = w\<lparr>own_pointer := Some (x, y)\<rparr>"

definition x11_sample_pointer :: "x11_world \<Rightarrow> x11_world" where
  "x11_sample_pointer w =
     (case cursor_pos w of
        None \<Rightarrow> w
      | Some pt \<Rightarrow>
          (if last_pointer w \<noteq> None \<and> last_pointer w \<noteq> Some pt \<and> own_pointer w \<noteq> Some pt
           then w\<lparr>input_tick := input_tick w + 1, last_change_at := Some (monotonic w)\<rparr>
           else w)\<lparr>last_pointer := Some pt\<rparr>)"

definition x11_sample_foreground :: "x11_world \<Rightarrow> x11_world" where
  "x11_sample_foreground w =
     (case foreground_window w of
        None \<Rightarrow> w
      | Some f \<Rightarrow>
          (if last_foreground w \<noteq> None \<and> last_foreground w \<noteq> Some f
              \<and> f \<noteq> (case own_foreground w of None \<Rightarrow> 0 | Some g \<Rightarrow> g)
           then w\<lparr>input_tick := input_tick w + 1, last_change_at := Some (monotonic w)\<rparr>
           else w)\<lparr>last_foreground := Some f\<rparr>)"

definition x11_last_input_tick :: "x11_world \<Rightarrow> int \<times> x11_world" where
  "x11_last_input_tick w =
     (let w1 = x11_sample_foreground (x11_sample_pointer w);
          w2 = (if last_change_at w1 = None then w1\<lparr>last_change_at := Some (monotonic w1)\<rparr> else w1)
      in (input_tick w2, w2))"

definition x11_idle_seconds :: "x11_world \<Rightarrow> rat option" where
  "x11_idle_seconds w =
     (case last_change_at w of None \<Rightarrow> None | Some t \<Rightarrow> Some (max 0 (monotonic w - t)))"

text \<open>The platform: a mutex and an idle watch, no input hooks.\<close>

definition x11_platform :: "x11_world platform" where
  "x11_platform =
     \<lparr>create_mutex = Some x11_create_mutex, acquire_mutex = Some x11_acquire_mutex,
      release_mutex = Some x11_release_mutex, close_handle = Some x11_close_handle,
      install_input_hooks = None, stop_input_hooks = None, set_keyboard_hook = None,
      set_mouse_hook = None, unhook_keyboard = None, unhook_mouse = None, hook_event_of = None,
      call_next_hook = None, last_input_tick = Some x11_last_input_tick,
      idle_seconds = Some x11_idle_seconds, release_stuck_input = None\<rparr>"

definition x11_initial :: x11_world where
  "x11_initial =
     \<lparr>next_fd = 0, lock_owner_of = None, can_open = True, cursor_pos = None,
      foreground_window = None, monotonic = 0, input_tick = 1, last_pointer = None,
      last_foreground = None, own_pointer = None, own_foreground = None, last_change_at = None\<rparr>"

subsection \<open>The mutex interface the desktop control relies on\<close>

text \<open>
  What \<open>InputMutex\<close> needs of a platform: handles are fresh, at most one handle holds the lock,
  waiting on another handle while one holds it fails, and releasing or closing the holder frees
  it. \<open>sane\<close> is the provider's own invariant.
\<close>

locale input_mutex =
  fixes p :: "'w platform"
    and create :: "string \<Rightarrow> 'w \<Rightarrow> nat \<times> 'w"
    and wait :: "nat \<Rightarrow> nat \<Rightarrow> 'w \<Rightarrow> bool \<times> 'w"
    and unlock :: "nat \<Rightarrow> 'w \<Rightarrow> 'w"
    and close :: "nat \<Rightarrow> 'w \<Rightarrow> 'w"
    and holds :: "'w \<Rightarrow> nat \<Rightarrow> bool"
    and sane :: "'w \<Rightarrow> bool"
  assumes methods: "create_mutex p = Some create" "acquire_mutex p = Some wait"
      "release_mutex p = Some unlock" "close_handle p = Some close"
    and create_fresh: "sane w \<Longrightarrow> fst (create n w) \<noteq> 0 \<Longrightarrow> \<not> holds (snd (create n w)) (fst (create n w))"
    and create_holds: "holds (snd (create n w)) k = holds w k"
    and create_sane: "sane w \<Longrightarrow> sane (snd (create n w))"
    and wait_got: "h \<noteq> 0 \<Longrightarrow> fst (wait h t w) \<Longrightarrow> holds (snd (wait h t w)) h"
    and wait_busy: "holds w k \<Longrightarrow> k \<noteq> h \<Longrightarrow> \<not> fst (wait h t w) \<and> snd (wait h t w) = w"
    and wait_sane: "sane w \<Longrightarrow> fst (create n w0) = h \<Longrightarrow> snd (create n w0) = w \<Longrightarrow> sane (snd (wait h t w))"
    and exclusive: "holds w h \<Longrightarrow> holds w k \<Longrightarrow> h = k"
    and unlock_frees: "holds w h \<Longrightarrow> \<not> holds (unlock h w) k"
    and unlock_sane: "sane w \<Longrightarrow> sane (unlock h w)"
    and close_other: "\<not> holds w h \<Longrightarrow> close h w = w"
    and close_sane: "sane w \<Longrightarrow> sane (close h w)"
begin

text \<open>A control that holds the lock through one handle cannot take it again through another.\<close>

lemma acquire_busy:
  assumes "sane (world c)" and "mutex_handle c = Some h" and "holds (world c) h"
  shows "fst (mutex_acquire p c) = (False, CONTROL_BUSY)"
    and "mutex_handle (snd (mutex_acquire p c)) = Some h"
    and "holds (world (snd (mutex_acquire p c))) h"
    and "sane (world (snd (mutex_acquire p c)))"
proof -
  let ?k = "fst (create MUTEX_NAME (world c))" and ?w = "snd (create MUTEX_NAME (world c))"
  have hw: "holds ?w h" using assms(3) by (simp add: create_holds)
  have sw: "sane ?w" by (rule create_sane [OF assms(1)])
  have key: "?k \<noteq> 0 \<Longrightarrow> \<not> holds ?w ?k" by (rule create_fresh [OF assms(1)])
  have ne: "?k \<noteq> 0 \<Longrightarrow> h \<noteq> ?k" using hw key by auto
  have busy: "?k \<noteq> 0 \<Longrightarrow> \<not> fst (wait ?k 0 ?w) \<and> snd (wait ?k 0 ?w) = ?w"
    by (rule wait_busy [OF hw ne])
  have cl: "?k \<noteq> 0 \<Longrightarrow> close ?k ?w = ?w" by (rule close_other [OF key])
  show "fst (mutex_acquire p c) = (False, CONTROL_BUSY)"
    and "mutex_handle (snd (mutex_acquire p c)) = Some h"
    and "holds (world (snd (mutex_acquire p c))) h"
    and "sane (world (snd (mutex_acquire p c)))"
    using busy hw sw cl assms(2)
    by (auto simp: mutex_acquire_def methods unfold_pairs on_world_def)
qed

text \<open>A successful acquisition holds the lock, and releasing it leaves nobody holding it.\<close>

lemma acquire_got:
  assumes "fst (mutex_acquire p c) = (True, e)"
  shows "\<exists>h. mutex_handle (snd (mutex_acquire p c)) = Some h
             \<and> holds (world (snd (mutex_acquire p c))) h \<and> e = []"
  using assms wait_got
  by (auto simp: mutex_acquire_def methods unfold_pairs split: if_splits)

lemma release_frees:
  assumes "mutex_handle c = Some h" and "holds (world c) h"
  shows "mutex_handle (mutex_release p c) = None" and "\<not> holds (world (mutex_release p c)) k"
  using assms unlock_frees [OF assms(2)] close_other [of "unlock h (world c)" h]
  by (auto simp: mutex_release_def methods on_world_def)

end

definition x11_holds :: "x11_world \<Rightarrow> nat \<Rightarrow> bool" where
  "x11_holds w h \<longleftrightarrow> lock_owner_of w = Some (Ours h)"

text \<open>The holder's descriptor has been handed out.\<close>

definition x11_sane :: "x11_world \<Rightarrow> bool" where
  "x11_sane w \<longleftrightarrow> (\<forall>h. lock_owner_of w = Some (Ours h) \<longrightarrow> h \<le> next_fd w)"

lemma x11_create_laws:
  "lock_owner_of (snd (x11_create_mutex n w)) = lock_owner_of w"
  "x11_sane w \<Longrightarrow> x11_sane (snd (x11_create_mutex n w))"
  "x11_sane w \<Longrightarrow> fst (x11_create_mutex n w) \<noteq> 0 \<Longrightarrow>
     lock_owner_of w \<noteq> Some (Ours (fst (x11_create_mutex n w)))"
  "fst (x11_create_mutex n w) \<le> next_fd (snd (x11_create_mutex n w))"
  by (auto simp: x11_create_mutex_def x11_sane_def)

lemma x11_release_laws:
  "lock_owner_of (x11_release_mutex h w) =
     (if lock_owner_of w = Some (Ours h) then None else lock_owner_of w)"
  "next_fd (x11_release_mutex h w) = next_fd w"
  "x11_close_handle h w = x11_release_mutex h w"
  "lock_owner_of w \<noteq> Some (Ours h) \<Longrightarrow> x11_release_mutex h w = w"
  by (simp_all add: x11_release_mutex_def x11_close_handle_def)

lemma x11_acquire_laws:
  "next_fd (snd (x11_acquire_mutex h t w)) = next_fd w"
  "h \<noteq> 0 \<Longrightarrow> fst (x11_acquire_mutex h t w) \<Longrightarrow>
     lock_owner_of (snd (x11_acquire_mutex h t w)) = Some (Ours h)"
  "lock_owner_of w = Some (Ours k) \<Longrightarrow> k \<noteq> h \<Longrightarrow> x11_acquire_mutex h t w = (False, w)"
  "x11_sane w \<Longrightarrow> h \<le> next_fd w \<Longrightarrow> x11_sane (snd (x11_acquire_mutex h t w))"
  by (auto simp: x11_acquire_mutex_def x11_sane_def split: option.splits lock_owner.splits)

interpretation x11_mutex: input_mutex x11_platform x11_create_mutex x11_acquire_mutex
  x11_release_mutex x11_close_handle x11_holds x11_sane
proof (unfold_locales, goal_cases)
  case 1 show ?case by (simp add: x11_platform_def)
next
  case 2 show ?case by (simp add: x11_platform_def)
next
  case 3 show ?case by (simp add: x11_platform_def)
next
  case 4 show ?case by (simp add: x11_platform_def)
next
  case (5 w n) then show ?case using x11_create_laws(1,3) by (simp add: x11_holds_def)
next
  case (6 n w k) show ?case by (simp add: x11_holds_def x11_create_laws(1))
next
  case (7 w n) then show ?case by (rule x11_create_laws(2))
next
  case (8 h t w) then show ?case by (simp add: x11_holds_def x11_acquire_laws(2))
next
  case (9 w k h t) then show ?case by (simp add: x11_holds_def x11_acquire_laws(3))
next
  case (10 w n w0 h t)
  then show ?case using x11_create_laws(4) [of n w0] x11_acquire_laws(4) by metis
next
  case (11 w h k) then show ?case by (simp add: x11_holds_def)
next
  case (12 w h k) then show ?case by (simp add: x11_holds_def x11_release_laws(1))
next
  case (13 w h) then show ?case by (simp add: x11_sane_def x11_release_laws(1,2))
next
  case (14 w h) then show ?case by (simp add: x11_holds_def x11_release_laws(3,4))
next
  case (15 w h) then show ?case by (simp add: x11_sane_def x11_release_laws(1,2,3))
qed

subsection \<open>The idle watch\<close>

lemma x11_tick_frame [frame]:
  "lock_owner_of (snd (x11_last_input_tick w)) = lock_owner_of w"
  "next_fd (snd (x11_last_input_tick w)) = next_fd w"
  "can_open (snd (x11_last_input_tick w)) = can_open w"
  by (auto simp: x11_last_input_tick_def x11_sample_pointer_def x11_sample_foreground_def Let_def
      split: option.splits)

lemma x11_tick_mono [mono_facts]: "input_tick w \<le> fst (x11_last_input_tick w)"
  by (auto simp: x11_last_input_tick_def x11_sample_pointer_def x11_sample_foreground_def Let_def
      split: option.splits)

lemma x11_tick_result: "fst (x11_last_input_tick w) = input_tick (snd (x11_last_input_tick w))"
  by (simp add: x11_last_input_tick_def Let_def)

text \<open>Sampling twice with nothing moved in between counts once.\<close>

definition x11_settled :: "x11_world \<Rightarrow> bool" where
  "x11_settled w \<longleftrightarrow>
     (cursor_pos w = None \<or> last_pointer w = cursor_pos w) \<and>
     (foreground_window w = None \<or> last_foreground w = foreground_window w)"

lemma x11_sample_reports [frame]:
  "cursor_pos (x11_sample_pointer w) = cursor_pos w"
  "foreground_window (x11_sample_pointer w) = foreground_window w"
  "own_foreground (x11_sample_pointer w) = own_foreground w"
  "last_foreground (x11_sample_pointer w) = last_foreground w"
  "cursor_pos (x11_sample_foreground w) = cursor_pos w"
  "foreground_window (x11_sample_foreground w) = foreground_window w"
  "last_pointer (x11_sample_foreground w) = last_pointer w"
  by (auto simp: x11_sample_pointer_def x11_sample_foreground_def split: option.splits)

lemma x11_sample_last:
  "cursor_pos w \<noteq> None \<Longrightarrow> last_pointer (x11_sample_pointer w) = cursor_pos w"
  "foreground_window w \<noteq> None \<Longrightarrow> last_foreground (x11_sample_foreground w) = foreground_window w"
  by (auto simp: x11_sample_pointer_def x11_sample_foreground_def split: option.splits)

lemma x11_settled_after: "x11_settled (snd (x11_last_input_tick w))"
  by (simp add: x11_settled_def x11_last_input_tick_def Let_def frame x11_sample_last)
     (metis x11_sample_last x11_sample_reports(2))

lemma x11_settled_pointer:
  "cursor_pos w = None \<or> last_pointer w = cursor_pos w \<or> cursor_pos w = own_pointer w \<Longrightarrow>
     input_tick (x11_sample_pointer w) = input_tick w"
  by (auto simp: x11_sample_pointer_def split: option.splits)

lemma x11_settled_foreground:
  "foreground_window w = None \<or> last_foreground w = foreground_window w \<Longrightarrow>
     input_tick (x11_sample_foreground w) = input_tick w"
  by (auto simp: x11_sample_foreground_def split: option.splits)

lemma x11_tick_unfold:
  "fst (x11_last_input_tick w) = input_tick (x11_sample_foreground (x11_sample_pointer w))"
  by (simp add: x11_last_input_tick_def Let_def)

lemma x11_tick_settled: "x11_settled w \<Longrightarrow> fst (x11_last_input_tick w) = input_tick w"
  by (auto simp: x11_settled_def x11_tick_unfold frame x11_settled_pointer x11_settled_foreground)

end
