(* ===== verification/Host_Actions.thy ===== *)
theory Host_Actions
  imports X11_Platform
begin

section \<open>An input action of the host executor (sandbox/host\_executor.py) and the desktop properties\<close>

text \<open>
  The bracket \<open>_computer_use\<close> puts around an input action: take a token (and the mutex), check
  the fence, send, close the action. Other tasks (the idle watch, the hook thread, the API) run
  between the token and the fence; their steps are the list \<open>es\<close>. The sender is a parameter that
  returns an outcome or raises.
\<close>

datatype 'o action_outcome =
    Not_Started string
  | Cancelled string
  | Failed action_report
  | Sent 'o action_report

definition computer_use_bracket ::
  "'w platform \<Rightarrow> ('w \<Rightarrow> (string + 'o) \<times> 'w) \<Rightarrow> string \<Rightarrow> json \<Rightarrow> 'w desktop_event list
    \<Rightarrow> 'w control \<Rightarrow> 'o action_outcome \<times> 'w control" where
  "computer_use_bracket p send action target es c0 =
     (let ((token, code), c1) = begin_action p (''computer_use:'' @ action) target JNull True c0
      in case token of
           None \<Rightarrow> (Not_Started code, c1)
         | Some tk \<Rightarrow>
             (let (stale, c3) = fence p (Some tk) (desktop_run p es c1)
              in if stale \<noteq> [] then (Cancelled stale, c3)
                 else (let (outcome, w) = send (world c3); c4 = c3\<lparr>world := w\<rparr>
                       in case outcome of
                            Inl err \<Rightarrow>
                              (let (r, c5) = end_action p (Some tk) ''failed'' (Some False) [] err
                                               JNull ''send_input'' c4
                               in (Failed r, c5))
                          | Inr out \<Rightarrow>
                              (let (r, c5) = end_action p (Some tk) ''unverifiable'' None [] action
                                               JNull ''send_input'' c4
                               in (Sent out r, c5)))))"

subsection \<open>Lemmas on the bracket\<close>

text \<open>Evaluates a concrete run of the desktop control on the X11 platform.\<close>

lemmas desktop_eval = begin_action_def agent_lease_def flush_hook_events_def acquire_lease_def
  read_lease_def read_json_def commit_lease_def write_json_def new_control_def new_lease_def
  release_to_human_lease_def control_release_def emergency_stop_def fence_def end_action_def
  x11_platform_def mutex_acquire_def mutex_release_def on_world_def note_own_input_def
  x11_create_mutex_def x11_acquire_mutex_def x11_release_mutex_def x11_close_handle_def
  x11_initial_def unfold_pairs

lemma begin_action_mutex:
  assumes "begin_action p a t g True c = ((Some tk, code), c')"
  shows "mutex_handle c' \<noteq> None"
  using assms
  by (auto simp: begin_action_def mutex_acquire_def unfold_pairs
      split: acquire_result.splits if_splits option.splits)

lemma end_action_mutex [simp]: "mutex_handle (snd (end_action p tk e v cd n es rt c)) = None"
  by (auto simp: end_action_def unfold_pairs frame mutex_release_def split: option.splits)

text \<open>A step that contains no takeover may still be followed by one; some step of a run is one.\<close>

fun takes_over :: "'w platform \<Rightarrow> 'w desktop_event list \<Rightarrow> 'w control \<Rightarrow> bool" where
  "takes_over p [] c = False"
| "takes_over p (e # es) c = (takeover p e c \<or> takes_over p es (desktop_step p e c))"

lemma takes_over_generation: "takes_over p es c \<Longrightarrow> generation c < generation (desktop_run p es c)"
proof (induction es arbitrary: c)
  case (Cons e es)
  have later: "generation (desktop_step p e c) \<le> generation (desktop_run p es (desktop_step p e c))"
    using desktop_run_advances [of "desktop_step p e c" p es] by (simp add: advances_def)
  have one: "generation c \<le> generation (desktop_step p e c)"
    using desktop_step_advances [of c p e] by (simp add: advances_def)
  from Cons.prems consider "takeover p e c" | "takes_over p es (desktop_step p e c)" by auto
  then show ?case
  proof cases
    case 1
    then show ?thesis using takeover_generation later by fastforce
  next
    case 2
    then show ?thesis using Cons.IH [OF 2] one by simp
  qed
qed simp

lemma takes_over_append: "takes_over p es c \<Longrightarrow> takes_over p (es @ es') c"
  by (induction es arbitrary: c) auto

lemma stale_lemma:
  assumes "begin_action p action target geometry take_mutex c = ((Some tk, code), c1)"
    and "takes_over p es c1"
  shows "fst (fence p (Some tk) (desktop_run p es c1)) \<noteq> []"
proof
  assume ok: "fst (fence p (Some tk) (desktop_run p es c1)) = []"
  have "generation (desktop_run p es c1) \<le> tk_generation tk" by (rule fence_ok_generation [OF ok])
  moreover have "generation c1 < generation (desktop_run p es c1)"
    by (rule takes_over_generation [OF assms(2)])
  ultimately show False using begin_action_token(1) [OF assms(1)] by simp
qed

lemma lease_epoch_alt: "lease_epoch l = epoch_seen (snd (read_lease l))"
  by (simp add: lease_epoch_def read_lease_epoch)

text \<open>The flush reads the epoch the file had before it, or commits a larger one.\<close>

lemma lease_epoch_commit: "lease_epoch l < epoch_seen (snd (commit_lease h r v l))"
  by (simp add: commit_lease_epoch lease_epoch_alt)

lemma lease_epoch_release: "lease_epoch (lease c) \<le> epoch_seen (lease (snd (control_release r v c)))"
  using lease_epoch_commit [of "lease c"]
  by (simp add: control_release_def release_to_human_lease_def unfold_pairs order_less_imp_le)

lemma lease_epoch_stop: "lease_epoch (lease c) \<le> epoch_seen (lease (snd (emergency_stop p r c)))"
  using lease_epoch_commit [of "lease c"]
  by (auto simp: emergency_stop_def release_to_human_lease_def unfold_pairs frame order_less_imp_le
      split: option.splits)

lemma lease_epoch_read_idem: "lease_epoch (snd (read_lease l)) = lease_epoch l"
  by (simp add: lease_epoch_def read_lease_idem)

lemma lease_epoch_flush: "lease_epoch (lease c) \<le> lease_epoch (lease (snd (flush_hook_events p c)))"
proof -
  have up: "lease_epoch l \<ge> epoch_seen l" for l
    using read_lease_mono [of l] by (simp add: lease_epoch_alt)
  let ?d = "c\<lparr>pending_hook := None\<rparr>"
  have s: "lease_epoch (lease c) \<le> lease_epoch (lease (snd (emergency_stop p r (?d\<lparr>handled_escape := n\<rparr>))))" for r n
    using lease_epoch_stop [of "?d\<lparr>handled_escape := n\<rparr>" p r] up order_trans by fastforce
  have r: "lease_epoch (lease c) \<le>
      lease_epoch (lease (snd (control_release r v (?d\<lparr>lease := snd (read_lease (lease c))\<rparr>))))" for r v
    using lease_epoch_release [of "?d\<lparr>lease := snd (read_lease (lease c))\<rparr>" r v] up order_trans
    by (fastforce simp: lease_epoch_read_idem)
  show ?thesis using s r by (auto simp: flush_hook_events_def unfold_pairs lease_epoch_read_idem)
qed

text \<open>C1. Once a human has taken the desktop back (a real key or mouse event in a hook, a release,
  an emergency stop), a token issued before never passes the fence again, whatever happens in
  between, to the lease file included, and however often the agent asks for the lease.\<close>

theorem stale_token_never_passes:
  assumes "begin_action p action target geometry take_mutex c = ((Some tk, code), c1)"
    and "takes_over p es c1"
  shows "fst (fence p (Some tk) (desktop_run p (es @ es') c1)) \<noteq> []"
  using stale_lemma [OF assms(1)] assms(2) by (simp add: takes_over_append)

theorem stale_token_never_passes_witness:
  "\<exists>tk code c1. begin_action x11_platform ''a'' JNull JNull True
       (new_control (new_lease No_File ''t0'') x11_initial) = ((Some tk, code), c1)
     \<and> takes_over x11_platform
         [Ev_Release ''stop'' JNull, Ev_Agent_Lease ''claim'' JNull True] c1
     \<and> fst (fence x11_platform (Some tk) (desktop_run x11_platform
         ([Ev_Release ''stop'' JNull, Ev_Agent_Lease ''claim'' JNull True] @ [Ev_Flush]) c1)) \<noteq> []"
proof -
  let ?c = "new_control (new_lease No_File ''t0'') x11_initial"
  let ?r = "begin_action x11_platform ''a'' JNull JNull True ?c"
  let ?es = "[Ev_Release ''stop'' JNull, Ev_Agent_Lease ''claim'' JNull True]"
  obtain t code c1 where r: "?r = ((t, code), c1)" by (cases ?r) auto
  have "fst (fst ?r) \<noteq> None"
    by (simp add: desktop_eval)
  then obtain tk where b: "?r = ((Some tk, code), c1)" using r by auto
  have o: "takes_over x11_platform ?es c1" by simp
  show ?thesis using stale_token_never_passes [OF b o, of "[Ev_Flush]"] b o by blast
qed

text \<open>C2. The host executor sends input only when no human took over since the token was issued
  and the lease read at the fence belongs to the agent: with a takeover among the steps other
  tasks ran, the action ends cancelled or never starts, and the sender is not called.\<close>

theorem input_only_under_fence:
  assumes "takes_over p es (snd (begin_action p (''computer_use:'' @ action) target JNull True c))"
  shows "(\<exists>code. fst (computer_use_bracket p send action target es c) = Not_Started code) \<or>
         (\<exists>stale. fst (computer_use_bracket p send action target es c) = Cancelled stale)"
proof -
  obtain t code c1 where
    b: "begin_action p (''computer_use:'' @ action) target JNull True c = ((t, code), c1)"
    by (metis prod.collapse)
  show ?thesis
  proof (cases t)
    case None
    then show ?thesis using b by (simp add: computer_use_bracket_def)
  next
    case (Some tk)
    have "fst (fence p (Some tk) (desktop_run p es c1)) \<noteq> []"
      by (rule stale_lemma) (use b Some assms in auto)
    then show ?thesis using b Some by (simp add: computer_use_bracket_def unfold_pairs)
  qed
qed

theorem input_only_under_fence_witness:
  "(\<exists>code. fst (computer_use_bracket x11_platform (\<lambda>w. (Inr (), w)) ''click'' JNull
      [Ev_Release ''stop'' JNull] (new_control (new_lease No_File ''t0'') x11_initial)) = Not_Started code) \<or>
   (\<exists>stale. fst (computer_use_bracket x11_platform (\<lambda>w. (Inr (), w)) ''click'' JNull
      [Ev_Release ''stop'' JNull] (new_control (new_lease No_File ''t0'') x11_initial)) = Cancelled stale)"
  by (rule input_only_under_fence) simp


text \<open>A commit that reaches the disk is what the next read returns: the new holder and reason,
  the clock's reading, and an epoch one above everything read so far. An empty viewer is stored
  and read back as none.\<close>

theorem commit_read_roundtrip:
  assumes "lease_ok l" and "disk_error l = None" and "clock l \<noteq> []"
  shows "fst (read_lease (snd (commit_lease h r v l))) =
    \<lparr>ls_holder = h, ls_viewer = py_or v JNull, ls_since = JStr (clock l), ls_reason = r,
     ls_epoch = lease_epoch l + 1\<rparr>"
  using commit_then_read [OF assms(1,2)] assms(3)
  by (simp add: py_or_def lease_epoch_def read_lease_epoch)

theorem commit_read_roundtrip_witness:
  "fst (read_lease (snd (commit_lease Agent ''r'' (JStr []) (new_lease Blank ''t0'')))) =
    \<lparr>ls_holder = Agent, ls_viewer = JNull, ls_since = JStr ''t0'', ls_reason = ''r'', ls_epoch = 1\<rparr>"
  using commit_read_roundtrip [of "new_lease Blank ''t0''" Agent "''r''" "JStr []"]
  by (simp add: lease_ok_new) (simp add: new_lease_def py_or_def lease_epoch_def read_lease_defs)

text \<open>Epochs never go back. Once a snapshot has read an epoch, whatever the operations do and
  whatever is written to the lease file from outside (an old copy restored, a broken file, a failing
  disk), the epoch read later is at least that one, so no action issued under an older epoch becomes
  valid again.\<close>

theorem lease_epoch_never_goes_back:
  "lease_epoch (lease c) \<le> lease_epoch (lease (desktop_run p (Ev_Snapshot # es) c))"
proof -
  let ?f = "snd (flush_hook_events p c)"
  let ?s = "snd (control_snapshot_of p c)"
  have flush: "lease_epoch (lease c) \<le> epoch_seen (lease ?s)"
    using lease_epoch_flush [of c p] by (simp add: control_snapshot_of_def unfold_pairs lease_epoch_def read_lease_epoch)
  have "epoch_seen (lease ?s) \<le> epoch_seen (lease (desktop_run p es ?s))"
    using desktop_run_advances by (auto simp: advances_def)
  also have "\<dots> \<le> lease_epoch (lease (desktop_run p es ?s))"
    by (simp add: lease_epoch_def read_lease_epoch read_lease_mono)
  finally show ?thesis using flush by simp
qed

end
