(* ===== verification/Desktop_Safety.thy ===== *)
theory Desktop_Safety
  imports Host_Actions
begin

section \<open>Human takeover, the kernel mutex and the verification ladder\<close>

text \<open>
  What a human touch does through the hooks and through the idle watch, what happens to the kernel
  mutex on every exit of the input bracket, and the reports the model receives (verified effects,
  unchanged screens).
\<close>

subsection \<open>Hooks\<close>

lemma on_hook_frame [frame]:
  "lease (snd (on_hook p k code wp lp c)) = lease c"
  "pending_hook c \<noteq> None \<Longrightarrow> pending_hook (snd (on_hook p k code wp lp c)) \<noteq> None"
  by (auto simp: on_hook_def call_next_def unfold_pairs split: hook_parse.splits option.splits)

lemma on_hook_pending:
  "takeover p (Ev_Hook k code wp lp) c \<Longrightarrow> pending_hook (snd (on_hook p k code wp lp c)) \<noteq> None"
  by (auto simp: on_hook_def call_next_def unfold_pairs split: hook_parse.splits option.splits)

fun hook_run :: "'w platform \<Rightarrow> (hook_kind \<times> int \<times> int \<times> int) list \<Rightarrow> 'w control \<Rightarrow> 'w control" where
  "hook_run p [] c = c"
| "hook_run p ((k, code, wp, lp) # hs) c = hook_run p hs (snd (on_hook p k code wp lp c))"

lemma hook_run_frame:
  "lease (hook_run p hs c) = lease c"
  "pending_hook c \<noteq> None \<Longrightarrow> pending_hook (hook_run p hs c) \<noteq> None"
  by (induction p hs c rule: hook_run.induct) (simp_all add: frame)

lemma commit_holder:
  "lease_ok l \<Longrightarrow> disk_error l = None \<Longrightarrow> lease_holder (snd (commit_lease h r v l)) = h"
  by (simp add: lease_holder_def commit_then_read)

lemma release_holder:
  "lease_ok (lease c) \<Longrightarrow> disk_error (lease c) = None \<Longrightarrow>
     lease_holder (lease (snd (control_release r v c))) = Human"
  by (simp add: control_release_def release_to_human_lease_def unfold_pairs commit_holder)

lemma stop_holder:
  "lease_ok (lease c) \<Longrightarrow> disk_error (lease c) = None \<Longrightarrow>
     lease_holder (lease (snd (emergency_stop p r c))) = Human"
  by (auto simp: emergency_stop_def release_to_human_lease_def unfold_pairs frame commit_holder
      split: option.splits)

lemma flush_pending_human:
  assumes "pending_hook c \<noteq> None" and "lease_ok (lease c)" and "disk_error (lease c) = None"
  shows "lease_holder (lease (snd (flush_hook_events p c))) = Human"
  using assms
  by (cases "ls_holder (fst (read_lease (lease c)))")
     (auto simp: flush_hook_events_def unfold_pairs stop_holder [unfolded lease_holder_def]
       release_holder [unfolded lease_holder_def] lease_ok_read frame lease_holder_def read_lease_idem)

text \<open>A human touch is not lost. The hook callback writes no lease and, whatever further hook
  events arrive before the next flush (mouse moves coalesced, injected input, events the parser
  chokes on), that flush leaves the lease on disk with the human.\<close>

theorem human_touch_persists:
  assumes "takeover p (Ev_Hook k code wp lp) c"
    and "lease_ok (lease c)" and "disk_error (lease c) = None"
  shows "lease (hook_run p hs (snd (on_hook p k code wp lp c))) = lease c \<and>
    lease_holder (lease (snd (flush_hook_events p
      (hook_run p hs (snd (on_hook p k code wp lp c)))))) = Human"
proof -
  let ?c = "hook_run p hs (snd (on_hook p k code wp lp c))"
  have l: "lease ?c = lease c" by (simp add: hook_run_frame frame)
  have "pending_hook ?c \<noteq> None" by (rule hook_run_frame(2)) (rule on_hook_pending [OF assms(1)])
  then have "lease_holder (lease (snd (flush_hook_events p ?c))) = Human"
    by (rule flush_pending_human) (simp_all add: l assms(2,3))
  with l show ?thesis by blast
qed

text \<open>A platform with hooks whose parser reports a real key press.\<close>

definition key_platform :: "unit platform" where
  "key_platform =
     \<lparr>create_mutex = None, acquire_mutex = None, release_mutex = None, close_handle = None,
      install_input_hooks = Some (\<lambda>w. (True, w)), stop_input_hooks = None,
      set_keyboard_hook = None, set_mouse_hook = None, unhook_keyboard = None, unhook_mouse = None,
      hook_event_of = Some (\<lambda>k wp lp w. Hook_Is \<lparr>he_injected = False, he_vkey = wp\<rparr>),
      call_next_hook = None, last_input_tick = None, idle_seconds = None, release_stuck_input = None\<rparr>"

theorem human_touch_persists_witness:
  "lease_holder (lease (snd (flush_hook_events key_platform
     (hook_run key_platform [(Mouse, 0, 0, 0)]
       (snd (on_hook key_platform Keyboard 0 65 0 (new_control (new_lease No_File ''t0'') ()))))))) = Human"
proof -
  let ?c = "new_control (new_lease No_File ''t0'') ()"
  have a: "takeover key_platform (Ev_Hook Keyboard 0 65 0) ?c"
    by (simp add: parsed_event_def key_platform_def)
  have b: "lease_ok (lease ?c)" by (simp add: new_control_def lease_ok_new)
  have c: "disk_error (lease ?c) = None" by (simp add: new_control_def new_lease_def)
  show ?thesis using human_touch_persists [OF a b c, of "[(Mouse, 0, 0, 0)]"] by blast
qed

subsection \<open>A release the disk refuses\<close>

text \<open>A takeover that cannot be written does not take the desktop away. When the lease file
  cannot be written while the agent holds the lease, the release reports an error but the next
  read still gives the agent control, so a new action is issued: only tokens issued before it are dead.\<close>

theorem unpersisted_release_keeps_agent:
  assumes "lease_holder (lease c) = Agent" and "disk_error (lease c) = Some e"
  shows "snd (fst (control_release r v c)) \<noteq> [] \<and>
    lease_holder (lease (snd (control_release r v c))) = Agent \<and>
    (\<exists>st. fst (acquire_lease r' v' False (lease (snd (control_release r v c)))) = Granted st [])"
proof -
  let ?c = "snd (control_release r v c)"
  have f: "lease_file (lease ?c) = lease_file (lease c)"
    using assms(2) by (simp add: control_release_def release_to_human_lease_def unfold_pairs
        commit_lease_file_failed)
  have h: "lease_holder (lease ?c) = Agent"
    using read_lease_holder_indep [OF f] assms(1) by (simp add: lease_holder_def)
  have e: "snd (fst (control_release r v c)) \<noteq> []"
    using assms(2) by (simp add: control_release_def release_to_human_lease_def unfold_pairs
        commit_lease_error)
  show ?thesis using h e by (simp add: acquire_lease_cases)
qed

theorem unpersisted_release_keeps_agent_witness:
  "let c = new_control ((new_lease No_File ''t0'')\<lparr>disk_error := Some ''EROFS''\<rparr>) x11_initial in
   lease_holder (lease (snd (control_release ''stop'' JNull c))) = Agent"
proof -
  let ?c = "new_control ((new_lease No_File ''t0'')\<lparr>disk_error := Some ''EROFS''\<rparr>) x11_initial"
  have "lease_holder (lease ?c) = Agent"
    by (simp add: new_control_def new_lease_def lease_holder_def read_lease_defs)
  moreover have "disk_error (lease ?c) = Some ''EROFS''" by (simp add: new_control_def)
  ultimately show ?thesis using unpersisted_release_keeps_agent [of ?c "''EROFS''"]
    unfolding Let_def by blast
qed

subsection \<open>The kernel mutex across the bracket\<close>

text \<open>The control holds the X11 lock and no emergency stop is due.\<close>

definition holds_input_lock :: "x11_world control \<Rightarrow> bool" where
  "holds_input_lock c \<longleftrightarrow>
     (\<exists>h. mutex_handle c = Some h \<and> x11_holds (world c) h) \<and> x11_sane (world c) \<and>
     escape_revision c \<le> handled_escape c"

text \<open>The events that neither close an action nor stop it.\<close>

fun leaves_mutex :: "'w desktop_event \<Rightarrow> bool" where
  "leaves_mutex (Ev_End _ _ _ _ _ _ _) = False"
| "leaves_mutex (Ev_Stop _) = False"
| "leaves_mutex (Ev_Check_Escape _) = False"
| "leaves_mutex (Ev_World _) = False"
| "leaves_mutex _ = True"

lemma x11_holds_tick: "x11_holds (snd (x11_last_input_tick w)) h = x11_holds w h"
  by (simp add: x11_holds_def frame)

lemma x11_sane_tick: "x11_sane (snd (x11_last_input_tick w)) = x11_sane w"
  by (simp add: x11_sane_def frame)

lemma lock_flush: "holds_input_lock c \<Longrightarrow> holds_input_lock (snd (flush_hook_events x11_platform c))"
  by (auto simp: holds_input_lock_def flush_hook_events_def unfold_pairs control_release_def)

lemma lock_note: "holds_input_lock c \<Longrightarrow> holds_input_lock (snd (note_own_input x11_platform c))"
  by (auto simp: holds_input_lock_def note_own_input_def x11_platform_def unfold_pairs
      x11_holds_tick x11_sane_tick)

lemma lock_lease: "holds_input_lock (c\<lparr>lease := l\<rparr>) = holds_input_lock c"
  by (simp add: holds_input_lock_def)

lemma lock_agent_lease:
  "holds_input_lock c \<Longrightarrow> holds_input_lock (snd (agent_lease x11_platform r v f c))"
  using lock_flush [of c]
  by (auto simp: agent_lease_def unfold_pairs lock_note lock_lease split: acquire_result.splits)

lemma lock_acquire:
  assumes "holds_input_lock c"
  shows "fst (mutex_acquire x11_platform c) = (False, CONTROL_BUSY)"
    and "holds_input_lock (snd (mutex_acquire x11_platform c))"
proof -
  obtain h where h: "mutex_handle c = Some h" "x11_holds (world c) h" "x11_sane (world c)"
      "escape_revision c \<le> handled_escape c"
    using assms by (auto simp: holds_input_lock_def)
  note b = x11_mutex.acquire_busy [OF h(3,1,2)]
  have e: "escape_revision (snd (mutex_acquire x11_platform c)) = escape_revision c"
      "handled_escape (snd (mutex_acquire x11_platform c)) = handled_escape c"
    by (auto simp: mutex_acquire_def unfold_pairs frame split: option.splits)
  show "fst (mutex_acquire x11_platform c) = (False, CONTROL_BUSY)" by (rule b(1))
  show "holds_input_lock (snd (mutex_acquire x11_platform c))"
    using b(2,3,4) e h(4) by (auto simp: holds_input_lock_def)
qed

lemma lock_begin:
  assumes "holds_input_lock c"
  shows "holds_input_lock (snd (begin_action x11_platform a t g m c))"
    and "fst (fst (begin_action x11_platform a t g True c)) = None"
  using lock_acquire [OF lock_agent_lease [OF assms]] lock_agent_lease [OF assms]
  by (auto simp: begin_action_def unfold_pairs split: acquire_result.splits)

lemma lock_fence: "holds_input_lock c \<Longrightarrow> holds_input_lock (snd (fence x11_platform tk c))"
  using lock_flush [of c] by (simp add: fence_def unfold_pairs lock_lease)

lemma lock_snapshot: "holds_input_lock c \<Longrightarrow> holds_input_lock (snd (control_snapshot_of x11_platform c))"
  using lock_flush [of c] by (simp add: control_snapshot_of_def unfold_pairs lock_lease)

lemma lock_poll: "holds_input_lock c \<Longrightarrow> holds_input_lock (snd (poll_idle x11_platform c))"
  by (auto simp: holds_input_lock_def poll_idle_def x11_platform_def unfold_pairs control_release_def
      x11_holds_tick x11_sane_tick)

lemma lock_step:
  assumes "holds_input_lock c" and "leaves_mutex e"
  shows "holds_input_lock (desktop_step x11_platform e c)"
proof (cases e)
  case (Ev_Hook k code wp lp)
  then show ?thesis
    using assms(1) by (simp add: on_hook_def parsed_event_def call_next_def x11_platform_def)
next
  case (Ev_Note_Hook k ev)
  then show ?thesis
    using assms(1) by (simp add: note_hook_event_def control_release_def unfold_pairs holds_input_lock_def)
next
  case (Ev_Release r v)
  then show ?thesis
    using assms(1) by (simp add: control_release_def unfold_pairs holds_input_lock_def)
next
  case Ev_Install
  then show ?thesis
    using assms(1) by (simp add: install_hooks_def x11_platform_def)
next
  case Ev_Uninstall
  then show ?thesis
    using assms(1) by (simp add: uninstall_hooks_def x11_platform_def on_world_def holds_input_lock_def)
next
  case (Ev_Lease_File f e n)
  then show ?thesis using assms(1) by (simp add: lock_lease)
qed (use assms in \<open>simp_all add: lock_flush lock_poll lock_snapshot lock_agent_lease lock_begin(1) lock_fence\<close>)

lemma lock_run:
  "holds_input_lock c \<Longrightarrow> (\<And>e. e \<in> set es \<Longrightarrow> leaves_mutex e) \<Longrightarrow>
     holds_input_lock (desktop_run x11_platform es c)"
  by (induction es arbitrary: c) (auto simp: lock_step)

lemma frame_agent_lease_x11:
  "x11_sane (world c) \<Longrightarrow> escape_revision c \<le> handled_escape c \<Longrightarrow>
     x11_sane (world (snd (agent_lease x11_platform r v False c))) \<and>
     escape_revision (snd (agent_lease x11_platform r v False c))
       \<le> handled_escape (snd (agent_lease x11_platform r v False c))"
  by (auto simp: agent_lease_def flush_hook_events_def unfold_pairs control_release_def
      split: acquire_result.splits)

lemma begin_holds_lock:
  assumes "fst (fst (begin_action x11_platform a t g True c)) \<noteq> None"
    and "x11_sane (world c)" and "escape_revision c \<le> handled_escape c"
  shows "holds_input_lock (snd (begin_action x11_platform a t g True c))"
proof -
  let ?d = "snd (agent_lease x11_platform (''agent bat dau '' @ a) JNull False c)"
  let ?m = "mutex_acquire x11_platform ?d"
  note d = frame_agent_lease_x11 [OF assms(2,3), of "''agent bat dau '' @ a" JNull]
  have got: "fst (fst ?m)" and s: "snd (begin_action x11_platform a t g True c) = snd ?m"
    using assms(1) by (auto simp: begin_action_def unfold_pairs split: acquire_result.splits if_splits)
  from got have "fst ?m = (True, snd (fst ?m))" by (metis (full_types) prod.collapse)
  then obtain h where h: "mutex_handle (snd ?m) = Some h" "x11_holds (world (snd ?m)) h"
    using x11_mutex.acquire_got by blast
  have "x11_sane (world (snd ?m))"
    using d x11_create_laws(2) [of "world ?d" MUTEX_NAME] x11_create_laws(4) [of MUTEX_NAME "world ?d"]
    by (auto simp: mutex_acquire_def x11_platform_def unfold_pairs on_world_def x11_release_laws(3)
        x11_acquire_laws(4) x11_mutex.unlock_sane)
  moreover have "escape_revision (snd ?m) = escape_revision ?d" "handled_escape (snd ?m) = handled_escape ?d"
    by (auto simp: mutex_acquire_def unfold_pairs frame split: option.splits)
  ultimately show ?thesis using h d s by (auto simp: holds_input_lock_def)
qed

text \<open>The mutex is given back on every exit but one. After the bracket the control holds no mutex
  handle, unless the fence cancelled the action: that exit returns without closing the action, with
  the handle still held whenever no other task stopped the control in between.\<close>

theorem bracket_mutex_exits:
  "case computer_use_bracket p send action target es c of
     (Failed r, c') \<Rightarrow> mutex_handle c' = None
   | (Sent out r, c') \<Rightarrow> mutex_handle c' = None
   | (Cancelled stale, c') \<Rightarrow>
       (let b = begin_action p (''computer_use:'' @ action) target JNull True c
        in c' = snd (fence p (fst (fst b)) (desktop_run p es (snd b))) \<and> mutex_handle (snd b) \<noteq> None)
   | (Not_Started code, c') \<Rightarrow> code \<noteq> []"
proof -
  obtain t code c1 where
    b: "begin_action p (''computer_use:'' @ action) target JNull True c = ((t, code), c1)"
    by (metis prod.collapse)
  show ?thesis
  proof (cases t)
    case None
    then have "code \<noteq> []"
      using b by (auto simp: begin_action_def unfold_pairs mutex_acquire_def HUMAN_HAS_CONTROL_def
          CONTROL_BUSY_def split: acquire_result.splits if_splits option.splits)
    then show ?thesis using b None by (simp add: computer_use_bracket_def)
  next
    case (Some tk)
    then show ?thesis
      using b begin_action_mutex [of p "''computer_use:'' @ action" target JNull c tk code c1]
      by (auto simp: computer_use_bracket_def unfold_pairs split: sum.splits)
  qed
qed

text \<open>A cancelled action locks the agent out of the desktop on X11. When the fence cancels an
  action and nobody stopped the control meanwhile, every later action is refused for as long as
  nothing closes an action or stops the control: not even the user handing the lease back helps,
  because the lock file is still held by the handle the cancelled action left behind.\<close>

theorem cancelled_action_wedges_input:
  assumes "fst (computer_use_bracket x11_platform send action target es c) = Cancelled stale"
    and "x11_sane (world c)" and "escape_revision c \<le> handled_escape c"
    and "list_all leaves_mutex es" and "list_all leaves_mutex es'"
  shows "fst (fst (begin_action x11_platform a t g True
    (desktop_run x11_platform es' (snd (computer_use_bracket x11_platform send action target es c))))) = None"
proof -
  let ?b = "begin_action x11_platform (''computer_use:'' @ action) target JNull True c"
  have some: "fst (fst ?b) \<noteq> None" and c': "snd (computer_use_bracket x11_platform send action target es c)
      = snd (fence x11_platform (fst (fst ?b)) (desktop_run x11_platform es (snd ?b)))"
    using assms(1) by (auto simp: computer_use_bracket_def unfold_pairs split: option.splits sum.splits if_splits)
  have "holds_input_lock (snd ?b)" by (rule begin_holds_lock [OF some assms(2,3)])
  then have "holds_input_lock (desktop_run x11_platform es (snd ?b))"
    using assms(4) by (auto simp: list_all_iff intro: lock_run)
  then have "holds_input_lock (snd (computer_use_bracket x11_platform send action target es c))"
    unfolding c' by (rule lock_fence)
  then have "holds_input_lock (desktop_run x11_platform es'
      (snd (computer_use_bracket x11_platform send action target es c)))"
    using assms(5) by (auto simp: list_all_iff intro: lock_run)
  then show ?thesis by (rule lock_begin(2))
qed

theorem cancelled_action_wedges_input_witness:
  "let c = new_control (new_lease No_File ''t0'') x11_initial;
       es = [Ev_Release ''human'' JNull];
       c' = snd (computer_use_bracket x11_platform (\<lambda>w. (Inr (), w)) ''click'' JNull es c)
   in fst (fst (begin_action x11_platform ''computer_use:click'' JNull JNull True
        (desktop_run x11_platform [Ev_Agent_Lease ''claim'' JNull True] c'))) = None"
proof -
  let ?c = "new_control (new_lease No_File ''t0'') x11_initial"
  have "fst (computer_use_bracket x11_platform (\<lambda>w. (Inr (), w)) ''click'' JNull
      [Ev_Release ''human'' JNull] ?c) = Cancelled HUMAN_HAS_CONTROL"
    by code_simp
  moreover have "x11_sane (world ?c)" by (simp add: new_control_def x11_sane_def x11_initial_def)
  moreover have "escape_revision ?c \<le> handled_escape ?c" by (simp add: new_control_def)
  ultimately show ?thesis
    unfolding Let_def by (rule cancelled_action_wedges_input) simp_all
qed

subsection \<open>The idle watch on X11\<close>

lemma poll_idle_settled:
  assumes "fst (x11_last_input_tick (world c)) = own_input_tick c"
  shows "fst (poll_idle x11_platform c) = False \<and> lease (snd (poll_idle x11_platform c)) = lease c
    \<and> generation (snd (poll_idle x11_platform c)) = generation c"
  using assms by (auto simp: poll_idle_def x11_platform_def unfold_pairs)

text \<open>On X11 the agent's own pointer move does not take the desktop from it, and anybody else's
  does. With the tick recorded and the focus unchanged, a poll after the pointer went where the agent
  announced it leaves lease and generation alone; after it went elsewhere the poll reports a human
  and, when the agent held the lease, starts a new generation.\<close>

theorem idle_watch_tells_own_input:
  assumes "own_input_tick c = input_tick (world c)" and "x11_settled (world c)"
    and "last_pointer (world c) = Some q" and "0 < input_tick (world c)"
    and "lease_holder (lease c) = Agent"
  shows "fst (poll_idle x11_platform
           (c\<lparr>world := (x11_note_own_pointer x y (world c))\<lparr>cursor_pos := Some (x, y)\<rparr>\<rparr>)) = False \<and>
    (pt \<noteq> q \<and> own_pointer (world c) \<noteq> Some pt \<longrightarrow>
       fst (poll_idle x11_platform (c\<lparr>world := (world c)\<lparr>cursor_pos := Some pt\<rparr>\<rparr>)) = True \<and>
       generation (snd (poll_idle x11_platform (c\<lparr>world := (world c)\<lparr>cursor_pos := Some pt\<rparr>\<rparr>)))
         = generation c + 1)"
proof (intro conjI impI; (elim conjE)?)
  let ?w = "(x11_note_own_pointer x y (world c))\<lparr>cursor_pos := Some (x, y)\<rparr>"
  have "input_tick (x11_sample_pointer ?w) = input_tick ?w"
    by (rule x11_settled_pointer) (simp add: x11_note_own_pointer_def)
  moreover have "input_tick (x11_sample_foreground (x11_sample_pointer ?w)) = input_tick (x11_sample_pointer ?w)"
    by (rule x11_settled_foreground) (use assms(2) in \<open>auto simp: x11_settled_def frame x11_note_own_pointer_def\<close>)
  ultimately have "fst (x11_last_input_tick ?w) = own_input_tick c"
    using assms(1) by (simp add: x11_tick_unfold x11_note_own_pointer_def)
  then show "fst (poll_idle x11_platform (c\<lparr>world := ?w\<rparr>)) = False"
    using poll_idle_settled [of "c\<lparr>world := ?w\<rparr>"] by simp
next
  assume ne: "pt \<noteq> q" "own_pointer (world c) \<noteq> Some pt"
  let ?w = "(world c)\<lparr>cursor_pos := Some pt\<rparr>"
  have p1: "input_tick (x11_sample_pointer ?w) = input_tick (world c) + 1"
    using ne assms(3) by (simp add: x11_sample_pointer_def)
  have "input_tick (x11_sample_foreground (x11_sample_pointer ?w)) = input_tick (x11_sample_pointer ?w)"
    by (rule x11_settled_foreground) (use assms(2) in \<open>auto simp: x11_settled_def frame\<close>)
  then have tick: "fst (x11_last_input_tick ?w) = input_tick (world c) + 1"
    using p1 by (simp add: x11_tick_unfold)
  have h: "ls_holder (fst (read_lease (lease c))) = Agent" using assms(5) by (simp add: lease_holder_def)
  show "fst (poll_idle x11_platform (c\<lparr>world := ?w\<rparr>)) = True"
    and "generation (snd (poll_idle x11_platform (c\<lparr>world := ?w\<rparr>))) = generation c + 1"
    using tick assms(1,4) h
    by (simp_all add: poll_idle_def x11_platform_def unfold_pairs control_release_counts)
qed

definition watched_world :: x11_world where
  "watched_world = x11_initial\<lparr>cursor_pos := Some (5, 5), last_pointer := Some (5, 5)\<rparr>"

theorem idle_watch_tells_own_input_witness:
  "let c = (new_control (new_lease No_File ''t0'') watched_world)\<lparr>own_input_tick := 1\<rparr> in
   fst (poll_idle x11_platform
     (c\<lparr>world := (x11_note_own_pointer 9 9 (world c))\<lparr>cursor_pos := Some (9, 9)\<rparr>\<rparr>)) = False \<and>
   fst (poll_idle x11_platform (c\<lparr>world := (world c)\<lparr>cursor_pos := Some (7, 7)\<rparr>\<rparr>)) = True"
proof -
  let ?c = "(new_control (new_lease No_File ''t0'') watched_world)\<lparr>own_input_tick := 1\<rparr>"
  have w: "world ?c = watched_world" by (simp add: new_control_def)
  have "own_input_tick ?c = input_tick (world ?c)" "x11_settled (world ?c)"
    "last_pointer (world ?c) = Some (5, 5)" "0 < input_tick (world ?c)"
    "own_pointer (world ?c) \<noteq> Some (7, 7)"
    by (simp_all add: new_control_def watched_world_def x11_initial_def x11_settled_def)
  moreover have "lease_holder (lease ?c) = Agent"
    by (simp add: new_control_def new_lease_def lease_holder_def read_lease_defs)
  ultimately show ?thesis
    using idle_watch_tells_own_input [of ?c "(5, 5)" 9 9 "(7, 7)"] unfolding Let_def by simp
qed

subsection \<open>Reports to the model\<close>

text \<open>An effect is reported as confirmed only when both stable readings of the state satisfy the
  expectation; the verdict is one of the declared effects, and every verdict other than confirmed is
  one the executor never retries by itself.\<close>

theorem verify_ladder:
  "let (r, c') = verify_state sampler expect c;
       s1 = sampler (world c); s2 = sampler (snd s1);
       v1 = expect (fst s1); v2 = expect (fst s2)
   in (snd (fst r) = ''confirmed'' \<longleftrightarrow> v1 = Some True \<and> v2 = Some True) \<and>
      (fst (fst r) = Some True \<longleftrightarrow> snd (fst r) = ''confirmed'') \<and>
      (snd (fst r) = ''unverifiable'' \<longleftrightarrow>
         (v1 = None \<or> v2 = None) \<and> v1 \<noteq> Some False \<and> v2 \<noteq> Some False) \<and>
      snd (fst r) \<in> set EFFECTS \<and> (may_retry_effect (snd (fst r)) \<longleftrightarrow> snd (fst r) = ''confirmed'') \<and>
      world c' = snd s2"
  by (simp add: verify_state_def STABLE_SAMPLES_def numeral_2_eq_2 unfold_pairs ladder_verdict_def
      EFFECTS_def may_retry_effect_def NO_RETRY_EFFECTS_def)

lemma screen_hash_count:
  "snd (the (screen_hashes (snd (screen_hash sha dumps data target s c)) (s @ ''|'' @ dumps (py_or target (JObj [])))))
     = (case screen_hashes c (s @ ''|'' @ dumps (py_or target (JObj []))) of
          Some (d, n) \<Rightarrow> if d = sha data then n + 1 else 1 | None \<Rightarrow> 1)"
  by (auto simp: screen_hash_def unfold_pairs split: option.splits)

fun screen_run ::
  "('b \<Rightarrow> string) \<Rightarrow> (json \<Rightarrow> string) \<Rightarrow> json \<Rightarrow> string \<Rightarrow> 'b list \<Rightarrow> 'w control \<Rightarrow> 'w control" where
  "screen_run sha dumps target s [] c = c"
| "screen_run sha dumps target s (d # ds) c =
     screen_run sha dumps target s ds (snd (screen_hash sha dumps d target s c))"

lemma screen_run_replicate:
  assumes "screen_hashes c (s @ ''|'' @ dumps (py_or target (JObj []))) = Some (sha d, n)"
  shows "screen_hashes (screen_run sha dumps target s (replicate k d) c)
    (s @ ''|'' @ dumps (py_or target (JObj []))) = Some (sha d, n + k)"
  using assms by (induction k arbitrary: c n) (auto simp: screen_hash_def unfold_pairs)

text \<open>Screen repetition is counted per session and target: the n-th identical frame in a row is
  reported unchanged exactly when n is above two, whatever was seen before the first of them
  differed, and a different frame starts over.\<close>

theorem screen_unchanged_after_two:
  assumes "sha d' \<noteq> sha d"
  shows "snd (fst (screen_hash sha dumps d target s
      (screen_run sha dumps target s (d' # replicate k d) c))) \<longleftrightarrow> k \<ge> 2"
proof -
  let ?key = "s @ ''|'' @ dumps (py_or target (JObj []))"
  let ?c1 = "snd (screen_hash sha dumps d' target s c)"
  obtain m where m: "screen_hashes ?c1 ?key = Some (sha d', m)"
    by (auto simp: screen_hash_def unfold_pairs)
  show ?thesis
  proof (cases k)
    case 0
    then show ?thesis using m assms by (simp add: screen_hash_def unfold_pairs SCREEN_UNCHANGED_LIMIT_def)
  next
    case (Suc j)
    let ?c2 = "snd (screen_hash sha dumps d target s ?c1)"
    have c2: "screen_hashes ?c2 ?key = Some (sha d, 1)"
      using m assms by (simp add: screen_hash_def unfold_pairs)
    have "screen_hashes (screen_run sha dumps target s (replicate j d) ?c2) ?key = Some (sha d, 1 + j)"
      by (rule screen_run_replicate [where sha = sha and dumps = dumps and d = d and n = 1]) (rule c2)
    then show ?thesis using Suc
      by (simp add: screen_hash_def [of sha dumps d target s "screen_run sha dumps target s (replicate j d) ?c2"]
          unfold_pairs SCREEN_UNCHANGED_LIMIT_def Suc_le_eq)
  qed
qed

theorem screen_unchanged_after_two_witness:
  "snd (fst (screen_hash id (\<lambda>_. ''t'') ''B'' JNull ''s''
      (screen_run id (\<lambda>_. ''t'') JNull ''s'' (''A'' # replicate 2 ''B'')
         (new_control (new_lease No_File ''t0'') ()))))"
  using screen_unchanged_after_two [of id "''A''" "''B''" "\<lambda>_. ''t''" JNull "''s''" 2] by simp

end
