(* ===== verification/Recovery_Policy.thy ===== *)
theory Recovery_Policy
  imports Py_Values
begin

section \<open>Recovery policy: one error code, one decision\<close>

text \<open>
  \<open>agent_core/recovery_policy.py\<close>: the table from error codes to recovery classes, the table of
  the host (computer use) codes with their own action and sentence, and \<open>decision\<close>, which
  says whether a failed request may be sent again. A class and an action are datatypes with the
  code's names; a code is a string. The sentences are the source's, transliterated.
\<close>

datatype rclass =
    Transport | Provider_Stream | Provider_Empty | Output_Limit | Tool_Validation
  | Tool_Unknown | Rights_Budget | No_Progress | Capability_Gap | Unknown

datatype raction =
    Retry_Backoff | Recover_Model | Keep_Partial | Fix_Input | Inspect_Only
  | Checkpoint_And_Ask | Change_Approach | Stop

definition RETRY_ACTIONS :: "raction list" where
  "RETRY_ACTIONS = [Retry_Backoff, Recover_Model]"

subsection \<open>The tables\<close>

definition CODES_own :: "(string \<times> rclass) list" where
  "CODES_own = [
     (''UPSTREAM_UNREACHABLE'', Transport),
     (''UPSTREAM_HTTP_408'', Transport),
     (''UPSTREAM_HTTP_409'', Transport),
     (''UPSTREAM_HTTP_425'', Transport),
     (''UPSTREAM_HTTP_429'', Transport),
     (''UPSTREAM_HTTP_500'', Transport),
     (''UPSTREAM_HTTP_502'', Transport),
     (''UPSTREAM_HTTP_503'', Transport),
     (''UPSTREAM_HTTP_504'', Transport),
     (''RATE_LIMIT'', Transport),
     (''CAPACITY'', Transport),
     (''ROUTER_TIMEOUT'', Transport),
     (''ROUTER_HTTP_429'', Transport),
     (''ROUTER_HTTP_502'', Transport),
     (''ROUTER_HTTP_503'', Transport),
     (''ROUTER_HTTP_504'', Transport),
     (''ROUTER_UNREACHABLE'', Transport),
     (''UPSTREAM_TIMEOUT'', Transport),
     (''UPSTREAM_RETRY_EXHAUSTED'', Transport),
     (''PROVIDER_STREAM_INTERRUPTED'', Provider_Stream),
     (''PROVIDER_ERROR'', Provider_Stream),
     (''PROVIDER_COMPLETION_FAILED'', Provider_Stream),
     (''TURN_EMPTY_STREAM'', Provider_Stream),
     (''PROVIDER_REASONING_ONLY'', Provider_Empty),
     (''TURN_EMPTY_RESPONSE'', Provider_Empty),
     (''TURN_EMPTY_RESPONSE_RETRY'', Provider_Empty),
     (''PROVIDER_REFUSAL'', Provider_Empty),
     (''UPSTREAM_REFUSAL'', Provider_Empty),
     (''PROVIDER_OUTPUT_TRUNCATED'', Output_Limit),
     (''ANSWER_TOO_LONG'', Output_Limit),
     (''OUTPUT_LIMIT'', Output_Limit),
     (''STEP_BUDGET_EXHAUSTED'', Output_Limit),
     (''DEADLINE_EXCEEDED'', Output_Limit),
     (''TOOL_ARG_INVALID'', Tool_Validation),
     (''TOOL_NOT_STARTED'', Tool_Validation),
     (''TOOL_REPLAY_PENDING'', Tool_Validation),
     (''TURN_TOOL_BATCH'', Tool_Validation),
     (''HARNESS_CONTRACT_INVALID'', Tool_Validation),
     (''HARNESS_SCHEMA_UNSUPPORTED'', Tool_Validation),
     (''TASK_SCHEMA_UNSUPPORTED'', Tool_Validation),
     (''TASK_DELEGATE_ROLE_MISMATCH'', Tool_Validation),
     (''TASK_SURFACE_NO_RUN'', Tool_Validation),
     (''TASK_ALIAS_CONFLICT'', Tool_Validation),
     (''TASK_INVOCATION_CONFLICT'', Tool_Validation),
     (''TASK_MESSAGE_CONFLICT'', Tool_Validation),
     (''DECISION_INVALID'', Tool_Validation),
     (''JOB_OWNERSHIP_REQUIRED'', Tool_Validation),
     (''JOB_EXECUTOR_UNSUPPORTED'', Tool_Validation),
     (''JOB_PREDICATE_UNSUPPORTED'', Tool_Validation),
     (''JOB_HANDLE_STALE'', Tool_Validation),
     (''TASK_UNKNOWN'', Tool_Validation),
     (''TASK_RUN_UNKNOWN'', Tool_Validation),
     (''TASK_CHILD_UNKNOWN'', Tool_Validation),
     (''TASK_ATTEMPT_UNKNOWN'', Tool_Validation),
     (''JOB_UNKNOWN'', Tool_Validation),
     (''TOOL_NOT_PERMITTED'', Rights_Budget),
     (''JOB_ADMISSION_REQUIRED'', Rights_Budget),
     (''TASK_OWNER_MISMATCH'', Rights_Budget),
     (''TASK_REVISION_CONFLICT'', Rights_Budget),
     (''TOOL_INTERRUPTED_UNSAFE'', Tool_Unknown),
     (''WORK_SHIP_IN_PROGRESS'', Tool_Unknown),
     (''WORK_CAPABILITY_REVOKED'', Rights_Budget),
     (''WORK_SCOPE_ARTIFACT_ONLY'', Rights_Budget),
     (''WORK_SCOPE_TERMINAL_MUTATING'', Rights_Budget),
     (''WORK_SCOPE_DELEGATE_ROLE'', Rights_Budget),
     (''WORK_DECISION_KEYS_INVALID'', Rights_Budget),
     (''WORK_RESUME_BUSY'', Rights_Budget),
     (''WORK_RESUME_NO_PROGRESS'', Rights_Budget),
     (''TASK_ATTEMPT_BINDING'', Rights_Budget),
     (''TASK_ATTEMPT_CONFLICT'', Rights_Budget),
     (''WORK_NO_PROGRESS'', No_Progress),
     (''WORK_PRODUCER_INCOMPLETE'', No_Progress),
     (''WORK_CHECK_EXHAUSTED'', No_Progress),
     (''WORK_REPAIR_UNDIAGNOSED'', No_Progress),
     (''WORK_REPAIR_LIMIT'', No_Progress),
     (''WORK_LOOKUP_UNVERIFIED'', No_Progress),
     (''WEB_SEARCH_UNAVAILABLE'', Capability_Gap),
     (''WEB_SEARCH_EMPTY'', No_Progress)]"

definition host_rights :: "(string \<times> rclass \<times> raction \<times> string) list" where
  "host_rights = [
     (''HUMAN_HAS_CONTROL'', Rights_Budget, Checkpoint_And_Ask,
      ''nguoi that dang giu quyen dieu khien: KHONG gui thao tac nao; cho quyen tra lai roi chup lai man hinh''),
     (''HUMAN_TOOK_OVER'', Rights_Budget, Checkpoint_And_Ask,
      ''nguoi that vua gianh lai quyen dieu khien: dung thao tac dang lam, cho quyen tra lai roi chup lai''),
     (''DESKTOP_LOCKED'', Rights_Budget, Checkpoint_And_Ask,
      ''man hinh dang khoa (hoac hop thoai bao mat): khong gui input; mo khoa roi chup lai va tiep tuc'')]"

definition host_permissions :: "(string \<times> rclass \<times> raction \<times> string) list" where
  "host_permissions = [
     (''PERMISSION_DENIED'', Rights_Budget, Checkpoint_And_Ask,
      ''quyen/muc hien tai tu choi viec nay: xin chu nha mo quyen hoac doi cach; khong lap y nguyen''),
     (''APPROVAL_REQUIRED'', Rights_Budget, Checkpoint_And_Ask,
      ''chu nha chua cho phep thao tac nay: cho duyet xong (hoac doi cach lam); khong lap y nguyen''),
     (''APPROVAL_DENIED'', Rights_Budget, Checkpoint_And_Ask,
      ''chu nha da tu choi thao tac nay: khong gui lai y nguyen; doi cach hoac hoi ly do''),
     (''APPROVAL_DENIAL_BREAKER'', Rights_Budget, Checkpoint_And_Ask,
      ''mot lan tu choi truoc do da chan vong lap: dung va xin huong khac; khong lach bang cach goi lai''),
     (''PATH_OUTSIDE_WORKSPACE'', Rights_Budget, Checkpoint_And_Ask,
      ''duong dan ra ngoai workspace: chuyen vao trong workspace hoac xin chu nha doi pham vi; dung thu lai y nguyen''),
     (''FILE_PERMISSION_DENIED'', Rights_Budget, Checkpoint_And_Ask,
      ''he dieu hanh tu choi quyen tren tep/duong dan nay: xin chu nha mo quyen (hoac chuyen sang duong dan khac); dung lap y nguyen''),
     (''OS_PERMISSION_REQUIRED'', Rights_Budget, Checkpoint_And_Ask,
      ''he dieu hanh dang chan thao tac nay: can chu nha cap quyen cho BoxFox; doi cach, dung lap''),
     (''UIPI_BLOCKED'', Rights_Budget, Checkpoint_And_Ask,
      ''cua so dich chay quyen cao hon BoxFox nen input bi chan: doi dich hoac xin chu nha ha quyen ung dung''),
     (''SESSION_NOT_INTERACTIVE'', Rights_Budget, Checkpoint_And_Ask,
      ''phien desktop khong tuong tac: CUA khong chay duoc o day; dung va bao chu nha'')]"

definition host_stale_target :: "(string \<times> rclass \<times> raction \<times> string) list" where
  "host_stale_target = [
     (''ELEMENT_STALE'', Tool_Unknown, Inspect_Only,
      ''phan tu da cu so voi lan soi: chup lai roi chon lai dich; khong dung lai toa do cu''),
     (''SOURCE_CHANGED'', Tool_Unknown, Inspect_Only,
      ''cua so doi vi tri/kich thuoc/noi dung sau khi soi: chup lai roi chon lai; ma cua so cu khong dung lai duoc''),
     (''SOURCE_IDENTITY_UNAVAILABLE'', Tool_Unknown, Inspect_Only,
      ''khong xac dinh duoc cua so nguon: chup lai roi chon lai dich; dung doan''),
     (''WINDOW_IDENTITY_UNAVAILABLE'', Tool_Unknown, Inspect_Only,
      ''khong doc duoc danh tinh cua so (tieu de/tien trinh): chup lai roi chon lai dich''),
     (''window_identity_unavailable'', Tool_Unknown, Inspect_Only,
      ''khong doc duoc danh tinh cua so (tieu de/tien trinh): chup lai roi chon lai dich''),
     (''WINDOW_MINIMIZED'', Tool_Unknown, Inspect_Only,
      ''cua so dich dang thu nho: mo lai (hoac chon cua so khac) roi chup lai; dung gui toa do cu''),
     (''WINDOW_CLOAKED'', Tool_Unknown, Inspect_Only,
      ''cua so dich bi an khoi man hinh: hien lai hoac chon cua so khac roi chup lai''),
     (''TARGET_UNKNOWN'', Tool_Unknown, Inspect_Only,
      ''khong tim thay cua so/diem dich (co the da dong): chup lai va chon lai dich; ma cua so cu vo hieu''),
     (''no_window_at_point'', Tool_Unknown, Inspect_Only,
      ''khong co cua so nao tai diem nay: chup lai roi chon lai diem''),
     (''ambiguous_target'', Tool_Unknown, Inspect_Only,
      ''nhieu cua so/tab cung khop: chon lai bang windowId cu the; dung doan''),
     (''uia_no_element'', Tool_Unknown, Inspect_Only,
      ''khong co phan tu UIA tai diem nay: chup lai roi chon lai diem''),
     (''no_node_at_point'', Tool_Unknown, Inspect_Only,
      ''khong co phan tu DOM tai diem nay: chup lai roi chon lai diem''),
     (''outside_viewport'', Tool_Unknown, Inspect_Only,
      ''diem nam ngoai vung noi dung trang: chon lai diem trong trang (khong phai thanh tieu de/tab/toolbar)''),
     (''frame_extents_unknown'', Tool_Unknown, Inspect_Only,
      ''khong doc duoc vien trang tri cua so: chup lai roi chon lai; dung doan vung trang tri''),
     (''viewport_origin_unknown'', Tool_Unknown, Inspect_Only,
      ''khong suy duoc goc vung noi dung web: doi cach soi (chup lai hoac doi cua so)''),
     (''no_cdp_target'', Tool_Unknown, Inspect_Only,
      ''khong tim duoc ket noi trinh duyet khop cua so: chup lai/chon lai tab; kiem tra trinh duyet con mo''),
     (''devtools_docked'', Tool_Unknown, Inspect_Only,
      ''DevTools dang ghim trong cua so nen khong suy duoc vung trang: dong hoac tach DevTools roi soi lai'')]"

definition host_one_beat :: "(string \<times> rclass \<times> raction \<times> string) list" where
  "host_one_beat = [
     (''CONTROL_BUSY'', Tool_Unknown, Inspect_Only,
      ''dang co luot dieu khien khac giu mutex: cho mot nhip roi thu lai MOT lan; khong lap don dap''),
     (''cdp_timeout'', Tool_Unknown, Inspect_Only,
      ''truy van trinh duyet qua thoi gian cho: thu lai mot lan voi cach khac; khong lap y nguyen''),
     (''cdp_unreachable'', Tool_Unknown, Inspect_Only,
      ''khong ket noi duoc trinh duyet (co the dang khoi dong lai): cho roi thu lai mot lan; con hong thi doi cach''),
     (''extract_failed'', Tool_Unknown, Inspect_Only,
      ''trich xuat du lieu phan tu that bai: thu lai mot lan roi doi cach; khong lap y nguyen''),
     (''uia_timeout'', Tool_Unknown, Inspect_Only,
      ''UI Automation khong tra loi kip: thu lai mot lan; khong lap y nguyen''),
     (''uia_provider_hang'', Tool_Unknown, Inspect_Only,
      ''nha cung cap UI Automation cua ung dung bi treo: doi cach (doi dich hoac dung DOM); dung cho vo han''),
     (''UIA_TIMEOUT'', Tool_Unknown, Inspect_Only,
      ''truy van UI Automation qua thoi gian cho: thu lai mot lan voi cach khac; khong lap y nguyen''),
     (''UIA_PROVIDER_HANG'', Tool_Unknown, Inspect_Only,
      ''nha cung cap UI Automation bi treo: doi cach, dung lap y nguyen''),
     (''INPUT_SHORT_SEND'', Tool_Unknown, Inspect_Only,
      ''chi gui duoc mot phan input: chup lai xem thuc trang roi gui not phan thieu; dung gui lai ca chuoi''),
     (''POST_MESSAGE_UNSUPPORTED'', Tool_Unknown, Inspect_Only,
      ''cua so khong nhan POST_MESSAGE: doi cach gui (SendInput) hoac doi dich; khong lap y nguyen'')]"

definition host_bad_arguments :: "(string \<times> rclass \<times> raction \<times> string) list" where
  "host_bad_arguments = [
     (''TARGET_REQUIRED'', Tool_Validation, Fix_Input,
      ''phien chua chon dich CUA: chon mot cua so hoac ca may roi goi lai MOT lan''),
     (''TARGET_AMBIGUOUS'', Tool_Validation, Fix_Input,
      ''nhieu cua so cung khop ten: chi dinh windowId cu the roi goi lai mot lan''),
     (''CUA_MACHINE_SCOPE_REQUIRED'', Tool_Validation, Fix_Input,
      ''dich ca may can pham vi quyen `machine`: xin chu nha doi pham vi hoac chon mot cua so''),
     (''UNSUPPORTED_ACTION'', Tool_Validation, Fix_Input,
      ''hanh dong chua co tren duong host: dung hanh dong trong enum (click/type/key/scroll/drag/hold/stroke) roi goi lai mot lan''),
     (''UNSUPPORTED_IN_HOST_MODE'', Tool_Validation, Fix_Input,
      ''cong cu nay chua co tren host: doi sang cong cu khac; dung goi lai y nguyen''),
     (''HOST_REQUEST_UNSUPPORTED'', Tool_Validation, Fix_Input,
      ''duong request chua co ban host: dung duong khac; dung lap y nguyen''),
     (''TOOL_ARGUMENT_INVALID'', Tool_Validation, Fix_Input,
      ''tham so sai kieu/gia tri: sua dung tham so roi goi lai mot lan; khong lap nguyen payload''),
     (''FILE_NOT_FOUND'', Tool_Validation, Fix_Input,
      ''khong tim thay tep/duong dan: doc `error`, xac dinh dung duong dan (liet ke thu muc neu can) roi goi lai MOT lan''),
     (''COMMAND_EXIT_NONZERO'', Tool_Validation, Fix_Input,
      ''lenh da chay va thoat khac 0: doc `content`/`exit_code` de sua lenh; day KHONG phai loi schema'')]"

definition host_missing_capability :: "(string \<times> rclass \<times> raction \<times> string) list" where
  "host_missing_capability = [
     (''CUA_UNAVAILABLE'', Capability_Gap, Checkpoint_And_Ask,
      ''may nay khong co CUA (thieu nen tang/cau hinh): doc `error` de biet goi can cai; dung va bao chu nha''),
     (''UIA_UNAVAILABLE'', Capability_Gap, Checkpoint_And_Ask,
      ''khong truy cap duoc UI Automation (thieu thanh phan UIA): dung nhanh DOM neu duoc hoac bao chu nha; dung lap''),
     (''uia_unavailable'', Capability_Gap, Checkpoint_And_Ask,
      ''khong truy cap duoc UI Automation tren may/ung dung nay: dung nhanh DOM neu duoc hoac bao chu nha; dung lap''),
     (''LAUNCH_FAILED'', Capability_Gap, Checkpoint_And_Ask,
      ''khong mo duoc ung dung: kiem tra ten/duong dan app hoac nho chu nha mo san; khong lap y nguyen''),
     (''CAPTURE_FAILED'', Capability_Gap, Checkpoint_And_Ask,
      ''khong chup duoc man hinh/cua so: kiem tra nen tang va cua so con song roi thu lai mot lan; con hong thi doi cach''),
     (''PASSWORD_FIELD_REFUSED'', Capability_Gap, Checkpoint_And_Ask,
      ''o mat khau - luat cam doc/dieu khien: dung thao tac nay, de chu nha tu nhap'')]"

definition host_dead_ends :: "(string \<times> rclass \<times> raction \<times> string) list" where
  "host_dead_ends = [
     (''COMMAND_TIMEOUT'', No_Progress, Change_Approach,
      ''lenh vuot tran thoi gian va da bi dung: chia nho lenh hoac doi cach; dung chay lai y nguyen''),
     (''HOST_TOOL_FAILED'', No_Progress, Change_Approach,
      ''loi bat ngo cua cong cu host: doc `error`, doi cach; dung lap y nguyen'')]"

definition host_extra :: "(string \<times> rclass \<times> raction \<times> string) list" where
  "host_extra = [
     (''TARGET_KIND_INVALID'', Tool_Validation, Fix_Input,
      ''dich sai kieu: dung dung kind (mot cua so / ca may / vung) roi goi lai mot lan''),
     (''INSPECT_FAILED'', Tool_Unknown, Inspect_Only,
      ''soi phan tu that bai bat ngo: doc `error`, chup lai roi chon lai; khong lap y nguyen''),
     (''INSPECT_POINT_INVALID'', Tool_Validation, Fix_Input,
      ''diem soi ngoai vung chup (hoac toa do khong phai so nguyen): chon lai diem trong vung chup roi goi lai MOT lan'')]"

definition HOST_ADVICE :: "(string \<times> rclass \<times> raction \<times> string) list" where
  "HOST_ADVICE = host_rights @ host_permissions @ host_stale_target @ host_one_beat @
     host_bad_arguments @ host_missing_capability @ host_dead_ends @ host_extra"

text \<open>\<open>CODES.update(...)\<close>: the host rows replace rows of the same code.\<close>

definition CODES :: "(string \<times> rclass) list" where
  "CODES = map (\<lambda>(c, k, a, r). (c, k)) HOST_ADVICE @ CODES_own"

fun default_action :: "rclass \<Rightarrow> raction" where
  "default_action Transport = Retry_Backoff"
| "default_action Provider_Stream = Recover_Model"
| "default_action Provider_Empty = Recover_Model"
| "default_action Output_Limit = Keep_Partial"
| "default_action Tool_Validation = Fix_Input"
| "default_action Tool_Unknown = Inspect_Only"
| "default_action Rights_Budget = Checkpoint_And_Ask"
| "default_action No_Progress = Change_Approach"
| "default_action Capability_Gap = Checkpoint_And_Ask"
| "default_action Unknown = Checkpoint_And_Ask"

definition KEEPS_PARTIAL :: "rclass list" where
  "KEEPS_PARTIAL = [Provider_Stream, Provider_Empty, Output_Limit, Tool_Unknown, No_Progress]"

definition TIMEOUT_CODES :: "string list" where
  "TIMEOUT_CODES = [''UPSTREAM_TIMEOUT'']"

definition EXHAUSTED_CODES :: "string list" where
  "EXHAUSTED_CODES = [''UPSTREAM_RETRY_EXHAUSTED'']"

definition KEEPS_PARTIAL_CODES :: "string list" where
  "KEEPS_PARTIAL_CODES = TIMEOUT_CODES @ EXHAUSTED_CODES"

definition TRANSPORT_RETRIES :: int where
  "TRANSPORT_RETRIES = 3"

definition EMPTY_RETRIES :: int where
  "EMPTY_RETRIES = 1"

subsection \<open>Classification and decision\<close>

definition classify_code :: "string \<Rightarrow> rclass" where
  "classify_code code =
     (case map_of CODES (strip code) of None \<Rightarrow> Unknown | Some k \<Rightarrow> k)"

definition host_advice :: "string \<Rightarrow> (rclass \<times> raction \<times> string) option" where
  "host_advice code = map_of HOST_ADVICE (strip code)"

record recovery =
  rec_code :: string
  rec_class :: rclass
  rec_action :: raction
  rec_replay :: bool
  rec_keeps_partial :: bool
  rec_checkpoint :: bool
  rec_reason :: string

definition may_retry :: "recovery option \<Rightarrow> bool" where
  "may_retry d = (case d of None \<Rightarrow> False | Some r \<Rightarrow> rec_action r \<in> set RETRY_ACTIONS)"

text \<open>
  The branch of \<open>decision\<close> for a class without a host row: the action and the sentence. The
  flag \<open>replay\<close> starts \<open>False\<close> and every assignment in the source keeps it so.
\<close>

definition decide_transport :: "string \<Rightarrow> int \<Rightarrow> json \<Rightarrow> raction \<times> string" where
  "decide_transport code attempts retry_after =
     (if code \<in> set TIMEOUT_CODES then
        (Checkpoint_And_Ask,
         ''het cua so thoi gian: giu phan da co va de chu nha quyet dinh mo cua so moi; '' @
         ''khong thu lai trong cung luot (goi lai bat dau tu 0)'')
      else if code \<in> set EXHAUSTED_CODES then
        (Checkpoint_And_Ask,
         ''router da thu lai va bo cuoc: giu phan da co, hoi chu nha; '' @
         ''khong xoay key va khong replay tool da chay'')
      else if attempts \<ge> TRANSPORT_RETRIES then
        (Checkpoint_And_Ask,
         ''da thu lai '' @ int_str attempts @ '' lan ma van loi ket noi: dung va hoi chu nha; '' @
         ''khong xoay key va khong replay tool da chay'')
      else
        let reason = ''loi tam thoi: backoff roi thu lai request; khong xoay key va khong replay tool da chay''
        in (Retry_Backoff,
            (if retry_after \<noteq> JNull
             then reason @ '' (Retry-After='' @ py_str retry_after @ '')'' else reason)))"

fun decide_class :: "rclass \<Rightarrow> string \<Rightarrow> int \<Rightarrow> json \<Rightarrow> raction \<times> string" where
  "decide_class Transport code attempts retry_after = decide_transport code attempts retry_after"
| "decide_class Provider_Stream code attempts retry_after =
     (default_action Provider_Stream,
      ''stream thieu terminal: giu phan da co, goi lai model co gioi han; khong replay tool da thuc thi'')"
| "decide_class Provider_Empty code attempts retry_after =
     (if attempts < EMPTY_RETRIES
      then (Recover_Model, ''phan hoi rong: thu lai dung mot lan'')
      else (Stop, ''reasoning-only/tu choi/rong lap lai: dung va xin doi route theo quyen; '' @
                  ''khong lach tu choi bang vong retry''))"
| "decide_class Output_Limit code attempts retry_after =
     (default_action Output_Limit,
      ''het cho output: giu artifact mot phan, xin phan bo them hoac chuyen sang doc theo trang'')"
| "decide_class Tool_Validation code attempts retry_after =
     (default_action Tool_Validation,
      ''input sai schema: sua truong/doi cach goi; khong lap nguyen payload da bi tu choi'')"
| "decide_class Tool_Unknown code attempts retry_after =
     (default_action Tool_Unknown,
      ''mutation co ket qua khong ro: chi soi workspace/provider bang tool an toan, '' @
      ''ghi quyet dinh reconcile; TUYET DOI khong chay lai mutation'')"
| "decide_class Rights_Budget code attempts retry_after =
     (default_action Rights_Budget,
      ''quyen/ngan sach/epoch/pham vi da doi: checkpoint phan con lai va de chu nha quyet dinh; '' @
      ''khong retry de vuot consent'')"
| "decide_class No_Progress code attempts retry_after =
     (default_action No_Progress,
      ''khong co tien trien that: doi cach/cau hoi, luu checkpoint; khong lap lai vo han'')"
| "decide_class Capability_Gap code attempts retry_after =
     (default_action Capability_Gap,
      ''backend tim kiem thieu cau hinh hoac dang hong: dung lap truy van; dung nguon khac, '' @
      ''hoac bao khoang trong cho chu nha'')"
| "decide_class Unknown code attempts retry_after =
     (default_action Unknown, ''khong ro loai loi: dung o checkpoint va hoi chu nha'')"

definition decision :: "string \<Rightarrow> bool \<Rightarrow> bool \<Rightarrow> int \<Rightarrow> json \<Rightarrow> recovery" where
  "decision code replay_safe has_receipt attempts retry_after =
     (let (cls, action, reason) =
            (case host_advice code of
               Some row \<Rightarrow> row
             | None \<Rightarrow> (classify_code code,
                         decide_class (classify_code code) code attempts retry_after));
          replay = False;
          replay = (if cls = Tool_Unknown \<and> replay_safe then False else replay);
          reason = (if cls = Tool_Validation \<and> has_receipt
                    then ''bien nhan da co: dung lai ket qua da commit, khong chay lai'' else reason)
      in \<lparr>rec_code = code, rec_class = cls, rec_action = action, rec_replay = replay,
          rec_keeps_partial = (cls \<in> set KEEPS_PARTIAL \<or> code \<in> set KEEPS_PARTIAL_CODES),
          rec_checkpoint = (action \<noteq> Retry_Backoff), rec_reason = reason\<rparr>)"

definition transient_code :: "string \<Rightarrow> bool" where
  "transient_code code =
     (if code \<in> set TIMEOUT_CODES \<or> code \<in> set EXHAUSTED_CODES then False
      else classify_code code = Transport)"

definition keeps_partial :: "string \<Rightarrow> bool" where
  "keeps_partial code =
     (classify_code code \<in> set KEEPS_PARTIAL \<or> code \<in> set KEEPS_PARTIAL_CODES)"


subsection \<open>What the tables say\<close>

text \<open>Every host row has the default action of its class and is neither transport nor unknown.\<close>

definition host_row_ok :: "string \<times> rclass \<times> raction \<times> string \<Rightarrow> bool" where
  "host_row_ok row =
     (case row of (c, k, a, r) \<Rightarrow>
        a = default_action k \<and> k \<noteq> Transport \<and> k \<noteq> Unknown \<and> a \<notin> set RETRY_ACTIONS)"

lemma host_rows_ok: "list_all host_row_ok HOST_ADVICE"
  by code_simp

lemma host_adviceD:
  "host_advice code = Some (k, a, r) \<Longrightarrow>
     a = default_action k \<and> k \<noteq> Transport \<and> k \<noteq> Unknown \<and> a \<notin> set RETRY_ACTIONS"
  using host_rows_ok unfolding host_advice_def
  by (force dest!: map_of_SomeD simp: list_all_iff host_row_ok_def)

lemma map_of_class:
  "map_of (map (\<lambda>(c, k, a, r). (c, k)) rows) c = map_option fst (map_of rows c)"
  by (induction rows) auto

lemma classify_host:
  "classify_code code =
     (case host_advice code of Some row \<Rightarrow> fst row
      | None \<Rightarrow> (case map_of CODES_own (strip code) of None \<Rightarrow> Unknown | Some k \<Rightarrow> k))"
  by (simp add: classify_code_def CODES_def host_advice_def map_add_def map_of_class
      split: option.splits)

text \<open>The decision in terms of the row or class it takes.\<close>

lemma decision_host:
  "host_advice code = Some (k, a, r) \<Longrightarrow>
     rec_class (decision code s h n w) = k \<and> rec_action (decision code s h n w) = a"
  by (simp add: decision_def)

lemma decision_own:
  "host_advice code = None \<Longrightarrow>
     rec_class (decision code s h n w) = classify_code code \<and>
     rec_action (decision code s h n w) = fst (decide_class (classify_code code) code n w)"
  by (cases "decide_class (classify_code code) code n w") (simp add: decision_def)

lemma decision_class: "rec_class (decision code s h n w) = classify_code code"
  by (cases "host_advice code") (auto simp: decision_own decision_host classify_host)

lemma decision_replay: "\<not> rec_replay (decision code s h n w)"
  by (simp add: decision_def split: prod.splits)

lemma decision_keeps_partial: "rec_keeps_partial (decision code s h n w) = keeps_partial code"
  using decision_class [of code s h n w]
  by (simp add: decision_def keeps_partial_def Let_def split: prod.splits)

lemma decision_checkpoint:
  "rec_checkpoint (decision code s h n w) \<longleftrightarrow> rec_action (decision code s h n w) \<noteq> Retry_Backoff"
  by (simp add: decision_def Let_def split: prod.splits)

lemma no_row_in_host: "classify_code code \<in> {Transport, Provider_Stream, Provider_Empty, Unknown} \<Longrightarrow>
    host_advice code = None"
  by (cases "host_advice code")
    (auto simp: classify_host RETRY_ACTIONS_def dest!: host_adviceD)

text \<open>Exactly when the decision lets the request be sent again.\<close>

lemma may_retry_iff:
  "may_retry (Some (decision code s h n w)) \<longleftrightarrow>
     (case classify_code code of
        Transport \<Rightarrow> code \<notin> set TIMEOUT_CODES \<and> code \<notin> set EXHAUSTED_CODES \<and> n < TRANSPORT_RETRIES
      | Provider_Stream \<Rightarrow> True
      | Provider_Empty \<Rightarrow> n < EMPTY_RETRIES
      | _ \<Rightarrow> False)"
proof (cases "host_advice code")
  case None
  then show ?thesis
    using decision_own [OF None, of s h n w]
    by (cases "classify_code code")
      (auto simp: may_retry_def RETRY_ACTIONS_def decide_transport_def Let_def)
next
  case (Some row)
  obtain k a r where row: "row = (k, a, r)" by (cases row)
  have adv: "a = default_action k" "a \<notin> set RETRY_ACTIONS"
    using host_adviceD Some row by auto
  have "\<not> may_retry (Some (decision code s h n w))"
    using Some row adv by (simp add: may_retry_def decision_host)
  moreover have "classify_code code = k" using Some row by (simp add: classify_host)
  ultimately show ?thesis using adv
    by (cases k) (auto simp: RETRY_ACTIONS_def)
qed

end
