(* ===== verification/Failures.thy ===== *)
theory Failures
  imports Recovery_Policy
begin

section \<open>Failures: classification, retry advice and the retry loop\<close>

text \<open>
  \<open>agent_core/failures.py\<close> and the retry loop of \<open>AgentRuntime\<close> that calls it. An exception is
  a record of what the code reads from it: the name of its type, the builtin classes
  \<open>isinstance\<close> finds, its \<open>str\<close> and \<open>repr\<close>, and the attributes \<open>getattr\<close> looks up
  (\<open>JNull\<close> or \<open>None\<close> when absent). Seconds are rationals; the random jitter is an argument
  \<open>u\<close>, one sample of \<open>rng.uniform(-0.2, 0.2)\<close>.
\<close>

datatype exc_kind =
    Timeout_Error | Permission_Error | Connection_Error | Runtime_Error | Value_Error | Lookup_Error

record exc =
  exc_name :: string
  exc_kinds :: "exc_kind list"
  exc_text :: string
  exc_repr :: string
  attr_router_status :: json
  attr_retry_after_ms :: "rat option"
  attr_router_code :: "string option"
  attr_retryable :: json
  attr_code :: json
  attr_log_message :: string

definition is_a :: "exc \<Rightarrow> exc_kind \<Rightarrow> bool" where
  "is_a e k = (k \<in> set (exc_kinds e))"

definition KNOWN_PREFIXES :: "string list" where
  "KNOWN_PREFIXES = [
     ''CONTEXT_LIMIT'', ''THINKING_LEVEL_UNSUPPORTED'', ''SETUP_REQUIRED'',
     ''CHILD_FAILED'', ''PLAN_QUALITY_REJECTED'', ''PLAN_EVAL_REJECTED'',
     ''PLAN_INVALID'', ''PLAN_SLUG_INVALID'', ''PLAN_WRITE_FAILED'',
     ''PLAN_WRITE_CONFLICT'', ''PLAN_VERIFY_INVALID'', ''PLAN_VERIFY_NO_CRITIC'',
     ''PLAN_VERIFY_VERDICT_MISSING'', ''PLAN_VERIFY_VERDICT_MISMATCH'', ''PLAN_APPROVAL_UNVERIFIED'',
     ''DECISION_UNAVAILABLE'', ''DECISION_INVALID'', ''DECISION_NOT_FOUND'',
     ''DECISION_ALREADY_RESOLVED'', ''MAX_STEPS'', ''DEADLINE'',
     ''STEP_BUDGET_EXHAUSTED'', ''DEADLINE_EXCEEDED'', ''ANSWER_TOO_LONG'',
     ''SKILL_TASK_REQUIRED'', ''MISSING_TASK'', ''SESSION_BUSY'',
     ''OUTPUT_LIMIT'', ''ROUTER_'', ''WORKSPACE_'',
     ''WEB_'', ''CLI_'', ''DESIGN_'',
     ''WORK_'', ''INTERVIEW_'']"

definition UNREACHABLE_NAMES :: "string list" where
  "UNREACHABLE_NAMES = [
     ''ServerDisconnectedError'', ''ClientConnectionError'', ''ClientConnectorError'',
     ''ClientOSError'', ''ClientPayloadError'', ''ClientResponseError'',
     ''ConnectError'', ''ConnectTimeout'', ''ConnectionResetError'',
     ''ConnectionAbortedError'', ''ConnectionRefusedError'', ''ReadTimeout'',
     ''ReadError'', ''RemoteProtocolError'', ''TransportError'',
     ''TimeoutException'', ''IncompleteReadError'', ''ServerTimeoutError'']"

subsection \<open>Classification\<close>

text \<open>\<open>CODE_PREFIX_RE\<close>: two or more upper-case segments joined by underscores, a colon, then
  white space or the end. The result is the first group.\<close>

definition upper_alnum :: "char \<Rightarrow> bool" where
  "upper_alnum c = (is_upper c \<or> is_digit c)"

definition code_shape :: "string \<Rightarrow> bool" where
  "code_shape s =
     (let segs = split_on (CHR ''_'') s in
      length segs \<ge> 2 \<and> list_all (\<lambda>w. w \<noteq> [] \<and> list_all upper_alnum w) segs \<and>
      is_upper (hd s))"

definition code_prefix :: "string \<Rightarrow> string option" where
  "code_prefix reason =
     (let code = before_char (CHR '':'') reason; rest = drop (length code) reason in
      if code_shape code \<and> rest \<noteq> [] \<and> (tl rest = [] \<or> is_space (hd (tl rest)))
      then Some code else None)"

definition reason_of :: "exc \<Rightarrow> string" where
  "reason_of e = (let text = strip (exc_text e) in if text \<noteq> [] then text else exc_repr e)"

definition looks_timeout :: "exc \<Rightarrow> bool" where
  "looks_timeout e =
     (if is_a e Timeout_Error then True
      else ends_with ''Timeout'' (exc_name e) \<or>
           exc_name e \<in> set [''TimeoutException'', ''ReadTimeout'', ''ConnectTimeout''])"

definition readable :: "string \<Rightarrow> string" where
  "readable reason =
     (if starts_with ''<'' reason \<or> starts_with ''('' reason \<or> length reason > 200
      then take 200 reason else reason)"

definition EMPTY_STREAM :: string where
  "EMPTY_STREAM = ''Upstream did not return any SSE completion content''"

definition head_code :: "string \<Rightarrow> string" where
  "head_code reason = strip (before_char (CHR '':'') reason)"

definition or_else :: "string \<Rightarrow> string \<Rightarrow> string" where
  "or_else a b = (if a \<noteq> [] then a else b)"

definition http_failure :: "string \<Rightarrow> string \<times> string" where
  "http_failure reason =
     (let head = before_char (CHR '':'') reason;
          status = strip (last (split_ws head));
          code = ''UPSTREAM_HTTP_'' @ (if str_isdigit status then status else ''ERROR'')
      in (code, code @ '': the model router answered '' @ head @ '' ('' @
                or_else (strip (after_char (CHR '':'') reason)) ''no detail'' @ '')''))"

definition turn_failed :: "exc \<Rightarrow> string \<Rightarrow> string \<times> string" where
  "turn_failed e reason =
     (let code = ''TURN_FAILED_'' @ take 32 (filter is_alnum (upper (exc_name e)))
      in (code, code @ '': '' @ exc_name e @ '': '' @ reason))"

definition classify_failure :: "exc \<Rightarrow> string \<times> string" where
  "classify_failure e =
     (let reason = reason_of e; name = exc_name e in
      if is_a e Timeout_Error then
        (''DEADLINE_EXCEEDED'',
         ''DEADLINE_EXCEEDED: the turn ran out of time before an answer was produced'')
      else if \<not> is_a e Timeout_Error \<and> looks_timeout e then
        (''UPSTREAM_TIMEOUT'',
         ''UPSTREAM_TIMEOUT: the model provider did not answer in time ('' @ name @ '': '' @
         readable reason @ '')'')
      else if is_a e Permission_Error then
        (if starts_with ''WORK_SCOPE_'' reason then (head_code reason, reason)
         else (''TOOL_NOT_PERMITTED'', ''TOOL_NOT_PERMITTED: '' @ reason))
      else if name \<in> set UNREACHABLE_NAMES \<or> is_a e Connection_Error then
        (''UPSTREAM_UNREACHABLE'',
         ''UPSTREAM_UNREACHABLE: the model router or provider closed the connection ('' @ name @
         '': '' @ reason @ '')'')
      else if is_a e Runtime_Error \<and> starts_with ''Router HTTP '' reason then http_failure reason
      else case find (\<lambda>p. starts_with p reason) KNOWN_PREFIXES of
        Some p \<Rightarrow> (or_else (head_code reason) p, reason)
      | None \<Rightarrow>
         (if code_prefix reason \<noteq> None \<and>
              (is_a e Value_Error \<or> is_a e Lookup_Error \<or> is_a e Runtime_Error) then
            (the (code_prefix reason), reason)
          else
          if is_a e Value_Error \<and> starts_with EMPTY_STREAM reason then
            (''TURN_EMPTY_STREAM'',
             ''TURN_EMPTY_STREAM: the provider stream ended without any content or tool call'')
          else if is_a e Value_Error \<and>
              starts_with ''Model did not produce a complete non-empty final response'' reason then
            (''TURN_EMPTY_RESPONSE'',
             ''TURN_EMPTY_RESPONSE: the model finished without a usable answer (no text, no tool call)'')
          else if is_a e Value_Error \<and> starts_with ''Tool-call batch exceeds limit'' reason then
            (''TURN_TOOL_BATCH'',
             ''TURN_TOOL_BATCH: the model requested more tool calls in one step than allowed'')
          else case attr_code e of
            JStr c \<Rightarrow> if strip c \<noteq> [] then (strip c, strip c @ '': '' @ reason)
                      else turn_failed e reason
          | _ \<Rightarrow> turn_failed e reason))"

definition describe_failure :: "exc \<Rightarrow> string" where
  "describe_failure e =
     (let (code, message) = classify_failure e in
      if starts_with code message then message else code @ '': '' @ message)"

text \<open>\<open>failure_detail\<close> formats the interpreter's traceback: it is the argument \<open>detail\<close>.\<close>

definition log_safe_failure :: "(exc \<Rightarrow> string) \<Rightarrow> exc \<Rightarrow> string \<times> string \<times> string" where
  "log_safe_failure detail e =
     (let (code, message) = classify_failure e in
      if attr_log_message e \<noteq> [] then (code, attr_log_message e, [])
      else (code, message, detail e))"

subsection \<open>Retry advice\<close>

definition RETRYABLE_STATUS :: "int list" where
  "RETRYABLE_STATUS = [408, 409, 425, 429, 500, 502, 503, 504]"

definition DEFAULT_MAX_RETRIES :: nat where "DEFAULT_MAX_RETRIES = 3"

definition BACKOFF_SECONDS :: "rat list" where "BACKOFF_SECONDS = [1, 4, 12]"

definition RATE_LIMIT_MIN_SECONDS :: rat where "RATE_LIMIT_MIN_SECONDS = 2"

definition RATE_LIMIT_MAX_SECONDS :: rat where "RATE_LIMIT_MAX_SECONDS = 30"

definition RETRY_BUDGET_SECONDS :: rat where "RETRY_BUDGET_SECONDS = 60"

definition MIN_RETRY_WINDOW_SECONDS :: rat where "MIN_RETRY_WINDOW_SECONDS = 5"

definition RATE_LIMIT_CODES :: "string list" where
  "RATE_LIMIT_CODES = [''RATE_LIMIT'', ''CAPACITY'', ''UPSTREAM_HTTP_429'']"

definition rstrip_colons :: "string \<Rightarrow> string" where
  "rstrip_colons s = rev (dropWhile (\<lambda>c. c = CHR '':'') (rev s))"

definition router_status :: "exc \<Rightarrow> int option" where
  "router_status e =
     (case instance_int (attr_router_status e) of
        Some n \<Rightarrow> Some n
      | None \<Rightarrow>
         (let reason = reason_of e in
          if is_a e Runtime_Error \<and> starts_with ''Router HTTP '' reason then
            (let token = (if length (split_ws reason) > 2 then rstrip_colons (split_ws reason ! 2) else [])
             in if str_isdigit token then Some (int (digits_value token)) else None)
          else None))"

definition retry_after_seconds :: "exc \<Rightarrow> rat option" where
  "retry_after_seconds e =
     (case attr_retry_after_ms e of
        Some ms \<Rightarrow> if ms > 0 then Some (ms / 1000) else None
      | None \<Rightarrow> None)"

datatype retry_cause = Rate_Limit | Upstream | Dropped_Stream

definition retry_reason :: "exc \<Rightarrow> int option \<Rightarrow> retry_cause option" where
  "retry_reason e status =
     (let limited = (\<exists>c \<in> set RATE_LIMIT_CODES. attr_router_code e = Some c) in
      if attr_retryable e = JBool False \<and> status \<noteq> Some 429 \<and> \<not> limited then None
      else if status = Some 429 \<or> limited then Some Rate_Limit
      else if is_a e Timeout_Error \<or> looks_timeout e then None
      else case status of
        Some n \<Rightarrow> if n \<in> set RETRYABLE_STATUS then Some Upstream else None
      | None \<Rightarrow>
          if exc_name e \<in> set UNREACHABLE_NAMES \<or> is_a e Connection_Error then Some Dropped_Stream
          else if exc_name e \<in> set [''ReadError'', ''WriteError'', ''PoolTimeout'', ''NetworkError'', ''HTTPError'']
          then Some Dropped_Stream
          else if is_a e Value_Error \<and> starts_with EMPTY_STREAM (reason_of e) then Some Dropped_Stream
          else None)"

definition retry_delay :: "exc \<Rightarrow> retry_cause \<Rightarrow> nat \<Rightarrow> rat \<Rightarrow> rat" where
  "retry_delay e cause attempt u =
     (let base =
            (if cause = Rate_Limit then
               (case retry_after_seconds e of Some a \<Rightarrow> a | None \<Rightarrow> RATE_LIMIT_MIN_SECONDS)
             else BACKOFF_SECONDS ! min attempt (length BACKOFF_SECONDS - 1) * (1 + u));
          (low, high) = (if cause = Rate_Limit then (RATE_LIMIT_MIN_SECONDS, RATE_LIMIT_MAX_SECONDS)
                         else (1/2, RETRY_BUDGET_SECONDS))
      in min (max base low) high)"

record advice =
  adv_code :: string
  adv_message :: string
  adv_reason :: retry_cause
  adv_status :: "int option"
  adv_delay :: rat
  adv_attempt :: nat
  adv_max_retries :: nat
  adv_retry_after :: "rat option"

definition retry_advice ::
  "exc \<Rightarrow> nat \<Rightarrow> rat option \<Rightarrow> rat \<Rightarrow> nat \<Rightarrow> rat \<Rightarrow> advice option" where
  "retry_advice e attempt remaining spent max_retries u =
     (if attempt \<ge> max_retries then None
      else case retry_reason e (router_status e) of
        None \<Rightarrow> None
      | Some cause \<Rightarrow>
         (let delay = retry_delay e cause attempt u in
          if spent + delay > RETRY_BUDGET_SECONDS then None
          else if (case remaining of Some r \<Rightarrow> r < delay + MIN_RETRY_WINDOW_SECONDS | None \<Rightarrow> False)
          then None
          else
            let (code, message) = classify_failure e in
            Some \<lparr>adv_code = code, adv_message = message, adv_reason = cause,
                  adv_status = router_status e, adv_delay = round3 delay,
                  adv_attempt = attempt + 1, adv_max_retries = max_retries,
                  adv_retry_after = retry_after_seconds e\<rparr>))"

datatype stop_cause = Permanent | Attempts | Budget | Window

definition stop_reason ::
  "exc \<Rightarrow> nat \<Rightarrow> rat option \<Rightarrow> rat \<Rightarrow> nat \<Rightarrow> rat \<Rightarrow> stop_cause option" where
  "stop_reason e attempt remaining spent max_retries u =
     (case retry_reason e (router_status e) of
        None \<Rightarrow> Some Permanent
      | Some cause \<Rightarrow>
          if attempt \<ge> max_retries then Some Attempts
          else
            let delay = retry_delay e cause attempt u in
            if spent + delay > RETRY_BUDGET_SECONDS then Some Budget
            else if (case remaining of Some r \<Rightarrow> r < delay + MIN_RETRY_WINDOW_SECONDS | None \<Rightarrow> False)
            then Some Window
            else None)"

definition is_transient :: "exc \<Rightarrow> rat \<Rightarrow> bool" where
  "is_transient e u = (retry_advice e 0 None 0 DEFAULT_MAX_RETRIES u \<noteq> None)"

definition level_refusal :: "exc \<Rightarrow> bool" where
  "level_refusal e =
     (if (case router_status e of Some n \<Rightarrow> n \<notin> {400, 422} | None \<Rightarrow> False) then False
      else
        let message = lower (snd (classify_failure e)) in
        contains ''thinking level is not supported'' message \<or>
        contains ''thinking is not enabled'' message)"

subsection \<open>The router's refusal as an exception\<close>

text \<open>
  \<open>router_refusal(status, content)\<close>: \<open>payload\<close> is the decoded body (\<open>JObj []\<close> when it does not
  parse) and \<open>text\<close> the body as text.
\<close>

definition router_refusal :: "int \<Rightarrow> json \<Rightarrow> string \<Rightarrow> exc" where
  "router_refusal status payload text =
     (let error0 = (case payload of
             JObj d \<Rightarrow> (case dict_get d ''error'' of JObj e \<Rightarrow> e | _ \<Rightarrow> [])
           | _ \<Rightarrow> []);
          message = (if truthy (dict_get error0 ''message'') then py_str (dict_get error0 ''message'')
                     else or_else (strip text) ''Router request failed'');
          shown = ''Router HTTP '' @ int_str status @ '': '' @ message
      in \<lparr>exc_name = ''RuntimeError'', exc_kinds = [Runtime_Error], exc_text = shown,
          exc_repr = ''RuntimeError('' @ repr_str shown @ '')'',
          attr_router_status = JInt status,
          attr_retry_after_ms =
            (case dict_get error0 ''retryAfterMs'' of
               JInt n \<Rightarrow> if n > 0 then Some (of_int n) else None
             | JBool True \<Rightarrow> Some 1
             | JFloat _ q \<Rightarrow> if q > 0 then Some q else None
             | _ \<Rightarrow> None),
          attr_router_code =
            (if truthy (dict_get error0 ''code'') then Some (py_str (dict_get error0 ''code'')) else None),
          attr_retryable =
            (case dict_get error0 ''retryable'' of JBool b \<Rightarrow> JBool b | _ \<Rightarrow> JNull),
          attr_code = JNull, attr_log_message = []\<rparr>)"

subsection \<open>The retry loop of one model step\<close>

text \<open>
  The \<open>while True\<close> of \<open>_run\<close> around \<open>complete_model\<close>. One iteration gets what the world
  answers: the call's result, the jitter samples and the seconds left of the turn at the two places
  the code asks for them. The notices keep their fields; their sentences and the system log are
  left out. \<open>fmt\<close> renders a float.
\<close>

datatype 'r call = Answer 'r | Raise exc

record 'r world_answer =
  the_call :: "'r call"
  jitter :: rat
  left :: "rat option"
  stop_jitter :: rat
  stop_left :: "rat option"

datatype loop_event =
    Thinking_Level_Refused string
  | Recovery_Decision recovery
  | Recovery_Policy_Denied recovery
  | Retry_Exhausted nat int "stop_cause option"
  | Upstream_Retry nat nat int retry_cause

record loop_state =
  attempts :: nat
  retry_waited :: rat
  degraded :: bool
  thinking_level :: string
  loop_events :: "loop_event list"

definition emit :: "loop_event \<Rightarrow> loop_state \<Rightarrow> loop_state" where
  "emit ev s = s\<lparr>loop_events := loop_events s @ [ev]\<rparr>"

definition start_loop :: "string \<Rightarrow> loop_state" where
  "start_loop level = \<lparr>attempts = 0, retry_waited = 0, degraded = False, thinking_level = level,
     loop_events = []\<rparr>"

datatype 'r verdict = Answered 'r | Gave_Up exc

text \<open>The advice after the policy gate: it can only block.\<close>

definition gated_advice ::
  "(rat \<Rightarrow> string) \<Rightarrow> exc \<Rightarrow> nat \<Rightarrow> rat option \<Rightarrow> rat \<Rightarrow> rat \<Rightarrow> advice option \<times> recovery \<times> bool" where
  "gated_advice fmt e n remaining spent u =
     (let adv = retry_advice e n remaining spent DEFAULT_MAX_RETRIES u;
          recovery = decision (fst (classify_failure e)) False False (int n)
            (case adv of Some a \<Rightarrow> JFloat (fmt (adv_delay a)) (adv_delay a) | None \<Rightarrow> JNull);
          denied = (adv \<noteq> None \<and> \<not> may_retry (Some recovery))
      in (if denied then None else adv, recovery, denied))"

definition loop_step ::
  "(rat \<Rightarrow> string) \<Rightarrow> 'r world_answer \<Rightarrow> loop_state \<Rightarrow> 'r verdict option \<times> loop_state" where
  "loop_step fmt w s =
     (case the_call w of
        Answer r \<Rightarrow> (Some (Answered r), s)
      | Raise e \<Rightarrow>
         (if thinking_level s \<noteq> [] \<and> level_refusal e then
            (None, emit (Thinking_Level_Refused (thinking_level s)) (s\<lparr>thinking_level := [], degraded := True\<rparr>))
          else
            let (adv, recovery, denied) =
                  gated_advice fmt e (attempts s) (left w) (retry_waited s) (jitter w);
                s = emit (Recovery_Decision recovery) s;
                s = (if denied then emit (Recovery_Policy_Denied recovery) s else s)
            in case adv of
                 None \<Rightarrow>
                   (Some (Gave_Up e),
                    (if attempts s > 0
                     then emit (Retry_Exhausted (attempts s) (round_half_even (retry_waited s * 1000))
                            (stop_reason e (attempts s) (stop_left w) (retry_waited s)
                               DEFAULT_MAX_RETRIES (stop_jitter w))) s
                     else s))
               | Some a \<Rightarrow>
                   (None, emit (Upstream_Retry (adv_attempt a) (adv_max_retries a)
                              (round_half_even (adv_delay a * 1000)) (adv_reason a))
                            (s\<lparr>attempts := attempts s + 1, retry_waited := retry_waited s + adv_delay a\<rparr>))))"

text \<open>The loop over the world's answers; \<open>None\<close> when they run out before it has ended.\<close>

fun retry_loop ::
  "(rat \<Rightarrow> string) \<Rightarrow> 'r world_answer list \<Rightarrow> loop_state \<Rightarrow> 'r verdict option \<times> loop_state" where
  "retry_loop fmt [] s = (None, s)"
| "retry_loop fmt (w # ws) s =
     (case loop_step fmt w s of
        (Some v, s') \<Rightarrow> (Some v, s')
      | (None, s') \<Rightarrow> retry_loop fmt ws s')"

text \<open>
  The steps of a turn: every step opens the loop anew with no attempts and no waiting, keeping only
  the thinking level of the route; a step that gives up ends the turn. The result lists the seconds
  waited in each step.
\<close>

fun run_steps :: "(rat \<Rightarrow> string) \<Rightarrow> 'r world_answer list list \<Rightarrow> string \<Rightarrow> rat list" where
  "run_steps fmt [] level = []"
| "run_steps fmt (ws # wss) level =
     (let (v, s) = retry_loop fmt ws (start_loop level) in
      retry_waited s #
        (case v of Some (Answered r) \<Rightarrow> run_steps fmt wss (thinking_level s) | _ \<Rightarrow> []))"

end
