(* ===== verification/Retry_Safety.thy ===== *)
theory Retry_Safety
  imports Failures
begin

section \<open>Properties of failure classification, recovery and retry\<close>

text \<open>
  The delay lies in its range, the loop ends after at most four calls for provider failures and one
  more for a refused thinking level, the waits stay inside the budget, the policy gate only blocks,
  and host and unknown codes are never sent again.
\<close>

subsection \<open>Recovery decisions\<close>

text \<open>C23. A recovery decision allows sending a request again exactly for a transport code that is
  neither a spent window nor an exhausted router and has had fewer than three tries, for a cut
  stream, and for the first empty answer; every other class is held. The decision never replays a
  tool, whatever the replay label and the receipts say.\<close>

theorem decision_retries_exactly:
  "\<not> rec_replay (decision code safe receipt n after) \<and>
   (may_retry (Some (decision code safe receipt n after)) \<longleftrightarrow>
     (classify_code code = Transport \<and> code \<noteq> ''UPSTREAM_TIMEOUT'' \<and>
        code \<noteq> ''UPSTREAM_RETRY_EXHAUSTED'' \<and> n < 3) \<or>
     classify_code code = Provider_Stream \<or>
     (classify_code code = Provider_Empty \<and> n < 1))"
  by (cases "classify_code code")
    (simp_all add: decision_replay may_retry_iff TIMEOUT_CODES_def EXHAUSTED_CODES_def
      TRANSPORT_RETRIES_def EMPTY_RETRIES_def)

text \<open>A host (computer use) code keeps the row of its table: the decision has the row's class,
  which is neither transport nor unknown, and the default action of that class; it is held at a
  checkpoint, never sent again and never transient, on any try.\<close>

theorem host_code_never_retried:
  assumes "host_advice code = Some (k, a, r)"
  shows "rec_class (decision code safe receipt n after) = k \<and>
    rec_action (decision code safe receipt n after) = default_action k \<and>
    k \<noteq> Transport \<and> k \<noteq> Unknown \<and> rec_checkpoint (decision code safe receipt n after) \<and>
    \<not> may_retry (Some (decision code safe receipt n after)) \<and> \<not> transient_code code"
  using assms host_adviceD [OF assms]
  by (auto simp: decision_host decision_checkpoint may_retry_def transient_code_def classify_host
      RETRY_ACTIONS_def)

theorem host_code_never_retried_witness:
  "\<not> may_retry (Some (decision '' HUMAN_TOOK_OVER '' True False 0 JNull)) \<and>
   rec_class (decision '' HUMAN_TOOK_OVER '' True False 0 JNull) = Rights_Budget"
proof -
  have "map_option (\<lambda>(k, a, r). (k, a)) (host_advice '' HUMAN_TOOK_OVER '') =
      Some (Rights_Budget, Checkpoint_And_Ask)" by code_simp
  then obtain r where "host_advice '' HUMAN_TOOK_OVER '' = Some (Rights_Budget, Checkpoint_And_Ask, r)"
    by auto
  from host_code_never_retried [OF this, of True False 0 JNull] show ?thesis by simp
qed

text \<open>C24. A code no table names fails closed: it is classified unknown, the decision is to stop at a
  checkpoint and ask, and a request that failed with it is not sent again.\<close>

theorem unknown_code_fails_closed:
  assumes "\<forall>row \<in> set CODES_own. fst row \<noteq> strip code"
    and "\<forall>row \<in> set HOST_ADVICE. fst row \<noteq> strip code"
  shows "rec_class (decision code safe receipt n after) = Unknown \<and>
    rec_action (decision code safe receipt n after) = Checkpoint_And_Ask \<and>
    \<not> may_retry (Some (decision code safe receipt n after)) \<and> \<not> transient_code code"
proof -
  have none: "map_of CODES_own (strip code) = None" "host_advice code = None"
    using assms by (auto simp: host_advice_def map_of_eq_None_iff)
  then have "classify_code code = Unknown" by (simp add: classify_host)
  then show ?thesis using none
    by (simp add: decision_own may_retry_def RETRY_ACTIONS_def transient_code_def)
qed

theorem unknown_code_fails_closed_witness:
  "rec_action (decision ''TURN_FAILED_WRITEERROR'' True True 0 JNull) = Checkpoint_And_Ask"
proof -
  have "\<forall>row \<in> set CODES_own. fst row \<noteq> strip ''TURN_FAILED_WRITEERROR''" by code_simp
  moreover have "\<forall>row \<in> set HOST_ADVICE. fst row \<noteq> strip ''TURN_FAILED_WRITEERROR''" by code_simp
  ultimately show ?thesis by (rule unknown_code_fails_closed [THEN conjunct2, THEN conjunct1])
qed

subsection \<open>Retry advice\<close>

lemma rate_limit_delay:
  "retry_delay e Rate_Limit n u =
     min (max (case retry_after_seconds e of Some a \<Rightarrow> a | None \<Rightarrow> 2) 2) 30"
  by (simp add: retry_delay_def RATE_LIMIT_MIN_SECONDS_def RATE_LIMIT_MAX_SECONDS_def Let_def
      split: option.split)

lemma other_delay:
  "cause \<noteq> Rate_Limit \<Longrightarrow> retry_delay e cause n u =
     min (max (BACKOFF_SECONDS ! min n 2 * (1 + u)) (1/2)) 60"
  by (simp add: retry_delay_def RETRY_BUDGET_SECONDS_def Let_def BACKOFF_SECONDS_def numeral_2_eq_2)

lemma delay_nonneg: "1/2 \<le> retry_delay e cause n u"
  by (cases "cause = Rate_Limit") (simp_all add: rate_limit_delay other_delay)

lemma backoff_delay:
  assumes "cause \<noteq> Rate_Limit" and "\<bar>u\<bar> \<le> 1/5" and "n < 3"
  shows "retry_delay e cause n u = BACKOFF_SECONDS ! n * (1 + u)"
proof -
  have u: "- (1/5) \<le> u" "u \<le> 1/5" using assms by (simp_all add: abs_le_iff)
  have "n = 0 \<or> n = 1 \<or> n = 2" using assms by auto
  then show ?thesis using assms(1) u
    by (auto simp: other_delay BACKOFF_SECONDS_def min_def max_def)
qed

lemma advice_iff:
  "retry_advice e n m s k u \<noteq> None \<longleftrightarrow> stop_reason e n m s k u = None"
  by (simp add: retry_advice_def stop_reason_def Let_def split: option.split prod.split)

lemma adviceD:
  assumes "retry_advice e n m s k u = Some a"
  shows "\<exists>cause. retry_reason e (router_status e) = Some cause \<and> n < k \<and> adv_reason a = cause \<and>
    adv_delay a = round3 (retry_delay e cause n u) \<and> adv_attempt a = n + 1 \<and> adv_max_retries a = k \<and>
    s + retry_delay e cause n u \<le> 60 \<and>
    (case m of Some r \<Rightarrow> retry_delay e cause n u + 5 \<le> r | None \<Rightarrow> True)"
  using assms
  by (auto simp: retry_advice_def Let_def RETRY_BUDGET_SECONDS_def MIN_RETRY_WINDOW_SECONDS_def
      not_less not_le split: option.splits if_splits prod.splits)

text \<open>The two views of the retry policy agree: for the same jitter, a stop reason is given
  exactly when there is no advice, and it names the first bound that fails: a permanent failure,
  the retry count, the 60 s wait budget, or the 5 s window.\<close>

theorem stop_reason_complete:
  "(stop_reason e n m s k u = None \<longleftrightarrow> retry_advice e n m s k u \<noteq> None) \<and>
   (stop_reason e n m s k u = Some Permanent \<longleftrightarrow> retry_reason e (router_status e) = None) \<and>
   (stop_reason e n m s k u = Some Attempts \<longleftrightarrow> retry_reason e (router_status e) \<noteq> None \<and> n \<ge> k) \<and>
   (stop_reason e n m s k u = Some Budget \<longleftrightarrow> n < k \<and>
      (\<exists>c. retry_reason e (router_status e) = Some c \<and> s + retry_delay e c n u > 60))"
  by (auto simp: retry_advice_def stop_reason_def RETRY_BUDGET_SECONDS_def Let_def
      split: option.splits prod.splits if_splits)

text \<open>The advised wait: a rate limit waits what the router asked for, or 2 s when it asked
  nothing, clamped to 2..30 s; any other retryable failure waits 1, 4 or 12 s with at most a fifth
  of jitter. The budget and the window still hold after the wait, and the wait shown differs from
  it by at most half a millisecond.\<close>

theorem retry_advice_wait:
  assumes "retry_advice e n m s 3 u = Some a" and "\<bar>u\<bar> \<le> 1/5"
  shows "\<exists>d. \<bar>adv_delay a - d\<bar> \<le> 1/2000 \<and> s + d \<le> 60 \<and>
    (case m of Some r \<Rightarrow> d + 5 \<le> r | None \<Rightarrow> True) \<and>
    (if adv_reason a = Rate_Limit
     then d = min (max (case retry_after_seconds e of Some x \<Rightarrow> x | None \<Rightarrow> 2) 2) 30
     else d = [1, 4, 12] ! n * (1 + u) \<and> 4/5 * [1, 4, 12] ! n \<le> d \<and> d \<le> 6/5 * [1, 4, 12] ! n)"
proof -
  obtain c where c: "n < 3" "adv_reason a = c" "adv_delay a = round3 (retry_delay e c n u)"
      "s + retry_delay e c n u \<le> 60"
      "case m of Some r \<Rightarrow> retry_delay e c n u + 5 \<le> r | None \<Rightarrow> True"
    using adviceD [OF assms(1)] by blast
  have b: "4/5 * b \<le> d \<and> d \<le> 6/5 * b" if "d = b * (1 + u)" "b \<ge> 0" for b d :: rat
  proof -
    have "b * (4/5) \<le> b * (1 + u)" "b * (1 + u) \<le> b * (6/5)"
      using assms(2) that(2) by (intro mult_left_mono; simp add: abs_le_iff)+
    then show ?thesis using that(1) by simp
  qed
  have pos: "([1, 4, 12] :: rat list) ! n \<ge> 0"
    using c(1) by (auto simp: less_Suc_eq numeral_3_eq_3 numeral_2_eq_2)
  show ?thesis
  proof (cases "c = Rate_Limit")
    case True
    then show ?thesis using c round3_close [of "retry_delay e c n u"]
      by (intro exI [of _ "retry_delay e c n u"]) (simp add: rate_limit_delay)
  next
    case False
    then show ?thesis
      using c round3_close [of "retry_delay e c n u"] backoff_delay [OF False assms(2) c(1), of e] b pos
      by (intro exI [of _ "retry_delay e c n u"]) (simp add: BACKOFF_SECONDS_def)
  qed
qed

definition sample_exc :: "string \<Rightarrow> exc_kind list \<Rightarrow> string \<Rightarrow> exc" where
  "sample_exc name kinds text =
     \<lparr>exc_name = name, exc_kinds = kinds, exc_text = text, exc_repr = name @ ''()'',
      attr_router_status = JNull, attr_retry_after_ms = None, attr_router_code = None,
      attr_retryable = JNull, attr_code = JNull, attr_log_message = []\<rparr>"

theorem retry_advice_wait_witness:
  "\<exists>a d. retry_advice (sample_exc ''ReadError'' [] ''cut'') 1 (Some 20) 3 3 (1/10) = Some a \<and>
     \<bar>adv_delay a - d\<bar> \<le> 1/2000 \<and> 3 + d \<le> 60"
proof -
  have "retry_advice (sample_exc ''ReadError'' [] ''cut'') 1 (Some 20) 3 3 (1/10) \<noteq> None"
    by code_simp
  then obtain a where a: "retry_advice (sample_exc ''ReadError'' [] ''cut'') 1 (Some 20) 3 3 (1/10) = Some a"
    by blast
  from retry_advice_wait [OF a] a show ?thesis by fastforce
qed

subsection \<open>The retry loop\<close>

text \<open>How many more calls the loop can make after a failed one.\<close>

definition calls_left :: "loop_state \<Rightarrow> nat" where
  "calls_left s = (3 - attempts s) + (if thinking_level s = [] then 0 else 1)"

lemma emit_fields [simp]:
  "attempts (emit ev s) = attempts s" "retry_waited (emit ev s) = retry_waited s"
  "thinking_level (emit ev s) = thinking_level s" "degraded (emit ev s) = degraded s"
  "loop_events (emit ev s) = loop_events s @ [ev]"
  by (simp_all add: emit_def)

lemma gated_adviceD:
  assumes "gated_advice fmt e n m s u = (Some a, r, d)"
  shows "retry_advice e n m s DEFAULT_MAX_RETRIES u = Some a \<and> may_retry (Some r) \<and> \<not> d"
  using assms by (auto simp: gated_advice_def Let_def split: if_splits)

text \<open>The loop goes on either without its thinking level or with one more counted attempt.\<close>

lemma loop_step_goes_on:
  assumes "loop_step fmt w s = (None, s')"
  shows "\<exists>e. the_call w = Raise e \<and>
    ((thinking_level s \<noteq> [] \<and> thinking_level s' = [] \<and> attempts s' = attempts s \<and>
        retry_waited s' = retry_waited s) \<or>
     (\<exists>a. retry_advice e (attempts s) (left w) (retry_waited s) DEFAULT_MAX_RETRIES (jitter w) = Some a \<and>
        attempts s' = attempts s + 1 \<and> retry_waited s' = retry_waited s + adv_delay a \<and>
        thinking_level s' = thinking_level s))"
proof -
  obtain e where e: "the_call w = Raise e"
    using assms by (cases "the_call w") (auto simp: loop_step_def)
  obtain adv r d where g:
    "gated_advice fmt e (attempts s) (left w) (retry_waited s) (jitter w) = (adv, r, d)"
    by (cases "gated_advice fmt e (attempts s) (left w) (retry_waited s) (jitter w)")
  show ?thesis
  proof (cases "thinking_level s \<noteq> [] \<and> level_refusal e")
    case True
    then show ?thesis using assms e by (auto simp: loop_step_def)
  next
    case False
    then obtain a where "adv = Some a"
      using assms e g by (cases adv) (auto simp: loop_step_def Let_def)
    moreover from this have "\<not> d" using g gated_adviceD by blast
    ultimately show ?thesis
      using assms e g False gated_adviceD [of fmt e "attempts s" "left w" "retry_waited s" "jitter w" a r d]
      by (auto simp: loop_step_def Let_def)
  qed
qed

lemma loop_step_calls_left:
  assumes "loop_step fmt w s = (None, s')"
  shows "calls_left s' < calls_left s"
  using loop_step_goes_on [OF assms] adviceD
  by (fastforce simp: calls_left_def DEFAULT_MAX_RETRIES_def)

lemma retry_loop_ends:
  "length ws > calls_left s \<Longrightarrow> fst (retry_loop fmt ws s) \<noteq> None"
proof (induction ws arbitrary: s)
  case (Cons w ws)
  then show ?case
    using loop_step_calls_left [of fmt w s]
    by (cases "loop_step fmt w s"; cases "fst (loop_step fmt w s)") fastforce+
qed simp

text \<open>C25. The retry loop of a model step always ends: four calls are enough without a thinking
  level, five with one, whatever the provider answers, for any jitter and any time left.\<close>

theorem retry_loop_terminates:
  assumes "length ws \<ge> (if level = [] then 4 else 5)"
  shows "fst (retry_loop fmt ws (start_loop level)) \<noteq> None"
  using assms by (intro retry_loop_ends) (auto simp: calls_left_def start_loop_def split: if_splits)

definition cut_socket :: "string world_answer" where
  "cut_socket = \<lparr>the_call = Raise (sample_exc ''ReadError'' [] ''cut''), jitter = 0, left = None,
     stop_jitter = 0, stop_left = None\<rparr>"

theorem retry_loop_terminates_witness:
  "fst (retry_loop (\<lambda>_. []) (replicate 4 cut_socket) (start_loop [])) \<noteq> None"
  by (rule retry_loop_terminates) simp

definition wait_ok :: "loop_state \<Rightarrow> bool" where
  "wait_ok s = (attempts s \<le> 3 \<and> 0 \<le> retry_waited s \<and> retry_waited s \<le> 60 + 1/2000)"

lemma loop_step_state:
  "fst (loop_step fmt w s) = Some v \<Longrightarrow>
     attempts (snd (loop_step fmt w s)) = attempts s \<and>
     retry_waited (snd (loop_step fmt w s)) = retry_waited s \<and>
     thinking_level (snd (loop_step fmt w s)) = thinking_level s"
  by (auto simp: loop_step_def Let_def split: call.splits if_splits prod.splits option.splits)

lemma wait_ok_step [inv_facts]:
  assumes "wait_ok s"
  shows "wait_ok (snd (loop_step fmt w s))"
proof (cases "fst (loop_step fmt w s)")
  case (Some v)
  then show ?thesis using assms loop_step_state [OF Some] by (simp add: wait_ok_def)
next
  case None
  then obtain s' where s': "loop_step fmt w s = (None, s')" by (cases "loop_step fmt w s") auto
  from loop_step_goes_on [OF this] show ?thesis
  proof (elim exE conjE disjE)
    fix e a
    assume a: "retry_advice e (attempts s) (left w) (retry_waited s) DEFAULT_MAX_RETRIES (jitter w) = Some a"
      and s: "attempts s' = attempts s + 1" "retry_waited s' = retry_waited s + adv_delay a"
    obtain c where c: "attempts s < 3" "retry_waited s + retry_delay e c (attempts s) (jitter w) \<le> 60"
        "adv_delay a = round3 (retry_delay e c (attempts s) (jitter w))"
      using adviceD [OF a] by (auto simp: DEFAULT_MAX_RETRIES_def)
    let ?d = "retry_delay e c (attempts s) (jitter w)"
    note round3_bounds [of ?d] delay_nonneg [of e c "attempts s" "jitter w"]
    then have "0 \<le> retry_waited s'" "retry_waited s' \<le> 60 + 1/2000"
      using assms c s unfolding wait_ok_def by linarith+
    then show ?thesis using c s s' by (simp add: wait_ok_def)
  qed (use assms s' in \<open>simp add: wait_ok_def\<close>)
qed

lemma wait_ok_loop: "wait_ok s \<Longrightarrow> wait_ok (snd (retry_loop fmt ws s))"
proof (induction ws arbitrary: s)
  case (Cons w ws)
  then show ?case using wait_ok_step [OF Cons.prems, of fmt w]
    by (cases "loop_step fmt w s"; cases "fst (loop_step fmt w s)") auto
qed simp

text \<open>A step never counts more than three retries and never waits more than its 60 s budget
  (half a millisecond of rounding aside), whatever the provider answers.\<close>

theorem retry_wait_bounded:
  "attempts (snd (retry_loop fmt ws (start_loop level))) \<le> 3 \<and>
   retry_waited (snd (retry_loop fmt ws (start_loop level))) \<le> 60 + 1/2000"
  using wait_ok_loop [of "start_loop level" fmt ws] by (simp add: wait_ok_def start_loop_def)

text \<open>The answer of the loop is the first answer of the provider: every call before it raised,
  and their number is the counted attempts, plus one when the thinking level was dropped.\<close>

lemma retry_loop_first_answer:
  assumes "retry_loop fmt ws s = (Some (Answered r), s')"
  shows "\<exists>k < length ws. the_call (ws ! k) = Answer r \<and> (\<forall>i < k. \<exists>e. the_call (ws ! i) = Raise e) \<and>
    k + attempts s + (if thinking_level s' = [] then 0 else 1)
      = attempts s' + (if thinking_level s = [] then 0 else 1)"
  using assms
proof (induction ws arbitrary: s)
  case (Cons w ws)
  show ?case
  proof (cases "fst (loop_step fmt w s)")
    case (Some v)
    then have st: "loop_step fmt w s = (Some (Answered r), s')"
      using Cons.prems by (cases "loop_step fmt w s") auto
    then have "the_call w = Answer r \<and> s' = s"
      by (auto simp: loop_step_def Let_def split: call.splits if_splits prod.splits option.splits)
    then show ?thesis by (intro exI [of _ 0]) simp
  next
    case None
    then obtain s1 where s1: "loop_step fmt w s = (None, s1)" by (cases "loop_step fmt w s") auto
    then have "retry_loop fmt ws s1 = (Some (Answered r), s')" using Cons.prems by simp
    from Cons.IH [OF this] obtain k where k: "k < length ws" "the_call (ws ! k) = Answer r"
      "\<forall>i < k. \<exists>e. the_call (ws ! i) = Raise e"
      "k + attempts s1 + (if thinking_level s' = [] then 0 else 1)
        = attempts s' + (if thinking_level s1 = [] then 0 else 1)" by blast
    have raised: "\<forall>i < Suc k. \<exists>e. the_call ((w # ws) ! i) = Raise e"
      using k(3) loop_step_goes_on [OF s1] by (auto simp: less_Suc_eq_0_disj)
    show ?thesis
      using k raised loop_step_goes_on [OF s1]
      by (intro exI [of _ "Suc k"]) (auto split: if_splits)
  qed
qed simp

text \<open>A provider that asks for 20 s, and one that answers.\<close>

definition asks_20s :: "string world_answer" where
  "asks_20s = \<lparr>the_call = Raise (sample_exc ''RuntimeError'' [Runtime_Error] ''Router HTTP 429: slow''
       \<lparr>attr_retry_after_ms := Some 20000\<rparr>), jitter = 0, left = None, stop_jitter = 0, stop_left = None\<rparr>"

definition answers :: "string world_answer" where
  "answers = asks_20s\<lparr>the_call := Answer ''ok''\<rparr>"

lemma slow_provider_code:
  "fst (classify_failure (sample_exc ''RuntimeError'' [Runtime_Error] ''Router HTTP 429: slow''
       \<lparr>attr_retry_after_ms := Some 20000\<rparr>)) = ''UPSTREAM_HTTP_429''"
  by code_simp

lemma slow_provider_cause:
  "retry_reason (sample_exc ''RuntimeError'' [Runtime_Error] ''Router HTTP 429: slow''
       \<lparr>attr_retry_after_ms := Some 20000\<rparr>)
     (router_status (sample_exc ''RuntimeError'' [Runtime_Error] ''Router HTTP 429: slow''
       \<lparr>attr_retry_after_ms := Some 20000\<rparr>)) = Some Rate_Limit"
  by code_simp

lemma class_429: "classify_code ''UPSTREAM_HTTP_429'' = Transport"
  by code_simp

lemma asks_20s_step:
  assumes "attempts s < 3" and "retry_waited s + 20 \<le> 60" and "thinking_level s = []"
  shows "\<exists>evs. loop_step fmt asks_20s s =
    (None, s\<lparr>attempts := attempts s + 1, retry_waited := retry_waited s + 20, loop_events := evs\<rparr>)"
proof -
  let ?e = "sample_exc ''RuntimeError'' [Runtime_Error] ''Router HTTP 429: slow''
       \<lparr>attr_retry_after_ms := Some 20000\<rparr>"
  have d: "retry_delay ?e Rate_Limit n u = 20" for n u
    by (simp add: rate_limit_delay retry_after_seconds_def)
  have r: "round3 20 = 20" by code_simp
  have "\<exists>a. retry_advice ?e (attempts s) None (retry_waited s) DEFAULT_MAX_RETRIES 0 = Some a \<and> adv_delay a = 20"
    using assms
    by (simp add: retry_advice_def slow_provider_cause d r DEFAULT_MAX_RETRIES_def RETRY_BUDGET_SECONDS_def
        split: prod.split)
  then obtain a where a: "retry_advice ?e (attempts s) None (retry_waited s) DEFAULT_MAX_RETRIES 0 = Some a"
    "adv_delay a = 20" by blast
  have "may_retry (Some (decision ''UPSTREAM_HTTP_429'' x y (int (attempts s)) z))" for x y z
    using assms by (simp add: may_retry_iff class_429 TIMEOUT_CODES_def EXHAUSTED_CODES_def TRANSPORT_RETRIES_def)
  then show ?thesis using assms a
    by (simp add: loop_step_def gated_advice_def asks_20s_def slow_provider_code emit_def)
      (rule exI, rule refl)
qed

lemma answers_step: "loop_step fmt answers s = (Some (Answered ''ok''), s)"
  by (simp add: loop_step_def answers_def)

lemma one_step_waits_60:
  "\<exists>s. retry_loop fmt [asks_20s, asks_20s, asks_20s, answers] (start_loop []) = (Some (Answered ''ok''), s) \<and>
     retry_waited s = 60 \<and> thinking_level s = []"
proof -
  let ?s1 = "start_loop []"
  obtain v1 where 1: "loop_step fmt asks_20s ?s1 = (None, ?s1\<lparr>attempts := 1, retry_waited := 20, loop_events := v1\<rparr>)"
    using asks_20s_step [of ?s1 fmt] by (auto simp: start_loop_def)
  let ?s2 = "?s1\<lparr>attempts := 1, retry_waited := 20, loop_events := v1\<rparr>"
  obtain v2 where 2: "loop_step fmt asks_20s ?s2 = (None, ?s2\<lparr>attempts := 2, retry_waited := 40, loop_events := v2\<rparr>)"
    using asks_20s_step [of ?s2 fmt] by (auto simp: start_loop_def numeral_2_eq_2)
  let ?s3 = "?s2\<lparr>attempts := 2, retry_waited := 40, loop_events := v2\<rparr>"
  obtain v3 where 3: "loop_step fmt asks_20s ?s3 = (None, ?s3\<lparr>attempts := 3, retry_waited := 60, loop_events := v3\<rparr>)"
    using asks_20s_step [of ?s3 fmt] by (auto simp: start_loop_def numeral_3_eq_3)
  show ?thesis using 1 2 3 by (simp add: answers_step start_loop_def)
qed

text \<open>The wait budget is per model step: each step of a turn starts with nothing waited, so a
  turn of n steps can wait n times 60 s. The provider here is a rate limit asking for 20 s three
  times in each step before it answers.\<close>

theorem wait_budget_is_per_step:
  "sum_list (run_steps fmt (replicate n [asks_20s, asks_20s, asks_20s, answers]) []) = 60 * of_nat n"
proof (induction n)
  case (Suc n)
  obtain s where "retry_loop fmt [asks_20s, asks_20s, asks_20s, answers] (start_loop []) = (Some (Answered ''ok''), s)"
     "retry_waited s = 60" "thinking_level s = []"
    using one_step_waits_60 by blast
  then show ?case using Suc.IH by (simp del: retry_loop.simps)
qed simp

subsection \<open>Classification\<close>

lemma upper_alnum_cases:
  "upper_alnum x \<or> x = CHR ''_'' \<Longrightarrow> \<not> is_space x \<and> x \<noteq> CHR '':''"
  by (auto simp: upper_alnum_def is_upper_def is_digit_def is_space_def Let_def)

lemma code_shape_no_space:
  assumes "code_shape code" and "x \<in> set code"
  shows "\<not> is_space x \<and> x \<noteq> CHR '':''"
proof (rule upper_alnum_cases)
  show "upper_alnum x \<or> x = CHR ''_''"
    using assms split_on_chars [of x code "CHR ''_''"]
    by (auto simp: code_shape_def Let_def list_all_iff)
qed

lemma code_shape_nonempty: "code_shape code \<Longrightarrow> code \<noteq> []"
  by (auto simp: code_shape_def)

lemma headed_reason:
  assumes "a = c # cs" and "\<not> is_space c" and "exc_text e = a @ '': '' @ msg"
  shows "\<exists>rest. reason_of e = a @ CHR '':'' # rest \<and> (rest = [] \<or> is_space (hd rest)) \<and>
    strip (exc_text e) = reason_of e"
proof -
  have l: "lstrip (exc_text e) = a @ CHR '':'' # CHR '' '' # msg"
    using assms by (simp add: lstrip_keep)
  have colon: "\<not> is_space (CHR '':'')" and space: "is_space (CHR '' '')"
    by (simp_all add: is_space_def)
  have "strip (exc_text e) = a @ CHR '':'' # rstrip (CHR '' '' # msg)"
    using l rstrip_keep_append [OF colon] by (simp add: strip_def)
  moreover have "rstrip (CHR '' '' # msg) = [] \<or> is_space (hd (rstrip (CHR '' '' # msg)))"
    using space by (simp add: rstrip_Cons)
  ultimately show ?thesis by (auto simp: reason_of_def Let_def)
qed

lemma coded_reason:
  assumes "code_shape code" and "exc_text e = code @ '': '' @ msg"
  shows "\<exists>rest. reason_of e = code @ CHR '':'' # rest \<and> (rest = [] \<or> is_space (hd rest)) \<and>
    strip (exc_text e) = reason_of e"
proof -
  obtain c cs where c: "code = c # cs" using code_shape_nonempty [OF assms(1)] by (cases code) auto
  moreover have "\<not> is_space c" using code_shape_no_space [OF assms(1), of c] c by simp
  ultimately show ?thesis using headed_reason assms(2) by blast
qed

lemma before_coded: "code_shape code \<Longrightarrow> before_char (CHR '':'') (code @ CHR '':'' # rest) = code"
  by (rule before_char_append) (use code_shape_no_space in blast)

lemma not_router_text:
  assumes "code_shape code"
  shows "\<not> starts_with ''Router HTTP '' (code @ CHR '':'' # rest)"
proof
  assume "starts_with ''Router HTTP '' (code @ CHR '':'' # rest)"
  then have "starts_with ''Router HTTP '' (before_char (CHR '':'') (code @ CHR '':'' # rest))"
    by (rule before_char_prefix) simp
  then have "starts_with ''Router HTTP '' code" by (simp only: before_coded [OF assms])
  then have "CHR '' '' \<in> set code" using starts_with_set by fastforce
  then show False using code_shape_no_space [OF assms, of "CHR '' ''"] by (simp add: is_space_def)
qed

lemma code_prefix_coded:
  assumes "code_shape code" and "rest = [] \<or> is_space (hd rest)"
  shows "code_prefix (code @ CHR '':'' # rest) = Some code"
  using assms by (auto simp: code_prefix_def before_coded Let_def)

text \<open>An error raised as \<open>ValueError('CODE: sentence')\<close> (or a lookup or runtime error) keeps its
  code, whatever the code and the sentence: two or more upper-case segments joined by underscores are
  the code \<open>classify_failure\<close> returns, and the message is the stripped text, also when the code is
  one of the known prefixes.\<close>

theorem coded_error_keeps_code:
  assumes "code_shape code" and "exc_text e = code @ '': '' @ msg"
    and "exc_kinds e = [k]" and "k \<in> {Value_Error, Lookup_Error, Runtime_Error}"
    and "\<not> looks_timeout e" and "exc_name e \<notin> set UNREACHABLE_NAMES"
  shows "classify_failure e = (code, strip (exc_text e))"
proof -
  obtain rest where r: "reason_of e = code @ CHR '':'' # rest" "rest = [] \<or> is_space (hd rest)"
    and s: "strip (exc_text e) = reason_of e"
    using coded_reason [OF assms(1,2)] by blast
  have h: "head_code (reason_of e) = code"
    using r assms(1) code_shape_no_space [OF assms(1)]
    by (simp add: head_code_def before_coded strip_keep)
  have kinds: "\<not> is_a e Timeout_Error" "\<not> is_a e Permission_Error" "\<not> is_a e Connection_Error"
    "is_a e Value_Error \<or> is_a e Lookup_Error \<or> is_a e Runtime_Error"
    using assms(3,4) by (auto simp: is_a_def)
  have nr: "\<not> starts_with ''Router HTTP '' (reason_of e)"
    using r not_router_text [OF assms(1)] by simp
  have cp: "code_prefix (reason_of e) = Some code"
    using r code_prefix_coded [OF assms(1)] by simp
  have "code \<noteq> []" by (rule code_shape_nonempty [OF assms(1)])
  then show ?thesis
    using kinds nr cp assms(5,6) s h
    by (cases "find (\<lambda>p. starts_with p (reason_of e)) KNOWN_PREFIXES")
      (simp_all add: classify_failure_def or_else_def)
qed

theorem coded_error_keeps_code_witness:
  "classify_failure (sample_exc ''ValueError'' [Value_Error] ''PLAN_BRIEF_INVALID: no goal'')
     = (''PLAN_BRIEF_INVALID'', ''PLAN_BRIEF_INVALID: no goal'')"
proof -
  have "classify_failure (sample_exc ''ValueError'' [Value_Error] ''PLAN_BRIEF_INVALID: no goal'')
     = (''PLAN_BRIEF_INVALID'', strip (exc_text (sample_exc ''ValueError'' [Value_Error] ''PLAN_BRIEF_INVALID: no goal'')))"
    by (rule coded_error_keeps_code [where msg = "''no goal''" and k = Value_Error]; code_simp)
  then show ?thesis by (simp add: sample_exc_def strip_def rstrip_def lstrip_def is_space_def)
qed

lemma strip_nonempty: "\<not> is_space c \<Longrightarrow> strip (c # cs) \<noteq> []"
  by (simp add: strip_def lstrip_keep rstrip_Cons)

lemma head_code_nonempty:
  assumes "starts_with (c # p) reason" and "\<not> is_space c" and "CHR '':'' \<noteq> c"
  shows "head_code reason \<noteq> []"
  using assms by (auto simp: starts_with_iff head_code_def before_char_def strip_nonempty)

text \<open>A failure always has a code and a message a reader can see: both are non-empty for every
  exception whose \<open>repr\<close> is, even when its text is empty.\<close>

theorem failure_never_blank:
  assumes "exc_repr e \<noteq> []"
  shows "fst (classify_failure e) \<noteq> [] \<and> snd (classify_failure e) \<noteq> []"
proof -
  have r: "reason_of e \<noteq> []" using assms by (simp add: reason_of_def Let_def)
  have ws: "head_code (reason_of e) \<noteq> []" if "starts_with ''WORK_SCOPE_'' (reason_of e)"
    using that by (rule head_code_nonempty) (simp_all add: is_space_def)
  have p: "case find (\<lambda>p. starts_with p (reason_of e)) KNOWN_PREFIXES of Some p \<Rightarrow> p \<noteq> [] | None \<Rightarrow> True"
  proof -
    have "list_all (\<lambda>p. p \<noteq> []) KNOWN_PREFIXES" by code_simp
    then show ?thesis using find_SomeD
      by (fastforce simp: list_all_iff split: option.split)
  qed
  have c: "code_prefix (reason_of e) \<noteq> None \<Longrightarrow> the (code_prefix (reason_of e)) \<noteq> []"
    using code_shape_nonempty by (auto simp: code_prefix_def Let_def split: if_splits)
  have h: "fst (http_failure s) \<noteq> [] \<and> snd (http_failure s) \<noteq> []"
    "fst (turn_failed e s) \<noteq> [] \<and> snd (turn_failed e s) \<noteq> []" for s
    by (simp_all add: http_failure_def turn_failed_def Let_def)
  show ?thesis
  proof (cases "find (\<lambda>p. starts_with p (reason_of e)) KNOWN_PREFIXES")
    case None
    then show ?thesis
      unfolding classify_failure_def Let_def using r ws c h
      by (cases "attr_code e") (simp_all del: not_None_eq)
  next
    case (Some q)
    then have "or_else (head_code (reason_of e)) q \<noteq> []" using p by (simp add: or_else_def)
    then show ?thesis
      unfolding classify_failure_def Let_def using Some r ws h by simp
  qed
qed

theorem failure_never_blank_witness:
  "snd (classify_failure (sample_exc ''ServerDisconnectedError'' [Connection_Error] [])) \<noteq> []"
  using failure_never_blank [of "sample_exc ''ServerDisconnectedError'' [Connection_Error] []"]
  by (simp add: sample_exc_def)

subsection \<open>The policy gate\<close>

lemma status_texts:
  "list_all (\<lambda>n. str_isdigit (int_str n) \<and> strip (int_str n) = int_str n \<and>
     CHR '':'' \<notin> set (int_str n)) RETRYABLE_STATUS"
  by code_simp

lemma status_classes:
  "list_all (\<lambda>n. map_of CODES_own (''UPSTREAM_HTTP_'' @ int_str n) = Some Transport) RETRYABLE_STATUS"
  by code_simp

lemma status_splits:
  "list_all (\<lambda>n. last (split_ws (''Router HTTP '' @ int_str n)) = int_str n) RETRYABLE_STATUS"
  by code_simp

lemma host_not_upstream: "list_all (\<lambda>row. \<not> starts_with ''UPSTREAM_'' (fst row)) HOST_ADVICE"
  by code_simp

lemma upstream_own: "starts_with ''UPSTREAM_'' c \<Longrightarrow> map_of HOST_ADVICE c = None"
  using host_not_upstream by (auto simp: map_of_eq_None_iff list_all_iff)

lemma classify_upstream:
  assumes "starts_with ''UPSTREAM_'' c" and "strip c = c" and "map_of CODES_own c = Some k"
  shows "classify_code c = k"
  using upstream_own [OF assms(1)] assms(2,3) by (simp add: classify_host host_advice_def)

lemma status_class:
  assumes "n \<in> set RETRYABLE_STATUS"
  shows "classify_code (''UPSTREAM_HTTP_'' @ int_str n) = Transport"
proof (rule classify_upstream)
  have "str_isdigit (int_str n)" using status_texts assms by (auto simp: list_all_iff)
  then have "\<forall>x \<in> set (''UPSTREAM_HTTP_'' @ int_str n). \<not> is_space x"
    by (auto simp: str_isdigit_def list_all_iff is_digit_def is_space_def Let_def)
  then show "strip (''UPSTREAM_HTTP_'' @ int_str n) = ''UPSTREAM_HTTP_'' @ int_str n"
    by (rule strip_keep)
  show "starts_with ''UPSTREAM_'' (''UPSTREAM_HTTP_'' @ int_str n)" by (simp add: starts_with_def)
  show "map_of CODES_own (''UPSTREAM_HTTP_'' @ int_str n) = Some Transport"
    using status_classes assms by (simp only: list_all_iff)
qed

lemma http_code:
  assumes "n \<in> set RETRYABLE_STATUS"
  shows "fst (classify_failure (router_refusal n payload text)) = ''UPSTREAM_HTTP_'' @ int_str n"
proof -
  let ?e = "router_refusal n payload text"
  let ?a = "''Router HTTP '' @ int_str n"
  have row: "str_isdigit (int_str n)" "last (split_ws ?a) = int_str n"
    "strip (int_str n) = int_str n" "CHR '':'' \<notin> set (int_str n)"
    using status_texts status_splits assms by (auto simp: list_all_iff)
  obtain msg where "exc_text ?e = ?a @ '': '' @ msg" by (simp add: router_refusal_def Let_def)
  moreover obtain cs where "?a = CHR ''R'' # cs" by simp
  ultimately obtain rest where rest: "reason_of ?e = ?a @ CHR '':'' # rest"
    using headed_reason [of ?a "CHR ''R''" cs ?e msg] by (auto simp: is_space_def)
  have b: "before_char (CHR '':'') (reason_of ?e) = ?a"
    unfolding rest by (rule before_char_append) (use row(4) in simp)
  have "starts_with ''Router HTTP '' (reason_of ?e)"
    unfolding rest by (simp add: starts_with_def)
  moreover have "exc_kinds ?e = [Runtime_Error]" "exc_name ?e = ''RuntimeError''"
    by (simp_all add: router_refusal_def Let_def)
  moreover have "\<not> ends_with ''Timeout'' ''RuntimeError''" "''RuntimeError'' \<notin> set UNREACHABLE_NAMES"
    by code_simp+
  ultimately show ?thesis using row b
    by (simp add: classify_failure_def http_failure_def is_a_def looks_timeout_def Let_def)
qed

text \<open>For an error the model router answered with a retryable status, the policy gate changes
  nothing: the gated advice is the advice of \<open>retry_advice\<close>, whatever the body of the answer, the
  tries, the time left and the jitter.\<close>

theorem gate_agrees_on_router_status:
  assumes "n \<in> set RETRYABLE_STATUS"
  shows "fst (gated_advice fmt (router_refusal n payload text) k m s u)
    = retry_advice (router_refusal n payload text) k m s DEFAULT_MAX_RETRIES u"
proof (cases "retry_advice (router_refusal n payload text) k m s DEFAULT_MAX_RETRIES u")
  case None
  then show ?thesis by (simp add: gated_advice_def)
next
  case (Some a)
  have "k < 3" using adviceD [OF Some] by (auto simp: DEFAULT_MAX_RETRIES_def)
  moreover note status_class [OF assms]
  ultimately have "may_retry (Some (decision (fst (classify_failure (router_refusal n payload text))) x y (int k) z))"
    for x y z
    by (simp add: http_code [OF assms] may_retry_iff TIMEOUT_CODES_def EXHAUSTED_CODES_def TRANSPORT_RETRIES_def)
  then show ?thesis using Some by (simp add: gated_advice_def)
qed

theorem gate_agrees_on_router_status_witness:
  "fst (gated_advice (\<lambda>_. []) (router_refusal 503 JNull ''busy'') 1 None 4 0) \<noteq> None"
proof -
  have "retry_advice (router_refusal 503 JNull ''busy'') 1 None 4 DEFAULT_MAX_RETRIES 0 \<noteq> None"
    by code_simp
  then show ?thesis
    using gate_agrees_on_router_status [of 503 "\<lambda>_. []" JNull "''busy''" 1 None 4 0]
    by (simp add: RETRYABLE_STATUS_def)
qed

text \<open>The gate is stricter than the retry policy elsewhere: \<open>retry_advice\<close> grants another try
  to a dropped write and to a router error that carries a rate-limit code under another status, but
  their codes are in no recovery table, so the gate blocks the first retry.\<close>

theorem gate_blocks_advised_retry:
  "retry_advice (sample_exc ''WriteError'' [] ''pipe'') 0 None 0 3 0 \<noteq> None \<and>
   fst (gated_advice (\<lambda>_. []) (sample_exc ''WriteError'' [] ''pipe'') 0 None 0 0) = None \<and>
   retry_advice (router_refusal 529 (JObj [(''error'', JObj [(''code'', JStr ''CAPACITY'')])]) ''busy'')
     0 None 0 3 0 \<noteq> None \<and>
   fst (gated_advice (\<lambda>_. [])
     (router_refusal 529 (JObj [(''error'', JObj [(''code'', JStr ''CAPACITY'')])]) ''busy'') 0 None 0 0) = None"
proof -
  have 1: "retry_advice (sample_exc ''WriteError'' [] ''pipe'') 0 None 0 3 0 \<noteq> None" by code_simp
  have 2: "retry_advice (router_refusal 529 (JObj [(''error'', JObj [(''code'', JStr ''CAPACITY'')])]) ''busy'')
     0 None 0 3 0 \<noteq> None" by code_simp
  have "classify_code (fst (classify_failure (sample_exc ''WriteError'' [] ''pipe''))) = Unknown" by code_simp
  moreover have "classify_code (fst (classify_failure (router_refusal 529
      (JObj [(''error'', JObj [(''code'', JStr ''CAPACITY'')])]) ''busy''))) = Unknown" by code_simp
  ultimately show ?thesis using 1 2 by (simp add: gated_advice_def may_retry_iff DEFAULT_MAX_RETRIES_def)
qed

end
