(* ===== verification/Regex.thy ===== *)
theory Regex
  imports Py_Values
begin

section \<open>Regular expressions of the re module\<close>

text \<open>
  The fragment of Python's \<open>re\<close> the rule tables use, as data, with its backtracking order. A
  position is the character before it (none at the start) and the text after it. \<open>ends\<close> lists
  where a match can end, the one \<open>re\<close> prefers first; the flag is \<open>re.IGNORECASE\<close>, under which the
  (lower-case) patterns see lower-cased characters. \<open>Any\<close> is the dot under \<open>re.DOTALL\<close>.
\<close>

datatype cclass = One char | Range char char | Space | Not_Space | Word_Char

datatype rx =
    Eps
  | Text string
  | Cls bool "cclass list"
  | Any
  | Seq rx rx
  | Alt rx rx
  | Star rx
  | Lazy rx
  | Bos
  | Eos
  | Word_B
  | Not_Ahead rx

type_synonym position = "char option \<times> string"

fun Seqs :: "rx list \<Rightarrow> rx" where
  "Seqs [] = Eps"
| "Seqs [r] = r"
| "Seqs (r # s # rs) = Seq r (Seqs (s # rs))"

fun Alts :: "rx list \<Rightarrow> rx" where
  "Alts [] = Eps"
| "Alts [r] = r"
| "Alts (r # s # rs) = Alt r (Alts (s # rs))"

definition Words :: "string list \<Rightarrow> rx" where
  "Words ws = Alts (map Text ws)"

definition Plus :: "rx \<Rightarrow> rx" where "Plus r = Seq r (Star r)"
definition Opt :: "rx \<Rightarrow> rx" where "Opt r = Alt r Eps"

definition Sp :: rx where "Sp = Cls False [Space]"
definition Eol :: rx where "Eol = Alt Sp Eos"

text \<open>Any characters of the same command: \<open>[^|;]*\<close>.\<close>

definition Same_Cmd :: rx where "Same_Cmd = Star (Cls True [One (CHR ''|''), One (CHR '';'')])"

definition is_word :: "char \<Rightarrow> bool" where
  "is_word c = (is_alnum c \<or> c = CHR ''_'')"

fun in_class :: "char \<Rightarrow> cclass \<Rightarrow> bool" where
  "in_class c (One d) = (c = d)"
| "in_class c (Range a b) = ((of_char a :: nat) \<le> of_char c \<and> (of_char c :: nat) \<le> of_char b)"
| "in_class c Space = is_space c"
| "in_class c Not_Space = (\<not> is_space c)"
| "in_class c Word_Char = is_word c"

fun last_of :: "string \<Rightarrow> char option \<Rightarrow> char option" where
  "last_of [] p = p"
| "last_of (c # cs) p = last_of cs (Some c)"

text \<open>Greedy and lazy iteration. A round that consumes nothing ends the iteration, so the rounds
  are at most as many as the characters left.\<close>

fun star_ends :: "(position \<Rightarrow> position list) \<Rightarrow> nat \<Rightarrow> position \<Rightarrow> position list" where
  "star_ends f 0 z = [z]"
| "star_ends f (Suc n) z =
     concat (map (\<lambda>y. if length (snd y) < length (snd z) then star_ends f n y else []) (f z)) @ [z]"

fun lazy_ends :: "(position \<Rightarrow> position list) \<Rightarrow> nat \<Rightarrow> position \<Rightarrow> position list" where
  "lazy_ends f 0 z = [z]"
| "lazy_ends f (Suc n) z =
     z # concat (map (\<lambda>y. if length (snd y) < length (snd z) then lazy_ends f n y else []) (f z))"

definition word_at :: "char option \<Rightarrow> bool" where
  "word_at p = (case p of None \<Rightarrow> False | Some c \<Rightarrow> is_word c)"

primrec ends :: "bool \<Rightarrow> rx \<Rightarrow> position \<Rightarrow> position list" where
  "ends ic Eps z = [z]"
| "ends ic (Text w) z =
     (if take (length w) (if ic then lower (snd z) else snd z) = w
      then [(last_of (take (length w) (snd z)) (fst z), drop (length w) (snd z))] else [])"
| "ends ic (Cls neg cs) z =
     (case snd z of [] \<Rightarrow> []
      | x # xs \<Rightarrow> if list_ex (in_class (if ic then lower_char x else x)) cs \<noteq> neg
                 then [(Some x, xs)] else [])"
| "ends ic Any z = (case snd z of [] \<Rightarrow> [] | x # xs \<Rightarrow> [(Some x, xs)])"
| "ends ic (Seq a b) z = concat (map (ends ic b) (ends ic a z))"
| "ends ic (Alt a b) z = ends ic a z @ ends ic b z"
| "ends ic (Star r) z = star_ends (ends ic r) (length (snd z)) z"
| "ends ic (Lazy r) z = lazy_ends (ends ic r) (length (snd z)) z"
| "ends ic Bos z = (if fst z = None then [z] else [])"
| "ends ic Eos z = (if snd z = [] \<or> snd z = [CHR 0x0A] then [z] else [])"
| "ends ic Word_B z =
     (if word_at (fst z) \<noteq> word_at (case snd z of [] \<Rightarrow> None | x # _ \<Rightarrow> Some x) then [z] else [])"
| "ends ic (Not_Ahead r) z = (if ends ic r z = [] then [z] else [])"

text \<open>\<open>re.search(p, s) is not None\<close>.\<close>

fun search_from :: "bool \<Rightarrow> rx \<Rightarrow> char option \<Rightarrow> string \<Rightarrow> bool" where
  "search_from ic r p [] = (ends ic r (p, []) \<noteq> [])"
| "search_from ic r p (x # xs) = (ends ic r (p, x # xs) \<noteq> [] \<or> search_from ic r (Some x) xs)"

definition search :: "rx \<Rightarrow> string \<Rightarrow> bool" where
  "search r s = search_from False r None s"

text \<open>\<open>p(.*)$\<close> with \<open>re.DOTALL\<close>: the group is what is left after the preferred match of \<open>p\<close>.\<close>

definition match_rest :: "rx \<Rightarrow> string \<Rightarrow> string option" where
  "match_rest r s = (case ends True r (None, s) of [] \<Rightarrow> None | z # _ \<Rightarrow> Some (snd z))"

text \<open>\<open>re.fullmatch(p, s) is not None\<close>.\<close>

definition fullmatch :: "rx \<Rightarrow> string \<Rightarrow> bool" where
  "fullmatch r s = list_ex (\<lambda>z. snd z = []) (ends False r (None, s))"

text \<open>\<open>re.sub(r'\s+', ' ', s)\<close>.\<close>

fun squeeze :: "string \<Rightarrow> string" where
  "squeeze [] = []"
| "squeeze (c # cs) =
     (if is_space c then (case squeeze cs of (d # ds) \<Rightarrow> if d = CHR '' '' then d # ds else CHR '' '' # d # ds
                           | [] \<Rightarrow> CHR '' '' # [])
      else c # squeeze cs)"

subsection \<open>Matching never invents text\<close>

text \<open>A match consumes a prefix of the text: what is left is always a suffix.\<close>

definition is_suffix :: "string \<Rightarrow> string \<Rightarrow> bool" where
  "is_suffix t s = (\<exists>p. s = p @ t)"

lemma is_suffix_refl [simp]: "is_suffix s s"
  by (simp add: is_suffix_def)

lemma is_suffix_trans: "is_suffix t s \<Longrightarrow> is_suffix s r \<Longrightarrow> is_suffix t r"
  by (auto simp: is_suffix_def)

lemma is_suffix_length: "is_suffix t s \<Longrightarrow> length t \<le> length s"
  by (auto simp: is_suffix_def)

lemma star_ends_suffix:
  assumes "\<And>z y. y \<in> set (f z) \<Longrightarrow> is_suffix (snd y) (snd z)"
  shows "y \<in> set (star_ends f n z) \<Longrightarrow> is_suffix (snd y) (snd z)"
  by (induction n arbitrary: z) (auto split: if_splits dest: assms intro: is_suffix_trans)

lemma lazy_ends_suffix:
  assumes "\<And>z y. y \<in> set (f z) \<Longrightarrow> is_suffix (snd y) (snd z)"
  shows "y \<in> set (lazy_ends f n z) \<Longrightarrow> is_suffix (snd y) (snd z)"
  by (induction n arbitrary: z) (auto split: if_splits dest: assms intro: is_suffix_trans)

lemma ends_suffix: "y \<in> set (ends ic r z) \<Longrightarrow> is_suffix (snd y) (snd z)"
proof (induction r arbitrary: y z)
  case (Text w)
  then show ?case
    by (auto simp: is_suffix_def intro!: exI [of _ "take (length w) (snd z)"] split: if_splits
        simp del: append_take_drop_id) (metis append_take_drop_id)+
next
  case (Cls neg cs)
  then show ?case by (cases "snd z") (auto simp: is_suffix_def split: if_splits)
next
  case Any
  then show ?case by (cases "snd z") (auto simp: is_suffix_def)
next
  case (Seq a b)
  then obtain x where "x \<in> set (ends ic a z)" "y \<in> set (ends ic b x)" by auto
  then show ?case using Seq.IH is_suffix_trans by blast
next
  case (Star r)
  then show ?case using star_ends_suffix [of "ends ic r"] by auto
next
  case (Lazy r)
  then show ?case using lazy_ends_suffix [of "ends ic r"] by auto
qed (auto split: if_splits)

lemma match_rest_suffix: "match_rest r s = Some t \<Longrightarrow> is_suffix t s"
  using ends_suffix [of _ True r "(None, s)"]
  by (auto simp: match_rest_def split: list.splits)

lemma squeeze_spaces: "c \<in> set (squeeze s) \<Longrightarrow> is_space c \<Longrightarrow> c = CHR '' ''"
  by (induction s) (auto split: if_splits list.splits)

end
