(* ===== verification/Cua_Target.thy ===== *)
theory Cua_Target
  imports Py_Values
begin

section \<open>The desktop target of a session\<close>

text \<open>
  \<open>agent_core/cua_target.py\<close>: which window, or the whole machine, a computer-use call acts on.
  Windows are the dictionaries \<open>list_windows\<close> answers. A normalised target is a datatype; its
  optional fields are absent when empty (\<open>pid\<close> absent when zero), as in the code's dictionaries.
  Sessions are rows with a parent (empty for a root) and a configuration.
\<close>

record window_target =
  tw_hwnd :: int
  tw_pid :: "int option"
  tw_title :: string
  tw_process :: string
  tw_class :: string

datatype target = Whole_Machine | Window window_target

datatype target_code =
    Target_Required | Target_Unknown | Target_Ambiguous | Machine_Scope_Required | Target_Kind_Invalid

record target_error =
  te_code :: target_code
  te_reason :: string
  te_candidates :: "window_target list"

definition target_failure :: "target_code \<Rightarrow> string \<Rightarrow> target_error" where
  "target_failure code reason = \<lparr>te_code = code, te_reason = reason, te_candidates = []\<rparr>"

definition text_of :: "json \<Rightarrow> string" where
  "text_of v = strip (str_or_empty v)"

definition fold_text :: "json \<Rightarrow> string" where
  "fold_text v = lower (text_of v)"

definition bare_process :: "json \<Rightarrow> string" where
  "bare_process v =
     (let text = fold_text v in
      if ends_with ''.exe'' text then take (length text - 4) text else text)"

definition as_int :: "json \<Rightarrow> int option" where
  "as_int v = py_int v"

text \<open>\<open>if pid:\<close> drops a missing and a zero process id.\<close>

definition pid_field :: "json \<Rightarrow> int option" where
  "pid_field v = (case as_int v of Some n \<Rightarrow> if n \<noteq> 0 then Some n else None | None \<Rightarrow> None)"

definition window_entry :: "(string \<times> json) list \<Rightarrow> target_error + window_target" where
  "window_entry w =
     (case as_int (dict_get_or (dict_get w ''hwnd'') w ''windowId'') of
        None \<Rightarrow> Inl (target_failure Target_Unknown [])
      | Some hwnd \<Rightarrow>
          Inr \<lparr>tw_hwnd = hwnd, tw_pid = pid_field (dict_get w ''pid''),
               tw_title = text_of (dict_get w ''title''),
               tw_process = text_of (dict_get_or (dict_get w ''process_name'') w ''processName''),
               tw_class = text_of (dict_get_or (dict_get w ''class_name'') w ''windowClass'')\<rparr>)"

definition normalize :: "json \<Rightarrow> target option" where
  "normalize raw =
     (case raw of
        JObj d \<Rightarrow>
          (let kind = lower (text_of (dict_get d ''kind'')) in
           if kind = ''machine'' then Some Whole_Machine
           else if kind \<noteq> ''window'' then None
           else case as_int (dict_get d ''windowId'') of
             None \<Rightarrow> None
           | Some hwnd \<Rightarrow>
               Some (Window \<lparr>tw_hwnd = hwnd, tw_pid = pid_field (dict_get d ''pid''),
                 tw_title = text_of (dict_get d ''title''),
                 tw_process = text_of (dict_get d ''processName''),
                 tw_class = text_of (dict_get d ''windowClass'')\<rparr>))
      | _ \<Rightarrow> None)"

text \<open>The dictionary a normalised target is stored as.\<close>

definition text_field :: "string \<Rightarrow> string \<Rightarrow> (string \<times> json) list" where
  "text_field k s = (if s = [] then [] else [(k, JStr s)])"

fun target_json :: "target \<Rightarrow> json" where
  "target_json Whole_Machine = JObj [(''kind'', JStr ''machine'')]"
| "target_json (Window w) =
     JObj ([(''kind'', JStr ''window''), (''windowId'', JInt (tw_hwnd w))]
       @ (case tw_pid w of None \<Rightarrow> [] | Some p \<Rightarrow> [(''pid'', JInt p)])
       @ text_field ''title'' (tw_title w) @ text_field ''processName'' (tw_process w)
       @ text_field ''windowClass'' (tw_class w))"

definition scope_allows_machine :: "json \<Rightarrow> bool" where
  "scope_allows_machine scope = (lower (text_of scope) = ''machine'')"

definition describe_target :: "json \<Rightarrow> string" where
  "describe_target t =
     (let entry = (case normalize t of
            Some e \<Rightarrow> Some e
          | None \<Rightarrow> (case t of
                JObj d \<Rightarrow> if dict_get d ''windowId'' \<noteq> JNull
                  then (case window_entry d of Inr w \<Rightarrow> Some (Window w) | Inl _ \<Rightarrow> None) else None
              | _ \<Rightarrow> None))
      in case entry of
           None \<Rightarrow> ''chua chon dich''
         | Some Whole_Machine \<Rightarrow> ''ca may''
         | Some (Window w) \<Rightarrow>
             (let title = (if tw_title w \<noteq> [] then tw_title w else ''khong tieu de'') in
              if tw_process w \<noteq> [] then tw_process w @ '' - '' @ title else title))"

subsection \<open>Finding a window\<close>

type_synonym window = "(string \<times> json) list"

definition candidates :: "window list \<Rightarrow> string \<Rightarrow> string \<Rightarrow> window list" where
  "candidates windows needle field =
     (let exact0 = filter (\<lambda>w. fold_text (dict_get w field) = needle) windows;
          exact = (if exact0 = [] \<and> field = ''processName''
                   then filter (\<lambda>w. bare_process (dict_get w field) = needle) windows else exact0)
      in if exact \<noteq> [] then exact
         else filter (\<lambda>w. needle \<noteq> [] \<and> contains needle (fold_text (dict_get w field))) windows)"

definition given :: "json \<Rightarrow> bool" where
  "given v = (v \<noteq> JNull \<and> v \<noteq> JStr [])"

text \<open>The entries of the ambiguous candidates; the first that has no window id raises.\<close>

fun entries :: "window list \<Rightarrow> target_error + window_target list" where
  "entries [] = Inr []"
| "entries (w # ws) =
     (case window_entry w of
        Inl e \<Rightarrow> Inl e
      | Inr t \<Rightarrow> (case entries ws of Inl e \<Rightarrow> Inl e | Inr ts \<Rightarrow> Inr (t # ts)))"

definition match_window :: "window list \<Rightarrow> json \<Rightarrow> json \<Rightarrow> target_error + window_target" where
  "match_window items app window =
     (if \<not> given app \<and> \<not> given window then Inl (target_failure Target_Unknown ''not_found'')
      else
        let found1 = (if given app then candidates items (fold_text app) ''processName'' else items);
            found = (if found1 = [] \<and> given app then []
                     else if given window then candidates found1 (fold_text window) ''title'' else found1)
        in case found of
             [] \<Rightarrow> Inl (target_failure Target_Unknown ''not_found'')
           | [w] \<Rightarrow> window_entry w
           | _ \<Rightarrow> (case entries (take 8 found) of
                 Inl e \<Rightarrow> Inl e
               | Inr ts \<Rightarrow> Inl \<lparr>te_code = Target_Ambiguous, te_reason = [], te_candidates = ts\<rparr>))"

text \<open>
  \<open>verify_window\<close> on a window target: the window with the same handle, unless a known process id
  differs (the handle was reused), else the one window of the same process and title. \<open>Inl\<close> is the
  error \<open>window_entry\<close> raises outside the handler of \<open>match_window\<close>'s errors, which cannot occur for
  a window found by its handle.
\<close>

fun by_handle :: "int \<Rightarrow> int option \<Rightarrow> window list \<Rightarrow> (target_error + window_target) option" where
  "by_handle hwnd pid [] = None"
| "by_handle hwnd pid (w # ws) =
     (if as_int (dict_get w ''windowId'') = Some hwnd then
        (if pid \<noteq> None \<and> as_int (dict_get w ''pid'') \<notin> {None, pid} then None
         else Some (window_entry w))
      else by_handle hwnd pid ws)"

definition verify_window :: "window_target \<Rightarrow> window list \<Rightarrow> target_error + window_target option" where
  "verify_window t items =
     (case by_handle (tw_hwnd t) (tw_pid t) items of
        Some r \<Rightarrow> (case r of Inl e \<Rightarrow> Inl e | Inr w \<Rightarrow> Inr (Some w))
      | None \<Rightarrow>
          if tw_process t = [] \<and> tw_title t = [] then Inr None
          else
            (case match_window items
                    (if tw_process t \<noteq> [] then JStr (tw_process t) else JNull)
                    (if tw_title t \<noteq> [] then JStr (tw_title t) else JNull) of
               Inl _ \<Rightarrow> Inr None
             | Inr w \<Rightarrow> Inr (Some w)))"

datatype target_source = From_Arg | From_Agent | From_Session | From_Default

definition obj_items :: "json list \<Rightarrow> window list" where
  "obj_items ws = concat (map (\<lambda>w. case w of JObj d \<Rightarrow> [d] | _ \<Rightarrow> []) ws)"

definition resolve_target ::
  "(string \<times> json) list \<Rightarrow> json \<Rightarrow> json list \<Rightarrow> json \<Rightarrow> target_error + target \<times> target_source" where
  "resolve_target args session_target windows scope =
     (let items = obj_items windows;
          raw0 = dict_get args ''windowId'';
          raw = (if \<not> given raw0
                 then (case dict_get args ''target'' of JObj d \<Rightarrow> dict_get d ''windowId'' | _ \<Rightarrow> raw0)
                 else raw0)
      in if given raw then
           (case find (\<lambda>w. as_int (dict_get w ''windowId'') = as_int raw) items of
              Some w \<Rightarrow> (case window_entry w of Inl e \<Rightarrow> Inl e | Inr t \<Rightarrow> Inr (Window t, From_Arg))
            | None \<Rightarrow> Inl (target_failure Target_Unknown ''not_found''))
         else if given (dict_get args ''app'') \<or> given (dict_get args ''window'') then
           (case match_window items (dict_get args ''app'') (dict_get args ''window'') of
              Inl e \<Rightarrow> Inl e | Inr t \<Rightarrow> Inr (Window t, From_Agent))
         else case normalize session_target of
           Some Whole_Machine \<Rightarrow>
             (if scope_allows_machine scope then Inr (Whole_Machine, From_Session)
              else Inl (target_failure Machine_Scope_Required []))
         | Some (Window t) \<Rightarrow>
             (case verify_window t items of
                Inl e \<Rightarrow> Inl e
              | Inr None \<Rightarrow> Inl (target_failure Target_Unknown ''window_gone'')
              | Inr (Some w) \<Rightarrow> Inr (Window w, From_Session))
         | None \<Rightarrow>
             (if scope_allows_machine scope then Inr (Whole_Machine, From_Default)
              else Inl (target_failure Target_Required [])))"

subsection \<open>Where a session's target is kept\<close>

record session_row =
  parent_id :: string
  row_config :: json

type_synonym session_table = "(string \<times> session_row) list"

definition config_of :: "session_table \<Rightarrow> string \<Rightarrow> (string \<times> json) list" where
  "config_of db sid =
     (case map_of db sid of None \<Rightarrow> []
      | Some row \<Rightarrow> (case row_config row of JObj c \<Rightarrow> c | _ \<Rightarrow> []))"

definition read_own :: "session_table \<Rightarrow> string \<Rightarrow> target option" where
  "read_own db sid = normalize (dict_get (config_of db sid) ''cuaTarget'')"

text \<open>The walk up the parents. Every row visited is new and in the table, so it ends.\<close>

function (sequential) read_from :: "session_table \<Rightarrow> string list \<Rightarrow> string \<Rightarrow> target option" where
  "read_from db seen cur =
     (if cur = [] \<or> cur \<in> set seen then None
      else case read_own db cur of
        Some t \<Rightarrow> Some t
      | None \<Rightarrow> (case map_of db cur of
            None \<Rightarrow> None
          | Some row \<Rightarrow> read_from db (cur # seen) (parent_id row)))"
  by pat_completeness auto

lemma unseen_decreases:
  "map_of db cur = Some row \<Longrightarrow> cur \<notin> set seen \<Longrightarrow>
     card (fst ` set db - set (cur # seen)) < card (fst ` set db - set seen)"
proof (rule psubset_card_mono)
  assume "map_of db cur = Some row" "cur \<notin> set seen"
  then have "cur \<in> fst ` set db - set seen" by (metis DiffI fst_conv image_eqI map_of_SomeD)
  then show "fst ` set db - set (cur # seen) \<subset> fst ` set db - set seen" by auto
qed simp

termination read_from
  by (relation "measure (\<lambda>(db, seen, cur). card (fst ` set db - set seen))")
    (use unseen_decreases in auto)

declare read_from.simps [simp del]

definition read_target :: "session_table \<Rightarrow> string \<Rightarrow> target option" where
  "read_target db sid = read_from db [] sid"

function (sequential) root_from :: "session_table \<Rightarrow> string \<Rightarrow> string list \<Rightarrow> string \<Rightarrow> string" where
  "root_from db sid seen cur =
     (if cur = [] \<or> cur \<in> set seen then sid
      else case map_of db cur of
        None \<Rightarrow> cur
      | Some row \<Rightarrow> if parent_id row = [] then cur
                    else root_from db sid (cur # seen) (parent_id row))"
  by pat_completeness auto

termination root_from
  by (relation "measure (\<lambda>(db, sid, seen, cur). card (fst ` set db - set seen))")
    (use unseen_decreases in auto)

declare root_from.simps [simp del]

definition target_root :: "session_table \<Rightarrow> string \<Rightarrow> string" where
  "target_root db sid = root_from db sid [] sid"

record target_meta =
  meta_target :: "target option"
  meta_by :: string
  meta_revision :: int
  meta_at :: json
  meta_inherited :: "string option"

definition revision_of :: "(string \<times> json) list \<Rightarrow> int" where
  "revision_of config =
     (case as_int (dict_get config ''cuaTargetRevision'') of Some n \<Rightarrow> n | None \<Rightarrow> 0)"

definition empty_meta :: target_meta where
  "empty_meta = \<lparr>meta_target = None, meta_by = [], meta_revision = 0, meta_at = JNull,
     meta_inherited = None\<rparr>"

definition meta_of :: "string \<Rightarrow> string \<Rightarrow> (string \<times> json) list \<Rightarrow> target_meta" where
  "meta_of sid cur config =
     (let t = normalize (dict_get config ''cuaTarget'');
          who = text_of (dict_get config ''cuaTargetSetBy'')
      in \<lparr>meta_target = t, meta_by = (if who \<noteq> [] then who else ''user''),
          meta_revision = revision_of config, meta_at = dict_get config ''cuaTargetAt'',
          meta_inherited = (if cur = sid \<or> t = None then None else Some cur)\<rparr>)"

function (sequential) meta_from ::
  "session_table \<Rightarrow> string \<Rightarrow> string list \<Rightarrow> string \<Rightarrow> target_meta" where
  "meta_from db sid seen cur =
     (if cur = [] \<or> cur \<in> set seen then empty_meta
      else if map_of (config_of db cur) ''cuaTarget'' \<noteq> None then meta_of sid cur (config_of db cur)
      else case map_of db cur of
        None \<Rightarrow> empty_meta
      | Some row \<Rightarrow> meta_from db sid (cur # seen) (parent_id row))"
  by pat_completeness auto

termination meta_from
  by (relation "measure (\<lambda>(db, sid, seen, cur). card (fst ` set db - set seen))")
    (use unseen_decreases in auto)

declare meta_from.simps [simp del]

definition read_meta :: "session_table \<Rightarrow> string \<Rightarrow> target_meta" where
  "read_meta db sid = meta_from db sid [] sid"

text \<open>\<open>store.update_config\<close>: an \<open>UPDATE\<close> of the row, which changes nothing when there is none.\<close>

definition update_config :: "string \<Rightarrow> json \<Rightarrow> session_table \<Rightarrow> session_table" where
  "update_config sid config db =
     map (\<lambda>(k, row). if k = sid then (k, row\<lparr>row_config := config\<rparr>) else (k, row)) db"

definition put_target ::
  "session_table \<Rightarrow> string \<Rightarrow> json \<Rightarrow> string \<Rightarrow> json \<Rightarrow> session_table \<times> int" where
  "put_target db rsid entry set_by now =
     (let config = config_of db rsid;
          revision = revision_of config + 1;
          config = dict_set ''cuaTarget'' entry config;
          config = dict_set ''cuaTargetSetBy'' (JStr set_by) config;
          config = dict_set ''cuaTargetRevision'' (JInt revision) config;
          config = dict_set ''cuaTargetAt'' now config
      in (update_config rsid (JObj config) db, revision))"

definition write_target ::
  "session_table \<Rightarrow> string \<Rightarrow> json \<Rightarrow> string \<Rightarrow> json \<Rightarrow> (target_error, session_table \<times> target_meta) outcome" where
  "write_target db sid raw set_by now =
     (case normalize raw of
        None \<Rightarrow> Inl (target_failure Target_Kind_Invalid [])
      | Some t \<Rightarrow>
          (let (db', revision) = put_target db (target_root db sid) (target_json t) set_by now
           in Inr (db', \<lparr>meta_target = Some t, meta_by = set_by, meta_revision = revision,
                meta_at = now, meta_inherited = None\<rparr>)))"

definition clear_target :: "session_table \<Rightarrow> string \<Rightarrow> json \<Rightarrow> session_table \<times> target_meta" where
  "clear_target db sid now =
     (let (db', revision) = put_target db (target_root db sid) JNull ''user'' now
      in (db', \<lparr>meta_target = None, meta_by = ''user'', meta_revision = revision,
           meta_at = now, meta_inherited = None\<rparr>))"

definition apply_agent_target ::
  "session_table option \<Rightarrow> string \<Rightarrow> json \<Rightarrow> target_source \<Rightarrow> json \<Rightarrow>
     (target_error, session_table option) outcome" where
  "apply_agent_target store sid raw source now =
     (case store of
        None \<Rightarrow> Inr None
      | Some db \<Rightarrow>
          (if source \<noteq> From_Agent \<or> sid = [] then Inr (Some db)
           else if read_target db sid = normalize raw then Inr (Some db)
           else case write_target db sid raw ''agent'' now of
             Inl e \<Rightarrow> Inl e | Inr (db', _) \<Rightarrow> Inr (Some db')))"

subsection \<open>Properties\<close>

lemma candidates_subset: "set (candidates ws n f) \<subseteq> set ws"
  by (auto simp: candidates_def Let_def)

text \<open>The windows \<open>match_window\<close> has found before it looks at how many they are.\<close>

definition found_windows :: "window list \<Rightarrow> json \<Rightarrow> json \<Rightarrow> window list" where
  "found_windows items app window =
     (let found1 = (if given app then candidates items (fold_text app) ''processName'' else items)
      in if found1 = [] \<and> given app then []
         else if given window then candidates found1 (fold_text window) ''title'' else found1)"

lemma found_windows_subset: "set (found_windows items app window) \<subseteq> set items"
  using candidates_subset [of items "fold_text app" "''processName''"]
    candidates_subset [of items "fold_text window" "''title''"]
    candidates_subset [of "candidates items (fold_text app) ''processName''" "fold_text window" "''title''"]
  by (auto simp: found_windows_def Let_def)

lemma match_windowD:
  assumes "match_window items app window = Inr t"
  shows "\<exists>w \<in> set items. window_entry w = Inr t"
proof -
  obtain w where "found_windows items app window = [w]" "window_entry w = Inr t"
    using assms
    by (auto simp: match_window_def found_windows_def [symmetric, unfolded Let_def] Let_def
        split: if_split_asm list.split_asm sum.split_asm)
  then show ?thesis using found_windows_subset [of items app window] by auto
qed

lemma by_handleD: "by_handle h p items = Some (Inr t) \<Longrightarrow> \<exists>w \<in> set items. window_entry w = Inr t"
  by (induction items) (auto split: if_splits)

lemma verify_windowD:
  "verify_window t items = Inr (Some u) \<Longrightarrow> \<exists>w \<in> set items. window_entry w = Inr u"
  by (auto simp: verify_window_def split: option.splits sum.splits if_splits
      dest: by_handleD match_windowD)

text \<open>A computer-use call only ever gets a target that is really there: a window target is the
  entry of a window on the screen now, and the whole machine is a target only when the permission
  scope allows it and the call names no window.\<close>

theorem resolved_target_is_real:
  assumes "resolve_target args session_target windows scope = Inr (t, src)"
  shows "(case t of
      Window w \<Rightarrow> (\<exists>d. JObj d \<in> set windows \<and> window_entry d = Inr w)
    | Whole_Machine \<Rightarrow> scope_allows_machine scope \<and> src \<in> {From_Session, From_Default} \<and>
        \<not> given (dict_get args ''app'') \<and> \<not> given (dict_get args ''window'') \<and>
        \<not> given (dict_get args ''windowId''))"
proof -
  have o: "d \<in> set (obj_items ws) \<Longrightarrow> JObj d \<in> set ws" for d ws
    by (auto simp: obj_items_def split: json.splits)
  show ?thesis
  proof (cases t)
    case Whole_Machine
    then show ?thesis using assms
      by (auto simp: resolve_target_def Let_def split: if_splits option.splits sum.splits target.splits)
  next
    case (Window w)
    have "\<exists>d \<in> set (obj_items windows). window_entry d = Inr w"
      using assms Window
      by (auto simp: resolve_target_def Let_def split: if_splits option.splits sum.splits target.splits
          dest: match_windowD verify_windowD find_SomeD)
    then show ?thesis using Window o by auto
  qed
qed

definition notepad_window :: window where
  "notepad_window = [(''windowId'', JInt 7), (''pid'', JInt 40), (''processName'', JStr ''notepad.exe'')]"

theorem resolved_target_is_real_witness:
  "\<exists>w src. resolve_target [(''app'', JStr ''Notepad'')] JNull [JObj notepad_window] (JStr ''workspace'')
     = Inr (Window w, src) \<and> (\<exists>d. JObj d \<in> set [JObj notepad_window] \<and> window_entry d = Inr w)"
proof -
  have "isl (resolve_target [(''app'', JStr ''Notepad'')] JNull [JObj notepad_window] (JStr ''workspace'')) = False"
    by code_simp
  then obtain t src where r: "resolve_target [(''app'', JStr ''Notepad'')] JNull [JObj notepad_window]
      (JStr ''workspace'') = Inr (t, src)"
    by (cases "resolve_target [(''app'', JStr ''Notepad'')] JNull [JObj notepad_window] (JStr ''workspace'')") auto
  have "\<not> scope_allows_machine (JStr ''workspace'')" by code_simp
  then show ?thesis using resolved_target_is_real [OF r] r by (cases t) auto
qed

lemma strip_idem: "strip (strip s) = strip s"
proof -
  have l: "lstrip (lstrip s) = lstrip s" for s by (simp add: lstrip_def)
  have r: "rstrip (rstrip s) = rstrip s" for s
    by (simp add: rstrip_def)
  have "lstrip (rstrip (lstrip s)) = rstrip (lstrip s)"
  proof (cases "rstrip (lstrip s)")
    case (Cons c cs)
    then obtain d ds where d: "lstrip s = d # ds" by (cases "lstrip s") (auto simp: rstrip_def)
    then have "\<not> is_space d" by (rule lstrip_hd)
    then show ?thesis using d by (simp add: rstrip_Cons lstrip_def)
  qed (simp add: lstrip_def)
  then show ?thesis by (simp add: strip_def r)
qed

text \<open>What a target the code builds looks like: its texts are stripped, its process id not zero.\<close>

fun clean_target :: "target \<Rightarrow> bool" where
  "clean_target Whole_Machine = True"
| "clean_target (Window w) =
     (tw_pid w \<noteq> Some 0 \<and> strip (tw_title w) = tw_title w \<and> strip (tw_process w) = tw_process w \<and>
      strip (tw_class w) = tw_class w)"

lemma strip_text_of [simp]: "strip (text_of v) = text_of v"
  by (simp add: text_of_def strip_idem)

lemma pid_field_nonzero [simp]: "pid_field v \<noteq> Some 0"
  by (simp add: pid_field_def split: option.split)

lemma normalize_clean: "normalize v = Some t \<Longrightarrow> clean_target t"
  by (auto simp: normalize_def Let_def split: json.splits if_splits option.splits)

lemma text_of_JStr: "text_of (JStr s) = strip s"
  by (cases s) (simp_all add: text_of_def str_or_empty_def strip_def lstrip_def rstrip_def)

lemma text_of_JNull [simp]: "text_of JNull = []"
  by (simp add: text_of_def str_or_empty_def strip_def lstrip_def rstrip_def)

lemma map_of_text_field:
  "map_of (text_field k s) k' = (if k' = k \<and> s \<noteq> [] then Some (JStr s) else None)"
  by (simp add: text_field_def)

lemma kind_texts: "strip ''machine'' = ''machine''" "lower ''machine'' = ''machine''"
  "strip ''window'' = ''window''" "lower ''window'' = ''window''"
  by code_simp+

lemma normalize_target_json: "clean_target t \<Longrightarrow> normalize (target_json t) = Some t"
proof (cases t)
  case Whole_Machine
  then show ?thesis by (simp add: normalize_def dict_get_or_def text_of_JStr kind_texts)
next
  case (Window w)
  assume "clean_target t"
  then show ?thesis using Window
    by (cases w)
      (auto simp: normalize_def dict_get_or_def text_of_JStr kind_texts map_of_text_field map_add_def
        as_int_def pid_field_def split: option.splits)
qed

text \<open>C26. Storing a target and reading it back gives the same target: what \<open>normalize\<close> accepted is
  what it reads from the stored dictionary, so normalising twice changes nothing.\<close>

theorem normalize_roundtrip:
  "normalize raw = Some t \<Longrightarrow> normalize (target_json t) = Some t"
  by (rule normalize_target_json) (rule normalize_clean)

theorem normalize_roundtrip_witness:
  "normalize (target_json (Window \<lparr>tw_hwnd = 7, tw_pid = None, tw_title = ''Untitled'', tw_process = [], tw_class = []\<rparr>))
     = Some (Window \<lparr>tw_hwnd = 7, tw_pid = None, tw_title = ''Untitled'', tw_process = [], tw_class = []\<rparr>)"
proof (rule normalize_roundtrip)
  show "normalize (JObj [(''kind'', JStr '' Window''), (''windowId'', JStr ''7''), (''pid'', JInt 0),
      (''title'', JStr ''Untitled '')])
    = Some (Window \<lparr>tw_hwnd = 7, tw_pid = None, tw_title = ''Untitled'', tw_process = [], tw_class = []\<rparr>)"
    by code_simp
qed

subsection \<open>Writing to the root, reading from the children\<close>

lemma map_of_update_config:
  "map_of (update_config r c db) k =
     (case map_of db k of None \<Rightarrow> None
      | Some row \<Rightarrow> Some (if k = r then row\<lparr>row_config := c\<rparr> else row))"
  by (induction db) (auto simp: update_config_def split: option.splits)

lemma config_of_update:
  "config_of (update_config r (JObj c) db) k =
     (if k = r \<and> map_of db k \<noteq> None then c else config_of db k)"
  by (auto simp: config_of_def map_of_update_config split: option.splits)

lemma read_from_written:
  assumes "root_from db sid seen cur = r" and "sid \<noteq> r" and "map_of db r \<noteq> None"
    and "read_own db' r = Some t" and "\<And>k. k \<noteq> r \<Longrightarrow> read_own db' k = None"
    and "\<And>k. map_option parent_id (map_of db' k) = map_option parent_id (map_of db k)"
  shows "read_from db' seen cur = Some t"
  using assms
proof (induction db sid seen cur rule: root_from.induct)
  case (1 db sid seen cur)
  have c: "cur \<noteq> []" "cur \<notin> set seen"
    using "1.prems"(1,2) by (auto simp: root_from.simps [of db sid seen cur] split: if_splits)
  show ?case
  proof (cases "cur = r")
    case True
    then show ?thesis using c "1.prems"(4) by (simp add: read_from.simps [of db' seen r])
  next
    case False
    then obtain row where row: "map_of db cur = Some row"
      using "1.prems"(1,2) c by (auto simp: root_from.simps [of db sid seen cur] split: option.splits)
    then have p: "parent_id row \<noteq> []" "root_from db sid (cur # seen) (parent_id row) = r"
      using "1.prems"(1) False c by (auto simp: root_from.simps [of db sid seen cur] split: if_splits)
    obtain row' where row': "map_of db' cur = Some row'" "parent_id row' = parent_id row"
      using "1.prems"(6) [of cur] row by auto
    have "read_from db' (cur # seen) (parent_id row) = Some t"
      using "1.IH" [OF _ row p(1) p(2) "1.prems"(2-6)] c by simp
    then show ?thesis using c row' False "1.prems"(5) [of cur]
      by (simp add: read_from.simps [of db' seen cur])
  qed
qed

lemma put_target_reads:
  "read_own (fst (put_target db r (target_json t) who now)) k =
     (if k = r \<and> map_of db k \<noteq> None then normalize (target_json t) else read_own db k)"
  by (auto simp: put_target_def read_own_def config_of_update dict_get_or_def Let_def)

lemma put_target_parents:
  "map_option parent_id (map_of (fst (put_target db r e who now)) k) = map_option parent_id (map_of db k)"
  by (simp add: put_target_def map_of_update_config Let_def split: option.split)

text \<open>A target chosen for a session is what the session sees afterwards: a write goes to the
  root of the parent chain, and when no other session has a target of its own, the session reads
  back exactly the target written, with the revision one above the last.\<close>

theorem write_then_read:
  assumes "write_target db sid raw who now = Inr (db', m)"
    and "sid \<noteq> []" and "map_of db (target_root db sid) \<noteq> None"
    and "\<And>k. k \<noteq> target_root db sid \<Longrightarrow> read_own db k = None"
  shows "read_target db' sid = meta_target m \<and> meta_target m = normalize raw \<and>
    meta_revision m = revision_of (config_of db (target_root db sid)) + 1"
proof -
  let ?r = "target_root db sid"
  obtain t where t: "normalize raw = Some t" using assms(1) by (auto simp: write_target_def split: option.splits)
  then have w: "normalize (target_json t) = Some t" using normalize_target_json normalize_clean by blast
  have d: "db' = fst (put_target db ?r (target_json t) who now)"
    "meta_target m = Some t" "meta_revision m = snd (put_target db ?r (target_json t) who now)"
    using assms(1) t by (auto simp: write_target_def split: prod.splits)
  have own: "read_own db' ?r = Some t" using d(1) w assms(3) by (simp add: put_target_reads)
  have rest: "k \<noteq> ?r \<Longrightarrow> read_own db' k = None" for k
    using d(1) assms(4) [of k] by (simp add: put_target_reads)
  have "read_target db' sid = Some t"
  proof (cases "sid = ?r")
    case True
    then show ?thesis using own assms(2) by (simp add: read_target_def read_from.simps)
  next
    case False
    then show ?thesis unfolding read_target_def
      using read_from_written [of db sid "[]" sid ?r db' t, OF _ False assms(3) own rest] d(1)
      by (simp add: target_root_def put_target_parents)
  qed
  then show ?thesis using t d by (simp add: put_target_def Let_def)
qed

definition two_sessions :: session_table where
  "two_sessions = [(''root'', \<lparr>parent_id = [], row_config = JObj []\<rparr>),
     (''child'', \<lparr>parent_id = ''root'', row_config = JObj []\<rparr>)]"

theorem write_then_read_witness:
  "\<exists>db' m. write_target two_sessions ''child'' (JObj [(''kind'', JStr ''machine'')]) ''user'' JNull = Inr (db', m) \<and>
     read_target db' ''child'' = Some Whole_Machine"
proof -
  obtain db' m where w: "write_target two_sessions ''child'' (JObj [(''kind'', JStr ''machine'')]) ''user'' JNull = Inr (db', m)"
    by (simp add: write_target_def normalize_def dict_get_or_def text_of_JStr kind_texts case_prod_beta)
  have r: "target_root two_sessions ''child'' = ''root''" by code_simp
  have none: "read_own two_sessions k = None" for k
    by (simp add: read_own_def config_of_def two_sessions_def normalize_def dict_get_or_def split: option.splits)
  have n: "normalize (JObj [(''kind'', JStr ''machine'')]) = Some Whole_Machine" by code_simp
  have p: "map_of two_sessions ''root'' \<noteq> None" by (simp add: two_sessions_def)
  show ?thesis
    using write_then_read [OF w] r none p n w by auto
qed

end
