(* ===== verification/Permissions.thy ===== *)
theory Permissions
  imports Regex Cua_Target
begin

section \<open>Host permissions: command normal form, patterns and rules\<close>

text \<open>
  The pure part of \<open>agent_core/permissions.py\<close>: the tables of regular expressions, the normal form
  of a command, the splitting at shell operators, the matching of command, path and domain
  patterns, and the rule syntax. Texts are ASCII (\<open>casefold\<close> is \<open>lower\<close>).
\<close>

subsection \<open>Tables\<close>

definition HARDLINE :: "(rx \<times> string) list" where
  "HARDLINE = [
     (Seqs [Bos, Text ''format'', Opt (Text ''.com''), Eol], ''format_drive''),
     (Seqs [Bos, Text ''diskpart'', Eol], ''diskpart''),
     (Seqs [Bos, Text ''bcdedit'', Eol], ''bcdedit''),
     (Seqs [Bos, Text ''vssadmin'', Plus Sp, Text ''delete'', Plus Sp, Text ''shadows''],
       ''delete_shadow_copies''),
     (Seqs [Bos, Text ''remove-item'', Word_B, Same_Cmd, Alts [Text ''-recurse'', Seqs [Text
       ''-r'', Word_B]], Same_Cmd, Alts [Text ''-force'', Seqs [Text ''-f'', Word_B]], Same_Cmd,
       Sp, Cls False [Range (CHR ''a'') (CHR ''z'')], Text '':'', Opt (Text [CHR 0x5C]), Alts
       [Sp, Eos, Text ''*'']], ''delete_drive_root''),
     (Seqs [Bos, Text ''remove-item'', Word_B, Same_Cmd, Alts [Text ''-recurse'', Seqs [Text
       ''-r'', Word_B]], Same_Cmd, Alts [Text ''-force'', Seqs [Text ''-f'', Word_B]], Same_Cmd,
       Sp, Cls False [Range (CHR ''a'') (CHR ''z'')], Text '':'', Text [CHR 0x5C], Text
       ''windows''], ''delete_windows_dir''),
     (Seqs [Bos, Alts [Seqs [Text ''reg'', Plus Sp, Text ''add''], Text ''set-itemproperty'',
       Text ''new-itemproperty''], Same_Cmd, Words [''hklm'', ''hkey_local_machine'']],
       ''write_hklm''),
     (Seqs [Bos, Text ''shutdown'', Opt (Text ''.exe''), Plus Sp, Text ''/'', Words [''r'',
       ''s'', ''p'', ''h'', ''fw'']], ''shutdown''),
     (Seqs [Bos, Text ''set-mppreference'', Same_Cmd, Text ''-disablerealtimemonitoring''],
       ''disable_defender''),
     (Seqs [Bos, Text ''netsh'', Plus Sp, Text ''advfirewall'', Plus Sp, Text ''set'', Same_Cmd,
       Text ''state'', Plus Sp, Text ''off''], ''disable_firewall''),
     (Seqs [Bos, Words [''rm'', ''remove-item''], Plus Sp, Same_Cmd, Sp, Text ''/'', Alts [Sp,
       Eos, Text ''*'']], ''delete_root''),
     (Seqs [Bos, Text ''mkfs'', Opt (Seqs [Text ''.'', Plus (Cls False [Word_Char])]), Eol],
       ''format_filesystem''),
     (Seqs [Bos, Text ''dd'', Word_B, Same_Cmd, Text ''of=/dev/''], ''overwrite_device'')]"

definition NAME_END :: rx where
  "NAME_END = Not_Ahead (Cls False [Word_Char, One (CHR ''.''), One (CHR ''-'')])"

definition ENCODED_FLAG :: rx where
  "ENCODED_FLAG =
     Seqs [Text ''-'', Words [''ec'', ''enc'', ''enco'', ''encod'', ''encode'', ''encoded'',
       ''encodedc'', ''encodedco'', ''encodedcom'', ''encodedcomm'', ''encodedcomma'',
       ''encodedcomman'', ''encodedcommand'', ''encodeda'', ''encodedar'', ''encodedarg'',
       ''encodedargu'', ''encodedargum'', ''encodedargume'', ''encodedargumen'',
       ''encodedarguments''], Word_B]"

definition GUARDED :: "(rx \<times> string) list" where
  "GUARDED = [
     (Seqs [Word_B, Text ''git'', Word_B, Same_Cmd, Word_B, Text ''push'', Word_B, Same_Cmd, Alts
       [Seqs [Text ''--force'', Opt (Text ''-with-lease''), Alts [Text ''='', Sp, Eos]], Seqs
       [Alts [Bos, Sp], Text ''-'', Star (Cls False [Word_Char]), Text ''f'', Star (Cls False
       [Word_Char]), Eol], Seqs [Alts [Bos, Sp], Text ''+'', Plus (Cls False [Not_Space])]]],
       ''git_force_push''),
     (Seqs [Text ''|'', Star Sp, Alts [Text ''sh'', Text ''bash'', Text ''zsh'', Text ''dash'',
       Text ''ksh'', Text ''fish'', Text ''busybox'', Text ''env'', Seqs [Text ''python'', Opt
       (Text ''3'')], Text ''perl'', Text ''ruby'', Text ''php'', Text ''node'', Text ''deno'',
       Text ''iex'', Text ''invoke-expression'', Text ''powershell'', Text ''pwsh'', Text
       ''cmd''], Opt (Text ''.exe''), Not_Ahead (Cls False [Word_Char, One (CHR ''.''), One (CHR
       ''-'')])], ''pipe_to_shell''),
     (ENCODED_FLAG, ''encoded_command''),
     (Seqs [Bos, Text ''reg'', Opt (Text ''.exe''), Plus Sp, Words [''add'', ''delete''],
       Word_B], ''registry_write''),
     (Seqs [Bos, Text ''schtasks'', Opt (Text ''.exe''), Plus Sp, Text ''/'', Words [''create'',
       ''change'', ''delete''], Word_B], ''scheduled_task''),
     (Seqs [Bos, Text ''runas'', Word_B], ''runas''),
     (Seqs [Bos, Text ''net'', Opt (Text ''.exe''), Plus Sp, Words [''user'', ''localgroup''],
       Word_B], ''account_change''),
     (Seqs [Bos, Words [''takeown'', ''icacls''], Opt (Text ''.exe''), Word_B, Same_Cmd, Sp, Alts
       [Seqs [Cls False [Range (CHR ''a'') (CHR ''z'')], Text '':'', Text [CHR 0x5C]], Text
       ''%windir%'', Text ''%systemroot%'', Text ''/etc'', Text ''/usr'', Text ''/bin'', Text
       ''/boot'']], ''acl_change'')]"

definition EGRESS :: "(rx \<times> string) list" where
  "EGRESS = [
     (Seqs [Word_B, Words [''curl'', ''wget'', ''nc'', ''netcat'', ''telnet'', ''ssh'', ''scp'',
       ''sftp'', ''ftp''], Word_B], ''remote_shell_or_fetch''),
     (Seqs [Word_B, Words [''invoke-webrequest'', ''iwr'', ''invoke-restmethod'', ''irm''],
       Word_B], ''remote_fetch''),
     (Seqs [Word_B, Text ''git'', Plus Sp, Words [''push'', ''pull'', ''clone'', ''fetch'',
       ''ls-remote''], Word_B], ''git_remote''),
     (Seqs [Word_B, Words [''npm'', ''pnpm'', ''yarn'', ''bun'', ''pip'', ''pip3'', ''poetry'',
       ''cargo'', ''go'', ''dotnet'', ''nuget'', ''gem''], Plus Sp, Words [''install'', ''add'',
       ''i'', ''ci'', ''get'', ''update'', ''publish'', ''restore''], Word_B],
       ''package_install''),
     (Seqs [Word_B, Text ''docker'', Plus Sp, Words [''pull'', ''push'', ''login'', ''run'',
       ''build''], Word_B], ''container_registry''),
     (Seqs [Word_B, Words [''az'', ''aws'', ''gcloud'', ''gh''], Plus Sp, Words [''login'',
       ''auth'', ''configure''], Word_B], ''cloud_login'')]"

definition FORK_BOMB :: rx where
  "FORK_BOMB =
     Seqs [Text '':()'', Star Sp, Text ''{'', Star Sp, Text '':|:'', Star Sp, Opt (Text ''&''),
       Star Sp, Text ''}'', Star Sp, Opt (Text '';''), Star Sp, Text '':'']"

definition WRAPPER_PATTERNS :: "rx list" where
  "WRAPPER_PATTERNS = [
     Seqs [Bos, Words [''powershell'', ''pwsh''], Opt (Text ''.exe''), Plus Sp, Star (Seqs [Text
       ''-'', Plus (Cls False [Range (CHR ''a'') (CHR ''z'')]), Plus Sp]), Text ''-command'',
       Plus Sp],
     Seqs [Bos, Words [''powershell'', ''pwsh''], Opt (Text ''.exe''), Plus Sp, Words
       [''-command'', ''-c''], Plus Sp],
     Seqs [Bos, Text ''cmd'', Opt (Text ''.exe''), Plus Sp, Text ''/c'', Plus Sp],
     Seqs [Bos, Text ''bash'', Plus Sp, Text ''-c'', Plus Sp],
     Seqs [Bos, Text ''sh'', Plus Sp, Text ''-c'', Plus Sp],
     Seqs [Bos, Words [''timeout'', ''nice'', ''nohup''], Plus Sp, Lazy (Cls True [One (CHR
       ''&''), One (CHR ''|''), One (CHR '';'')]), Plus Sp]]"

definition POWERSHELL_ALIASES :: "(string \<times> string) list" where
  "POWERSHELL_ALIASES = [
     (''ls'', ''get-childitem''), (''dir'', ''get-childitem''), (''gci'', ''get-childitem''),
     (''cd'', ''set-location''), (''sl'', ''set-location''), (''chdir'', ''set-location''),
     (''cat'', ''get-content''), (''type'', ''get-content''), (''gc'', ''get-content''),
     (''cp'', ''copy-item''), (''copy'', ''copy-item''), (''cpi'', ''copy-item''),
     (''mv'', ''move-item''), (''move'', ''move-item''), (''mi'', ''move-item''),
     (''rm'', ''remove-item''), (''del'', ''remove-item''), (''erase'', ''remove-item''),
     (''ri'', ''remove-item''), (''echo'', ''write-output''), (''write'', ''write-output''),
     (''ps'', ''get-process''), (''kill'', ''stop-process''), (''spps'', ''stop-process''),
     (''sleep'', ''start-sleep''), (''curl'', ''invoke-webrequest''),
     (''wget'', ''invoke-webrequest''), (''iwr'', ''invoke-webrequest''),
     (''irm'', ''invoke-restmethod''), (''ni'', ''new-item''), (''md'', ''new-item''),
     (''mkdir'', ''new-item''), (''select'', ''select-object''), (''where'', ''where-object''),
     (''foreach'', ''for-eachobject''), (''measure'', ''measure-object''),
     (''sort'', ''sort-object''), (''tee'', ''tee-object''), (''gi'', ''get-item''),
     (''gp'', ''get-itemproperty''), (''sp'', ''set-itemproperty''), (''gps'', ''get-process''),
     (''gv'', ''get-variable''), (''sv'', ''set-variable'')]"

definition FORBIDDEN_RULE_PREFIXES :: "string list" where
  "FORBIDDEN_RULE_PREFIXES = [
     ''cmd'', ''cmd /c'', ''cmd.exe'', ''powershell'', ''powershell -command'', ''pwsh'',
     ''pwsh -c'', ''bash'', ''bash -c'', ''wsl'', ''wsl.exe'', ''node -e'', ''python -c'',
     ''python3 -c'']"

definition MAX_SUBCOMMAND_RULES :: nat where "MAX_SUBCOMMAND_RULES = 5"
definition DENIAL_BREAKER_LIMIT :: nat where "DENIAL_BREAKER_LIMIT = 3"

datatype outcome_kind = Allow | Ask | Deny

record perm_decision =
  pd_outcome :: outcome_kind
  pd_reason :: string
  pd_rule :: string
  pd_layer :: string

definition allow :: "string \<Rightarrow> string \<Rightarrow> perm_decision" where
  "allow rule layer = \<lparr>pd_outcome = Allow, pd_reason = [], pd_rule = rule, pd_layer = layer\<rparr>"

definition ask :: "string \<Rightarrow> string \<Rightarrow> string \<Rightarrow> perm_decision" where
  "ask reason rule layer = \<lparr>pd_outcome = Ask, pd_reason = reason, pd_rule = rule, pd_layer = layer\<rparr>"

definition deny :: "string \<Rightarrow> string \<Rightarrow> string \<Rightarrow> perm_decision" where
  "deny reason rule layer = \<lparr>pd_outcome = Deny, pd_reason = reason, pd_rule = rule, pd_layer = layer\<rparr>"

subsection \<open>The normal form of a command\<close>

definition unquote :: "string \<Rightarrow> string" where
  "unquote inner =
     (if length inner \<ge> 2 \<and> hd inner = last inner \<and> hd inner \<in> {CHR 0x22, CHR 0x27}
      then strip (butlast (tl inner)) else inner)"

fun strip_one :: "rx list \<Rightarrow> string \<Rightarrow> string option" where
  "strip_one [] text = None"
| "strip_one (p # ps) text =
     (case match_rest p text of
        None \<Rightarrow> strip_one ps text
      | Some rest \<Rightarrow>
          (let inner = unquote (strip rest) in
           if inner \<noteq> [] \<and> inner \<noteq> text then Some inner else strip_one ps text))"

fun strip_rounds :: "nat \<Rightarrow> string \<Rightarrow> string" where
  "strip_rounds 0 text = text"
| "strip_rounds (Suc n) text =
     (case strip_one WRAPPER_PATTERNS text of None \<Rightarrow> text | Some inner \<Rightarrow> strip_rounds n inner)"

definition strip_wrappers :: "string \<Rightarrow> string" where
  "strip_wrappers command = strip_rounds 4 (strip command)"

text \<open>
  The scanner of \<open>split_commands\<close>: \<open>cur\<close> is the part read so far, \<open>parts\<close> the finished ones; inside
  a quotation it looks for the closing quote, else it splits at \<open>|\<close>, \<open>;\<close>, \<open>&\<close> (doubled \<open>|\<close> and \<open>&\<close>
  count once) and at line ends.
\<close>

function (sequential) split_scan :: "string \<Rightarrow> string \<Rightarrow> string list \<Rightarrow> string list" where
  "split_scan [] cur parts = parts @ [cur]"
| "split_scan (c # cs) cur parts =
     (if c = CHR 0x22 \<or> c = CHR 0x27 then
        (let body = takeWhile (\<lambda>x. x \<noteq> c) cs; rest = dropWhile (\<lambda>x. x \<noteq> c) cs in
         case rest of
           [] \<Rightarrow> parts @ [cur @ c # body]
         | q # rest' \<Rightarrow> split_scan rest' (cur @ c # body @ [q]) parts)
      else if c \<in> {CHR ''|'', CHR '';'', CHR ''&'', CHR 0x0A, CHR 0x0D} then
        (case cs of
           d # ds \<Rightarrow> if d = c \<and> c \<in> {CHR ''|'', CHR ''&''} then split_scan ds [] (parts @ [cur])
                     else split_scan cs [] (parts @ [cur])
         | [] \<Rightarrow> split_scan [] [] (parts @ [cur]))
      else split_scan cs (cur @ [c]) parts)"
  by pat_completeness auto

termination split_scan
proof (relation "measure (\<lambda>(s, cur, parts). length s)", goal_cases)
  case (2 c cs cur parts body rest q rest')
  have "length (q # rest') \<le> length cs" using 2 by (metis length_dropWhile_le)
  then show ?case by simp
qed auto

declare split_scan.simps [simp del]

definition split_commands :: "string \<Rightarrow> string list" where
  "split_commands command = map strip (filter (\<lambda>p. strip p \<noteq> []) (split_scan command [] []))"

definition COMMAND_SUFFIXES :: "string list" where
  "COMMAND_SUFFIXES = [''.exe'', ''.cmd'', ''.bat'', ''.ps1'', ''.com'']"

definition drop_suffix :: "string \<Rightarrow> string" where
  "drop_suffix w =
     (case find (\<lambda>x. ends_with x w) COMMAND_SUFFIXES of
        Some x \<Rightarrow> take (length w - length x) w | None \<Rightarrow> w)"

definition canonicalize_command :: "string \<Rightarrow> string" where
  "canonicalize_command command =
     (let text = strip (squeeze (strip_wrappers command)) in
      if text = [] then []
      else
        let head = before_char (CHR '' '') text; rest = drop (length head) text in
        case map_of POWERSHELL_ALIASES (drop_suffix (lower head)) of
          Some full \<Rightarrow> strip (full @ rest)
        | None \<Rightarrow> strip text)"

subsection \<open>Matching\<close>

definition match_command_pattern :: "string \<Rightarrow> string \<Rightarrow> bool" where
  "match_command_pattern pattern command =
     (let spec = strip pattern in
      if spec = [] then False
      else
        let canonical = lower (canonicalize_command command) in
        if canonical = [] then False
        else
          let spec = (if ends_with '':*'' spec then strip (take (length spec - 2) spec) @ '' *'' else spec)
          in if \<not> ends_with ''*'' spec then canonical = lower (canonicalize_command spec)
             else
               let prefix = lower (canonicalize_command (rstrip (butlast spec)))
               in prefix \<noteq> [] \<and> (canonical = prefix \<or> starts_with (prefix @ '' '') canonical))"

definition slashes :: "string \<Rightarrow> string" where
  "slashes s = map (\<lambda>c. if c = CHR 0x5C then CHR ''/'' else c) s"

definition rstrip_slash :: "string \<Rightarrow> string" where
  "rstrip_slash s = rev (dropWhile (\<lambda>c. c = CHR ''/'') (rev s))"

definition expand_home :: "string \<Rightarrow> string \<Rightarrow> string" where
  "expand_home home text =
     (if \<not> starts_with ''~'' text then text else rstrip_slash (slashes home) @ tl text)"

text \<open>\<open>parts\<close> is kept reversed.\<close>

fun collapse_parts :: "string list \<Rightarrow> string list \<Rightarrow> string list" where
  "collapse_parts [] parts = rev parts"
| "collapse_parts (p # ps) parts =
     (if p = [] \<or> p = ''.'' then collapse_parts ps parts
      else if p = ''..'' then collapse_parts ps (tl parts)
      else collapse_parts ps (p # parts))"

definition collapse :: "string \<Rightarrow> string" where
  "collapse text = ''/'' @ intercalate ''/'' (collapse_parts (split_on (CHR ''/'') (slashes text)) [])"

definition Not_Slash :: rx where "Not_Slash = Cls True [One (CHR ''/'')]"

fun glob_items :: "string \<Rightarrow> rx list" where
  "glob_items [] = []"
| "glob_items (c # cs) =
     (if c = CHR ''*'' then
        (case cs of
           d # ds \<Rightarrow> if d = CHR ''*'' then Star (Cls True [One (CHR 0x0A)]) # glob_items ds
                     else Star Not_Slash # glob_items cs
         | [] \<Rightarrow> [Star Not_Slash])
      else if c = CHR ''?'' then Not_Slash # glob_items cs
      else Text [c] # glob_items cs)"

definition match_one :: "string \<Rightarrow> string \<Rightarrow> bool" where
  "match_one spec0 candidate0 =
     (let spec = collapse spec0; candidate = collapse candidate0 in
      if ends_with ''/**'' spec then
        (let head = rstrip_slash (take (length spec - 3) spec) in
         candidate = head \<or> starts_with (head @ ''/'') candidate)
      else if \<not> list_ex (\<lambda>c. c \<in> {CHR ''*'', CHR ''?''}) spec then
        candidate = spec \<or> starts_with (rstrip_slash spec @ ''/'') candidate
      else fullmatch (Seqs (glob_items spec)) candidate)"

text \<open>\<open>s.lstrip('./')\<close>: every leading dot and slash.\<close>

definition lstrip_dots :: "string \<Rightarrow> string" where
  "lstrip_dots s = dropWhile (\<lambda>c. c = CHR ''.'' \<or> c = CHR ''/'') s"

definition anchors :: "string \<Rightarrow> string \<Rightarrow> string \<Rightarrow> string \<Rightarrow> string list" where
  "anchors spec cwd source home =
     (if starts_with ''//'' spec then [tl spec]
      else if starts_with ''~'' spec then [expand_home home spec]
      else if starts_with ''/'' spec then
        (let base = rstrip_slash (slashes (strip source)) in
         (if base \<noteq> [] then [base @ spec] else []) @ [spec])
      else
        (let base = rstrip_slash (slashes (strip (if cwd \<noteq> [] then cwd else source))) in
         (if base \<noteq> [] then [base @ ''/'' @ lstrip_dots spec] else []) @ [spec]))"

definition match_path_pattern :: "string \<Rightarrow> string \<Rightarrow> string \<Rightarrow> string \<Rightarrow> string \<Rightarrow> bool" where
  "match_path_pattern pattern path cwd source home =
     (let spec = slashes (strip pattern); raw = slashes (strip path) in
      if spec = [] \<or> raw = [] then False
      else
        let candidate = collapse (expand_home home raw)
        in list_ex (\<lambda>a. match_one a candidate) (anchors spec cwd source home))"

definition rstrip_dots :: "string \<Rightarrow> string" where
  "rstrip_dots s = rev (dropWhile (\<lambda>c. c = CHR ''.'') (rev s))"

text \<open>What follows the first \<open>://\<close>, when there is one.\<close>

fun after_scheme :: "string \<Rightarrow> string option" where
  "after_scheme [] = None"
| "after_scheme (c # cs) =
     (if starts_with ''://'' (c # cs) then Some (drop 3 (c # cs)) else after_scheme cs)"

definition without_scheme :: "string \<Rightarrow> string" where
  "without_scheme s = (case after_scheme s of Some r \<Rightarrow> r | None \<Rightarrow> s)"

definition drop_port :: "string \<Rightarrow> string" where
  "drop_port host =
     (if CHR '':'' \<in> set host \<and> \<not> starts_with ''['' host then before_char (CHR '':'') host else host)"

definition domain_items :: "string \<Rightarrow> rx list" where
  "domain_items spec =
     map (\<lambda>c. if c = CHR ''*'' then Star (Cls True [One (CHR ''.'')]) else Text [c]) spec"

definition match_domain_pattern :: "string \<Rightarrow> string \<Rightarrow> bool" where
  "match_domain_pattern pattern url_or_host =
     (let spec = lower (strip pattern) in
      if \<not> starts_with ''domain:'' spec then False
      else
        let spec = rstrip_dots (strip (drop 7 spec));
            host = lower (strip url_or_host)
        in if host = [] then False
           else
             let host = without_scheme host;
                 host = rstrip_dots (before_char (CHR ''?'') (before_char (CHR ''/'') host));
                 host = last (split_on (CHR ''@'') host);
                 host = drop_port host
             in if spec = [] then False
                else if CHR ''*'' \<notin> set spec then host = spec
                else fullmatch (Seqs ([Bos] @ domain_items spec @ [Eos])) host)"

subsection \<open>Rules\<close>

record perm_rule =
  rule_tool :: string
  rule_specifier :: string
  rule_layer :: string
  rule_raw :: string

definition rule_text :: "perm_rule \<Rightarrow> string" where
  "rule_text r =
     (if rule_raw r \<noteq> [] then rule_raw r
      else if rule_specifier r = [] then rule_tool r
      else rule_tool r @ ''('' @ rule_specifier r @ '')'')"

definition parse_rule :: "string \<Rightarrow> string \<Rightarrow> perm_rule option" where
  "parse_rule text layer =
     (let raw = strip text in
      if raw = [] then None
      else if CHR ''('' \<notin> set raw then
        Some \<lparr>rule_tool = raw, rule_specifier = [], rule_layer = layer, rule_raw = raw\<rparr>
      else
        let head = before_char (CHR ''('') raw; rest = after_char (CHR ''('') raw;
            specifier = (if ends_with '')'' rest then butlast rest else rest)
        in Some \<lparr>rule_tool = strip head, rule_specifier = strip specifier, rule_layer = layer,
             rule_raw = raw\<rparr>)"

definition command_from_args :: "json \<Rightarrow> string" where
  "command_from_args args =
     (case args of
        JStr s \<Rightarrow> s
      | JObj d \<Rightarrow>
          (case find (\<lambda>k. case dict_get d k of JStr v \<Rightarrow> strip v \<noteq> [] | _ \<Rightarrow> False)
                  [''command'', ''cmd'', ''script'', ''input''] of
             Some k \<Rightarrow> py_str (dict_get d k)
           | None \<Rightarrow> [])
      | _ \<Rightarrow> [])"

definition path_arg :: "json \<Rightarrow> string" where
  "path_arg args =
     (case args of
        JObj d \<Rightarrow> strip (str_or_empty (py_or (dict_get d ''path'') (dict_get d ''file_path'')))
      | _ \<Rightarrow> [])"

definition FILE_RULE_TOOLS :: "string list" where
  "FILE_RULE_TOOLS = [''file_read'', ''file_write'', ''file_edit_block'', ''codebase_glob'', ''codebase_grep'']"

definition rule_target :: "json \<Rightarrow> string list \<Rightarrow> string" where
  "rule_target args keys =
     (case args of
        JObj d \<Rightarrow> str_or_empty (foldr (\<lambda>k acc. py_or (dict_get d k) acc) keys (JStr []))
      | _ \<Rightarrow> [])"

definition rule_matches ::
  "perm_rule \<Rightarrow> string \<Rightarrow> json \<Rightarrow> string \<Rightarrow> string \<Rightarrow> string \<Rightarrow> bool" where
  "rule_matches rule tool args cwd source home =
     (if rule_tool rule \<noteq> tool then False
      else if rule_specifier rule = [] then True
      else if tool = ''terminal_exec'' then
        (let command = command_from_args args in
         command \<noteq> [] \<and> match_command_pattern (rule_specifier rule) command)
      else if tool = ''web_fetch'' then
        match_domain_pattern (rule_specifier rule) (rule_target args [''url'', ''domain''])
      else if tool \<in> set FILE_RULE_TOOLS then
        match_path_pattern (rule_specifier rule) (rule_target args [''path'', ''file_path'', ''pattern''])
          cwd source home
      else True)"

subsection \<open>The list checks\<close>

definition canonical_text :: "string \<Rightarrow> string" where
  "canonical_text command = strip (squeeze (lower (canonicalize_command command)))"

definition first_code :: "(rx \<times> string) list \<Rightarrow> string \<Rightarrow> string option" where
  "first_code patterns text = map_option snd (find (\<lambda>(p, code). search p text) patterns)"

text \<open>The code of the first pattern that matches one of the texts, in the order of the texts.\<close>

fun first_reason :: "(rx \<times> string) list \<Rightarrow> string list \<Rightarrow> string" where
  "first_reason patterns [] = []"
| "first_reason patterns (t # ts) =
     (if t = [] then first_reason patterns ts
      else case first_code patterns t of Some code \<Rightarrow> code | None \<Rightarrow> first_reason patterns ts)"

definition list_reason :: "(rx \<times> string) list \<Rightarrow> string \<Rightarrow> string" where
  "list_reason patterns command =
     (if strip command = [] then []
      else first_reason patterns (canonical_text command # map canonical_text (split_commands command)))"

definition hardline_reason :: "string \<Rightarrow> string" where
  "hardline_reason command =
     (if strip command = [] then []
      else if search FORK_BOMB command then ''fork_bomb''
      else first_reason HARDLINE (map canonical_text
             (if split_commands command \<noteq> [] then split_commands command else [command])))"

definition forbidden_prefix_reason :: "string \<Rightarrow> string option" where
  "forbidden_prefix_reason command =
     (let raw = lower (strip (squeeze command)); canonical = lower (canonicalize_command command) in
      find (\<lambda>prefix. list_ex (\<lambda>v. v = prefix \<or> starts_with (prefix @ '' '') v) [raw, canonical])
        FORBIDDEN_RULE_PREFIXES)"

definition PROBES :: "string list" where
  "PROBES = [
     ''git status'', ''npm run build'', ''python -m pytest'', ''rm -rf /'', ''curl http://example.com'',
     ''Get-ChildItem C:'' @ [CHR 0x5C],
     ''Remove-Item -Recurse -Force C:'' @ [CHR 0x5C] @ ''Windows'', ''docker ps'']"

datatype breadth = Empty_Rule | Every_Command | Too_Many_Families nat

definition too_broad_reason :: "string \<Rightarrow> string list \<Rightarrow> breadth option" where
  "too_broad_reason command samples =
     (let canonical = canonicalize_command command in
      if canonical = [] then Some Empty_Rule
      else if canonical = ''*'' \<or> canonical = '':*'' then Some Every_Command
      else
        let families = remdups (map (\<lambda>s. lower (before_char (CHR '' '') s))
              (filter (match_command_pattern command) (samples @ PROBES)))
        in if length families \<ge> 3 then Some (Too_Many_Families (length families)) else None)"

end
