(* ===== verification/Permission_Policy.thy ===== *)
theory Permission_Policy
  imports Permissions
begin

section \<open>Host permissions: the policy\<close>

text \<open>
  \<open>PermissionPolicy\<close> of \<open>agent_core/permissions.py\<close> and the gate of \<open>HostExecutor.execute\<close> that
  consults it. The four settings files are a table from layer names to their state; a settings
  object is the decoded JSON, so a rule list may hold anything. What iterates over a value that is
  not iterable raises \<open>TypeError\<close>: operations that read the rule lists are \<open>option\<close> valued, \<open>None\<close> being that
  exception. The audit is the list of entries handed to the best-effort log (without their time).
  File-system answers (\<open>Path.expanduser\<close>, \<open>resolve\<close>) are the argument \<open>fs\<close>.
\<close>

subsection \<open>Levels\<close>

definition MODES :: "string list" where "MODES = [''ask'', ''auto'', ''trusted'']"
definition SCOPES :: "string list" where "SCOPES = [''workspace'', ''machine'']"
definition NETWORKS :: "string list" where "NETWORKS = [''restricted'', ''enabled'']"
definition LAYER_ORDER :: "string list" where
  "LAYER_ORDER = [''managed'', ''profile'', ''user'', ''project'']"

definition READ_TOOLS :: "string list" where
  "READ_TOOLS = [''file_read'', ''codebase_glob'', ''codebase_grep'', ''web_fetch'']"
definition WRITE_TOOLS :: "string list" where "WRITE_TOOLS = [''file_write'', ''file_edit_block'']"
definition EXEC_TOOLS :: "string list" where "EXEC_TOOLS = [''terminal_exec'']"
definition BARE_TOOLS :: "string list" where
  "BARE_TOOLS = [''computer_use'', ''computer_screen_capture'', ''inspect_element'']"

datatype capability = Cap_True | Cap_False | Cap_Allow | Cap_Ask

text \<open>\<open>MODE_CAPABILITIES\<close>: what a mode lets a family (write, exec, cua) do; reading is \<open>True\<close>.\<close>

definition MODE_CAPABILITIES :: "string \<Rightarrow> string \<Rightarrow> capability" where
  "MODE_CAPABILITIES mode family =
     (if family = ''read'' then Cap_True
      else if mode = ''ask'' then Cap_Ask
      else if mode = ''auto'' then (if family = ''cua'' then Cap_Ask else Cap_Allow)
      else Cap_Allow)"

definition from_capability :: "capability \<Rightarrow> string \<Rightarrow> string \<Rightarrow> perm_decision" where
  "from_capability cap family mode =
     (if cap = Cap_True \<or> cap = Cap_Allow then allow [] ''mode''
      else if cap = Cap_False then
        deny (''che do `'' @ mode @ ''` khong cho phep '' @ family) [] ''mode''
      else ask (''che do `'' @ mode @ ''` yeu cau hoi truoc khi '' @ family) [] ''mode'')"

subsection \<open>State\<close>

datatype settings_file = Missing | Unreadable string | Blank | Parsed json

type_synonym settings = "(string \<times> json) list"

record audit_entry =
  au_tool :: string
  au_command :: string
  au_decision :: outcome_kind
  au_rule :: string
  au_layer :: string
  au_scope :: string
  au_mode :: string
  au_actor :: string
  au_session :: string

record pending_item =
  pend_id :: string
  pend_tool :: string
  pend_args :: json
  pend_reason :: string
  pend_session :: string
  pend_created :: json

record policy =
  pol_env :: "(string \<times> string) list"
  pol_home :: string
  pol_workspace :: string
  pol_mode :: string
  pol_scope :: string
  pol_paths :: "string list"
  pol_layers :: "(string \<times> settings) list"
  pol_errors :: "(string \<times> string) list"
  pol_session_rules :: "(string \<times> perm_decision) list"
  pol_lifetimes :: "(string \<times> string) list"
  pol_denials :: "(string \<times> nat) list"
  pol_pending :: "pending_item list"
  pol_hits :: nat
  pol_audit :: "audit_entry list"
  pol_windows :: bool

type_synonym disk = "string \<Rightarrow> settings_file"

definition read_settings :: "settings_file \<Rightarrow> settings \<times> string" where
  "read_settings f = (case f of
     Missing \<Rightarrow> ([], []) | Unreadable e \<Rightarrow> ([], e) | Blank \<Rightarrow> ([], [])
   | Parsed v \<Rightarrow> (case v of JObj d \<Rightarrow> (d, []) | _ \<Rightarrow> ([], [])))"

definition reload :: "disk \<Rightarrow> policy \<Rightarrow> policy" where
  "reload d p = p\<lparr>
     pol_layers := map (\<lambda>l. (l, case read_settings (d l) of (data, e) \<Rightarrow> if e \<noteq> [] then [] else data)) (pol_paths p),
     pol_errors := concat (map (\<lambda>l. case read_settings (d l) of (_, e) \<Rightarrow> if e \<noteq> [] then [(l, e)] else []) (pol_paths p))\<rparr>"

definition new_policy ::
  "disk \<Rightarrow> (string \<times> string) list \<Rightarrow> string \<Rightarrow> string \<Rightarrow> string \<Rightarrow> string \<Rightarrow> bool \<Rightarrow> policy" where
  "new_policy d env home workspace mode scope windows =
     reload d \<lparr>pol_env = env, pol_home = home, pol_workspace = workspace,
       pol_mode = (if mode = ''plan'' then ''ask'' else if mode \<in> set MODES then mode else []),
       pol_scope = (if scope \<in> set SCOPES then scope else []),
       pol_paths = [''managed'', ''profile'', ''user''] @ (if workspace \<noteq> [] then [''project''] else []),
       pol_layers = [], pol_errors = [], pol_session_rules = [], pol_lifetimes = [], pol_denials = [],
       pol_pending = [], pol_hits = 0, pol_audit = [], pol_windows = windows\<rparr>"

definition layer_data :: "policy \<Rightarrow> string \<Rightarrow> settings" where
  "layer_data p l = (case map_of (pol_layers p) l of None \<Rightarrow> [] | Some d \<Rightarrow> d)"

definition env_get :: "policy \<Rightarrow> string \<Rightarrow> string" where
  "env_get p k = lower (strip (case map_of (pol_env p) k of None \<Rightarrow> [] | Some v \<Rightarrow> v))"

text \<open>The first layer, from project down to managed, whose field holds one of the values.\<close>

definition layer_value :: "policy \<Rightarrow> string \<Rightarrow> string list \<Rightarrow> string option" where
  "layer_value p field values =
     find (\<lambda>v. v \<in> set values)
       (map (\<lambda>l. lower (strip (str_or_empty (dict_get (layer_data p l) field)))) (rev LAYER_ORDER))"

definition mode_value :: "policy \<Rightarrow> string" where
  "mode_value p =
     (if pol_mode p \<noteq> [] then (if pol_mode p = ''plan'' then ''ask'' else pol_mode p)
      else case layer_value p ''mode'' (MODES @ [''plan'']) of
        Some v \<Rightarrow> if v = ''plan'' then ''ask'' else v
      | None \<Rightarrow>
          (let raw = env_get p ''BOXFOX_PERMISSION_MODE'' in
           if raw = ''plan'' then ''ask'' else if raw \<in> set MODES then raw else ''ask''))"

definition scope_value :: "policy \<Rightarrow> string" where
  "scope_value p = (if mode_value p = ''trusted'' then ''machine'' else ''workspace'')"

definition cua_scope_value :: "policy \<Rightarrow> string" where
  "cua_scope_value p =
     (if pol_scope p \<noteq> [] then pol_scope p
      else case layer_value p ''scope'' SCOPES of
        Some v \<Rightarrow> v
      | None \<Rightarrow> (let raw = env_get p ''BOXFOX_PERMISSION_SCOPE'' in
                 if raw \<in> set SCOPES then raw else ''machine''))"

definition network_value :: "policy \<Rightarrow> string" where
  "network_value p =
     (case layer_value p ''network'' NETWORKS of
        Some v \<Rightarrow> v
      | None \<Rightarrow> (let raw = env_get p ''BOXFOX_PERMISSION_NETWORK'' in
                 if raw \<in> set NETWORKS then raw else ''restricted''))"

text \<open>The rules of the layers in order, each with its list; \<open>None\<close> when a list is not iterable.\<close>

fun concat_opt :: "'a list option list \<Rightarrow> 'a list option" where
  "concat_opt [] = Some []"
| "concat_opt (x # xs) =
     (case x of None \<Rightarrow> None
      | Some a \<Rightarrow> (case concat_opt xs of None \<Rightarrow> None | Some b \<Rightarrow> Some (a @ b)))"

definition rules_of :: "policy \<Rightarrow> string list \<Rightarrow> (string \<times> perm_rule) list option" where
  "rules_of p layers =
     concat_opt (concat (map (\<lambda>l. map (\<lambda>key.
        map_option (\<lambda>items. concat (map (\<lambda>raw.
            case parse_rule (str_or_empty raw) l of None \<Rightarrow> [] | Some r \<Rightarrow> [(key, r)]) items))
          (iter_or_empty (dict_get (layer_data p l) key)))
        [''deny'', ''ask'', ''allow'']) layers))"

definition rules :: "policy \<Rightarrow> (string \<times> perm_rule) list option" where
  "rules p = rules_of p LAYER_ORDER"

subsection \<open>Paths and resources\<close>

fun strip_dot_slash :: "string \<Rightarrow> string" where
  "strip_dot_slash (a # b # s) =
     (if a = CHR ''.'' \<and> b = CHR ''/'' then strip_dot_slash s else a # b # s)"
| "strip_dot_slash s = s"

definition absolute_path :: "policy \<Rightarrow> json \<Rightarrow> string" where
  "absolute_path p value =
     (let text = strip (expand_home (pol_home p) (slashes (str_or_empty value))) in
      if text = [] then []
      else
        let top = (if pol_workspace p \<noteq> [] then collapse (slashes (pol_workspace p)) else []) in
        if \<not> (starts_with ''/'' text \<or> (length text > 1 \<and> text ! 1 = CHR '':'')) then
          (let relative = strip_dot_slash text in
           if top = [] then relative else collapse (top @ ''/'' @ relative))
        else collapse text)"

definition in_workspace :: "policy \<Rightarrow> json \<Rightarrow> bool" where
  "in_workspace p args =
     (if pol_workspace p = [] then False
      else
        let path = path_arg args in
        if path = [] then False
        else
          let candidate0 = absolute_path p (JStr path); top0 = collapse (slashes (pol_workspace p));
              candidate = (if pol_windows p then lower candidate0 else candidate0);
              top = (if pol_windows p then lower top0 else top0)
          in candidate \<noteq> [] \<and> (candidate = top \<or> starts_with (rstrip_slash top @ ''/'') candidate))"

definition cua_app_key :: "json \<Rightarrow> string" where
  "cua_app_key value =
     (let text = lower (strip (str_or_empty value)) in
      strip (if ends_with ''.exe'' text then take (length text - 4) text else text))"

definition cua_resource :: "json \<Rightarrow> string" where
  "cua_resource args =
     (case args of
        JObj d \<Rightarrow>
          (let entry = normalize (dict_get d ''__target'');
               app = (case entry of Some (Window w) \<Rightarrow> cua_app_key (JStr (tw_process w)) | _ \<Rightarrow> [])
           in if entry = Some Whole_Machine then ''cua:machine''
              else if app \<noteq> [] then ''cua:app:'' @ app
              else
                let app = cua_app_key (dict_get d ''app'') in
                if app \<noteq> [] then ''cua:app:'' @ app
                else
                  let window = lower (strip (str_or_empty (dict_get d ''window''))) in
                  if window \<noteq> [] then ''cua:title:'' @ window
                  else
                    let window_id = dict_get d ''windowId'' in
                    if window_id \<noteq> JNull \<and> window_id \<noteq> JStr []
                    then ''cua:windowid:'' @ py_str window_id
                    else ''cua:session'')
      | _ \<Rightarrow> ''cua:session'')"

definition resource_key :: "policy \<Rightarrow> string \<Rightarrow> json \<Rightarrow> string" where
  "resource_key p tool args =
     (let field = (\<lambda>k. case args of JObj d \<Rightarrow> dict_get d k | _ \<Rightarrow> args) in
      if tool \<in> set EXEC_TOOLS then canonicalize_command (command_from_args args)
      else if tool = ''codebase_grep'' then strip (str_or_empty (field ''query''))
      else if tool = ''web_fetch'' then strip (str_or_empty (field ''url''))
      else if tool \<in> set BARE_TOOLS then cua_resource args
      else absolute_path p
        (if path_arg args \<noteq> [] then JStr (path_arg args)
         else case args of JObj d \<Rightarrow> dict_get d ''pattern'' | _ \<Rightarrow> JStr []))"

definition session_key :: "policy \<Rightarrow> string \<Rightarrow> json \<Rightarrow> string \<Rightarrow> string \<Rightarrow> string" where
  "session_key p tool args cwd session =
     intercalate ''|'' [session, tool, resource_key p tool args, cwd,
       (if tool \<in> set BARE_TOOLS then cua_scope_value p else scope_value p), mode_value p]"

subsection \<open>Commands inside the workspace\<close>

record file_system =
  fs_expand :: "string \<Rightarrow> string"
  fs_absolute :: "string \<Rightarrow> bool"
  fs_resolve :: "string \<Rightarrow> string option"
  fs_workspace :: string

text \<open>\<open>shlex.split(text, posix=False)\<close>: quotes stay in the token and end it; \<open>None\<close> is the
  \<open>ValueError\<close> of a missing closing quote.\<close>

definition shlex_space :: "char \<Rightarrow> bool" where
  "shlex_space c = (c \<in> {CHR '' '', CHR 0x09, CHR 0x0D, CHR 0x0A})"

function (sequential) shlex_split :: "string \<Rightarrow> string list option" where
  "shlex_split [] = Some []"
| "shlex_split (c # cs) =
     (if shlex_space c then shlex_split cs
      else if c = CHR 0x22 \<or> c = CHR 0x27 then
        (case dropWhile (\<lambda>x. x \<noteq> c) cs of
           [] \<Rightarrow> None
         | q # rest \<Rightarrow> map_option (\<lambda>ws. (c # takeWhile (\<lambda>x. x \<noteq> c) cs @ [c]) # ws) (shlex_split rest))
      else
        map_option (\<lambda>ws. (c # takeWhile (\<lambda>x. \<not> shlex_space x) cs) # ws)
          (shlex_split (dropWhile (\<lambda>x. \<not> shlex_space x) cs)))"
  by pat_completeness auto

termination shlex_split
proof (relation "measure length", goal_cases)
  case (3 c cs q rest)
  have "length (q # rest) \<le> length cs" using 3 by (metis length_dropWhile_le)
  then show ?case by simp
qed (auto simp: length_dropWhile_le less_Suc_eq_le)

declare shlex_split.simps [simp del]

definition strip_quotes :: "string \<Rightarrow> string" where
  "strip_quotes s =
     (let q = (\<lambda>c. c = CHR 0x22 \<or> c = CHR 0x27) in rev (dropWhile q (rev (dropWhile q s))))"

definition path_within :: "string \<Rightarrow> string \<Rightarrow> bool" where
  "path_within base path = (path = base \<or> starts_with (if base = ''/'' then ''/'' else base @ ''/'') path)"

definition fs_target :: "file_system \<Rightarrow> string \<Rightarrow> string \<Rightarrow> string option" where
  "fs_target fs base word =
     (let path = fs_expand fs word in
      fs_resolve fs (if fs_absolute fs path then path else base @ ''/'' @ path))"

text \<open>The path arguments of an inspection command; \<open>-TotalCount\<close> and \<open>-Tail\<close> take a number.\<close>

fun inspect_words :: "file_system \<Rightarrow> string \<Rightarrow> string \<Rightarrow> string list \<Rightarrow> string list \<Rightarrow> bool" where
  "inspect_words fs workspace head flags [] = True"
| "inspect_words fs workspace head flags (w # ws) =
     (if head = ''get-content'' \<and> lower w \<in> {''-totalcount'', ''-tail''} then
        (case ws of
           [] \<Rightarrow> False
         | n # ws' \<Rightarrow> str_isdigit n \<and> inspect_words fs workspace head flags ws')
      else if lower w \<in> set flags \<or> lower w \<in> {''-path'', ''-literalpath''} then
        inspect_words fs workspace head flags ws
      else if starts_with ''-'' w \<or> list_ex (\<lambda>c. c \<in> set ''*?[],'') w then False
      else if CHR '':'' \<in> set w \<and> \<not> fs_absolute fs (fs_expand fs w) then False
      else case fs_target fs workspace w of
        None \<Rightarrow> False
      | Some path \<Rightarrow>
          path_within (fs_workspace fs) path \<and> inspect_words fs workspace head flags ws)"

definition git_options :: "string \<Rightarrow> string list option" where
  "git_options sub = map_of
     [(''status'', [''--short'', ''--porcelain'', ''--branch'', ''-s'', ''-b'']),
      (''ls-files'', [''--cached'', ''--stage'', ''-s''])] sub"

definition inspect_flags :: "string \<Rightarrow> string list option" where
  "inspect_flags head = map_of
     [(''get-childitem'', [''-force'', ''-recurse'', ''-file'', ''-directory'', ''-name'']),
      (''get-content'', []), (''get-item'', []), (''test-path'', [])] head"

definition inspection_command :: "file_system \<Rightarrow> policy \<Rightarrow> string \<Rightarrow> bool" where
  "inspection_command fs p command =
     (let text = strip command in
      if text = [] \<or> list_ex (\<lambda>c. (of_char c :: nat) < 32) text
         \<or> list_ex (\<lambda>c. c \<in> set ''$`;&|<>(){}'') text then False
      else case shlex_split text of
        None \<Rightarrow> False
      | Some raw \<Rightarrow>
          (let words = map strip_quotes raw;
               head0 = lower (hd words);
               head = (case map_of POWERSHELL_ALIASES head0 of Some h \<Rightarrow> h | None \<Rightarrow> head0)
           in if head = ''git'' then
                (if length words < 2 then False
                 else case git_options (words ! 1) of
                   None \<Rightarrow> False
                 | Some opts \<Rightarrow> list_all (\<lambda>w. w \<in> set opts) (drop 2 words))
              else if head \<in> {''get-location'', ''pwd''} then length words = 1
              else case inspect_flags head of
                None \<Rightarrow> False
              | Some flags \<Rightarrow> inspect_words fs (pol_workspace p) head flags (tl words)))"

text \<open>\<open>word.split('=', 1)[-1]\<close>.\<close>

definition after_equals :: "string \<Rightarrow> string" where
  "after_equals w = (if CHR ''='' \<in> set w then after_char (CHR ''='') w else w)"

definition word_outside :: "file_system \<Rightarrow> string \<Rightarrow> bool" where
  "word_outside fs w =
     (let value = after_equals w in
      if contains ''://'' value \<or> starts_with ''-'' value then False
      else if CHR ''/'' \<notin> set value \<and> CHR 0x5C \<notin> set value \<and> value \<noteq> ''..'' then False
      else case fs_target fs (fs_workspace fs) value of
        None \<Rightarrow> True
      | Some path \<Rightarrow> \<not> path_within (fs_workspace fs) path)"

definition command_outside_workspace :: "file_system \<Rightarrow> string \<Rightarrow> bool" where
  "command_outside_workspace fs command =
     (if CHR ''$'' \<in> set command \<or> CHR ''`'' \<in> set command then True
      else case shlex_split command of
        None \<Rightarrow> True
      | Some words \<Rightarrow> list_ex (word_outside fs) (map strip_quotes words))"

subsection \<open>The decision\<close>

definition default_decision :: "file_system \<Rightarrow> policy \<Rightarrow> string \<Rightarrow> json \<Rightarrow> perm_decision" where
  "default_decision fs p tool args =
     (let mode = mode_value p; scope = scope_value p in
      if tool \<in> set READ_TOOLS then
        (if scope = ''workspace'' \<and> \<not> in_workspace p args then
           (if tool \<in> {''codebase_glob'', ''codebase_grep''} \<and> path_arg args = [] then allow [] ''mode''
            else ask ''ngoai workspace ma pham vi dang la `workspace`'' [] ''mode'')
         else allow [] ''mode'')
      else if tool \<in> set WRITE_TOOLS then
        (if \<not> in_workspace p args \<and> scope = ''workspace'' then ask ''ghi ngoai workspace'' [] ''mode''
         else from_capability (MODE_CAPABILITIES mode ''write'') ''write'' mode)
      else if tool \<in> set EXEC_TOOLS then
        (let decision = from_capability (MODE_CAPABILITIES mode ''exec'') ''exec'' mode;
             command = command_from_args args;
             decision = (if scope = ''workspace'' \<and> command_outside_workspace fs command
               then ask ''command target is outside the project or cannot be resolved'' [] ''scope''
               else decision);
             decision = (if mode = ''ask'' \<and> inspection_command fs p command
               then allow [] ''inspection'' else decision);
             code = list_reason EGRESS command
         in if pd_outcome decision = Allow \<and> network_value p = ''restricted'' \<and> code \<noteq> [] then
              ask (''lenh ra mang `'' @ code @ ''` khi muc mang la `restricted`'')
                (''network:'' @ code) ''network''
            else decision)
      else if tool \<in> set BARE_TOOLS then
        from_capability (MODE_CAPABILITIES mode ''cua'') ''cua'' mode
      else ask ''cong cu khong nam trong bang quyen v1'' [] ''mode'')"

definition record_audit ::
  "string \<Rightarrow> string \<Rightarrow> perm_decision \<Rightarrow> string \<Rightarrow> string \<Rightarrow> policy \<Rightarrow> policy" where
  "record_audit tool command d actor session p = p\<lparr>pol_audit := pol_audit p @
     [\<lparr>au_tool = tool, au_command = take 400 command, au_decision = pd_outcome d, au_rule = pd_rule d,
       au_layer = pd_layer d, au_scope = scope_value p, au_mode = mode_value p, au_actor = actor,
       au_session = session\<rparr>]\<rparr>"

text \<open>The first rule of a list that matches the call.\<close>

definition first_rule ::
  "(string \<times> perm_rule) list \<Rightarrow> string \<Rightarrow> (perm_rule \<Rightarrow> bool) \<Rightarrow> perm_rule option" where
  "first_rule rs key matches = map_option snd (find (\<lambda>(k, r). k = key \<and> matches r) rs)"

text \<open>What the deny, ask and allow lists say, in this order; \<open>None\<close> when they say nothing.\<close>

definition decide_lists ::
  "(string \<times> perm_rule) list \<Rightarrow> (perm_rule \<Rightarrow> bool) \<Rightarrow> perm_decision option \<Rightarrow> perm_decision option" where
  "decide_lists rs matches remembered =
     (case first_rule rs ''deny'' matches of
        Some r \<Rightarrow> Some (deny (''luat `'' @ rule_text r @ ''` cam loi goi nay'') (rule_text r) (rule_layer r))
      | None \<Rightarrow>
          (let asked = first_rule rs ''ask'' matches;
               allowed = first_rule rs ''allow'' matches;
               on_allow = (case allowed of
                   None \<Rightarrow> None
                 | Some r \<Rightarrow> (case remembered of
                       Some d \<Rightarrow> if pd_outcome d \<noteq> Allow
                         then Some (deny ''phien nay da tu choi loi goi tuong tu'' (pd_rule d) ''session'')
                         else Some (allow (rule_text r) (rule_layer r))
                     | None \<Rightarrow> Some (allow (rule_text r) (rule_layer r))))
           in case asked of
                None \<Rightarrow> on_allow
              | Some r \<Rightarrow> (case remembered of
                    Some d \<Rightarrow> if pd_outcome d = Allow then on_allow else Some d
                  | None \<Rightarrow> Some (ask (''luat `'' @ rule_text r @ ''` yeu cau hoi truoc'')
                      (rule_text r) (rule_layer r)))))"

text \<open>
  The decision without its bookkeeping (\<open>None\<close>: the \<open>TypeError\<close> of a malformed rule list), and
  \<open>decide\<close>, which counts a hit of the floor and writes the audit entry. \<open>tool\<close> is stripped first.
\<close>

definition judge ::
  "file_system \<Rightarrow> policy \<Rightarrow> string \<Rightarrow> json \<Rightarrow> string \<Rightarrow> string \<Rightarrow> perm_decision option" where
  "judge fs p tool args cwd session =
     (let command = (if tool \<in> set EXEC_TOOLS then command_from_args args else []);
          hard = hardline_reason command;
          guard = list_reason GUARDED command;
          cwd_value = (if cwd \<noteq> [] then cwd else pol_workspace p)
      in if command \<noteq> [] \<and> hard \<noteq> [] then
           Some (deny (''lenh nam trong san cung `'' @ hard @ ''` - khong co che do nao bo qua duoc'')
             (''hardline:'' @ hard) ''hardline'')
         else if command \<noteq> [] \<and> guard \<noteq> [] then
           Some (ask (''lenh thuoc nhom luon hoi `'' @ guard @ ''` - chi cho phep mot lan'')
             (''guarded:'' @ guard) ''guarded'')
         else case rules p of
           None \<Rightarrow> None
         | Some rs \<Rightarrow>
             (let remembered = map_of (pol_session_rules p) (session_key p tool args cwd_value session)
              in case decide_lists rs
                   (\<lambda>r. rule_matches r tool args cwd_value (pol_workspace p) (pol_home p)) remembered of
                   Some d \<Rightarrow> Some d
                 | None \<Rightarrow> (case remembered of
                     Some d \<Rightarrow> Some d | None \<Rightarrow> Some (default_decision fs p tool args))))"

definition decide ::
  "file_system \<Rightarrow> string \<Rightarrow> json \<Rightarrow> string \<Rightarrow> string \<Rightarrow> string \<Rightarrow> policy \<Rightarrow> (perm_decision \<times> policy) option" where
  "decide fs tool0 args cwd session actor p =
     (let tool = strip tool0;
          command = (if tool \<in> set EXEC_TOOLS then command_from_args args else [])
      in case judge fs p tool args cwd session of
           None \<Rightarrow> None
         | Some d \<Rightarrow>
             (let p = (if command \<noteq> [] \<and> hardline_reason command \<noteq> [] then p\<lparr>pol_hits := pol_hits p + 1\<rparr> else p)
              in Some (d, record_audit tool command d actor session p)))"

subsection \<open>The session: remembered decisions, denials, pending cards\<close>

definition remember :: "string \<Rightarrow> perm_decision \<Rightarrow> string \<Rightarrow> policy \<Rightarrow> policy" where
  "remember key d lifetime p =
     (if lifetime = ''once'' then p
      else p\<lparr>pol_session_rules := dict_set key d (pol_session_rules p),
             pol_lifetimes := dict_set key lifetime (pol_lifetimes p)\<rparr>)"

definition forget_session :: "string option \<Rightarrow> policy \<Rightarrow> policy" where
  "forget_session session p =
     (case session of
        None \<Rightarrow> p\<lparr>pol_session_rules := [], pol_lifetimes := [], pol_denials := []\<rparr>
      | Some s \<Rightarrow>
          (let gone = (\<lambda>k. starts_with (s @ ''|'') k \<and> map_of (pol_session_rules p) k \<noteq> None) in
           p\<lparr>pol_session_rules := filter (\<lambda>kv. \<not> gone (fst kv)) (pol_session_rules p),
             pol_lifetimes := filter (\<lambda>kv. \<not> gone (fst kv)) (pol_lifetimes p),
             pol_denials := dict_del s (pol_denials p)\<rparr>))"

definition denials_of :: "policy \<Rightarrow> string \<Rightarrow> nat" where
  "denials_of p session = (case map_of (pol_denials p) session of None \<Rightarrow> 0 | Some n \<Rightarrow> n)"

definition note_denial :: "string \<Rightarrow> policy \<Rightarrow> bool \<times> policy" where
  "note_denial session p =
     (let n = denials_of p session + 1
      in (n \<ge> DENIAL_BREAKER_LIMIT, p\<lparr>pol_denials := dict_set session n (pol_denials p)\<rparr>))"

definition note_approval :: "string \<Rightarrow> policy \<Rightarrow> policy" where
  "note_approval session p = p\<lparr>pol_denials := dict_del session (pol_denials p)\<rparr>"

definition breaker_decision :: perm_decision where
  "breaker_decision =
     deny (''da bi tu choi '' @ nat_digits DENIAL_BREAKER_LIMIT @
       '' lan lien tiep - dung hoi va bao lai cho nguoi dung'') ''APPROVAL_DENIAL_BREAKER'' ''session''"

definition register_pending ::
  "string \<Rightarrow> string \<Rightarrow> json \<Rightarrow> perm_decision \<Rightarrow> string \<Rightarrow> json \<Rightarrow> policy \<Rightarrow> pending_item \<times> policy" where
  "register_pending rid tool args d session now p =
     (let item = \<lparr>pend_id = rid, pend_tool = tool, pend_args = args, pend_reason = pd_reason d,
            pend_session = session, pend_created = now\<rparr>
      in (item, p\<lparr>pol_pending := pol_pending p @ [item]\<rparr>))"

fun pop_pending :: "string \<Rightarrow> pending_item list \<Rightarrow> pending_item option \<times> pending_item list" where
  "pop_pending rid [] = (None, [])"
| "pop_pending rid (i # is) =
     (if pend_id i = rid then (Some i, is)
      else let (r, is') = pop_pending rid is in (r, i # is'))"

definition resolve_pending :: "string \<Rightarrow> policy \<Rightarrow> pending_item option \<times> policy" where
  "resolve_pending rid p =
     (let (r, is') = pop_pending rid (pol_pending p) in (r, p\<lparr>pol_pending := is'\<rparr>))"

subsection \<open>Saving and revoking rules\<close>

definition target_layer :: "policy \<Rightarrow> string \<Rightarrow> string" where
  "target_layer p layer =
     (if layer \<in> set (pol_paths p) then layer
      else if ''project'' \<in> set (pol_paths p) then ''project'' else ''profile'')"

definition rule_specifiers :: "string \<Rightarrow> json \<Rightarrow> string list" where
  "rule_specifiers tool args =
     (if tool \<in> set EXEC_TOOLS then
        (let command = command_from_args args in
         if command = [] then [] else map strip (filter (\<lambda>x. strip x \<noteq> []) (split_commands command)))
      else if tool \<in> set FILE_RULE_TOOLS then
        (let path = strip (rule_target args [''path'', ''file_path'', ''pattern'']) in
         if path = [] then []
         else
           let normalized = slashes path;
               absolute = (starts_with ''/'' normalized \<or> (length normalized > 1 \<and> normalized ! 1 = CHR '':''))
           in [if absolute then ''//'' @ dropWhile (\<lambda>c. c = CHR ''/'') normalized else normalized])
      else if tool = ''web_fetch'' then
        (let host = strip (rule_target args [''url'', ''domain'']) in
         if host = [] then []
         else
           let host = without_scheme host;
               host = before_char (CHR ''?'') (before_char (CHR ''/'') host);
               host = rstrip_dots (last (split_on (CHR ''@'') host));
               host = drop_port host
           in if host \<noteq> [] then [''domain:'' @ host] else [])
      else [])"

datatype save_code =
    Saved "string list" | Cua_Not_Persisted | No_Rule | Compound_Too_Wide | Forbidden_Prefix string
  | Too_Broad breadth | Write_Failed string | Not_Found | Revoked nat

text \<open>The first refusal of \<open>save_rule\<close>'s scope checks.\<close>

fun refuse_specifiers :: "string list \<Rightarrow> save_code option" where
  "refuse_specifiers [] = None"
| "refuse_specifiers (s # ss) =
     (case forbidden_prefix_reason s of
        Some prefix \<Rightarrow> Some (Forbidden_Prefix prefix)
      | None \<Rightarrow> (case too_broad_reason s [] of
            Some b \<Rightarrow> Some (Too_Broad b)
          | None \<Rightarrow> refuse_specifiers ss))"

fun add_missing :: "json list \<Rightarrow> string list \<Rightarrow> json list" where
  "add_missing existing [] = existing"
| "add_missing existing (r # rs) =
     (if JStr r \<in> set existing then add_missing existing rs
      else add_missing (existing @ [JStr r]) rs)"

text \<open>
  \<open>write\<close> answers \<open>_write_json\<close>: the error text, empty when the file was replaced. A saved rule is
  on the disk, and the policy re-reads all layers.
\<close>

definition save_rule ::
  "(string \<Rightarrow> settings \<Rightarrow> string) \<Rightarrow> string \<Rightarrow> json \<Rightarrow> string \<Rightarrow> string \<Rightarrow> string \<Rightarrow> disk \<Rightarrow> policy
     \<Rightarrow> (save_code \<times> disk \<times> policy) option" where
  "save_rule write tool0 args layer session actor d p =
     (let tool = strip tool0; target = target_layer p layer in
      if tool \<in> set BARE_TOOLS then Some (Cua_Not_Persisted, d, p)
      else
        let specifiers = rule_specifiers tool args in
        if specifiers = [] then Some (No_Rule, d, p)
        else if length specifiers > MAX_SUBCOMMAND_RULES then Some (Compound_Too_Wide, d, p)
        else case (if tool \<in> set EXEC_TOOLS then refuse_specifiers specifiers else None) of
          Some refusal \<Rightarrow> Some (refusal, d, p)
        | None \<Rightarrow>
            (let new_rules = map (\<lambda>s. tool @ ''('' @ s @ '')'') specifiers;
                 data = layer_data p target
             in case iter_or_empty (dict_get data ''allow'') of
                  None \<Rightarrow> None
                | Some existing \<Rightarrow>
                    (let data = dict_set ''allow'' (JList (add_missing existing new_rules)) data;
                         error = write target data
                     in if error \<noteq> [] then Some (Write_Failed error, d, p)
                        else
                          let d = d(target := Parsed (JObj data));
                              p = reload d p;
                              p = record_audit tool (command_from_args args)
                                    (allow (intercalate '','' new_rules) target) actor session p
                          in Some (Saved new_rules, d, p))))"

fun revoke_lists :: "string \<Rightarrow> string list \<Rightarrow> settings \<Rightarrow> (settings \<times> nat) option" where
  "revoke_lists rule [] data = Some (data, 0)"
| "revoke_lists rule (key # keys) data =
     (case iter_or_empty (dict_get data key) of
        None \<Rightarrow> None
      | Some items \<Rightarrow>
          (let kept = filter (\<lambda>v. v \<noteq> JStr rule) items;
               data = (if kept \<noteq> [] then dict_set key (JList kept) data else dict_del key data)
           in map_option (\<lambda>(data', n). (data', n + (length items - length kept)))
                (revoke_lists rule keys data)))"

definition revoke_rule ::
  "(string \<Rightarrow> settings \<Rightarrow> string) \<Rightarrow> string \<Rightarrow> string \<Rightarrow> disk \<Rightarrow> policy \<Rightarrow> (save_code \<times> disk \<times> policy) option" where
  "revoke_rule write rule layer d p =
     (let target = target_layer p layer in
      case revoke_lists rule [''deny'', ''ask'', ''allow''] (layer_data p target) of
        None \<Rightarrow> None
      | Some (data, removed) \<Rightarrow>
          (if removed = 0 then Some (Not_Found, d, p)
           else
             let error = write target data in
             if error \<noteq> [] then Some (Write_Failed error, d, p)
             else let d = d(target := Parsed (JObj data)) in Some (Revoked removed, d, reload d p)))"

subsection \<open>The gate of the host executor\<close>

datatype verdict_kind = V_Allow | V_Session | V_Always | V_App | V_Deny

definition is_guarded :: "perm_decision \<Rightarrow> bool" where
  "is_guarded d = starts_with ''guarded:'' (pd_rule d)"

definition is_cua :: "string \<Rightarrow> bool" where
  "is_cua tool = (tool \<in> set BARE_TOOLS)"

definition cua_app_hint :: "json \<Rightarrow> string" where
  "cua_app_hint args =
     (case args of
        JObj d \<Rightarrow>
          (let app = strip (str_or_empty (dict_get d ''app'')) in
           if app \<noteq> [] then app
           else case dict_get d ''__target'' of
             JObj t \<Rightarrow> strip (str_or_empty (dict_get t ''processName'')) | _ \<Rightarrow> [])
      | _ \<Rightarrow> [])"

definition approval_options :: "perm_decision \<Rightarrow> string \<Rightarrow> json \<Rightarrow> string list" where
  "approval_options d tool args =
     [''approve''] @
     (if is_guarded d then []
      else [''approve-session''] @
        (if is_cua tool then (if cua_app_hint args \<noteq> [] then [''approve-app''] else [])
         else [''approve-always''])) @
     [''reject'']"

definition approval_verdict :: "json \<Rightarrow> perm_decision \<Rightarrow> string \<Rightarrow> verdict_kind" where
  "approval_verdict outcome d tool =
     (case outcome of
        JObj o' \<Rightarrow>
          (if dict_get o' ''status'' \<noteq> JStr ''approved'' then V_Deny
           else
             let choice = str_or_empty (dict_get o' ''choice'') in
             if choice = ''approve'' then V_Allow
             else if is_guarded d then V_Deny
             else if choice \<in> {''approve-session'', ''approve_session''} then V_Session
             else if choice \<in> {''approve-app'', ''approve_app''} then (if is_cua tool then V_App else V_Deny)
             else if choice \<in> {''approve-always'', ''approve_always''} then (if is_cua tool then V_Deny else V_Always)
             else V_Deny)
      | _ \<Rightarrow> V_Deny)"

datatype gate_result = Gate_Pass | Gate_Denied | Gate_User_Denied | Gate_Breaker | Gate_Error

text \<open>
  The gate of \<open>execute\<close>: \<open>verdict\<close> is what the approver answers to the card of this decision
  (\<open>V_Deny\<close> without an approver), \<open>args\<close> the call's arguments with the resolved target and
  \<open>policy_args\<close> the ones with the resolved path.
\<close>

definition host_gate ::
  "file_system \<Rightarrow> (perm_decision \<Rightarrow> verdict_kind) \<Rightarrow> (string \<Rightarrow> settings \<Rightarrow> string) \<Rightarrow> string \<Rightarrow> json \<Rightarrow> json \<Rightarrow>
     string \<Rightarrow> string \<Rightarrow> disk \<Rightarrow> policy \<Rightarrow> gate_result \<times> disk \<times> policy" where
  "host_gate fs verdict write tool args policy_args cwd session d p =
     (case decide fs tool policy_args cwd session ''agent'' p of
        None \<Rightarrow> (Gate_Error, d, p)
      | Some (decision, p) \<Rightarrow>
          (case pd_outcome decision of
             Deny \<Rightarrow> (Gate_Denied, d, p)
           | Allow \<Rightarrow> (Gate_Pass, d, p)
           | Ask \<Rightarrow>
               (if verdict decision = V_Deny then
                  (let (broken, p) = note_denial session p
                   in (if broken then Gate_Breaker else Gate_User_Denied, d, p))
                else
                  let p = note_approval session p in
                  if is_guarded decision then (Gate_Pass, d, p)
                  else case verdict decision of
                    V_App \<Rightarrow>
                      (let app = cua_app_hint args;
                           key_args = (if app \<noteq> [] then JObj [(''app'', JStr app)] else args)
                       in (Gate_Pass, d,
                           remember (session_key p tool key_args cwd session) (allow [] ''user'') ''session'' p))
                  | V_Session \<Rightarrow>
                      (Gate_Pass, d,
                       remember (session_key p tool policy_args cwd session) (allow [] ''user'') ''session'' p)
                  | V_Always \<Rightarrow>
                      (let p = remember (session_key p tool policy_args cwd session) (allow [] ''user'') ''session'' p
                       in case save_rule write tool policy_args [] session ''user'' d p of
                            None \<Rightarrow> (Gate_Error, d, p)
                          | Some (_, d, p) \<Rightarrow> (Gate_Pass, d, p))
                  | _ \<Rightarrow> (Gate_Pass, d, p))))"

end
