(* ===== verification/Permission_Safety.thy ===== *)
theory Permission_Safety
  imports Permission_Policy
begin

section \<open>Properties of the host permission engine\<close>

text \<open>
  The floor and the guarded group come before every list and cannot be remembered away, deny rules
  win over allow rules, remembered decisions are as narrow as their key, collapsed paths have no
  dot-dot left; and the places where rules say more or less than their text.
\<close>

lemma layer_value_cong:
  "pol_layers p = pol_layers q \<Longrightarrow> layer_value p = layer_value q"
  by (intro ext) (simp add: layer_value_def layer_data_def)

lemma env_get_cong: "pol_env p = pol_env q \<Longrightarrow> env_get p = env_get q"
  by (intro ext) (simp add: env_get_def)

text \<open>The levels depend on the settings, not on the session part of the policy.\<close>

lemma levels_cong:
  assumes "pol_layers p = pol_layers q" and "pol_env p = pol_env q" and "pol_mode p = pol_mode q"
  shows "mode_value p = mode_value q" and "scope_value p = scope_value q"
    and "network_value p = network_value q"
  using layer_value_cong [OF assms(1)] env_get_cong [OF assms(2)] assms(3)
  by (simp_all add: mode_value_def scope_value_def network_value_def cong: option.case_cong)

lemma record_audit_fields [simp]:
  "pol_session_rules (record_audit t c d a s p) = pol_session_rules p"
  "pol_denials (record_audit t c d a s p) = pol_denials p"
  "pol_layers (record_audit t c d a s p) = pol_layers p"
  "pol_workspace (record_audit t c d a s p) = pol_workspace p"
  by (simp_all add: record_audit_def)

text \<open>\<open>decide\<close> is \<open>judge\<close> with an audit entry; it leaves rules and remembered decisions alone.\<close>

lemma decide_judge:
  "decide fs tool args cwd session actor p =
     (case judge fs p (strip tool) args cwd session of
        None \<Rightarrow> None
      | Some d \<Rightarrow> Some (d, record_audit (strip tool)
          (if strip tool \<in> set EXEC_TOOLS then command_from_args args else []) d actor session
          (if strip tool \<in> set EXEC_TOOLS \<and> command_from_args args \<noteq> [] \<and>
              hardline_reason (command_from_args args) \<noteq> []
           then p\<lparr>pol_hits := pol_hits p + 1\<rparr> else p)))"
  by (auto simp: decide_def Let_def split: option.split)

lemma decide_session_rules:
  "decide fs tool args cwd session actor p = Some (d, p') \<Longrightarrow>
     pol_session_rules p' = pol_session_rules p \<and> pol_denials p' = pol_denials p"
  by (auto simp: decide_judge split: option.splits if_splits)

lemma exec_tool: "strip ''terminal_exec'' = ''terminal_exec''" "''terminal_exec'' \<in> set EXEC_TOOLS"
  by code_simp+

text \<open>C27. The hard floor has no way around: a command it matches is denied for every mode, rule file,
  remembered decision and answer of the user, and the denial changes nothing but the audit and the
  counter of hits.\<close>

theorem hardline_always_denied:
  assumes "hardline_reason (command_from_args args) \<noteq> []"
  shows "fst (host_gate fs verdict write ''terminal_exec'' args' args cwd session d p) = Gate_Denied \<and>
    fst (snd (host_gate fs verdict write ''terminal_exec'' args' args cwd session d p)) = d \<and>
    pol_session_rules (snd (snd (host_gate fs verdict write ''terminal_exec'' args' args cwd session d p)))
      = pol_session_rules p"
proof -
  have "command_from_args args \<noteq> []" using assms by (auto simp: hardline_reason_def strip_def lstrip_def rstrip_def)
  then obtain dec p' where dec: "decide fs ''terminal_exec'' args cwd session ''agent'' p = Some (dec, p')"
    "pd_outcome dec = Deny"
    using assms by (simp add: decide_judge exec_tool judge_def deny_def Let_def)
  from decide_session_rules [OF dec(1)] dec show ?thesis by (simp add: host_gate_def)
qed

definition command_args :: "string \<Rightarrow> json" where
  "command_args c = JObj [(''command'', JStr c)]"

definition no_fs :: file_system where
  "no_fs = \<lparr>fs_expand = id, fs_absolute = starts_with ''/'', fs_resolve = (\<lambda>p. Some (collapse p)),
     fs_workspace = ''/ws''\<rparr>"

definition fresh :: "(string \<times> settings) list \<Rightarrow> string \<Rightarrow> policy" where
  "fresh layers mode = new_policy
     (\<lambda>l. case map_of layers l of None \<Rightarrow> Missing | Some s \<Rightarrow> Parsed (JObj s)) [] ''/home/u'' ''/ws'' mode [] False"

theorem hardline_always_denied_witness:
  "fst (host_gate no_fs (\<lambda>_. V_Always) (\<lambda>_ _. []) ''terminal_exec'' JNull (command_args ''rm -rf /'') [] ''s''
     (\<lambda>_. Missing) (fresh [] ''trusted'')) = Gate_Denied"
proof -
  have "hardline_reason (command_from_args (command_args ''rm -rf /'')) \<noteq> []" by code_simp
  then show ?thesis using hardline_always_denied by blast
qed

text \<open>C28. The guarded group is asked every time: such a command passes the gate exactly when the user
  allows it now, and neither a session rule nor a rule on disk comes out of the answer.\<close>

theorem guarded_asked_every_time:
  assumes "list_reason GUARDED (command_from_args args) \<noteq> []"
    and "hardline_reason (command_from_args args) = []"
    and "host_gate fs verdict write ''terminal_exec'' args' args cwd session d p = (r, d', p')"
  shows "(r = Gate_Pass \<longleftrightarrow> verdict (ask (''lenh thuoc nhom luon hoi `'' @
        list_reason GUARDED (command_from_args args) @ ''` - chi cho phep mot lan'')
        (''guarded:'' @ list_reason GUARDED (command_from_args args)) ''guarded'') \<noteq> V_Deny) \<and>
    d' = d \<and> pol_session_rules p' = pol_session_rules p"
proof -
  let ?g = "list_reason GUARDED (command_from_args args)"
  let ?dec = "ask (''lenh thuoc nhom luon hoi `'' @ ?g @ ''` - chi cho phep mot lan'') (''guarded:'' @ ?g) ''guarded''"
  have "command_from_args args \<noteq> []"
    using assms(1) by (auto simp: list_reason_def strip_def lstrip_def rstrip_def)
  then obtain p1 where dec: "decide fs ''terminal_exec'' args cwd session ''agent'' p = Some (?dec, p1)"
    using assms(1,2) by (simp add: decide_judge exec_tool judge_def Let_def)
  have g: "is_guarded ?dec" by (simp add: is_guarded_def ask_def starts_with_def)
  have o: "pd_outcome ?dec = Ask" by (simp add: ask_def)
  show ?thesis
    using assms(3) dec g o decide_session_rules [OF dec]
    by (auto simp: host_gate_def note_denial_def note_approval_def Let_def split: if_splits)
qed

theorem guarded_asked_every_time_witness:
  "\<exists>r d' p'. host_gate no_fs (\<lambda>_. V_Always) (\<lambda>_ _. []) ''terminal_exec'' JNull (command_args ''runas x'') [] ''s''
     (\<lambda>_. Missing) (fresh [] ''trusted'') = (r, d', p') \<and> pol_session_rules p' = pol_session_rules (fresh [] ''trusted'')"
proof -
  have g: "list_reason GUARDED (command_from_args (command_args ''runas x'')) \<noteq> []" by code_simp
  have h: "hardline_reason (command_from_args (command_args ''runas x'')) = []" by code_simp
  obtain r d' p' where e: "host_gate no_fs (\<lambda>_. V_Always) (\<lambda>_ _. []) ''terminal_exec'' JNull (command_args ''runas x'') []
      ''s'' (\<lambda>_. Missing) (fresh [] ''trusted'') = (r, d', p')" by (metis prod_cases3)
  from guarded_asked_every_time [OF g h e] e show ?thesis by blast
qed

subsection \<open>Rule lists\<close>

lemma first_rule_None:
  "first_rule rs key matches = None \<longleftrightarrow> (\<forall>r. (key, r) \<in> set rs \<longrightarrow> \<not> matches r)"
  by (auto simp: first_rule_def find_None_set)

lemma first_ruleD: "first_rule rs key matches = Some r \<Longrightarrow> (key, r) \<in> set rs \<and> matches r"
  by (auto simp: first_rule_def dest!: find_SomeD)

definition matching_rule ::
  "policy \<Rightarrow> string \<Rightarrow> string \<Rightarrow> json \<Rightarrow> string \<Rightarrow> bool" where
  "matching_rule p key tool args cwd =
     (case rules p of None \<Rightarrow> False
      | Some rs \<Rightarrow> list_ex (\<lambda>(k, r). k = key \<and>
          rule_matches r tool args (if cwd \<noteq> [] then cwd else pol_workspace p) (pol_workspace p) (pol_home p)) rs)"

text \<open>C29. A deny rule of any layer wins: when one matches the call, the call is denied whatever the
  ask and allow rules of the other layers, the remembered decisions and the mode say. The one
  exception is a command of the guarded group, which is asked about before the rules are read.\<close>

theorem deny_rule_wins:
  assumes "matching_rule p ''deny'' tool args cwd"
    and "tool \<in> set EXEC_TOOLS \<longrightarrow> list_reason GUARDED (command_from_args args) = []"
  shows "\<exists>d. judge fs p tool args cwd session = Some d \<and> pd_outcome d = Deny"
proof -
  let ?cwd = "if cwd \<noteq> [] then cwd else pol_workspace p"
  let ?m = "\<lambda>r. rule_matches r tool args ?cwd (pol_workspace p) (pol_home p)"
  obtain rs where rs: "rules p = Some rs" "\<exists>r. (''deny'', r) \<in> set rs \<and> ?m r"
    using assms(1) by (auto simp: matching_rule_def list_ex_iff split: option.splits)
  then obtain r where "first_rule rs ''deny'' ?m = Some r"
    using first_rule_None [of rs "''deny''" ?m] by (cases "first_rule rs ''deny'' ?m") auto
  then show ?thesis
    using rs(1) assms(2) by (auto simp: judge_def decide_lists_def deny_def Let_def split: if_splits)
qed

definition push_denied :: "(string \<times> settings) list" where
  "push_denied = [(''managed'', [(''deny'', JList [JStr ''terminal_exec(git push *)''])]),
     (''project'', [(''allow'', JList [JStr ''terminal_exec(git push *)''])])]"

lemma push_rules:
  "map_option (map (\<lambda>(k, r). (k, rule_specifier r))) (rules (fresh push_denied ''trusted''))
     = Some [(''deny'', ''git push *''), (''allow'', ''git push *'')]"
  by code_simp

theorem deny_rule_wins_witness:
  "\<exists>d. judge no_fs (fresh push_denied ''trusted'') ''terminal_exec'' (command_args ''git push o'') [] ''s'' = Some d \<and>
     pd_outcome d = Deny"
proof (rule deny_rule_wins)
  show "matching_rule (fresh push_denied ''trusted'') ''deny'' ''terminal_exec'' (command_args ''git push o'') []"
    by code_simp
  have "list_reason GUARDED (command_from_args (command_args ''git push o'')) = []" by code_simp
  then show "''terminal_exec'' \<in> set EXEC_TOOLS \<longrightarrow>
      list_reason GUARDED (command_from_args (command_args ''git push o'')) = []" ..
qed

lemma guard_before_deny:
  assumes "list_reason GUARDED (command_from_args args) \<noteq> []"
    and "hardline_reason (command_from_args args) = []"
  shows "\<exists>d. judge fs p ''terminal_exec'' args cwd session = Some d \<and> pd_outcome d = Ask"
proof -
  have "command_from_args args \<noteq> []"
    using assms(1) by (auto simp: list_reason_def strip_def lstrip_def rstrip_def)
  then show ?thesis using assms by (simp add: judge_def exec_tool ask_def Let_def)
qed

text \<open>The deny list does not come before the guarded group: the force push of this workspace is
  forbidden by a managed deny rule, and still the gate asks and lets it pass when the user says yes.\<close>

theorem guarded_command_passes_deny_rule:
  "matching_rule (fresh push_denied ''trusted'') ''deny'' ''terminal_exec'' (command_args ''git push -f'') [] \<and>
   (\<exists>d. judge no_fs (fresh push_denied ''trusted'') ''terminal_exec'' (command_args ''git push -f'') [] ''s''
      = Some d \<and> pd_outcome d = Ask)"
proof
  show "matching_rule (fresh push_denied ''trusted'') ''deny'' ''terminal_exec'' (command_args ''git push -f'') []"
    by code_simp
  show "\<exists>d. judge no_fs (fresh push_denied ''trusted'') ''terminal_exec'' (command_args ''git push -f'') [] ''s''
      = Some d \<and> pd_outcome d = Ask"
    by (rule guard_before_deny; code_simp)
qed

text \<open>C30. Nothing runs unasked without a ground: an allowed call is one no floor, no guarded pattern
  and no deny rule matches, and an allow rule, a remembered approval or the mode's default allows it.\<close>

theorem allowed_only_with_ground:
  assumes "judge fs p tool args cwd session = Some d" and "pd_outcome d = Allow"
  shows "(tool \<in> set EXEC_TOOLS \<longrightarrow> hardline_reason (command_from_args args) = [] \<and>
      list_reason GUARDED (command_from_args args) = []) \<and>
    \<not> matching_rule p ''deny'' tool args cwd \<and>
    (matching_rule p ''allow'' tool args cwd \<or>
     (\<exists>d'. map_of (pol_session_rules p) (session_key p tool args
         (if cwd \<noteq> [] then cwd else pol_workspace p) session) = Some d' \<and> pd_outcome d' = Allow) \<or>
     pd_outcome (default_decision fs p tool args) = Allow)"
proof -
  let ?cwd = "if cwd \<noteq> [] then cwd else pol_workspace p"
  let ?m = "\<lambda>r. rule_matches r tool args ?cwd (pol_workspace p) (pol_home p)"
  let ?rem = "map_of (pol_session_rules p) (session_key p tool args ?cwd session)"
  have blank: "hardline_reason [] = []" "list_reason GUARDED [] = []"
    by (simp_all add: hardline_reason_def list_reason_def strip_def lstrip_def rstrip_def)
  have exec: "tool \<in> set EXEC_TOOLS \<longrightarrow> hardline_reason (command_from_args args) = [] \<and>
      list_reason GUARDED (command_from_args args) = []"
    using assms blank by (auto simp: judge_def deny_def ask_def Let_def split: if_splits)
  then obtain rs where rs: "rules p = Some rs"
    using assms(1) by (auto simp: judge_def Let_def split: if_splits option.splits)
  have d: "(case decide_lists rs ?m ?rem of Some x \<Rightarrow> Some x
      | None \<Rightarrow> (case ?rem of Some x \<Rightarrow> Some x | None \<Rightarrow> Some (default_decision fs p tool args))) = Some d"
    using assms(1) rs exec by (auto simp: judge_def Let_def split: if_splits)
  have mr: "matching_rule p key tool args cwd \<longleftrightarrow> first_rule rs key ?m \<noteq> None" for key
    using rs first_rule_None [of rs key ?m]
    by (auto simp: matching_rule_def list_ex_iff simp del: not_None_eq)
  have nodeny: "first_rule rs ''deny'' ?m = None"
    using d assms(2) by (auto simp: decide_lists_def deny_def split: option.splits)
  have "first_rule rs ''allow'' ?m \<noteq> None \<or> (\<exists>x. ?rem = Some x \<and> pd_outcome x = Allow) \<or>
      pd_outcome (default_decision fs p tool args) = Allow"
    using d assms(2) nodeny
    by (auto simp: decide_lists_def deny_def ask_def Let_def split: option.splits if_splits)
  then show ?thesis using exec mr nodeny by blast
qed

theorem allowed_only_with_ground_witness:
  "\<exists>d. judge no_fs (fresh [] ''auto'') ''file_write'' (JObj [(''path'', JStr ''/ws/a'')]) [] ''s'' = Some d \<and>
     pd_outcome d = Allow \<and>
     \<not> matching_rule (fresh [] ''auto'') ''deny'' ''file_write'' (JObj [(''path'', JStr ''/ws/a'')]) []"
proof -
  have "map_option pd_outcome (judge no_fs (fresh [] ''auto'') ''file_write'' (JObj [(''path'', JStr ''/ws/a'')]) [] ''s'')
      = Some Allow" by code_simp
  then obtain d where d: "judge no_fs (fresh [] ''auto'') ''file_write'' (JObj [(''path'', JStr ''/ws/a'')]) [] ''s'' = Some d"
    "pd_outcome d = Allow" by auto
  from allowed_only_with_ground [OF d] d show ?thesis by blast
qed

subsection \<open>What a rule approves\<close>

text \<open>The call when no rule but allow rules match, and when no rule matches at all.\<close>

lemma matching_rule_iff:
  "rules p = Some rs \<Longrightarrow> matching_rule p key tool args cwd \<longleftrightarrow>
     first_rule rs key (\<lambda>r. rule_matches r tool args (if cwd \<noteq> [] then cwd else pol_workspace p)
       (pol_workspace p) (pol_home p)) \<noteq> None"
  using first_rule_None [of rs key "\<lambda>r. rule_matches r tool args (if cwd \<noteq> [] then cwd else pol_workspace p)
       (pol_workspace p) (pol_home p)"]
  by (auto simp: matching_rule_def list_ex_iff simp del: not_None_eq)

lemma judge_rules:
  assumes "tool \<in> set EXEC_TOOLS \<longrightarrow> hardline_reason (command_from_args args) = [] \<and>
      list_reason GUARDED (command_from_args args) = []"
    and "rules p \<noteq> None" and "pol_session_rules p = []"
    and "\<not> matching_rule p ''deny'' tool args cwd" and "\<not> matching_rule p ''ask'' tool args cwd"
  shows "map_option pd_outcome (judge fs p tool args cwd session) =
    Some (if matching_rule p ''allow'' tool args cwd then Allow else pd_outcome (default_decision fs p tool args))"
proof -
  obtain rs where rs: "rules p = Some rs" using assms(2) by auto
  let ?m = "\<lambda>r. rule_matches r tool args (if cwd \<noteq> [] then cwd else pol_workspace p) (pol_workspace p) (pol_home p)"
  have "first_rule rs ''deny'' ?m = None" "first_rule rs ''ask'' ?m = None"
    using assms(4,5) unfolding matching_rule_iff [OF rs] by simp_all
  then have "judge fs p tool args cwd session = Some (case first_rule rs ''allow'' ?m of
      Some r \<Rightarrow> allow (rule_text r) (rule_layer r) | None \<Rightarrow> default_decision fs p tool args)"
    using assms(1,3) rs by (simp add: judge_def decide_lists_def Let_def split: option.split)
  then show ?thesis unfolding matching_rule_iff [OF rs]
    by (auto simp: allow_def split: option.split)
qed

lemma exec_default_asks:
  assumes "mode_value p = ''ask''" and "\<not> inspection_command fs p (command_from_args args)"
  shows "pd_outcome (default_decision fs p ''terminal_exec'' args) = Ask"
  using assms by (simp add: default_decision_def READ_TOOLS_def WRITE_TOOLS_def exec_tool(2)
      MODE_CAPABILITIES_def from_capability_def ask_def Let_def)

lemma fresh_unset [simp]: "pol_session_rules (fresh layers mode) = []"
  by (simp add: fresh_def new_policy_def reload_def)

lemma npm_facts:
  "hardline_reason ''npm run b; rm x'' = []" "list_reason GUARDED ''npm run b; rm x'' = []"
  "hardline_reason ''rm x'' = []" "list_reason GUARDED ''rm x'' = []"
  by code_simp+

lemma args_command [simp]: "command_from_args (command_args c) = (if strip c \<noteq> [] then c else [])"
  by (simp add: command_from_args_def command_args_def dict_get_or_def)

definition npm_allowed :: "(string \<times> settings) list" where
  "npm_allowed = [(''project'', [(''allow'', JList [JStr ''terminal_exec(npm run *)''])])]"

text \<open>An allow rule for one command approves a whole chain: the rule for \<open>npm run *\<close> matches the
  full text of a compound command, so at the \<open>ask\<close> level the second command runs unasked although no
  rule names it and on its own it would be asked about.\<close>

theorem compound_command_rides_on_rule:
  "map_option pd_outcome (judge no_fs (fresh npm_allowed ''ask'') ''terminal_exec''
     (command_args ''npm run b; rm x'') [] ''s'') = Some Allow \<and>
   map_option pd_outcome (judge no_fs (fresh npm_allowed ''ask'') ''terminal_exec''
     (command_args ''rm x'') [] ''s'') = Some Ask"
proof
  let ?p = "fresh npm_allowed ''ask''"
  have s: "strip ''npm run b; rm x'' \<noteq> []" "strip ''rm x'' \<noteq> []" by code_simp+
  have r: "rules ?p \<noteq> None" by code_simp
  have n: "\<not> matching_rule ?p ''deny'' ''terminal_exec'' (command_args ''npm run b; rm x'') []"
    "\<not> matching_rule ?p ''ask'' ''terminal_exec'' (command_args ''npm run b; rm x'') []"
    "\<not> matching_rule ?p ''deny'' ''terminal_exec'' (command_args ''rm x'') []"
    "\<not> matching_rule ?p ''ask'' ''terminal_exec'' (command_args ''rm x'') []"
    by code_simp+
  have a: "matching_rule ?p ''allow'' ''terminal_exec'' (command_args ''npm run b; rm x'') []" by code_simp
  have b: "\<not> matching_rule ?p ''allow'' ''terminal_exec'' (command_args ''rm x'') []" by code_simp
  have m: "mode_value ?p = ''ask''" by code_simp
  have i: "\<not> inspection_command no_fs ?p ''rm x''" by code_simp
  show "map_option pd_outcome (judge no_fs ?p ''terminal_exec'' (command_args ''npm run b; rm x'') [] ''s'')
      = Some Allow"
    using judge_rules [OF _ r fresh_unset n(1,2)] npm_facts s a by simp
  show "map_option pd_outcome (judge no_fs ?p ''terminal_exec'' (command_args ''rm x'') [] ''s'') = Some Ask"
    using judge_rules [where fs = no_fs and session = "''s''", OF _ r fresh_unset n(3,4)] npm_facts s b
      exec_default_asks [OF m, of no_fs "command_args ''rm x''"] i by simp
qed

definition env_denied :: "(string \<times> settings) list" where
  "env_denied = [(''project'', [(''deny'', JList [JStr ''file_read(.env)''])])]"

text \<open>A deny rule on a dot file misses it: the matcher strips leading dots of a relative pattern
  when it anchors it at the workspace, so the rule for \<open>.env\<close> does not match the absolute path the
  host executor passes, and the file is read without asking.\<close>

theorem dot_file_deny_rule_misses:
  "map_option pd_outcome (judge no_fs (fresh env_denied ''ask'') ''file_read''
     (JObj [(''path'', JStr ''/ws/.env'')]) [] ''s'') = Some Allow"
  by code_simp

lemma star_facts:
  "rule_specifiers ''terminal_exec'' (command_args ''rm *'') = [''rm *'']"
  "forbidden_prefix_reason ''rm *'' = None"
  "canonicalize_command ''rm *'' = ''remove-item *''"
  by code_simp+

lemma star_probes:
  "filter (match_command_pattern ''rm *'') PROBES = [''rm -rf /'', ''Remove-Item -Recurse -Force C:'' @ [CHR 0x5C] @ ''Windows'']"
  by code_simp

lemma star_not_broad: "too_broad_reason ''rm *'' [] = None"
proof -
  have "length (remdups (map (\<lambda>s. lower (before_char (CHR '' '') s))
      [''rm -rf /'', ''Remove-Item -Recurse -Force C:'' @ [CHR 0x5C] @ ''Windows''])) < 3"
    by code_simp
  then show ?thesis by (simp only: too_broad_reason_def star_facts star_probes append_Nil Let_def)
      (simp add: star_facts)
qed

text \<open>An approval stored for a command with a star is wider than the command: saving \<open>rm *\<close> is
  accepted, and the stored rule matches every other \<open>rm\<close> command.\<close>

theorem saved_star_command_widens:
  "map_option fst (save_rule (\<lambda>_ _. []) ''terminal_exec'' (command_args ''rm *'') [] ''s'' ''user''
      (\<lambda>_. Missing) (fresh [] ''ask'')) = Some (Saved [''terminal_exec(rm *)'']) \<and>
   rule_matches (the (parse_rule ''terminal_exec(rm *)'' ''project'')) ''terminal_exec''
     (command_args ''rm -rf src'') ''/ws'' ''/ws'' ''/home/u''"
proof
  have r: "refuse_specifiers [''rm *''] = None" by (simp add: star_facts star_not_broad)
  have e: "iter_or_empty (dict_get (layer_data (fresh [] ''ask'') (target_layer (fresh [] ''ask'') [])) ''allow'') = Some []"
    by code_simp
  have b: "''terminal_exec'' \<notin> set BARE_TOOLS" by code_simp
  show "map_option fst (save_rule (\<lambda>_ _. []) ''terminal_exec'' (command_args ''rm *'') [] ''s'' ''user''
      (\<lambda>_. Missing) (fresh [] ''ask'')) = Some (Saved [''terminal_exec(rm *)''])"
    using r e b star_facts(1) exec_tool
    by (simp add: save_rule_def MAX_SUBCOMMAND_RULES_def Let_def)
  show "rule_matches (the (parse_rule ''terminal_exec(rm *)'' ''project'')) ''terminal_exec''
     (command_args ''rm -rf src'') ''/ws'' ''/ws'' ''/home/u''" by code_simp
qed

end
