(* ===== verification/Permission_Paths.thy ===== *)
theory Permission_Paths
  imports Permission_Safety
begin

section \<open>Properties of paths, remembered decisions and the denial breaker\<close>

text \<open>
  The parts of a collapsed path, and that the workspace test is a test on them; that a remembered
  decision reaches no other resource; and what the denial breaker does not do.
\<close>

definition path_parts :: "string \<Rightarrow> string list" where
  "path_parts s = collapse_parts (split_on (CHR ''/'') (slashes s)) []"

definition clean_part :: "string \<Rightarrow> bool" where
  "clean_part w = (w \<noteq> [] \<and> w \<noteq> ''.'' \<and> w \<noteq> ''..'' \<and> CHR ''/'' \<notin> set w \<and> CHR 0x5C \<notin> set w)"

lemma collapse_path_parts: "collapse s = CHR ''/'' # intercalate ''/'' (path_parts s)"
  by (simp add: collapse_def path_parts_def)

lemma split_on_sub: "w \<in> set (split_on c s) \<Longrightarrow> c \<notin> set w \<and> set w \<subseteq> set s"
proof (induction s arbitrary: w)
  case (Cons x s)
  obtain v vs where "split_on c s = v # vs" by (cases "split_on c s") auto
  then show ?case using Cons by (fastforce split: if_splits)
qed simp

lemma slashes_no_backslash: "CHR 0x5C \<notin> set (slashes s)"
  by (auto simp: slashes_def)

lemma slashes_id: "CHR 0x5C \<notin> set s \<Longrightarrow> slashes s = s"
  by (induction s) (auto simp: slashes_def)

lemma collapse_parts_clean:
  "\<forall>w \<in> set ws. CHR ''/'' \<notin> set w \<and> CHR 0x5C \<notin> set w \<Longrightarrow> \<forall>w \<in> set acc. clean_part w \<Longrightarrow>
     \<forall>w \<in> set (collapse_parts ws acc). clean_part w"
proof (induction ws arbitrary: acc)
  case (Cons p ps)
  have tl: "\<forall>w \<in> set (tl acc). clean_part w" using Cons.prems(2) by (cases acc) auto
  have r: "\<forall>w \<in> set ps. CHR ''/'' \<notin> set w \<and> CHR 0x5C \<notin> set w" using Cons.prems(1) by simp
  consider "p = [] \<or> p = ''.''" | "p = ''..''" | "p \<noteq> [] \<and> p \<noteq> ''.'' \<and> p \<noteq> ''..''" by blast
  then show ?case
  proof cases
    case 1
    then show ?thesis using Cons.IH [OF r Cons.prems(2)] by simp
  next
    case 2
    then show ?thesis using Cons.IH [OF r tl] by simp
  next
    case 3
    then have "clean_part p" using Cons.prems(1) by (simp add: clean_part_def)
    then have "\<forall>w \<in> set (p # acc). clean_part w" using Cons.prems(2) by simp
    from Cons.IH [OF r this] show ?thesis using 3 by simp
  qed
qed simp

lemma path_parts_clean: "\<forall>w \<in> set (path_parts s). clean_part w"
  unfolding path_parts_def
  by (rule collapse_parts_clean) (use split_on_sub slashes_no_backslash in fastforce)+

lemma collapse_parts_id: "\<forall>w \<in> set ws. clean_part w \<Longrightarrow> collapse_parts ws acc = rev acc @ ws"
  by (induction ws arbitrary: acc) (auto simp: clean_part_def)

lemma split_on_append: "split_on c (a @ c # b) = split_on c a @ split_on c b"
proof (induction a)
  case (Cons x a)
  then show ?case by (cases "split_on c a") auto
qed simp

lemma split_on_none: "c \<notin> set a \<Longrightarrow> split_on c a = [a]"
  by (induction a) auto

lemma split_intercalate:
  "ws \<noteq> [] \<Longrightarrow> \<forall>w \<in> set ws. c \<notin> set w \<Longrightarrow> split_on c (intercalate [c] ws) = ws"
proof (induction "[c]" ws rule: intercalate.induct)
  case (3 x y ys)
  then show ?case using split_on_append [of c x "intercalate [c] (y # ys)"] by (simp add: split_on_none)
qed (auto simp: split_on_none)

lemma intercalate_set: "set (intercalate sep ws) \<subseteq> set sep \<union> \<Union> (set ` set ws)"
  by (induction sep ws rule: intercalate.induct) auto

lemma split_collapse:
  "split_on (CHR ''/'') (slashes (collapse s)) = [] # (if path_parts s = [] then [[]] else path_parts s)"
proof -
  have "CHR 0x5C \<notin> set (collapse s)"
    using intercalate_set [of "''/''" "path_parts s"] path_parts_clean [of s]
    by (auto simp: collapse_path_parts clean_part_def)
  then have "slashes (collapse s) = collapse s" by (rule slashes_id)
  moreover have "path_parts s \<noteq> [] \<Longrightarrow>
      split_on (CHR ''/'') (intercalate ''/'' (path_parts s)) = path_parts s"
    using split_intercalate [of "path_parts s" "CHR ''/''"] path_parts_clean [of s]
    by (simp add: clean_part_def)
  ultimately show ?thesis by (simp add: collapse_path_parts)
qed

lemma path_parts_collapse: "path_parts (collapse s) = path_parts s"
  using path_parts_clean [of s]
  by (simp add: path_parts_def [of "collapse s"] split_collapse collapse_parts_id)

text \<open>Collapsing a path is final: it has no empty, dot or dot-dot part and no backslash left, and
  collapsing again changes nothing, for any text.\<close>

theorem collapse_is_normal:
  "collapse (collapse s) = collapse s \<and> list_all clean_part (path_parts (collapse s))"
  using path_parts_clean [of s]
  by (simp add: collapse_path_parts [of "collapse s"] collapse_path_parts [of s, symmetric]
      path_parts_collapse list_all_iff)






lemma collapse_not_Nil [simp]: "collapse s \<noteq> []"
  by (simp add: collapse_def)



subsection \<open>Remembered decisions\<close>

lemma remember_settings [simp]:
  "pol_layers (remember k d life p) = pol_layers p" "pol_env (remember k d life p) = pol_env p"
  "pol_mode (remember k d life p) = pol_mode p" "pol_scope (remember k d life p) = pol_scope p"
  "pol_workspace (remember k d life p) = pol_workspace p" "pol_home (remember k d life p) = pol_home p"
  "pol_windows (remember k d life p) = pol_windows p"
  by (simp_all add: remember_def)

text \<open>The decision of a call depends on the settings and on the decision remembered under its key.\<close>

definition same_settings :: "policy \<Rightarrow> policy \<Rightarrow> bool" where
  "same_settings p q =
     (pol_layers p = pol_layers q \<and> pol_env p = pol_env q \<and> pol_mode p = pol_mode q \<and>
      pol_scope p = pol_scope q \<and> pol_workspace p = pol_workspace q \<and> pol_home p = pol_home q \<and>
      pol_windows p = pol_windows q)"

lemma same_settings_reads:
  assumes "same_settings p q"
  shows "mode_value p = mode_value q" "scope_value p = scope_value q" "network_value p = network_value q"
    "cua_scope_value p = cua_scope_value q" "rules p = rules q"
    "resource_key p = resource_key q" "in_workspace p = in_workspace q"
    "inspection_command fs p = inspection_command fs q"
proof -
  have s: "pol_layers p = pol_layers q" "pol_env p = pol_env q" "pol_mode p = pol_mode q"
    "pol_scope p = pol_scope q" "pol_workspace p = pol_workspace q" "pol_home p = pol_home q"
    "pol_windows p = pol_windows q"
    using assms by (simp_all add: same_settings_def)
  show "mode_value p = mode_value q" "scope_value p = scope_value q" "network_value p = network_value q"
    by (rule levels_cong; simp only: s)+
  show "cua_scope_value p = cua_scope_value q"
    using layer_value_cong [OF s(1)] env_get_cong [OF s(2)] s(4)
    by (simp add: cua_scope_value_def cong: option.case_cong)
  show "rules p = rules q" by (simp add: rules_def rules_of_def layer_data_def s)
  have a: "absolute_path p = absolute_path q" by (intro ext) (simp only: absolute_path_def s)
  then show "resource_key p = resource_key q" by (intro ext) (simp only: resource_key_def)
  show "in_workspace p = in_workspace q" by (intro ext) (simp only: in_workspace_def a s)
  show "inspection_command fs p = inspection_command fs q"
    by (intro ext) (simp only: inspection_command_def s)
qed

lemma session_key_cong:
  assumes "same_settings p q"
  shows "session_key p = session_key q"
  by (intro ext) (simp only: session_key_def same_settings_reads [OF assms])

lemma default_decision_cong:
  assumes "same_settings p q"
  shows "default_decision fs p = default_decision fs q"
  unfolding default_decision_def same_settings_reads [OF assms] ..

lemma judge_cong:
  assumes "same_settings p q"
    and "\<And>k. k = session_key p tool args (if cwd \<noteq> [] then cwd else pol_workspace p) session \<Longrightarrow>
      map_of (pol_session_rules p) k = map_of (pol_session_rules q) k"
  shows "judge fs p tool args cwd session = judge fs q tool args cwd session"
proof -
  have w: "pol_workspace p = pol_workspace q" "pol_home p = pol_home q"
    using assms(1) by (simp_all add: same_settings_def)
  define c where "c = (if cwd \<noteq> [] then cwd else pol_workspace q)"
  have m: "map_of (pol_session_rules p) (session_key q tool args c session)
      = map_of (pol_session_rules q) (session_key q tool args c session)"
    using assms(2) [OF refl] unfolding c_def session_key_cong [OF assms(1)] w .
  show ?thesis
    unfolding judge_def w session_key_cong [OF assms(1)] default_decision_cong [OF assms(1)]
      same_settings_reads(5) [OF assms(1)] c_def [symmetric] m Let_def ..
qed

lemma session_key_resource:
  assumes "session_key p tool a cwd session = session_key p tool b cwd session"
  shows "resource_key p tool a = resource_key p tool b"
  using assms by (simp add: session_key_def)

text \<open>An approval for the session is as narrow as the resource it was given for: remembering the
  decision of one call leaves the judgement of the same tool on every other resource unchanged.\<close>

theorem remember_is_narrow:
  assumes "resource_key p tool b \<noteq> resource_key p tool a"
  shows "judge fs (remember (session_key p tool a (if cwd \<noteq> [] then cwd else pol_workspace p) session) d life p)
      tool b cwd session = judge fs p tool b cwd session"
proof (rule judge_cong)
  let ?k = "session_key p tool a (if cwd \<noteq> [] then cwd else pol_workspace p) session"
  show s: "same_settings (remember ?k d life p) p" by (simp add: same_settings_def)
  fix k
  assume "k = session_key (remember ?k d life p) tool b
      (if cwd \<noteq> [] then cwd else pol_workspace (remember ?k d life p)) session"
  then have "k = session_key p tool b (if cwd \<noteq> [] then cwd else pol_workspace p) session"
    by (simp only: session_key_cong [OF s] remember_settings)
  then have "k \<noteq> ?k" using assms session_key_resource by metis
  then show "map_of (pol_session_rules (remember ?k d life p)) k = map_of (pol_session_rules p) k"
    by (simp add: remember_def)
qed

theorem remember_is_narrow_witness:
  "judge no_fs (remember (session_key (fresh [] ''ask'') ''file_write'' (JObj [(''path'', JStr ''a'')]) ''/ws'' ''s'')
       (allow [] ''user'') ''session'' (fresh [] ''ask'')) ''file_write'' (JObj [(''path'', JStr ''b'')]) ''/ws'' ''s''
     = judge no_fs (fresh [] ''ask'') ''file_write'' (JObj [(''path'', JStr ''b'')]) ''/ws'' ''s''"
proof -
  have "resource_key (fresh [] ''ask'') ''file_write'' (JObj [(''path'', JStr ''b'')])
      \<noteq> resource_key (fresh [] ''ask'') ''file_write'' (JObj [(''path'', JStr ''a'')])" by code_simp
  from remember_is_narrow [OF this, of no_fs "''/ws''"] show ?thesis by simp
qed

text \<open>The denial breaker names the third denial but stops nothing: with any number of denials on
  record the next call that is judged to be asked is asked again, and passes when the user allows it.\<close>

theorem breaker_keeps_asking:
  assumes "map_option pd_outcome (judge fs p (strip tool) policy_args cwd session) = Some Ask"
    and "verdict = (\<lambda>_. V_Allow)"
  shows "fst (host_gate fs verdict write tool args policy_args cwd session d (p\<lparr>pol_denials := ds\<rparr>)) = Gate_Pass"
proof -
  have "judge fs (p\<lparr>pol_denials := ds\<rparr>) (strip tool) policy_args cwd session
      = judge fs p (strip tool) policy_args cwd session"
    by (rule judge_cong) (simp_all add: same_settings_def)
  then obtain dec p' where "decide fs tool policy_args cwd session ''agent'' (p\<lparr>pol_denials := ds\<rparr>) = Some (dec, p')"
    "pd_outcome dec = Ask"
    using assms(1) by (auto simp: decide_judge)
  then show ?thesis using assms(2) by (simp add: host_gate_def Let_def)
qed

theorem breaker_keeps_asking_witness:
  "fst (host_gate no_fs (\<lambda>_. V_Allow) (\<lambda>_ _. []) ''file_write'' JNull (JObj [(''path'', JStr ''a'')]) [] ''s''
     (\<lambda>_. Missing) ((fresh [] ''ask'')\<lparr>pol_denials := [(''s'', 3)]\<rparr>)) = Gate_Pass"
proof (rule breaker_keeps_asking)
  show "map_option pd_outcome (judge no_fs (fresh [] ''ask'') (strip ''file_write'') (JObj [(''path'', JStr ''a'')]) [] ''s'')
      = Some Ask" by code_simp
qed simp

end
