(* ===== verification/Contracts.thy ===== *)
theory Contracts
  imports Permission_Paths
begin

section \<open>Task contracts\<close>

text \<open>
  \<open>agent_core/orchestration_contracts.py\<close>: the field checks every request of the task and job
  surfaces goes through, and \<open>TaskContract.parse\<close>. A check answers the value or the error with its
  code and field; the sentences are left out. A parsed contract is the normalised JSON document (its
  serialisation only cuts aliases). JSON keys are strings by type.
\<close>

datatype contract_code =
    Contract_Invalid
  | Schema_Unsupported
  | Job_Schema_Unsupported
  | Job_Record_Corrupt
  | Job_Unknown
  | Job_Revision_Conflict
  | Job_Invocation_Conflict
  | Job_Alias_Conflict
  | Job_Event_Conflict
  | Job_Closed
  | Job_Ref_Conflict
  | Job_Wake_Locked
  | Job_Forbidden

record contract_error =
  err_code :: contract_code
  err_field :: string

definition invalid_field :: "string \<Rightarrow> contract_error" where
  "invalid_field f = \<lparr>err_code = Contract_Invalid, err_field = f\<rparr>"

definition coded :: "contract_code \<Rightarrow> string \<Rightarrow> contract_error" where
  "coded c f = \<lparr>err_code = c, err_field = f\<rparr>"

definition ALIAS_ok :: "string \<Rightarrow> bool" where
  "ALIAS_ok s = (case s of [] \<Rightarrow> False
     | c # cs \<Rightarrow> is_alpha c \<and> length cs \<le> 119 \<and> list_all (\<lambda>x. is_alnum x \<or> x = CHR ''_'' \<or> x = CHR ''-'') cs)"

definition IDENTITY_ok :: "string \<Rightarrow> bool" where
  "IDENTITY_ok s = (case s of [] \<Rightarrow> False
     | c # cs \<Rightarrow> is_alnum c \<and> length cs \<le> 119 \<and> list_all (\<lambda>x. is_alnum x \<or> x \<in> set ''_.:-'') cs)"

definition HASH_ok :: "string \<Rightarrow> bool" where
  "HASH_ok s = (length s = 64 \<and> list_all (\<lambda>x. is_digit x \<or> x \<in> set ''abcdef'') s)"

definition GOAL_MAX :: nat where "GOAL_MAX = 12000"
definition SHORT_TEXT_MAX :: nat where "SHORT_TEXT_MAX = 200"
definition LIST_MAX :: nat where "LIST_MAX = 100"
definition LIST_ITEM_MAX :: nat where "LIST_ITEM_MAX = 2000"

definition check_identifier :: "json \<Rightarrow> string \<Rightarrow> bool \<Rightarrow> (contract_error, string) outcome" where
  "check_identifier v field alias =
     (case v of
        JStr s \<Rightarrow> if (if alias then ALIAS_ok s else IDENTITY_ok s) then Inr s else Inl (invalid_field field)
      | _ \<Rightarrow> Inl (invalid_field field))"

definition revision_number :: "json \<Rightarrow> string \<Rightarrow> (contract_error, int) outcome" where
  "revision_number v field =
     (case exact_int v of
        Some n \<Rightarrow> if n < 1 then Inl (invalid_field field) else Inr n
      | None \<Rightarrow> Inl (invalid_field field))"

definition object_fields ::
  "json \<Rightarrow> string \<Rightarrow> string list \<Rightarrow> string list \<Rightarrow> (contract_error, (string \<times> json) list) outcome" where
  "object_fields v field required optional =
     (case v of
        JObj d \<Rightarrow>
          if list_all (\<lambda>k. map_of d k \<noteq> None) required \<and>
             list_all (\<lambda>kv. fst kv \<in> set required \<or> fst kv \<in> set optional) d
          then Inr d else Inl (invalid_field field)
      | _ \<Rightarrow> Inl (invalid_field field))"

definition checked_text :: "json \<Rightarrow> string \<Rightarrow> nat option \<Rightarrow> (contract_error, string) outcome" where
  "checked_text v field limit =
     (case v of
        JStr s \<Rightarrow>
          if strip s = [] \<or> CHR 0x00 \<in> set s then Inl (invalid_field field)
          else if (case limit of Some n \<Rightarrow> length s > n | None \<Rightarrow> False) then Inl (invalid_field field)
          else Inr s
      | _ \<Rightarrow> Inl (invalid_field field))"

definition string_list ::
  "json \<Rightarrow> string \<Rightarrow> bool \<Rightarrow> nat option \<Rightarrow> nat option \<Rightarrow> (contract_error, string list) outcome" where
  "string_list v field nonempty limit item_limit =
     (case v of
        JList xs \<Rightarrow>
          require (\<not> (nonempty \<and> xs = [])) (invalid_field field)
            (require (case limit of Some n \<Rightarrow> length xs \<le> n | None \<Rightarrow> True) (invalid_field field)
              (and_then (map_outcome (\<lambda>x. checked_text x field item_limit) xs)
                (\<lambda>ss. require (distinct ss) (invalid_field field) (Inr ss))))
      | _ \<Rightarrow> Inl (invalid_field field))"

text \<open>An artifact reference: identity, version and content hash, with the optional fields kept.\<close>

record artifact_ref =
  ref_id :: string
  ref_version :: int
  ref_hash :: string
  ref_extra :: "(string \<times> json) list"

definition input_ref :: "string \<Rightarrow> json \<Rightarrow> (contract_error, artifact_ref) outcome" where
  "input_ref field v =
     and_then (object_fields v field [''artifactId'', ''version'', ''contentHash''] [''ownerId'', ''kind'']) (\<lambda>d.
     and_then (check_identifier (dict_get d ''artifactId'') (field @ ''.artifactId'') False) (\<lambda>a.
     and_then (revision_number (dict_get d ''version'') (field @ ''.version'')) (\<lambda>n.
     and_then (case dict_get d ''contentHash'' of
         JStr h \<Rightarrow> if HASH_ok h then Inr h else Inl (invalid_field (field @ ''.contentHash''))
       | _ \<Rightarrow> Inl (invalid_field (field @ ''.contentHash''))) (\<lambda>h.
     and_then (if map_of d ''ownerId'' \<noteq> None
         then check_identifier (dict_get d ''ownerId'') (field @ ''.ownerId'') False else Inr []) (\<lambda>_.
     and_then (if map_of d ''kind'' \<noteq> None
         then checked_text (dict_get d ''kind'') (field @ ''.kind'') (Some SHORT_TEXT_MAX) else Inr []) (\<lambda>_.
     Inr \<lparr>ref_id = a, ref_version = n, ref_hash = h,
          ref_extra = filter (\<lambda>kv. fst kv \<in> {''ownerId'', ''kind''}) d\<rparr>))))))"

definition artifact_refs :: "json \<Rightarrow> string \<Rightarrow> (contract_error, artifact_ref list) outcome" where
  "artifact_refs v field =
     (case v of
        JList xs \<Rightarrow>
          require (length xs \<le> LIST_MAX) (invalid_field field)
            (and_then (map_outcome (input_ref field) xs)
              (\<lambda>rs. require (distinct (map (\<lambda>r. (ref_id r, ref_version r)) rs)) (invalid_field field) (Inr rs)))
      | _ \<Rightarrow> Inl (invalid_field field))"

subsection \<open>Scope, deliverable and budget\<close>

text \<open>A workspace-relative selector: no absolute path, drive, backslash, empty or dot-dot part.\<close>

definition relative_selector :: "string \<Rightarrow> bool" where
  "relative_selector p =
     (\<not> starts_with ''/'' p \<and> CHR 0x5C \<notin> set p \<and> CHR '':'' \<notin> set p \<and>
      list_all (\<lambda>part. part \<noteq> [] \<and> part \<noteq> ''..'') (split_on (CHR ''/'') p))"

record task_scope =
  sc_read :: "string list"
  sc_write :: "string list"
  sc_external :: string

definition scope_paths :: "(string \<times> json) list \<Rightarrow> string \<Rightarrow> (contract_error, string list) outcome" where
  "scope_paths d field =
     and_then (string_list (dict_get d field) (''scope.'' @ field) False (Some LIST_MAX) (Some LIST_ITEM_MAX))
       (\<lambda>ps. require (list_all relative_selector ps) (invalid_field (''scope.'' @ field)) (Inr ps))"

definition parse_scope :: "json \<Rightarrow> (contract_error, task_scope) outcome" where
  "parse_scope v =
     and_then (object_fields v ''scope'' [''read'', ''write'', ''externalSources''] []) (\<lambda>d.
     and_then (scope_paths d ''read'') (\<lambda>rs.
     and_then (scope_paths d ''write'') (\<lambda>ws.
     and_then (case dict_get d ''externalSources'' of
         JStr s \<Rightarrow> if s \<in> {''none'', ''approved''} then Inr s else Inl (invalid_field ''scope.externalSources'')
       | _ \<Rightarrow> Inl (invalid_field ''scope.externalSources'')) (\<lambda>s.
     Inr \<lparr>sc_read = rs, sc_write = ws, sc_external = s\<rparr>))))"

record deliverable =
  del_kind :: string
  del_format :: string
  del_evidence :: "string list"
  del_acceptance :: "string list"

definition parse_deliverable :: "json \<Rightarrow> (contract_error, deliverable) outcome" where
  "parse_deliverable v =
     and_then (object_fields v ''deliverable'' [''kind'', ''format'', ''evidence'', ''acceptance''] []) (\<lambda>d.
     and_then (checked_text (dict_get d ''kind'') ''deliverable.kind'' (Some SHORT_TEXT_MAX)) (\<lambda>k.
     and_then (checked_text (dict_get d ''format'') ''deliverable.format'' (Some SHORT_TEXT_MAX)) (\<lambda>f.
     and_then (string_list (dict_get d ''evidence'') ''deliverable.evidence'' True (Some LIST_MAX) (Some LIST_ITEM_MAX)) (\<lambda>es.
     and_then (string_list (dict_get d ''acceptance'') ''deliverable.acceptance'' True (Some LIST_MAX) (Some LIST_ITEM_MAX)) (\<lambda>as'.
     Inr \<lparr>del_kind = k, del_format = f, del_evidence = es, del_acceptance = as'\<rparr>)))))"

record budget_request =
  bud_policy :: string
  bud_allocation :: "string option"
  bud_consent :: "string option"

definition optional_identifier ::
  "(string \<times> json) list \<Rightarrow> string \<Rightarrow> string \<Rightarrow> (contract_error, string option) outcome" where
  "optional_identifier d k field =
     (if map_of d k = None then Inr None
      else and_then (check_identifier (dict_get d k) field False) (\<lambda>s. Inr (Some s)))"

definition parse_allocation :: "json \<Rightarrow> (contract_error, budget_request) outcome" where
  "parse_allocation v =
     and_then (object_fields v ''budget'' [''allocationPolicy''] [''allocationRef'', ''consentRef'']) (\<lambda>d.
     and_then (case dict_get d ''allocationPolicy'' of
         JStr s \<Rightarrow> if s \<in> {''inherited'', ''referenced''} then Inr s
                  else Inl (invalid_field ''budget.allocationPolicy'')
       | _ \<Rightarrow> Inl (invalid_field ''budget.allocationPolicy'')) (\<lambda>p.
     and_then (optional_identifier d ''allocationRef'' ''budget.allocationRef'') (\<lambda>a.
     and_then (optional_identifier d ''consentRef'' ''budget.consentRef'') (\<lambda>c.
     require (\<not> (p = ''referenced'' \<and> a = None)) (invalid_field ''budget.allocationRef'')
       (Inr \<lparr>bud_policy = p, bud_allocation = a, bud_consent = c\<rparr>)))))"

subsection \<open>The task contract\<close>

definition TASK_SCHEMA :: string where "TASK_SCHEMA = ''boxfox-task-contract/1''"
definition INTENTS :: "string list" where "INTENTS = [''analysis'', ''plan'', ''design'', ''implementation'']"
definition TASK_MODES :: "string list" where "TASK_MODES = [''read_only'', ''workspace_write'']"

text \<open>The keys of \<open>roles.ROLES\<close>.\<close>

definition ROLE_NAMES :: "string list" where
  "ROLE_NAMES = [''explore'', ''plan'', ''plan-review'', ''design'', ''build'', ''debug'', ''review'',
     ''simplify'', ''testing'', ''research'', ''research-review'']"

record task_contract =
  tc_task :: string
  tc_invocation :: string
  tc_role :: string
  tc_goal :: string
  tc_intent :: string
  tc_mode :: string
  tc_wait :: bool
  tc_inputs :: "artifact_ref list"
  tc_scope :: task_scope
  tc_deliverable :: deliverable
  tc_budget :: budget_request
  tc_depends :: "string list"

definition one_of :: "json \<Rightarrow> string list \<Rightarrow> string \<Rightarrow> (contract_error, string) outcome" where
  "one_of v allowed field =
     (case v of JStr s \<Rightarrow> if s \<in> set allowed then Inr s else Inl (invalid_field field)
      | _ \<Rightarrow> Inl (invalid_field field))"

definition parse_contract :: "json \<Rightarrow> (contract_error, task_contract) outcome" where
  "parse_contract v =
     and_then (object_fields v ''task''
         [''schema'', ''taskId'', ''invocationId'', ''role'', ''goal'', ''intent'', ''mode'',
          ''inputs'', ''scope'', ''deliverable'', ''dependsOn'', ''budget''] [''wait'']) (\<lambda>d.
     require (dict_get d ''schema'' = JStr TASK_SCHEMA) (coded Schema_Unsupported ''schema'') (
     and_then (check_identifier (dict_get d ''taskId'') ''taskId'' True) (\<lambda>task.
     and_then (check_identifier (dict_get d ''invocationId'') ''invocationId'' False) (\<lambda>inv.
     and_then (one_of (dict_get d ''role'') ROLE_NAMES ''role'') (\<lambda>role.
     and_then (checked_text (dict_get d ''goal'') ''goal'' (Some GOAL_MAX)) (\<lambda>goal.
     and_then (one_of (dict_get d ''intent'') INTENTS ''intent'') (\<lambda>intent.
     and_then (one_of (dict_get d ''mode'') TASK_MODES ''mode'') (\<lambda>mode.
     and_then (case dict_get_or (JBool False) d ''wait'' of JBool b \<Rightarrow> Inr b
         | _ \<Rightarrow> Inl (invalid_field ''wait'')) (\<lambda>wait.
     and_then (artifact_refs (dict_get d ''inputs'') ''inputs'') (\<lambda>inputs.
     and_then (parse_scope (dict_get d ''scope'')) (\<lambda>sc.
     and_then (parse_deliverable (dict_get d ''deliverable'')) (\<lambda>del.
     and_then (parse_allocation (dict_get d ''budget'')) (\<lambda>bud.
     and_then (string_list (dict_get d ''dependsOn'') ''dependsOn'' False (Some LIST_MAX) (Some LIST_ITEM_MAX)) (\<lambda>deps0.
     and_then (map_outcome (\<lambda>x. check_identifier (JStr x) ''dependsOn'' True) deps0) (\<lambda>deps.
     require (task \<notin> set deps) (invalid_field ''dependsOn'') (
     require (\<not> (mode = ''read_only'' \<and> sc_write sc \<noteq> [])) (invalid_field ''scope.write'') (
     require (\<not> (intent \<noteq> ''implementation'' \<and> (mode = ''workspace_write'' \<or> sc_write sc \<noteq> [])))
         (invalid_field ''mode'') (
     Inr \<lparr>tc_task = task, tc_invocation = inv, tc_role = role, tc_goal = goal, tc_intent = intent,
          tc_mode = mode, tc_wait = wait, tc_inputs = inputs, tc_scope = sc, tc_deliverable = del,
          tc_budget = bud, tc_depends = deps\<rparr>))))))))))))))))))"

subsection \<open>What an accepted contract promises\<close>

lemma collapse_parts_no_dotdot:
  "\<forall>p \<in> set ys. p \<noteq> ''..'' \<Longrightarrow>
     collapse_parts ys acc = rev acc @ filter (\<lambda>p. p \<noteq> [] \<and> p \<noteq> ''.'') ys"
  by (induction ys arbitrary: acc) auto

lemma collapse_parts_append:
  "\<forall>p \<in> set ys. p \<noteq> ''..'' \<Longrightarrow>
     collapse_parts (xs @ ys) acc = collapse_parts xs acc @ filter (\<lambda>p. p \<noteq> [] \<and> p \<noteq> ''.'') ys"
  by (induction xs acc rule: collapse_parts.induct) (simp_all add: collapse_parts_no_dotdot)

lemma slashes_append [simp]: "slashes (a @ b) = slashes a @ slashes b"
  by (simp add: slashes_def)

text \<open>A selector never leaves the directory it is taken from.\<close>

lemma relative_selector_below:
  assumes "relative_selector p"
  shows "path_parts (w @ CHR ''/'' # p) = path_parts w @ filter (\<lambda>x. x \<noteq> ''.'') (split_on (CHR ''/'') p)"
proof -
  have p: "slashes (CHR ''/'' # p) = CHR ''/'' # p"
    using assms by (intro slashes_id) (simp add: relative_selector_def)
  have parts: "\<forall>x \<in> set (split_on (CHR ''/'') p). x \<noteq> [] \<and> x \<noteq> ''..''"
    using assms by (simp add: relative_selector_def list_all_iff)
  have "path_parts (w @ CHR ''/'' # p)
      = collapse_parts (split_on (CHR ''/'') (slashes w) @ split_on (CHR ''/'') p) []"
    by (simp add: path_parts_def p split_on_append)
  also have "\<dots> = path_parts w @ filter (\<lambda>x. x \<noteq> [] \<and> x \<noteq> ''.'') (split_on (CHR ''/'') p)"
    using parts by (simp add: collapse_parts_append path_parts_def)
  also have "filter (\<lambda>x. x \<noteq> [] \<and> x \<noteq> ''.'') (split_on (CHR ''/'') p) = filter (\<lambda>x. x \<noteq> ''.'') (split_on (CHR ''/'') p)"
    using parts by (auto intro: filter_cong)
  finally show ?thesis .
qed

lemma scope_pathsD: "scope_paths d f = Inr ps \<Longrightarrow> list_all relative_selector ps"
  by (simp add: scope_paths_def)

lemma parse_scopeD:
  "parse_scope v = Inr s \<Longrightarrow> list_all relative_selector (sc_read s) \<and> list_all relative_selector (sc_write s)"
  by (auto simp: parse_scope_def dest: scope_pathsD)

lemma artifact_refsD:
  "artifact_refs v f = Inr rs \<Longrightarrow> distinct (map (\<lambda>r. (ref_id r, ref_version r)) rs)"
  by (auto simp: artifact_refs_def split: json.splits)

lemma parse_contractD:
  assumes "parse_contract v = Inr c"
  shows "tc_task c \<notin> set (tc_depends c)" and "tc_mode c = ''read_only'' \<longrightarrow> sc_write (tc_scope c) = []"
    and "tc_intent c \<noteq> ''implementation'' \<longrightarrow> tc_mode c \<noteq> ''workspace_write'' \<and> sc_write (tc_scope c) = []"
    and "list_all relative_selector (sc_read (tc_scope c))" and "list_all relative_selector (sc_write (tc_scope c))"
    and "distinct (map (\<lambda>r. (ref_id r, ref_version r)) (tc_inputs c))"
  using assms
  by (auto simp: parse_contract_def dest!: parse_scopeD artifact_refsD)

text \<open>C32. A contract that parses gives nobody more than it says: it writes only as an implementation in
  the writing mode, its paths never leave the directory they are resolved in, it does not wait for
  itself, and it names each artifact version once.\<close>

theorem parsed_contract_bounded:
  assumes "parse_contract v = Inr c"
  shows "(sc_write (tc_scope c) \<noteq> [] \<longrightarrow> tc_intent c = ''implementation'' \<and> tc_mode c \<noteq> ''read_only'') \<and>
    (\<forall>p \<in> set (sc_read (tc_scope c) @ sc_write (tc_scope c)).
       path_parts (w @ CHR ''/'' # p) = path_parts w @ filter (\<lambda>x. x \<noteq> ''.'') (split_on (CHR ''/'') p)) \<and>
    tc_task c \<notin> set (tc_depends c) \<and> distinct (map (\<lambda>r. (ref_id r, ref_version r)) (tc_inputs c))"
  using parse_contractD [OF assms] relative_selector_below [of _ w] by (auto simp: list_all_iff)

definition sample_contract :: json where
  "sample_contract = JObj [
     (''schema'', JStr TASK_SCHEMA), (''taskId'', JStr ''t1''), (''invocationId'', JStr ''i1''),
     (''role'', JStr ''build''), (''goal'', JStr ''fix''), (''intent'', JStr ''implementation''),
     (''mode'', JStr ''workspace_write''), (''inputs'', JList []),
     (''scope'', JObj [(''read'', JList [JStr ''src'']), (''write'', JList [JStr ''src/a.py'']),
        (''externalSources'', JStr ''none'')]),
     (''deliverable'', JObj [(''kind'', JStr ''patch''), (''format'', JStr ''diff''),
        (''evidence'', JList [JStr ''log'']), (''acceptance'', JList [JStr ''tests pass''])]),
     (''dependsOn'', JList []), (''budget'', JObj [(''allocationPolicy'', JStr ''inherited'')])]"

theorem parsed_contract_bounded_witness:
  "\<exists>c. parse_contract sample_contract = Inr c \<and> sc_write (tc_scope c) = [''src/a.py''] \<and>
     tc_intent c = ''implementation''"
proof -
  have "case parse_contract sample_contract of Inl e \<Rightarrow> False | Inr c \<Rightarrow> sc_write (tc_scope c) = [''src/a.py'']"
    by code_simp
  then obtain c where c: "parse_contract sample_contract = Inr c" "sc_write (tc_scope c) = [''src/a.py'']"
    by (auto split: sum.splits)
  from parsed_contract_bounded [OF c(1)] c show ?thesis by auto
qed

end
