(* ===== verification/Job_Ledger.thy ===== *)
theory Job_Ledger
  imports Contracts "HOL-Library.List_Lexorder" "HOL-Library.Product_Lexorder" "HOL-Library.Char_ord"
begin

section \<open>The job ledger: rows, events and the producer side\<close>

text \<open>
  \<open>agent_core/harness_jobs.py\<close>, the half a producer and a controller write: the five tables as one
  record, the request and event checks, \<open>start\<close>, \<open>append\<close>, \<open>cancel\<close>, \<open>get\<close> and \<open>reconcile\<close>. A
  JSON column is its decoded value (a corrupt column is not modelled), a transaction that raises
  leaves the tables as they were. Parameters: the clock \<open>now\<close>, the ids \<open>uuid4\<close> draws, the request
  digest, the \<open>children\<close> rows of the session store and the executor's confirmation.
\<close>

subsection \<open>Python equality of decoded documents\<close>

text \<open>
  \<open>==\<close> on decoded JSON ignores the order of keys and compares numbers by value (\<open>True == 1 == 1.0\<close>):
  two documents are equal when their forms are.
\<close>

fun eq_form :: "json \<Rightarrow> json" where
  "eq_form JNull = JNull"
| "eq_form (JBool b) = JFloat [] (of_bool b)"
| "eq_form (JInt n) = JFloat [] (of_int n)"
| "eq_form (JFloat _ q) = JFloat [] q"
| "eq_form (JStr s) = JStr s"
| "eq_form (JList xs) = JList (map eq_form xs)"
| "eq_form (JObj d) = JObj (sort_key fst (map (\<lambda>kv. (fst kv, eq_form (snd kv))) d))"

definition ref_form :: "artifact_ref \<Rightarrow> string \<times> int \<times> string \<times> json" where
  "ref_form r = (ref_id r, ref_version r, ref_hash r, eq_form (JObj (ref_extra r)))"

subsection \<open>States, kinds and rows\<close>

datatype job_state = St_Queued | St_Running | St_Waiting | St_Succeeded | St_Partial | St_Failed
  | St_Interrupted | St_Cancelled | St_Unknown
datatype job_kind = Model_Job | Process_Job
datatype ownership = Controller_Owned | Turn_Owned
datatype event_kind = Ev_Result | Ev_Blocker | Ev_Owner_Subscribed | Ev_Progress | Ev_Heartbeat
  | Ev_Log | Ev_Control
datatype wake_status = Pending | Delivered

definition JOB_STATES :: "(string \<times> job_state) list" where
  "JOB_STATES = [(''queued'', St_Queued), (''running'', St_Running), (''waiting'', St_Waiting),
     (''succeeded'', St_Succeeded), (''partial'', St_Partial), (''failed'', St_Failed),
     (''interrupted'', St_Interrupted), (''cancelled'', St_Cancelled), (''unknown'', St_Unknown)]"

definition EVENT_KINDS :: "(string \<times> event_kind) list" where
  "EVENT_KINDS = [(''result'', Ev_Result), (''blocker'', Ev_Blocker),
     (''owner_subscribed'', Ev_Owner_Subscribed), (''progress'', Ev_Progress),
     (''heartbeat'', Ev_Heartbeat), (''log'', Ev_Log), (''control'', Ev_Control)]"

definition JOB_KINDS :: "(string \<times> job_kind) list" where
  "JOB_KINDS = [(''model'', Model_Job), (''process'', Process_Job)]"

definition OWNERSHIPS :: "(string \<times> ownership) list" where
  "OWNERSHIPS = [(''controller'', Controller_Owned), (''turn'', Turn_Owned)]"

definition OPEN_STATES :: "job_state list" where
  "OPEN_STATES = [St_Queued, St_Running, St_Waiting]"

definition CLOSED_STATES :: "job_state \<Rightarrow> bool" where
  "CLOSED_STATES s = (s \<notin> set OPEN_STATES)"

definition WAKE_KINDS :: "event_kind list" where
  "WAKE_KINDS = [Ev_Result, Ev_Blocker, Ev_Owner_Subscribed]"

definition WAKE_TTL_SECONDS :: rat where "WAKE_TTL_SECONDS = 300"
definition PAGE_LIMIT :: nat where "PAGE_LIMIT = 100"
definition REASON_MAX :: nat where "REASON_MAX = 4000"
definition RECORD_SCHEMA_VERSION :: int where "RECORD_SCHEMA_VERSION = 1"
definition JOB_SCHEMA :: string where "JOB_SCHEMA = ''boxfox-job-request/1''"

text \<open>The normalised request and event.\<close>

record job_request =
  rq_kind :: job_kind
  rq_ownership :: ownership
  rq_controller :: string
  rq_task :: "string option"
  rq_child :: "string option"
  rq_executor :: "(string \<times> json) list option"
  rq_checkpoint :: "string option"

record job_event =
  ev_kind :: event_kind
  ev_consumer :: string
  ev_predicate :: string
  ev_state :: "job_state option"
  ev_refs :: "artifact_ref list option"
  ev_receipt :: "string option"
  ev_reason :: "string option"
  ev_payload :: "(string \<times> json) list option"
  ev_intermediate :: "bool option"
  ev_control :: "string option"

text \<open>A row of the outbox: \<open>ob_event\<close> and \<open>ob_reported\<close> are its decoded payload.\<close>

record outbox_row =
  ob_wake :: string
  ob_job :: string
  ob_consumer :: string
  ob_seq :: int
  ob_predicate :: string
  ob_status :: wake_status
  ob_event :: job_event
  ob_reported :: "job_state option"
  ob_created :: rat
  ob_delivered :: "rat option"

record admission =
  adm_invocation :: string
  adm_capability :: "(string \<times> json) list"
  adm_child :: "string option"
  adm_request :: job_request

record job =
  job_id :: string
  job_schema :: int
  job_controller :: string
  job_owner :: string
  job_task :: "string option"
  job_kind :: job_kind
  job_ownership :: ownership
  job_revision :: int
  job_state :: job_state
  job_epoch :: int
  job_admission :: admission
  job_checkpoint :: "string option"
  job_refs :: "artifact_ref list"
  job_handle :: "(string \<times> json) list option"
  job_created :: rat
  job_updated :: rat
  job_closed :: "rat option"

record wake_lock =
  lk_consumer :: string
  lk_cursor :: "(string \<times> int) list"
  lk_acquired :: rat
  lk_expires :: rat

text \<open>
  The database: the jobs, the outbox in insertion order, the wake cursors keyed by consumer and
  job, the wake locks keyed by owner, the invocation receipts keyed by owner and invocation.
\<close>

record ledger =
  jobs :: "job list"
  outbox :: "outbox_row list"
  cursors :: "((string \<times> string) \<times> int) list"
  locks :: "string \<rightharpoonup> wake_lock"
  receipts :: "((string \<times> string) \<times> string \<times> job) list"

definition empty_ledger :: ledger where
  "empty_ledger = \<lparr>jobs = [], outbox = [], cursors = [], locks = Map.empty, receipts = []\<rparr>"

type_synonym 'a job_outcome = "(contract_error, 'a) outcome"

definition wake_worthy :: "job_event \<Rightarrow> bool" where
  "wake_worthy e = (ev_kind e \<in> set WAKE_KINDS)"

definition should_wake :: "job_event \<Rightarrow> bool" where
  "should_wake e = (wake_worthy e \<and> ev_intermediate e \<noteq> Some True)"

subsection \<open>Lookups\<close>

definition find_job :: "ledger \<Rightarrow> string \<Rightarrow> job option" where
  "find_job db i = List.find (\<lambda>j. job_id j = i) (jobs db)"

definition the_job :: "ledger \<Rightarrow> string \<Rightarrow> job job_outcome" where
  "the_job db i =
     and_then (check_identifier (JStr i) ''jobId'' False) (\<lambda>_.
       case find_job db i of
         None \<Rightarrow> Inl (coded Job_Unknown ''jobId'')
       | Some j \<Rightarrow> if job_schema j = RECORD_SCHEMA_VERSION then Inr j
                   else Inl (coded Job_Schema_Unsupported ''schemaVersion''))"

definition max_seq :: "outbox_row list \<Rightarrow> int" where
  "max_seq rs = (case map ob_seq rs of [] \<Rightarrow> 0 | n # ns \<Rightarrow> fold max ns n)"

definition next_seq :: "ledger \<Rightarrow> int" where
  "next_seq db = max_seq (outbox db)"

definition job_seq :: "ledger \<Rightarrow> string \<Rightarrow> int" where
  "job_seq db i = max_seq (filter (\<lambda>r. ob_job r = i) (outbox db))"

text \<open>\<open>ORDER BY event_seq DESC LIMIT 1\<close> and \<open>max(members, key=event_seq)\<close>.\<close>

definition latest_row :: "outbox_row list \<Rightarrow> outbox_row option" where
  "latest_row rs = List.find (\<lambda>r. ob_seq r = max_seq rs) rs"

definition control_row :: "ledger \<Rightarrow> string \<Rightarrow> outbox_row option" where
  "control_row db i = latest_row (filter (\<lambda>r. ob_job r = i \<and> ob_predicate r = ''control'') (outbox db))"

definition cancel_requested :: "ledger \<Rightarrow> string \<Rightarrow> bool" where
  "cancel_requested db i =
     (case control_row db i of None \<Rightarrow> False | Some r \<Rightarrow> ev_control (ob_event r) = Some ''cancel_requested'')"

definition cached :: "ledger \<Rightarrow> string \<Rightarrow> string \<Rightarrow> string \<Rightarrow> job option job_outcome" where
  "cached db own inv_id h =
     and_then (check_identifier (JStr inv_id) ''invocationId'' False) (\<lambda>_.
       case map_of (receipts db) (own, inv_id) of
         None \<Rightarrow> Inr None
       | Some (h', v) \<Rightarrow>
           if h' \<noteq> h then Inl (coded Job_Invocation_Conflict ''invocationId'')
           else and_then (the_job db (job_id v)) (\<lambda>_. Inr (Some v)))"

subsection \<open>Requests and events\<close>

definition field_choice :: "json \<Rightarrow> (string \<times> 'a) list \<Rightarrow> string \<Rightarrow> 'a job_outcome" where
  "field_choice v table field =
     (case v of
        JStr s \<Rightarrow> (case map_of table s of Some a \<Rightarrow> Inr a | None \<Rightarrow> Inl (invalid_field field))
      | _ \<Rightarrow> Inl (invalid_field field))"

text \<open>An optional field: absent, or checked.\<close>

definition optional_field ::
  "(string \<times> json) list \<Rightarrow> string \<Rightarrow> (json \<Rightarrow> 'a job_outcome) \<Rightarrow> 'a option job_outcome" where
  "optional_field d k check =
     (case map_of d k of None \<Rightarrow> Inr None | Some v \<Rightarrow> and_then (check v) (\<lambda>a. Inr (Some a)))"

definition an_object :: "string \<Rightarrow> json \<Rightarrow> (string \<times> json) list job_outcome" where
  "an_object field v = (case v of JObj d \<Rightarrow> Inr d | _ \<Rightarrow> Inl (invalid_field field))"

definition parse_request :: "string \<Rightarrow> json \<Rightarrow> job_request job_outcome" where
  "parse_request own v =
     and_then (object_fields v ''request'' [''schema'', ''kind'', ''ownership'']
        [''controllerId'', ''taskKey'', ''childSessionId'', ''executor'', ''checkpointRef'']) (\<lambda>d.
     require (dict_get d ''schema'' = JStr JOB_SCHEMA) (coded Schema_Unsupported ''schema'') (
     and_then (field_choice (dict_get d ''kind'') JOB_KINDS ''kind'') (\<lambda>k.
     and_then (field_choice (dict_get d ''ownership'') OWNERSHIPS ''ownership'') (\<lambda>w.
     and_then (check_identifier (dict_get_or (JStr own) d ''controllerId'') ''controllerId'' False) (\<lambda>c.
     and_then (optional_field d ''taskKey'' (\<lambda>x. check_identifier x ''taskKey'' True)) (\<lambda>t.
     and_then (optional_field d ''childSessionId'' (\<lambda>x. check_identifier x ''childSessionId'' False)) (\<lambda>ch.
     and_then (optional_field d ''executor'' (an_object ''executor'')) (\<lambda>ex.
     and_then (optional_field d ''checkpointRef'' (\<lambda>x. checked_text x ''checkpointRef'' (Some 400))) (\<lambda>cp.
     Inr \<lparr>rq_kind = k, rq_ownership = w, rq_controller = c, rq_task = t, rq_child = ch,
          rq_executor = ex, rq_checkpoint = cp\<rparr>)))))))))"

definition parse_capability :: "json \<Rightarrow> ((string \<times> json) list \<times> int) job_outcome" where
  "parse_capability v =
     and_then (an_object ''capabilityRef'' v) (\<lambda>d.
       case exact_int (dict_get_or (JInt 1) d ''epoch'') of
         Some n \<Rightarrow> if n < 1 then Inl (invalid_field ''capabilityRef.epoch'') else Inr (d, n)
       | None \<Rightarrow> Inl (invalid_field ''capabilityRef.epoch''))"

definition parse_event :: "string \<Rightarrow> json \<Rightarrow> (job_event \<times> int option) job_outcome" where
  "parse_event own v =
     and_then (object_fields v ''event'' [''kind'']
        [''consumerId'', ''predicate'', ''state'', ''resultRefs'', ''receiptRef'', ''reason'',
         ''payload'', ''intermediate'', ''eventSeq'', ''controlState'']) (\<lambda>d.
     and_then (field_choice (dict_get d ''kind'') EVENT_KINDS ''event.kind'') (\<lambda>k.
     and_then (check_identifier (dict_get_or (JStr own) d ''consumerId'') ''event.consumerId'' False) (\<lambda>c.
     and_then (check_identifier (dict_get_or (dict_get d ''kind'') d ''predicate'') ''event.predicate'' False) (\<lambda>p.
     and_then (optional_field d ''state'' (\<lambda>x. field_choice x JOB_STATES ''event.state'')) (\<lambda>s.
     and_then (optional_field d ''resultRefs'' (\<lambda>x. artifact_refs x ''event.resultRefs'')) (\<lambda>rs.
     and_then (optional_field d ''receiptRef'' (\<lambda>x. check_identifier x ''event.receiptRef'' False)) (\<lambda>rc.
     and_then (optional_field d ''reason'' (\<lambda>x. checked_text x ''event.reason'' (Some REASON_MAX))) (\<lambda>re.
     and_then (optional_field d ''payload'' (an_object ''event.payload'')) (\<lambda>pl.
     and_then (optional_field d ''intermediate''
         (\<lambda>x. case x of JBool b \<Rightarrow> Inr b | _ \<Rightarrow> Inl (invalid_field ''event.intermediate''))) (\<lambda>im.
     and_then (optional_field d ''eventSeq''
         (\<lambda>x. case exact_int x of
            Some n \<Rightarrow> if n < 1 then Inl (invalid_field ''event.eventSeq'') else Inr n
          | None \<Rightarrow> Inl (invalid_field ''event.eventSeq''))) (\<lambda>sq.
     and_then (optional_field d ''controlState''
         (\<lambda>x. if k = Ev_Control \<and> x = JStr ''cancel_requested'' then Inr ''cancel_requested''
              else Inl (invalid_field ''event.controlState''))) (\<lambda>ct.
     Inr (\<lparr>ev_kind = k, ev_consumer = c, ev_predicate = p, ev_state = s, ev_refs = rs, ev_receipt = rc,
           ev_reason = re, ev_payload = pl, ev_intermediate = im, ev_control = ct\<rparr>, sq)))))))))))))"

text \<open>What a replayed event is compared by: everything but its state.\<close>

definition event_form :: "job_event \<Rightarrow>
    event_kind \<times> string \<times> string \<times> (string \<times> int \<times> string \<times> json) list option \<times> string option \<times>
    string option \<times> json option \<times> bool option \<times> string option" where
  "event_form e = (ev_kind e, ev_consumer e, ev_predicate e, map_option (map ref_form) (ev_refs e),
     ev_receipt e, ev_reason e, map_option (\<lambda>d. eq_form (JObj d)) (ev_payload e), ev_intermediate e,
     ev_control e)"

end
