(* ===== verification/Job_Ops.thy ===== *)
theory Job_Ops
  imports Job_Ledger
begin

section \<open>The job ledger: the operations of the producer and the controller\<close>

text \<open>
  \<open>harness_jobs.HarnessJobs\<close>: \<open>_append_locked\<close>, \<open>append\<close>, \<open>cancel\<close>, \<open>start\<close>, \<open>get\<close>, \<open>open_jobs\<close> and
  \<open>reconcile\<close>. Each answers its result with the tables after the commit, or the error, in which case
  the transaction rolls back (\<open>committed\<close>). \<open>wid n\<close> is the wake id drawn for event number \<open>n\<close>.
\<close>

definition committed :: "('a \<times> ledger) job_outcome \<Rightarrow> ledger \<Rightarrow> ledger" where
  "committed r db = (case r of Inl _ \<Rightarrow> db | Inr (_, db') \<Rightarrow> db')"

subsection \<open>Appending an event\<close>

fun merge_refs :: "artifact_ref list \<Rightarrow> artifact_ref list \<Rightarrow> artifact_ref list job_outcome" where
  "merge_refs known [] = Inr known"
| "merge_refs known (r # rs) =
     (case List.find (\<lambda>k. ref_id k = ref_id r \<and> ref_version k = ref_version r) known of
        Some k \<Rightarrow> if ref_hash k \<noteq> ref_hash r then Inl (coded Job_Ref_Conflict ''event.resultRefs'')
                  else merge_refs known rs
      | None \<Rightarrow> merge_refs (known @ [r]) rs)"

definition expected_revision :: "job \<Rightarrow> int option \<Rightarrow> unit job_outcome" where
  "expected_revision j ex =
     (case ex of
        None \<Rightarrow> Inr ()
      | Some n \<Rightarrow> require (1 \<le> n) (invalid_field ''expectedRevision'')
          (require (job_revision j = n) (coded Job_Revision_Conflict ''expectedRevision'') (Inr ())))"

definition stored_at :: "ledger \<Rightarrow> string \<Rightarrow> job_event \<Rightarrow> int \<Rightarrow> outbox_row option" where
  "stored_at db i e n =
     List.find (\<lambda>r. ob_job r = i \<and> ob_consumer r = ev_consumer e \<and> ob_seq r = n \<and>
       ob_predicate r = ev_predicate e) (outbox db)"

definition replay_event :: "ledger \<Rightarrow> job \<Rightarrow> job_event \<Rightarrow> int \<Rightarrow> int job_outcome" where
  "replay_event db j e n =
     (case stored_at db (job_id j) e n of
        None \<Rightarrow> Inl (coded Job_Event_Conflict ''eventSeq'')
      | Some r \<Rightarrow>
          if event_form ((ob_event r)\<lparr>ev_state := None\<rparr>) \<noteq> event_form (e\<lparr>ev_state := None\<rparr>) \<or>
             (ev_state e \<noteq> None \<and> ev_state e \<notin> {ev_state (ob_event r), ob_reported r})
          then Inl (coded Job_Event_Conflict ''eventSeq'')
          else Inr (ob_seq r))"

text \<open>The state an event settles its job in: nothing reopens, and after a cancel request nothing succeeds.\<close>

definition settled_state :: "bool \<Rightarrow> job \<Rightarrow> job_state option \<Rightarrow> job_state option job_outcome" where
  "settled_state cancelling j s =
     (case s of
        None \<Rightarrow> Inr None
      | Some st \<Rightarrow>
          if CLOSED_STATES (job_state j)
          then (if st \<noteq> job_state j then Inl (coded Job_Closed ''state'') else Inr (Some st))
          else if cancelling \<and> CLOSED_STATES st then Inr (Some St_Cancelled)
          else Inr (Some st))"

definition settle_job :: "rat \<Rightarrow> job_state option \<Rightarrow> artifact_ref list \<Rightarrow> job \<Rightarrow> job" where
  "settle_job now s rs j =
     (case s of
        Some st \<Rightarrow> j\<lparr>job_state := st, job_revision := job_revision j + 1, job_updated := now,
          job_closed := (if CLOSED_STATES st then Some now else None), job_refs := rs\<rparr>
      | None \<Rightarrow> j\<lparr>job_revision := job_revision j + 1, job_updated := now, job_refs := rs\<rparr>)"

definition put_job :: "string \<Rightarrow> (job \<Rightarrow> job) \<Rightarrow> ledger \<Rightarrow> ledger" where
  "put_job i f db = db\<lparr>jobs := map (\<lambda>j. if job_id j = i then f j else j) (jobs db)\<rparr>"

definition new_row :: "(int \<Rightarrow> string) \<Rightarrow> rat \<Rightarrow> string \<Rightarrow> job_event \<Rightarrow> job_state option \<Rightarrow> int \<Rightarrow> outbox_row" where
  "new_row wid now i e s n =
     \<lparr>ob_wake = wid n, ob_job = i, ob_consumer = ev_consumer e, ob_seq = n,
      ob_predicate = ev_predicate e, ob_status = Pending, ob_event = e\<lparr>ev_state := s\<rparr>,
      ob_reported = (if ev_state e \<noteq> s then ev_state e else None), ob_created = now, ob_delivered = None\<rparr>"

definition commit_event ::
  "(int \<Rightarrow> string) \<Rightarrow> rat \<Rightarrow> job \<Rightarrow> job_event \<Rightarrow> int \<Rightarrow> ledger \<Rightarrow> (int \<times> ledger) job_outcome" where
  "commit_event wid now j e n db =
     and_then (settled_state (cancel_requested db (job_id j)) j (ev_state e)) (\<lambda>s.
     and_then (case ev_refs e of None \<Rightarrow> Inr (job_refs j) | Some rs \<Rightarrow> merge_refs (job_refs j) rs) (\<lambda>rs.
     let db' = put_job (job_id j) (settle_job now s rs) db
     in Inr (n, db'\<lparr>outbox := outbox db' @ [new_row wid now (job_id j) e s n]\<rparr>)))"

definition append_locked ::
  "(int \<Rightarrow> string) \<Rightarrow> rat \<Rightarrow> job \<Rightarrow> json \<Rightarrow> int option \<Rightarrow> ledger \<Rightarrow> (int \<times> ledger) job_outcome" where
  "append_locked wid now j v ex db =
     and_then (parse_event (job_owner j) v) (\<lambda>(e, sq).
       let last = next_seq db in
       case sq of
         Some n \<Rightarrow>
           if n \<le> last then and_then (replay_event db j e n) (\<lambda>m. Inr (m, db))
           else and_then (expected_revision j ex) (\<lambda>_. commit_event wid now j e n db)
       | None \<Rightarrow> and_then (expected_revision j ex) (\<lambda>_. commit_event wid now j e (last + 1) db))"

definition append_event ::
  "(int \<Rightarrow> string) \<Rightarrow> rat \<Rightarrow> string \<Rightarrow> json \<Rightarrow> int option \<Rightarrow> ledger \<Rightarrow> (int \<times> ledger) job_outcome" where
  "append_event wid now i v ex db =
     and_then (the_job db i) (\<lambda>j. append_locked wid now j v ex db)"

subsection \<open>Cancelling\<close>

record cancel_result =
  cr_already :: bool
  cr_receipt :: "string option"
  cr_state :: job_state
  cr_revision :: int
  cr_epoch :: int
  cr_closed :: "rat option"

definition cancel_answer :: "bool \<Rightarrow> string option \<Rightarrow> job \<Rightarrow> cancel_result" where
  "cancel_answer already rc j =
     \<lparr>cr_already = already, cr_receipt = rc, cr_state = job_state j, cr_revision = job_revision j,
      cr_epoch = job_epoch j, cr_closed = job_closed j\<rparr>"

definition cancel_event :: "string \<Rightarrow> string \<Rightarrow> string \<Rightarrow> json" where
  "cancel_event own reason receipt =
     JObj [(''kind'', JStr ''control''), (''predicate'', JStr ''control''), (''consumerId'', JStr own),
       (''reason'', JStr reason), (''receiptRef'', JStr receipt),
       (''controlState'', JStr ''cancel_requested'')]"

definition bump_epoch :: "job \<Rightarrow> job" where
  "bump_epoch j = j\<lparr>job_epoch := job_epoch j + 1\<rparr>"

definition cancel_job ::
  "(int \<Rightarrow> string) \<Rightarrow> rat \<Rightarrow> string \<Rightarrow> string \<Rightarrow> int \<Rightarrow> json \<Rightarrow> ledger \<Rightarrow> (cancel_result \<times> ledger) job_outcome" where
  "cancel_job wid now receipt i ex reason db =
     require (1 \<le> ex) (invalid_field ''expectedRevision'') (
     and_then (checked_text reason ''reason'' (Some REASON_MAX)) (\<lambda>why.
     and_then (the_job db i) (\<lambda>j.
     if cancel_requested db i
     then Inr (cancel_answer True
            (case control_row db i of Some r \<Rightarrow> ev_receipt (ob_event r) | None \<Rightarrow> None) j, db)
     else
       and_then (expected_revision j (Some ex)) (\<lambda>_.
       require (\<not> CLOSED_STATES (job_state j)) (coded Job_Closed ''jobId'') (
       and_then (append_locked wid now j (cancel_event (job_owner j) why receipt) None
           (put_job i bump_epoch db)) (\<lambda>(_, db').
       and_then (the_job db' i) (\<lambda>j'.
       Inr (cancel_answer False (Some receipt) j', db'))))))))"

subsection \<open>Starting\<close>

definition alias_taken :: "ledger \<Rightarrow> string \<Rightarrow> string option \<Rightarrow> bool" where
  "alias_taken db own t =
     (t \<noteq> None \<and> list_ex (\<lambda>j. job_owner j = own \<and> job_task j = t \<and> \<not> CLOSED_STATES (job_state j)) (jobs db))"

definition new_job ::
  "string \<Rightarrow> rat \<Rightarrow> string \<Rightarrow> job_request \<Rightarrow> (string \<times> json) list \<Rightarrow> int \<Rightarrow> string \<Rightarrow> job" where
  "new_job i now own rq cap epoch inv_id =
     \<lparr>job_id = i, job_schema = RECORD_SCHEMA_VERSION, job_controller = rq_controller rq, job_owner = own,
      job_task = rq_task rq, job_kind = rq_kind rq, job_ownership = rq_ownership rq, job_revision = 1,
      job_state = St_Queued, job_epoch = epoch,
      job_admission = \<lparr>adm_invocation = inv_id, adm_capability = cap, adm_child = rq_child rq, adm_request = rq\<rparr>,
      job_checkpoint = rq_checkpoint rq, job_refs = [],
      job_handle = (case rq_executor rq of
          Some h \<Rightarrow> Some h
        | None \<Rightarrow> (case rq_child rq of Some c \<Rightarrow> Some [(''childSessionId'', JStr c)] | None \<Rightarrow> None)),
      job_created = now, job_updated = now, job_closed = None\<rparr>"

text \<open>The transaction of \<open>start\<close>, and \<open>start\<close>.\<close>

definition insert_job ::
  "string \<Rightarrow> rat \<Rightarrow> string \<Rightarrow> job_request \<Rightarrow> (string \<times> json) list \<Rightarrow> int \<Rightarrow> string \<Rightarrow> string \<Rightarrow> ledger \<Rightarrow>
   (job \<times> ledger) job_outcome" where
  "insert_job i now own rq cap epoch inv_id h db =
     and_then (cached db own inv_id h) (\<lambda>c.
     case c of
       Some v \<Rightarrow> Inr (v, db)
     | None \<Rightarrow>
         if find_job db i \<noteq> None \<or> alias_taken db own (rq_task rq)
         then Inl (coded Job_Alias_Conflict ''taskKey'')
         else
           let db' = db\<lparr>jobs := jobs db @ [new_job i now own rq cap epoch inv_id]\<rparr> in
           and_then (the_job db' i) (\<lambda>v.
           Inr (v, db'\<lparr>receipts := ((own, inv_id), h, v) # receipts db'\<rparr>)))"

definition start_job ::
  "(string \<Rightarrow> job_request \<Rightarrow> (string \<times> json) list \<Rightarrow> string) \<Rightarrow> string \<Rightarrow> rat \<Rightarrow> string \<Rightarrow> json \<Rightarrow> json \<Rightarrow> string \<Rightarrow>
   string option \<Rightarrow> ledger \<Rightarrow> (job \<times> ledger) job_outcome" where
  "start_job digest i now own request capability inv_id runtime_hash db =
     and_then (check_identifier (JStr own) ''ownerId'' False) (\<lambda>_.
     and_then (check_identifier (JStr inv_id) ''invocationId'' False) (\<lambda>_.
     and_then (parse_request own request) (\<lambda>rq.
     and_then (parse_capability capability) (\<lambda>(cap, epoch).
     insert_job i now own rq cap epoch inv_id
       (case runtime_hash of Some x \<Rightarrow> x | None \<Rightarrow> digest own rq cap) db))))"

subsection \<open>Reading\<close>

record job_view =
  vw_job :: job
  vw_reason :: "string option"
  vw_output :: "artifact_ref option"
  vw_exit :: json
  vw_process :: json
  vw_control :: "string option"
  vw_receipt :: "string option"
  vw_events :: "outbox_row list"
  vw_cursor :: int
  vw_last :: int

text \<open>The first page of a job's events after a cursor.\<close>

definition distinct_first :: "'a list \<Rightarrow> 'a list" where
  "distinct_first xs = rev (remdups (rev xs))"

fun first_by_key :: "('a \<Rightarrow> 'k) \<Rightarrow> 'a list \<Rightarrow> 'a list" where
  "first_by_key k [] = []"
| "first_by_key k (x # xs) = x # first_by_key k (filter (\<lambda>y. k y \<noteq> k x) xs)"

definition job_events :: "ledger \<Rightarrow> string \<Rightarrow> int \<Rightarrow> outbox_row list" where
  "job_events db i after =
     first_by_key (\<lambda>r. (ob_seq r, ob_predicate r))
       (take PAGE_LIMIT (sort_key (\<lambda>r. (ob_seq r, ob_predicate r))
          (filter (\<lambda>r. ob_job r = i \<and> after < ob_seq r) (outbox db))))"

definition cursor_value :: "json \<Rightarrow> string \<Rightarrow> int job_outcome" where
  "cursor_value v field =
     (if v = JNull then Inr 0
      else case exact_int v of
        Some n \<Rightarrow> if n < 0 then Inl (invalid_field field) else Inr n
      | None \<Rightarrow> Inl (invalid_field field))"

definition last_or :: "'b \<Rightarrow> ('a \<Rightarrow> 'b) \<Rightarrow> 'a list \<Rightarrow> 'b" where
  "last_or d f xs = (if xs = [] then d else f (last xs))"

definition get_job :: "string \<Rightarrow> json \<Rightarrow> ledger \<Rightarrow> job_view job_outcome" where
  "get_job i cursor db =
     and_then (the_job db i) (\<lambda>j.
     and_then (cursor_value cursor ''cursor'') (\<lambda>after.
     let evs = job_events db i after;
         reasons = filter (\<lambda>r. ev_reason (ob_event r) \<noteq> None) evs;
         ctl = map_option ob_event (control_row db i);
         handle = (case job_handle j of Some d \<Rightarrow> d | None \<Rightarrow> [])
     in Inr \<lparr>vw_job = j,
          vw_reason = (if reasons \<noteq> [] then ev_reason (ob_event (last reasons))
                       else Option.bind ctl ev_reason),
          vw_output = last_or None Some (job_refs j),
          vw_exit = dict_get handle ''exitCode'', vw_process = dict_get handle ''processState'',
          vw_control = Option.bind ctl ev_control, vw_receipt = Option.bind ctl ev_receipt,
          vw_events = evs, vw_cursor = last_or after ob_seq evs, vw_last = job_seq db i\<rparr>))"

definition open_rows :: "ledger \<Rightarrow> job list" where
  "open_rows db =
     sort_key (\<lambda>j. (job_created j, job_id j)) (filter (\<lambda>j. \<not> CLOSED_STATES (job_state j)) (jobs db))"

definition checked_schemas :: "job list \<Rightarrow> unit job_outcome" where
  "checked_schemas js =
     (if list_all (\<lambda>j. job_schema j = RECORD_SCHEMA_VERSION) js then Inr ()
      else Inl (coded Job_Schema_Unsupported ''schemaVersion''))"

definition open_jobs :: "string option \<Rightarrow> ledger \<Rightarrow> job list job_outcome" where
  "open_jobs own db =
     and_then (case own of None \<Rightarrow> Inr [] | Some w \<Rightarrow> check_identifier (JStr w) ''ownerId'' False) (\<lambda>_.
     let js = filter (\<lambda>j. case own of None \<Rightarrow> True | Some w \<Rightarrow> job_owner j = w) (open_rows db) in
     and_then (checked_schemas js) (\<lambda>_. Inr js))"

subsection \<open>Reconciling after a restart\<close>

record child_row =
  ch_status :: string
  ch_finished :: "rat option"

definition named_text :: "json \<Rightarrow> string option" where
  "named_text v = (case v of JStr s \<Rightarrow> if s = [] then None else Some s | _ \<Rightarrow> None)"

definition child_session :: "job \<Rightarrow> string option" where
  "child_session j =
     (let handle = (case job_handle j of Some d \<Rightarrow> d | None \<Rightarrow> []) in
      case named_text (dict_get handle ''childSessionId'') of
        Some s \<Rightarrow> Some s
      | None \<Rightarrow>
          (case named_text (dict_get handle ''sessionId'') of
             Some s \<Rightarrow> Some s
           | None \<Rightarrow> (case adm_child (job_admission j) of
               Some c \<Rightarrow> if c = [] then None else Some c | None \<Rightarrow> None)))"

definition child_running :: "child_row \<Rightarrow> bool" where
  "child_running c = (ch_status c = ''started'' \<and> ch_finished c = None)"

definition child_closed :: "(string \<Rightarrow> child_row option) \<Rightarrow> job \<Rightarrow> bool" where
  "child_closed children j =
     (case child_session j of
        None \<Rightarrow> False
      | Some i \<Rightarrow> (case children i of None \<Rightarrow> False | Some c \<Rightarrow> \<not> child_running c))"

text \<open>What reconciling decides of an open job: its closing state and reason, or that its executor lives.\<close>

definition reconcile_verdict ::
  "bool \<Rightarrow> (string \<Rightarrow> child_row option) \<Rightarrow> ((string \<times> json) list \<Rightarrow> bool) option \<Rightarrow> ledger \<Rightarrow> job \<Rightarrow>
   (job_state \<times> string) option" where
  "reconcile_verdict restart children confirm db j =
     (if cancel_requested db (job_id j)
      then Some (St_Cancelled, ''cancel requested before restart; executor not confirmed'')
      else if job_ownership j = Turn_Owned
      then Some (St_Interrupted, ''turn-owned job does not survive its turn'')
      else if job_kind j = Model_Job
      then (if \<not> restart \<and> (case Option.bind (child_session j) children of
                Some c \<Rightarrow> child_running c | None \<Rightarrow> False)
            then None else Some (St_Interrupted, ''model executor unconfirmed after restart''))
      else (if (case (job_handle j, confirm) of (Some h, Some f) \<Rightarrow> f h | _ \<Rightarrow> False)
            then None else Some (St_Unknown, ''process executor identity unconfirmed after restart'')))"

record tally =
  ta_scanned :: nat
  ta_confirmed :: "string list"
  ta_closed :: "(job_state \<times> string) list"

definition state_name :: "job_state \<Rightarrow> string" where
  "state_name s = (case List.find (\<lambda>p. snd p = s) JOB_STATES of Some p \<Rightarrow> fst p | None \<Rightarrow> [])"

definition reconcile_event :: "string \<Rightarrow> job_state \<Rightarrow> string \<Rightarrow> json" where
  "reconcile_event own s reason =
     JObj [(''kind'', JStr ''result''), (''predicate'', JStr ''reconcile''), (''consumerId'', JStr own),
       (''state'', JStr (state_name s)), (''reason'', JStr reason)]"

fun reconcile_rows ::
  "(ledger \<Rightarrow> job \<Rightarrow> (job_state \<times> string) option) \<Rightarrow> (int \<Rightarrow> string) \<Rightarrow> rat \<Rightarrow> job list \<Rightarrow> tally \<Rightarrow> ledger \<Rightarrow>
   (tally \<times> ledger) job_outcome" where
  "reconcile_rows verdict wid now [] t db = Inr (t, db)"
| "reconcile_rows verdict wid now (j # js) t db =
     require (job_schema j = RECORD_SCHEMA_VERSION) (coded Job_Schema_Unsupported ''schemaVersion'') (
     let t = t\<lparr>ta_scanned := ta_scanned t + 1\<rparr> in
     case verdict db j of
       None \<Rightarrow> reconcile_rows verdict wid now js (t\<lparr>ta_confirmed := ta_confirmed t @ [job_id j]\<rparr>) db
     | Some (s, why) \<Rightarrow>
         and_then (append_locked wid now j (reconcile_event (job_owner j) s why) None db) (\<lambda>(_, db').
           reconcile_rows verdict wid now js (t\<lparr>ta_closed := ta_closed t @ [(s, job_id j)]\<rparr>) db'))"

definition reconcile ::
  "bool \<Rightarrow> (string \<Rightarrow> child_row option) \<Rightarrow> ((string \<times> json) list \<Rightarrow> bool) option \<Rightarrow> (int \<Rightarrow> string) \<Rightarrow> rat \<Rightarrow>
   ledger \<Rightarrow> (tally \<times> ledger) job_outcome" where
  "reconcile restart children confirm wid now db =
     reconcile_rows (reconcile_verdict restart children confirm) wid now (open_rows db)
       \<lparr>ta_scanned = 0, ta_confirmed = [], ta_closed = []\<rparr> db"

end
