(* ===== verification/Job_Wait.thy ===== *)
theory Job_Wait
  imports Job_Ops
begin

section \<open>The job ledger: consumers, wake locks and wake snapshots\<close>

text \<open>
  The consumer half of \<open>harness_jobs.HarnessJobs\<close>: \<open>subscribe\<close> and the cursors that only advance,
  \<open>acquire_wake\<close> and \<open>release_wake\<close>, and \<open>wait\<close>, which delivers the unread wake events of a set of
  jobs, grouped, and answers at once.
\<close>

subsection \<open>Cursors\<close>

definition cursor_of :: "ledger \<Rightarrow> string \<Rightarrow> string \<Rightarrow> int option" where
  "cursor_of db c i = map_of (cursors db) (c, i)"

text \<open>\<open>ON CONFLICT DO UPDATE SET last_seq = MAX(last_seq, excluded.last_seq)\<close>.\<close>

fun upsert_max :: "'k \<Rightarrow> int \<Rightarrow> ('k \<times> int) list \<Rightarrow> ('k \<times> int) list" where
  "upsert_max k n [] = [(k, n)]"
| "upsert_max k n ((k', m) # xs) = (if k' = k then (k', max m n) # xs else (k', m) # upsert_max k n xs)"

definition advance_cursor :: "string \<Rightarrow> string \<Rightarrow> int \<Rightarrow> ledger \<Rightarrow> ledger" where
  "advance_cursor c i n db = db\<lparr>cursors := upsert_max (c, i) n (cursors db)\<rparr>"

record subscription =
  sb_job :: string
  sb_consumer :: string
  sb_predicate :: "string option"
  sb_state :: job_state
  sb_cursor :: int

definition subscribe ::
  "string \<Rightarrow> string \<Rightarrow> string option \<Rightarrow> json \<Rightarrow> ledger \<Rightarrow> (subscription \<times> ledger) job_outcome" where
  "subscribe i c p after_seq db =
     and_then (check_identifier (JStr c) ''consumerId'' False) (\<lambda>_.
     and_then (case p of None \<Rightarrow> Inr [] | Some x \<Rightarrow> check_identifier (JStr x) ''predicate'' False) (\<lambda>_.
     and_then (cursor_value after_seq ''afterSeq'') (\<lambda>after.
     and_then (the_job db i) (\<lambda>j.
     let db' = advance_cursor c i after db in
     Inr (\<lparr>sb_job = i, sb_consumer = c, sb_predicate = p, sb_state = job_state j,
           sb_cursor = (case cursor_of db' c i of Some n \<Rightarrow> n | None \<Rightarrow> 0)\<rparr>, db')))))"

subsection \<open>Wake locks\<close>

record lock_answer =
  la_lock :: wake_lock
  la_reclaimed :: bool

definition cursors_of :: "ledger \<Rightarrow> string \<Rightarrow> (string \<times> int) list" where
  "cursors_of db c = map (\<lambda>((_, i), n). (i, n)) (filter (\<lambda>((c', _), _). c' = c) (cursors db))"

definition acquire_wake :: "rat \<Rightarrow> string \<Rightarrow> string \<Rightarrow> ledger \<Rightarrow> (lock_answer \<times> ledger) job_outcome" where
  "acquire_wake now own c db =
     and_then (check_identifier (JStr own) ''ownerId'' False) (\<lambda>_.
     and_then (check_identifier (JStr c) ''consumerId'' False) (\<lambda>_.
     if (case locks db own of Some l \<Rightarrow> now < lk_expires l \<and> lk_consumer l \<noteq> c | None \<Rightarrow> False)
     then Inl (coded Job_Wake_Locked ''ownerId'')
     else
       let l = \<lparr>lk_consumer = c, lk_cursor = cursors_of db c, lk_acquired = now,
                lk_expires = now + WAKE_TTL_SECONDS\<rparr> in
       Inr (\<lparr>la_lock = l,
             la_reclaimed = (case locks db own of Some k \<Rightarrow> lk_consumer k \<noteq> c | None \<Rightarrow> False)\<rparr>,
            db\<lparr>locks := (locks db)(own \<mapsto> l)\<rparr>)))"

definition release_wake :: "string \<Rightarrow> string \<Rightarrow> ledger \<Rightarrow> (bool \<times> ledger) job_outcome" where
  "release_wake own c db =
     and_then (check_identifier (JStr own) ''ownerId'' False) (\<lambda>_.
     and_then (check_identifier (JStr c) ''consumerId'' False) (\<lambda>_.
     (case locks db own of
        Some l \<Rightarrow> if lk_consumer l = c then Inr (True, db\<lparr>locks := (locks db)(own := None)\<rparr>)
                  else Inr (False, db)
      | None \<Rightarrow> Inr (False, db))))"

text \<open>The lock a waiting consumer has to hold: live, and its own.\<close>

definition holds_lock :: "rat \<Rightarrow> ledger \<Rightarrow> string \<Rightarrow> string \<Rightarrow> bool" where
  "holds_lock now db own token =
     (case locks db own of None \<Rightarrow> False | Some l \<Rightarrow> lk_consumer l = token \<and> now < lk_expires l)"

subsection \<open>The wake snapshot\<close>

datatype wait_mode = Any_Job | All_Jobs

text \<open>
  Who waits: nobody (the unscoped library call), or a consumer with its owner and the token it
  locked with.
\<close>

record waiter =
  wt_consumer :: string
  wt_owner :: string
  wt_token :: "string option"

definition lock_name :: "waiter \<Rightarrow> string" where
  "lock_name w = (case wt_token w of Some t \<Rightarrow> if t = [] then wt_consumer w else t | None \<Rightarrow> wt_consumer w)"

definition unread :: "ledger \<Rightarrow> string option \<Rightarrow> int \<Rightarrow> string \<Rightarrow> outbox_row \<Rightarrow> bool" where
  "unread db scope after i r =
     (ob_job r = i \<and>
      (case cursor_of db (ob_consumer r) i of
         None \<Rightarrow> 0 < ob_seq r
       | Some n \<Rightarrow> after < ob_seq r \<and> n < ob_seq r) \<and>
      (case scope of None \<Rightarrow> True | Some c \<Rightarrow> ob_consumer r = c))"

definition observed_rows :: "ledger \<Rightarrow> string option \<Rightarrow> int \<Rightarrow> string list \<Rightarrow> outbox_row list" where
  "observed_rows db scope after ids =
     sort_key ob_seq (concat (map (\<lambda>i. sort_key ob_seq (filter (unread db scope after i) (outbox db))) ids))"

definition group_key :: "outbox_row \<Rightarrow> string \<times> string \<times> string" where
  "group_key r = (ob_job r, ob_consumer r, ob_predicate r)"

definition wake_groups :: "outbox_row list \<Rightarrow> outbox_row list list" where
  "wake_groups rs =
     (let ws = filter (\<lambda>r. should_wake (ob_event r)) rs in
      sort_key max_seq (map (\<lambda>k. filter (\<lambda>r. group_key r = k) ws) (distinct_first (map group_key ws))))"

definition wakes_of :: "outbox_row list list \<Rightarrow> outbox_row list" where
  "wakes_of gs = concat (map (\<lambda>g. case latest_row g of Some r \<Rightarrow> [r] | None \<Rightarrow> []) gs)"

definition mark_delivered :: "rat \<Rightarrow> outbox_row list \<Rightarrow> outbox_row \<Rightarrow> outbox_row" where
  "mark_delivered now ms r =
     (if list_ex (\<lambda>m. ob_wake m = ob_wake r \<and> ob_status m \<noteq> Delivered) ms
      then r\<lparr>ob_status := Delivered, ob_delivered := Some now\<rparr> else r)"

text \<open>The highest number observed of each job and consumer, written to its cursor.\<close>

definition advance_all :: "outbox_row list \<Rightarrow> ledger \<Rightarrow> ledger" where
  "advance_all rs db = fold (\<lambda>r. advance_cursor (ob_consumer r) (ob_job r) (ob_seq r)) rs db"

record wait_answer =
  wa_events :: "outbox_row list"
  wa_cursor :: int
  wa_ready :: bool
  wa_interrupted :: "job list"
  wa_jobs :: "(job \<times> bool \<times> bool) list"

definition wait_commit :: "rat \<Rightarrow> outbox_row list \<Rightarrow> ledger \<Rightarrow> ledger" where
  "wait_commit now rs db =
     advance_all rs (db\<lparr>outbox := map (mark_delivered now (concat (wake_groups rs))) (outbox db)\<rparr>)"

definition wait_result ::
  "(string \<Rightarrow> child_row option) \<Rightarrow> wait_mode \<Rightarrow> int \<Rightarrow> job list \<Rightarrow> outbox_row list \<Rightarrow> wait_answer" where
  "wait_result children mode after js rs =
     (let wakes = wakes_of (wake_groups rs);
          flag = (\<lambda>j. let closed = CLOSED_STATES (job_state j) \<or> child_closed children j
                      in (closed, closed \<or> job_id j \<in> set (map ob_job wakes)))
      in \<lparr>wa_events = wakes,
          wa_cursor = fold max (map ob_seq rs) after,
          wa_ready = (case mode of Any_Job \<Rightarrow> list_ex (\<lambda>j. snd (flag j)) js
                                 | All_Jobs \<Rightarrow> list_all (\<lambda>j. snd (flag j)) js),
          wa_interrupted = filter (\<lambda>j. job_state j \<in> {St_Interrupted, St_Unknown}) js,
          wa_jobs = map (\<lambda>j. (j, flag j)) js\<rparr>)"

definition wait_jobs ::
  "(string \<Rightarrow> child_row option) \<Rightarrow> rat \<Rightarrow> string list \<Rightarrow> wait_mode \<Rightarrow> json \<Rightarrow> waiter option \<Rightarrow> ledger \<Rightarrow>
   (wait_answer \<times> ledger) job_outcome" where
  "wait_jobs children now job_ids mode after_seq who db =
     and_then (cursor_value after_seq ''afterSeq'') (\<lambda>after.
     require (job_ids \<noteq> []) (invalid_field ''jobIds'') (
     require (length job_ids \<le> PAGE_LIMIT) (invalid_field ''jobIds'') (
     and_then (map_outcome (\<lambda>i. check_identifier (JStr i) ''jobIds'' False) job_ids) (\<lambda>_.
     let ids = distinct_first job_ids in
     and_then (map_outcome (the_job db) ids) (\<lambda>js.
     require (case who of None \<Rightarrow> True | Some w \<Rightarrow> holds_lock now db (wt_owner w) (lock_name w))
       (coded Job_Wake_Locked ''ownerId'') (
     require (case who of None \<Rightarrow> True | Some w \<Rightarrow> list_all (\<lambda>j. job_owner j = wt_owner w) js)
       (coded Job_Forbidden ''jobId'') (
     let rs = observed_rows db (map_option wt_consumer who) after ids in
     Inr (wait_result children mode after js rs, wait_commit now rs db))))))))"

end
