(* ===== verification/Job_Invariant.thy ===== *)
theory Job_Invariant
  imports Job_Wait
begin

section \<open>The job ledger: its invariant and how it may change\<close>

text \<open>
  The well-formedness of the tables (\<open>ledger_ok\<close>) and the relation between the tables before and after
  a commit (\<open>grows\<close>), the contract every operation keeps (\<open>locale ledger_operation\<close>), with one
  interpretation per operation.
\<close>

subsection \<open>Well-formed tables\<close>

definition job_ok :: "job \<Rightarrow> bool" where
  "job_ok j = (job_schema j = RECORD_SCHEMA_VERSION \<and> IDENTITY_ok (job_owner j) \<and> 1 \<le> job_revision j \<and>
     (job_closed j = None \<longleftrightarrow> \<not> CLOSED_STATES (job_state j)) \<and>
     distinct (map (\<lambda>r. (ref_id r, ref_version r)) (job_refs j)))"

text \<open>The unique index on open jobs: an owner has at most one open job of an alias.\<close>

definition aliases_unique :: "job list \<Rightarrow> bool" where
  "aliases_unique js = (\<forall>j \<in> set js. \<forall>k \<in> set js.
     \<not> CLOSED_STATES (job_state j) \<and> \<not> CLOSED_STATES (job_state k) \<and>
     job_owner j = job_owner k \<and> job_task j = job_task k \<and> job_task j \<noteq> None \<longrightarrow> job_id j = job_id k)"

definition row_ok :: "outbox_row \<Rightarrow> bool" where
  "row_ok r = (1 \<le> ob_seq r \<and> ob_consumer r = ev_consumer (ob_event r) \<and>
     ob_predicate r = ev_predicate (ob_event r))"

definition ledger_ok :: "ledger \<Rightarrow> bool" where
  "ledger_ok db = (distinct (map job_id (jobs db)) \<and> list_all job_ok (jobs db) \<and> aliases_unique (jobs db) \<and>
     list_all row_ok (outbox db) \<and> sorted_wrt (<) (map ob_seq (outbox db)) \<and>
     list_all (\<lambda>r. ob_job r \<in> job_id ` set (jobs db)) (outbox db) \<and>
     list_all (\<lambda>(_, n). 0 \<le> n) (cursors db))"

lemma ledger_ok_empty: "ledger_ok empty_ledger"
  by (simp add: ledger_ok_def empty_ledger_def aliases_unique_def)

subsection \<open>What a commit may change\<close>

text \<open>A row with its delivery marks cleared: what an outbox keeps for ever.\<close>

definition row_core :: "outbox_row \<Rightarrow> outbox_row" where
  "row_core r = r\<lparr>ob_status := Pending, ob_delivered := None\<rparr>"

definition job_evolves :: "job \<Rightarrow> job \<Rightarrow> bool" where
  "job_evolves j k = (job_id k = job_id j \<and> job_owner k = job_owner j \<and> job_controller k = job_controller j \<and>
     job_kind k = job_kind j \<and> job_ownership k = job_ownership j \<and> job_task k = job_task j \<and>
     job_revision j \<le> job_revision k \<and> job_epoch j \<le> job_epoch k \<and>
     (CLOSED_STATES (job_state j) \<longrightarrow> job_state k = job_state j) \<and>
     take (length (job_refs j)) (job_refs k) = job_refs j)"

definition jobs_evolve :: "ledger \<Rightarrow> ledger \<Rightarrow> bool" where
  "jobs_evolve db db' = (\<forall>i j. find_job db i = Some j \<longrightarrow> (\<exists>k. find_job db' i = Some k \<and> job_evolves j k))"

definition outbox_extends :: "ledger \<Rightarrow> ledger \<Rightarrow> bool" where
  "outbox_extends db db' = (\<exists>new. map row_core (outbox db') = map row_core (outbox db) @ new)"

definition cursors_advance :: "ledger \<Rightarrow> ledger \<Rightarrow> bool" where
  "cursors_advance db db' =
     (\<forall>k n. map_of (cursors db) k = Some n \<longrightarrow> (\<exists>m. map_of (cursors db') k = Some m \<and> n \<le> m))"

definition receipts_kept :: "ledger \<Rightarrow> ledger \<Rightarrow> bool" where
  "receipts_kept db db' = (\<forall>k v. map_of (receipts db) k = Some v \<longrightarrow> map_of (receipts db') k = Some v)"

definition grows :: "ledger \<Rightarrow> ledger \<Rightarrow> bool" where
  "grows db db' = (jobs_evolve db db' \<and> outbox_extends db db' \<and> cursors_advance db db' \<and> receipts_kept db db')"

lemma job_evolves_refl [simp]: "job_evolves j j"
  by (simp add: job_evolves_def)

lemma take_prefix_trans:
  "take (length a) b = a \<Longrightarrow> take (length b) c = b \<Longrightarrow> take (length a) c = a"
  by (metis length_take take_take)

lemma job_evolves_trans: "job_evolves i j \<Longrightarrow> job_evolves j k \<Longrightarrow> job_evolves i k"
  unfolding job_evolves_def by (auto intro: take_prefix_trans)

lemma grows_refl [simp]: "grows db db"
  by (simp add: grows_def jobs_evolve_def outbox_extends_def cursors_advance_def receipts_kept_def)

lemma grows_trans:
  assumes "grows a b" and "grows b c"
  shows "grows a c"
proof -
  have "jobs_evolve a c"
    using assms unfolding grows_def jobs_evolve_def by (blast intro: job_evolves_trans)
  moreover have "outbox_extends a c"
    using assms unfolding grows_def outbox_extends_def by fastforce
  moreover have "cursors_advance a c"
    using assms unfolding grows_def cursors_advance_def by (meson order_trans)
  moreover have "receipts_kept a c"
    using assms unfolding grows_def receipts_kept_def by blast
  ultimately show ?thesis by (simp add: grows_def)
qed

subsection \<open>The contract of an operation\<close>

locale ledger_operation =
  fixes op_run :: "ledger \<Rightarrow> ('a \<times> ledger) job_outcome"
  assumes keeps: "ledger_ok db \<Longrightarrow> op_run db = Inr (x, db') \<Longrightarrow> ledger_ok db' \<and> grows db db'"
begin

lemma committed_ok: "ledger_ok db \<Longrightarrow> ledger_ok (committed (op_run db) db)"
  using keeps by (auto simp: committed_def split: sum.split prod.split)

lemma committed_grows: "ledger_ok db \<Longrightarrow> grows db (committed (op_run db) db)"
  using keeps by (auto simp: committed_def split: sum.split prod.split)

end

subsection \<open>Lookups in a changed table\<close>

lemma find_job_Some: "find_job db i = Some j \<Longrightarrow> j \<in> set (jobs db) \<and> job_id j = i"
  unfolding find_job_def by (drule find_SomeD) simp

lemma find_job_in:
  "distinct (map job_id (jobs db)) \<Longrightarrow> j \<in> set (jobs db) \<Longrightarrow> find_job db (job_id j) = Some j"
proof -
  have "distinct (map job_id js) \<Longrightarrow> j \<in> set js \<Longrightarrow> List.find (\<lambda>k. job_id k = job_id j) js = Some j" for js
    by (induction js) (auto simp: image_iff)
  then show "distinct (map job_id (jobs db)) \<Longrightarrow> j \<in> set (jobs db) \<Longrightarrow> find_job db (job_id j) = Some j"
    by (simp add: find_job_def)
qed

lemma find_map_same:
  "(\<And>x. P (f x) = P x) \<Longrightarrow> List.find P (map f xs) = map_option f (List.find P xs)"
  by (induction xs) auto

lemma find_put_job:
  assumes "\<And>j. job_id (f j) = job_id j"
  shows "find_job (put_job i f db) k = map_option (\<lambda>j. if job_id j = i then f j else j) (find_job db k)"
  unfolding find_job_def put_job_def by (simp add: find_map_same assms)

lemma find_job_outbox [simp]: "find_job (db\<lparr>outbox := x\<rparr>) i = find_job db i"
  by (simp add: find_job_def)

lemma put_job_other [simp]:
  "outbox (put_job i f db) = outbox db" "cursors (put_job i f db) = cursors db"
  "locks (put_job i f db) = locks db" "receipts (put_job i f db) = receipts db"
  by (simp_all add: put_job_def)

lemma the_job_Inr:
  "the_job db i = Inr j \<longleftrightarrow> IDENTITY_ok i \<and> find_job db i = Some j \<and> job_schema j = RECORD_SCHEMA_VERSION"
  by (auto simp: the_job_def check_identifier_def split: option.splits if_splits)

lemma identity_checked [simp]: "check_identifier (JStr s) f False = Inr t \<longleftrightarrow> IDENTITY_ok s \<and> t = s"
  by (auto simp: check_identifier_def)

subsection \<open>Event numbers\<close>

lemma fold_max_ge: "(a::int) \<le> fold max ns a" "n \<in> set ns \<Longrightarrow> n \<le> fold max ns a"
proof -
  have *: "(a::int) \<le> fold max ns a" for ns a
    by (induction ns arbitrary: a) (auto, metis max.bounded_iff)
  show "a \<le> fold max ns a" by (rule *)
  show "n \<in> set ns \<Longrightarrow> n \<le> fold max ns a"
  proof (induction ns arbitrary: a)
    case (Cons m ns)
    then show ?case using * [of "max m a" ns] by auto
  qed simp
qed

lemma fold_max_in: "fold max ns (a::int) \<in> insert a (set ns)"
proof (induction ns arbitrary: a)
  case (Cons m ns)
  from Cons.IH [of "max m a"] show ?case by (auto simp: max_def)
qed simp

lemma max_seq_ge: "r \<in> set rs \<Longrightarrow> ob_seq r \<le> max_seq rs"
  by (cases rs) (auto simp: max_seq_def fold_max_ge)

lemma max_seq_in: "rs \<noteq> [] \<Longrightarrow> \<exists>r \<in> set rs. ob_seq r = max_seq rs"
proof (cases rs)
  case (Cons r rs')
  then show ?thesis using fold_max_in [of "map ob_seq rs'" "ob_seq r"] by (auto simp: max_seq_def)
qed simp

lemma max_seq_nonneg: "list_all row_ok rs \<Longrightarrow> 0 \<le> max_seq rs"
proof (cases "rs = []")
  case False
  assume "list_all row_ok rs"
  with max_seq_in [OF False] show ?thesis by (force simp: list_all_iff row_ok_def)
qed (simp add: max_seq_def)

lemma latest_row_SomeD: "latest_row rs = Some r \<Longrightarrow> r \<in> set rs \<and> ob_seq r = max_seq rs"
  unfolding latest_row_def by (rule find_SomeD)

lemma latest_row_None: "latest_row rs = None \<longleftrightarrow> rs = []"
  using max_seq_in [of rs] by (auto simp: latest_row_def find_None_set)

end
