(* ===== verification/Job_Steps.thy ===== *)
theory Job_Steps
  imports Job_Invariant
begin

section \<open>The job ledger: every operation keeps the contract\<close>

text \<open>
  The two primitive changes (a job row rewritten, an outbox row appended), the operations built from
  them, an interpretation of \<open>ledger_operation\<close> for each, and the step relation \<open>ledger_step\<close> whose
  reachable tables are well formed.
\<close>

subsection \<open>The primitive changes\<close>

lemma ledger_ok_jobs:
  assumes "ledger_ok db" and "map job_id js = map job_id (jobs db)" and "list_all job_ok js"
    and "aliases_unique js"
  shows "ledger_ok (db\<lparr>jobs := js\<rparr>)"
proof -
  have "job_id ` set js = job_id ` set (jobs db)"
    using arg_cong [OF assms(2), of set] by simp
  with assms show ?thesis by (simp add: ledger_ok_def)
qed

lemma put_job_keeps:
  assumes ok: "ledger_ok db" and k: "find_job db i = Some k"
    and f: "job_ok (f k)" "job_evolves k (f k)" "\<And>j. job_id (f j) = job_id j"
  shows "ledger_ok (put_job i f db) \<and> grows db (put_job i f db)"
proof -
  let ?g = "\<lambda>j. if job_id j = i then f j else j"
  have only: "j = k" if "j \<in> set (jobs db)" "job_id j = i" for j
    using that k ok find_job_in [of db j] by (simp add: ledger_ok_def)
  have ids: "map job_id (map ?g (jobs db)) = map job_id (jobs db)" by (simp add: f(3))
  have ev: "job_evolves j (?g j)" if "j \<in> set (jobs db)" for j using only [OF that] f(2) by auto
  have "list_all job_ok (map ?g (jobs db))"
    using ok only f(1) by (auto simp: list_all_iff ledger_ok_def)
  moreover have "aliases_unique (map ?g (jobs db))"
    unfolding aliases_unique_def
  proof (intro ballI impI)
    fix x y
    assume "x \<in> set (map ?g (jobs db))" and "y \<in> set (map ?g (jobs db))"
      and h: "\<not> CLOSED_STATES (job_state x) \<and> \<not> CLOSED_STATES (job_state y) \<and>
        job_owner x = job_owner y \<and> job_task x = job_task y \<and> job_task x \<noteq> None"
    then obtain a b where a: "a \<in> set (jobs db)" "b \<in> set (jobs db)" and "x = ?g a" "y = ?g b" by auto
    then have e: "job_evolves a x" "job_evolves b y" using ev by blast+
    have same: "job_owner x = job_owner a" "job_owner y = job_owner b" "job_task x = job_task a"
        "job_task y = job_task b" "CLOSED_STATES (job_state a) \<Longrightarrow> job_state x = job_state a"
        "CLOSED_STATES (job_state b) \<Longrightarrow> job_state y = job_state b"
      using e by (simp_all add: job_evolves_def)
    have "job_owner a = job_owner b" "job_task a = job_task b" "job_task a \<noteq> None"
      using h unfolding same(1-4) by blast+
    moreover have "\<not> CLOSED_STATES (job_state a)" "\<not> CLOSED_STATES (job_state b)"
      using h same(5,6) by metis+
    moreover have "aliases_unique (jobs db)" using ok by (simp add: ledger_ok_def)
    ultimately have "job_id a = job_id b" using a unfolding aliases_unique_def by blast
    with e show "job_id x = job_id y" by (simp add: job_evolves_def)
  qed
  ultimately have "ledger_ok (put_job i f db)"
    unfolding put_job_def by (intro ledger_ok_jobs [OF ok ids])
  moreover have "jobs_evolve db (put_job i f db)"
    unfolding jobs_evolve_def
  proof (intro allI impI)
    fix n j
    assume j: "find_job db n = Some j"
    then have "job_evolves j (?g j)" by (intro ev) (simp add: find_job_Some)
    with j show "\<exists>k. find_job (put_job i f db) n = Some k \<and> job_evolves j k"
      by (simp add: find_put_job f(3))
  qed
  ultimately show ?thesis
    by (simp add: grows_def outbox_extends_def cursors_advance_def receipts_kept_def)
qed

lemma append_row_keeps:
  assumes ok: "ledger_ok db" and r: "row_ok r" "next_seq db < ob_seq r" "find_job db (ob_job r) = Some k"
  shows "ledger_ok (db\<lparr>outbox := outbox db @ [r]\<rparr>) \<and> grows db (db\<lparr>outbox := outbox db @ [r]\<rparr>)"
proof -
  have "\<forall>r' \<in> set (outbox db). ob_seq r' < ob_seq r"
    using r(2) by (auto simp: next_seq_def dest: max_seq_ge)
  moreover have "ob_job r \<in> job_id ` set (jobs db)" using find_job_Some [OF r(3)] by (metis imageI)
  ultimately show ?thesis
    using ok r(1) by (auto simp: ledger_ok_def sorted_wrt_append grows_def jobs_evolve_def
        outbox_extends_def cursors_advance_def receipts_kept_def)
qed

lemma next_seq_nonneg: "ledger_ok db \<Longrightarrow> 0 \<le> next_seq db"
  by (simp add: ledger_ok_def next_seq_def max_seq_nonneg)

subsection \<open>Appending\<close>

lemma merge_refs_extends: "merge_refs known rs = Inr out \<Longrightarrow> take (length known) out = known"
proof (induction known rs rule: merge_refs.induct)
  case (2 known r rs)
  show ?case
  proof (cases "List.find (\<lambda>k. ref_id k = ref_id r \<and> ref_version k = ref_version r) known")
    case None
    with "2.IH"(1) "2.prems" have "take (length (known @ [r])) out = known @ [r]" by simp
    then show ?thesis using take_prefix_trans [of known "known @ [r]" out] by simp
  next
    case (Some k)
    with "2.IH"(2) "2.prems" show ?thesis by (simp split: if_splits)
  qed
qed simp

lemma merge_refs_distinct:
  "merge_refs known rs = Inr out \<Longrightarrow> distinct (map (\<lambda>r. (ref_id r, ref_version r)) known) \<Longrightarrow>
   distinct (map (\<lambda>r. (ref_id r, ref_version r)) out)"
proof (induction known rs rule: merge_refs.induct)
  case (2 known r rs)
  show ?case
  proof (cases "List.find (\<lambda>k. ref_id k = ref_id r \<and> ref_version k = ref_version r) known")
    case None
    then have "(ref_id r, ref_version r) \<notin> (\<lambda>r. (ref_id r, ref_version r)) ` set known"
      by (auto simp: find_None_set)
    with None "2.IH"(1) "2.prems" show ?thesis by simp
  next
    case (Some k)
    with "2.IH"(2) "2.prems" show ?thesis by (simp split: if_splits)
  qed
qed simp

lemma settled_closed:
  "settled_state c j x = Inr (Some st) \<Longrightarrow> CLOSED_STATES (job_state j) \<Longrightarrow> st = job_state j"
  by (auto simp: settled_state_def split: option.splits if_splits)

lemma settle_job_same [simp]:
  "job_id (settle_job now s rs j) = job_id j" "job_owner (settle_job now s rs j) = job_owner j"
  "job_task (settle_job now s rs j) = job_task j" "job_kind (settle_job now s rs j) = job_kind j"
  "job_controller (settle_job now s rs j) = job_controller j"
  "job_ownership (settle_job now s rs j) = job_ownership j" "job_epoch (settle_job now s rs j) = job_epoch j"
  "job_schema (settle_job now s rs j) = job_schema j" "job_refs (settle_job now s rs j) = rs"
  "job_revision (settle_job now s rs j) = job_revision j + 1"
  "job_state (settle_job now s rs j) = (case s of Some st \<Rightarrow> st | None \<Rightarrow> job_state j)"
  "job_closed (settle_job now s rs j) =
     (case s of Some st \<Rightarrow> if CLOSED_STATES st then Some now else None | None \<Rightarrow> job_closed j)"
  by (simp_all add: settle_job_def split: option.split)

definition refs_after :: "job \<Rightarrow> job_event \<Rightarrow> artifact_ref list job_outcome" where
  "refs_after j e = (case ev_refs e of None \<Rightarrow> Inr (job_refs j) | Some rs \<Rightarrow> merge_refs (job_refs j) rs)"

lemma commit_event_Inr:
  "commit_event wid now j e n db = Inr (m, db') \<longleftrightarrow>
     (\<exists>s rs. m = n \<and> settled_state (cancel_requested db (job_id j)) j (ev_state e) = Inr s \<and> refs_after j e = Inr rs \<and>
        db' = (put_job (job_id j) (settle_job now s rs) db)
          \<lparr>outbox := outbox db @ [new_row wid now (job_id j) e s n]\<rparr>)"
  by (auto simp: commit_event_def refs_after_def Let_def)

lemma new_row_ok: "1 \<le> n \<Longrightarrow> row_ok (new_row wid now i e s n)"
  by (simp add: row_ok_def new_row_def)

lemma commit_event_keeps:
  assumes ok: "ledger_ok db" and k: "find_job db (job_id j) = Some k"
    and same: "job_state k = job_state j" "job_refs k = job_refs j"
    and n: "next_seq db < n" and c: "commit_event wid now j e n db = Inr (m, db')"
  shows "ledger_ok db' \<and> grows db db'"
proof -
  from c obtain s rs where s: "settled_state (cancel_requested db (job_id j)) j (ev_state e) = Inr s"
    and rs: "refs_after j e = Inr rs"
    and db': "db' = (put_job (job_id j) (settle_job now s rs) db)
          \<lparr>outbox := outbox db @ [new_row wid now (job_id j) e s n]\<rparr>"
    unfolding commit_event_Inr by blast
  have kok: "job_ok k" using ok find_job_Some [OF k] by (auto simp: ledger_ok_def list_all_iff)
  have pre: "take (length (job_refs k)) rs = job_refs k"
    using rs same(2) by (auto simp: refs_after_def merge_refs_extends split: option.splits)
  have dis: "distinct (map (\<lambda>r. (ref_id r, ref_version r)) rs)"
    using rs kok same(2)
    by (auto simp: refs_after_def job_ok_def split: option.splits intro: merge_refs_distinct)
  have st: "CLOSED_STATES (job_state k) \<Longrightarrow> s = Some x \<Longrightarrow> x = job_state k" for x
    using settled_closed s same(1) by metis
  have "job_evolves k (settle_job now s rs k)"
    using pre st by (auto simp: job_evolves_def split: option.split)
  moreover have "job_ok (settle_job now s rs k)"
    using kok dis by (auto simp: job_ok_def split: option.split)
  ultimately have one: "ledger_ok (put_job (job_id j) (settle_job now s rs) db)
      \<and> grows db (put_job (job_id j) (settle_job now s rs) db)" (is "ledger_ok ?d \<and> _")
    using put_job_keeps [OF ok k] by simp
  have "find_job ?d (job_id j) = Some (settle_job now s rs k)"
    using k find_job_Some [OF k] by (simp add: find_put_job)
  moreover have "1 \<le> n" using n next_seq_nonneg [OF ok] by simp
  ultimately have "ledger_ok db' \<and> grows ?d db'"
    using one n append_row_keeps [of ?d "new_row wid now (job_id j) e s n"]
    by (simp add: db' new_row_ok next_seq_def) (simp add: new_row_def)
  with one show ?thesis using grows_trans by blast
qed

lemma replay_event_seq: "replay_event db j e n = Inr x \<Longrightarrow> x = n"
  by (auto simp: replay_event_def stored_at_def split: option.splits if_splits dest!: find_SomeD)

lemma append_locked_Inr:
  assumes "append_locked wid now j v ex db = Inr (m, db')"
  obtains e where "parse_event (job_owner j) v = Inr (e, Some m)" "m \<le> next_seq db" "db' = db"
      "replay_event db j e m = Inr m"
  | e sq where "parse_event (job_owner j) v = Inr (e, sq)" "next_seq db < m"
      "sq = Some m \<or> sq = None \<and> m = next_seq db + 1" "expected_revision j ex = Inr ()"
      "commit_event wid now j e m db = Inr (m, db')"
proof -
  from assms obtain e sq where p: "parse_event (job_owner j) v = Inr (e, sq)"
    by (auto simp: append_locked_def)
  have cm: "commit_event wid now j e n db = Inr (m, db') \<Longrightarrow> m = n" for n
    by (auto simp: commit_event_Inr)
  show thesis
  proof (cases sq)
    case None
    with assms p show ?thesis
      by (intro that(2) [of e sq]) (auto simp: append_locked_def Let_def dest: cm)
  next
    case (Some n)
    show ?thesis
    proof (cases "n \<le> next_seq db")
      case True
      with assms p Some show ?thesis
        by (intro that(1) [of e]) (auto simp: append_locked_def Let_def dest: replay_event_seq)
    next
      case False
      with assms p Some show ?thesis
        by (intro that(2) [of e sq]) (auto simp: append_locked_def Let_def dest: cm)
    qed
  qed
qed

lemma append_locked_keeps:
  assumes "ledger_ok db" and "find_job db (job_id j) = Some k"
    and "job_state k = job_state j" and "job_refs k = job_refs j"
    and "append_locked wid now j v ex db = Inr (m, db')"
  shows "ledger_ok db' \<and> grows db db'"
proof (rule append_locked_Inr [OF assms(5)])
  assume "db' = db"
  then show ?thesis using assms(1) by simp
next
  fix e
  assume "next_seq db < m" and "commit_event wid now j e m db = Inr (m, db')"
  then show ?thesis by (rule commit_event_keeps [OF assms(1-4)])
qed


text \<open>An append touches its own job only.\<close>

lemma find_put_job_other:
  "(\<And>j. job_id (f j) = job_id j) \<Longrightarrow> i \<noteq> k \<Longrightarrow> find_job (put_job i f db) k = find_job db k"
  using find_job_Some [of db k] by (cases "find_job db k") (auto simp: find_put_job)

lemma append_locked_other:
  "append_locked wid now j v ex db = Inr (m, db') \<Longrightarrow> i \<noteq> job_id j \<Longrightarrow> find_job db' i = find_job db i"
  by (erule append_locked_Inr)
    (auto simp: commit_event_Inr find_put_job_other)

subsection \<open>One interpretation per operation\<close>

lemma reconcile_rows_keeps:
  "ledger_ok db \<Longrightarrow> \<forall>j \<in> set js. find_job db (job_id j) = Some j \<Longrightarrow> distinct (map job_id js) \<Longrightarrow>
   reconcile_rows verdict wid now js t db = Inr (t', db') \<Longrightarrow> ledger_ok db' \<and> grows db db'"
proof (induction js arbitrary: db t)
  case (Cons j js)
  show ?case
  proof (cases "verdict db j")
    case None
    with Cons.prems have "reconcile_rows verdict wid now js
        (t\<lparr>ta_scanned := ta_scanned t + 1, ta_confirmed := ta_confirmed t @ [job_id j]\<rparr>) db = Inr (t', db')"
      by (simp add: Let_def)
    from Cons.IH [OF _ _ _ this] Cons.prems(1-3) show ?thesis by simp
  next
    case (Some p)
    obtain s why where p: "p = (s, why)" by (cases p)
    with Some Cons.prems(4) obtain m db1 where
        a: "append_locked wid now j (reconcile_event (job_owner j) s why) None db = Inr (m, db1)"
        and r: "reconcile_rows verdict wid now js
          (t\<lparr>ta_scanned := ta_scanned t + 1, ta_closed := ta_closed t @ [(s, job_id j)]\<rparr>) db1 = Inr (t', db')"
      by (auto simp: Let_def)
    have one: "ledger_ok db1 \<and> grows db db1"
      using append_locked_keeps [OF Cons.prems(1) _ refl refl a] Cons.prems(2) by simp
    have "find_job db1 (job_id k) = Some k" if "k \<in> set js" for k
      using append_locked_other [OF a] that Cons.prems(2,3) by (auto simp: image_iff)
    with Cons.IH [OF _ _ _ r] one Cons.prems(3) show ?thesis using grows_trans by auto
  qed
qed simp


lemma upsert_max_get:
  "map_of (upsert_max k n xs) c =
     (if c = k then Some (case map_of xs k of Some m \<Rightarrow> max m n | None \<Rightarrow> n) else map_of xs c)"
  by (induction xs) (auto split: option.split)

lemma upsert_max_nonneg: "0 \<le> n \<Longrightarrow> list_all (\<lambda>(_, m). 0 \<le> m) xs \<Longrightarrow> list_all (\<lambda>(_, m). 0 \<le> m) (upsert_max k n xs)"
  by (induction xs) (auto simp: max_def)

lemma advance_cursor_keeps:
  "ledger_ok db \<Longrightarrow> 0 \<le> n \<Longrightarrow> ledger_ok (advance_cursor c i n db) \<and> grows db (advance_cursor c i n db)"
  by (auto simp: ledger_ok_def advance_cursor_def grows_def jobs_evolve_def outbox_extends_def
      cursors_advance_def receipts_kept_def find_job_def upsert_max_get upsert_max_nonneg)

lemma advance_all_keeps:
  "ledger_ok db \<Longrightarrow> \<forall>r \<in> set rs. 0 \<le> ob_seq r \<Longrightarrow> ledger_ok (advance_all rs db) \<and> grows db (advance_all rs db)"
proof (induction rs arbitrary: db)
  case (Cons r rs)
  let ?d = "advance_cursor (ob_consumer r) (ob_job r) (ob_seq r) db"
  have one: "ledger_ok ?d \<and> grows db ?d" using Cons.prems by (intro advance_cursor_keeps) auto
  with Cons have "ledger_ok (advance_all rs ?d) \<and> grows ?d (advance_all rs ?d)" by auto
  with one show ?case using grows_trans by (auto simp: advance_all_def)
qed (simp add: advance_all_def)

lemma mark_delivered_same [simp]:
  "ob_seq (mark_delivered now ms r) = ob_seq r" "ob_job (mark_delivered now ms r) = ob_job r"
  "row_ok (mark_delivered now ms r) = row_ok r" "row_core (mark_delivered now ms r) = row_core r"
  "ob_event (mark_delivered now ms r) = ob_event r" "ob_consumer (mark_delivered now ms r) = ob_consumer r"
  by (simp_all add: mark_delivered_def row_ok_def row_core_def)

lemma wait_commit_keeps:
  assumes "ledger_ok db" and "\<forall>r \<in> set rs. 0 \<le> ob_seq r"
  shows "ledger_ok (wait_commit now rs db) \<and> grows db (wait_commit now rs db)"
proof -
  let ?d = "db\<lparr>outbox := map (mark_delivered now (concat (wake_groups rs))) (outbox db)\<rparr>"
  have "outbox_extends db ?d"
    unfolding outbox_extends_def by (intro exI [of _ "[]"]) simp
  then have one: "ledger_ok ?d \<and> grows db ?d"
    using assms(1) by (auto simp: ledger_ok_def list_all_iff sorted_wrt_map grows_def jobs_evolve_def
        cursors_advance_def receipts_kept_def)
  with advance_all_keeps [of ?d rs] assms(2) show ?thesis
    unfolding wait_commit_def by (auto intro: grows_trans)
qed

lemma observed_rows_set:
  "set (observed_rows db scope after ids) = {r \<in> set (outbox db). \<exists>i \<in> set ids. unread db scope after i r}"
  by (auto simp: observed_rows_def)

lemma cached_None: "cached db own i h = Inr None \<longleftrightarrow> IDENTITY_ok i \<and> map_of (receipts db) (own, i) = None"
  by (auto simp: cached_def split: option.splits if_splits)

lemma start_job_Inr:
  assumes "start_job digest i now own v cap inv_id h db = Inr (j, db')"
  obtains x where "cached db own inv_id x = Inr (Some j)" "db' = db"
  | rq c e x where "cached db own inv_id x = Inr None" "IDENTITY_ok own" "parse_request own v = Inr rq"
      "find_job db i = None" "\<not> alias_taken db own (rq_task rq)" "j = new_job i now own rq c e inv_id"
      "db' = db\<lparr>jobs := jobs db @ [j], receipts := ((own, inv_id), x, j) # receipts db\<rparr>"
proof -
  from assms obtain rq c e x where own: "IDENTITY_ok own" and rq: "parse_request own v = Inr rq"
    and ins: "insert_job i now own rq c e inv_id x db = Inr (j, db')"
    by (auto simp: start_job_def)
  from ins obtain o' where x: "cached db own inv_id x = Inr o'"
    and rest: "(case o' of Some v \<Rightarrow> Inr (v, db)
     | None \<Rightarrow>
         if find_job db i \<noteq> None \<or> alias_taken db own (rq_task rq)
         then Inl (coded Job_Alias_Conflict ''taskKey'')
         else
           let db' = db\<lparr>jobs := jobs db @ [new_job i now own rq c e inv_id]\<rparr> in
           and_then (the_job db' i) (\<lambda>v. Inr (v, db'\<lparr>receipts := ((own, inv_id), x, v) # receipts db'\<rparr>)))
       = Inr (j, db')"
    unfolding insert_job_def and_then_Inr by blast
  show thesis
  proof (cases o')
    case (Some w)
    with x rest show ?thesis by (intro that(1) [of x]) auto
  next
    case None
    with rest have f: "find_job db i = None" "\<not> alias_taken db own (rq_task rq)" by (auto split: if_splits)
    have "find_job (db\<lparr>jobs := jobs db @ [new_job i now own rq c e inv_id]\<rparr>) i
        = Some (new_job i now own rq c e inv_id)"
      using f(1) by (simp add: find_job_def find_append new_job_def)
    with rest None f show ?thesis
      by (intro that(2) [OF x [unfolded None] own rq f]) (auto simp: the_job_Inr Let_def)
  qed
qed

lemma alias_free:
  "\<not> alias_taken db own x \<Longrightarrow> j \<in> set (jobs db) \<Longrightarrow> job_owner j = own \<Longrightarrow> job_task j = x \<Longrightarrow> x \<noteq> None \<Longrightarrow>
   CLOSED_STATES (job_state j)"
  by (auto simp: alias_taken_def list_ex_iff)

lemma start_job_keeps:
  assumes ok: "ledger_ok db"
    and s: "start_job digest i now own rq cap inv_id h db = Inr (v, db')"
  shows "ledger_ok db' \<and> grows db db'"
proof (rule start_job_Inr [OF s])
  assume "db' = db"
  then show ?thesis using ok by simp
next
  fix r c e x
  assume none: "cached db own inv_id x = Inr None" and own: "IDENTITY_ok own" and free: "find_job db i = None"
    and untaken: "\<not> alias_taken db own (rq_task r)" and v: "v = new_job i now own r c e inv_id"
    and db': "db' = db\<lparr>jobs := jobs db @ [v], receipts := ((own, inv_id), x, v) # receipts db\<rparr>"
  let ?n = "new_job i now own r c e inv_id"
  have n: "job_id ?n = i" "job_owner ?n = own" "job_task ?n = rq_task r" "job_ok ?n"
    using own by (simp_all add: new_job_def job_ok_def CLOSED_STATES_def OPEN_STATES_def)
  have new: "\<forall>j \<in> set (jobs db). job_id j \<noteq> i"
    using free by (simp add: find_job_def find_None_set)
  have "aliases_unique (jobs db @ [?n])"
    unfolding aliases_unique_def
  proof (intro ballI impI)
    fix a b
    assume ab: "a \<in> set (jobs db @ [?n])" "b \<in> set (jobs db @ [?n])"
      and h: "\<not> CLOSED_STATES (job_state a) \<and> \<not> CLOSED_STATES (job_state b) \<and>
        job_owner a = job_owner b \<and> job_task a = job_task b \<and> job_task a \<noteq> None"
    show "job_id a = job_id b"
    proof (cases "a \<in> set (jobs db) \<and> b \<in> set (jobs db)")
      case True
      with ok h show ?thesis unfolding ledger_ok_def aliases_unique_def by blast
    next
      case False
      with ab consider "a = ?n" "b = ?n" | "a = ?n" "b \<in> set (jobs db)" | "b = ?n" "a \<in> set (jobs db)" by auto
      then show ?thesis
        using h alias_free [OF untaken, of a] alias_free [OF untaken, of b] n(2,3) by cases metis+
    qed
  qed
  with ok new have "ledger_ok db'"
    by (auto simp: ledger_ok_def db' v n list_all_iff)
  moreover have "jobs_evolve db db'"
    using new by (auto simp: jobs_evolve_def db' find_job_def find_append split: option.split)
  moreover have "receipts_kept db db'" using none by (auto simp: receipts_kept_def db' cached_None)
  ultimately show ?thesis
    by (simp add: grows_def outbox_extends_def cursors_advance_def db')
qed

end
