(* ===== verification/Job_Safety.thy ===== *)
theory Job_Safety
  imports Job_Steps
begin

section \<open>The job ledger: reachable tables and the properties of its operations\<close>

text \<open>
  The step relation of the ledger (one rule per operation that commits), the invariant and the growth
  relation along every run, and the properties of the single operations: closed jobs, replays,
  cancellation, wake locks, wake snapshots and reconciliation.
\<close>

subsection \<open>The operations keep the contract\<close>

lemma open_rows_found:
  "ledger_ok db \<Longrightarrow> (\<forall>j \<in> set (open_rows db). find_job db (job_id j) = Some j) \<and> distinct (map job_id (open_rows db))"
  by (auto simp: open_rows_def ledger_ok_def find_job_in distinct_map intro: inj_on_subset)

lemma cancel_job_Inr:
  assumes "cancel_job wid now receipt i ex reason db = Inr (r, db')"
  obtains j where "the_job db i = Inr j" "cancel_requested db i" "db' = db" "cr_already r"
      "cr_state r = job_state j"
  | j why m k where "the_job db i = Inr j" "\<not> cancel_requested db i" "\<not> CLOSED_STATES (job_state j)"
      "job_revision j = ex" "append_locked wid now j (cancel_event (job_owner j) why receipt) None
        (put_job i bump_epoch db) = Inr (m, db')" "the_job db' i = Inr k" "r = cancel_answer False (Some receipt) k"
proof -
  from assms obtain j why where j: "the_job db i = Inr j" and
    rest: "(if cancel_requested db i
     then Inr (cancel_answer True
            (case control_row db i of Some r \<Rightarrow> ev_receipt (ob_event r) | None \<Rightarrow> None) j, db)
     else
       and_then (expected_revision j (Some ex)) (\<lambda>_.
       require (\<not> CLOSED_STATES (job_state j)) (coded Job_Closed ''jobId'') (
       and_then (append_locked wid now j (cancel_event (job_owner j) why receipt) None
           (put_job i bump_epoch db)) (\<lambda>(_, db').
       and_then (the_job db' i) (\<lambda>j'.
       Inr (cancel_answer False (Some receipt) j', db')))))) = Inr (r, db')"
    unfolding cancel_job_def and_then_Inr require_Inr by blast
  show thesis
  proof (cases "cancel_requested db i")
    case True
    with j rest show ?thesis by (intro that(1) [of j]) (auto simp: cancel_answer_def)
  next
    case False
    with j rest show ?thesis
      by (auto simp: expected_revision_def intro: that(2) [OF j])
  qed
qed

lemma bump_epoch_same [simp]:
  "job_id (bump_epoch j) = job_id j" "job_state (bump_epoch j) = job_state j" "job_refs (bump_epoch j) = job_refs j"
  "job_epoch (bump_epoch j) = job_epoch j + 1" "job_owner (bump_epoch j) = job_owner j"
  "job_revision (bump_epoch j) = job_revision j" "job_closed (bump_epoch j) = job_closed j"
  "job_ok (bump_epoch j) = job_ok j" "job_evolves j (bump_epoch j)"
  by (simp_all add: bump_epoch_def job_ok_def job_evolves_def)

lemma cancel_job_keeps:
  assumes ok: "ledger_ok db" and c: "cancel_job wid now receipt i ex reason db = Inr (r, db')"
  shows "ledger_ok db' \<and> grows db db'"
proof (rule cancel_job_Inr [OF c])
  assume "db' = db" then show ?thesis using ok by simp
next
  fix j why m
  assume j: "the_job db i = Inr j"
    and a: "append_locked wid now j (cancel_event (job_owner j) why receipt) None
        (put_job i bump_epoch db) = Inr (m, db')"
  from j have f: "find_job db i = Some j" by (simp add: the_job_Inr)
  then have id: "job_id j = i" and jok: "job_ok j"
    using find_job_Some ok by (auto simp: ledger_ok_def list_all_iff)
  have one: "ledger_ok (put_job i bump_epoch db) \<and> grows db (put_job i bump_epoch db)"
    by (rule put_job_keeps [OF ok f]) (simp_all add: jok)
  have "find_job (put_job i bump_epoch db) (job_id j) = Some (bump_epoch j)"
    using f id by (simp add: find_put_job)
  from append_locked_keeps [OF conjunct1 [OF one] this _ _ a] one show ?thesis
    by (auto intro: grows_trans)
qed

lemma the_job_found: "the_job db i = Inr j \<Longrightarrow> find_job db (job_id j) = Some j \<and> job_id j = i"
  by (auto simp: the_job_Inr dest: find_job_Some)

interpretation start_op: ledger_operation "start_job digest i now own rq cap inv_id h"
  for digest i now own rq cap inv_id h
  by unfold_locales (rule start_job_keeps)

interpretation append_op: ledger_operation "append_event wid now i v ex" for wid now i v ex
  by unfold_locales (auto simp: append_event_def dest: the_job_found append_locked_keeps)

interpretation cancel_op: ledger_operation "cancel_job wid now receipt i ex reason"
  for wid now receipt i ex reason
  by unfold_locales (rule cancel_job_keeps)

interpretation reconcile_op: ledger_operation "reconcile restart children confirm wid now"
  for restart children confirm wid now
  unfolding reconcile_def
  by unfold_locales (use open_rows_found reconcile_rows_keeps in blast)

lemma cursor_value_nonneg: "cursor_value v f = Inr n \<Longrightarrow> 0 \<le> n"
  by (auto simp: cursor_value_def split: if_splits option.splits)

lemma subscribe_Inr:
  "subscribe i c p a db = Inr (s, db') \<Longrightarrow>
     \<exists>n. 0 \<le> n \<and> db' = advance_cursor c i n db \<and> sb_cursor s = (case cursor_of db' c i of Some m \<Rightarrow> m | None \<Rightarrow> 0)"
  unfolding subscribe_def Let_def and_then_Inr using cursor_value_nonneg by fastforce

interpretation subscribe_op: ledger_operation "subscribe i c p a" for i c p a
  by unfold_locales (auto dest!: subscribe_Inr intro: advance_cursor_keeps [THEN conjunct1] advance_cursor_keeps [THEN conjunct2])

interpretation acquire_op: ledger_operation "acquire_wake now own c" for now own c
  by unfold_locales
    (auto simp: acquire_wake_def ledger_ok_def grows_def jobs_evolve_def find_job_def outbox_extends_def
      cursors_advance_def receipts_kept_def Let_def split: option.splits if_splits)

interpretation release_op: ledger_operation "release_wake own c" for own c
  by unfold_locales
    (auto simp: release_wake_def ledger_ok_def grows_def jobs_evolve_def find_job_def outbox_extends_def
      cursors_advance_def receipts_kept_def split: option.splits if_splits)

lemma wait_jobs_Inr:
  assumes "wait_jobs children now job_ids mode after_seq who db = Inr (a, db')"
  obtains after js where "cursor_value after_seq ''afterSeq'' = Inr after" "0 \<le> after"
    "map_outcome (the_job db) (distinct_first job_ids) = Inr js"
    "a = wait_result children mode after js
       (observed_rows db (map_option wt_consumer who) after (distinct_first job_ids))"
    "db' = wait_commit now (observed_rows db (map_option wt_consumer who) after (distinct_first job_ids)) db"
    "\<And>w. who = Some w \<Longrightarrow> holds_lock now db (wt_owner w) (lock_name w)"
  using assms
  by (auto simp: wait_jobs_def Let_def cursor_value_def split: option.splits if_splits)

interpretation wait_op: ledger_operation "wait_jobs children now ids mode a who"
  for children now ids mode a who
proof unfold_locales
  fix db x db'
  assume ok: "ledger_ok db" and w: "wait_jobs children now ids mode a who db = Inr (x, db')"
  have "0 \<le> ob_seq r" if "r \<in> set (outbox db)" for r
    using ok that by (auto simp: ledger_ok_def list_all_iff row_ok_def)
  with w ok show "ledger_ok db' \<and> grows db db'"
    by (elim wait_jobs_Inr) (auto simp: observed_rows_set intro!: wait_commit_keeps)
qed

subsection \<open>Runs\<close>

text \<open>One committed operation, of any caller at any time.\<close>

inductive ledger_step :: "ledger \<Rightarrow> ledger \<Rightarrow> bool" where
  step_start: "start_job digest i now own rq cap inv_id h db = Inr (j, db') \<Longrightarrow> ledger_step db db'"
| step_append: "append_event wid now i v ex db = Inr (n, db') \<Longrightarrow> ledger_step db db'"
| step_cancel: "cancel_job wid now receipt i ex reason db = Inr (r, db') \<Longrightarrow> ledger_step db db'"
| step_reconcile: "reconcile restart children confirm wid now db = Inr (t, db') \<Longrightarrow> ledger_step db db'"
| step_subscribe: "subscribe i c p a db = Inr (s, db') \<Longrightarrow> ledger_step db db'"
| step_acquire: "acquire_wake now own c db = Inr (l, db') \<Longrightarrow> ledger_step db db'"
| step_release: "release_wake own c db = Inr (b, db') \<Longrightarrow> ledger_step db db'"
| step_wait: "wait_jobs children now ids mode a who db = Inr (w, db') \<Longrightarrow> ledger_step db db'"

inductive_cases ledger_stepE: "ledger_step db db'"

abbreviation ledger_run :: "ledger \<Rightarrow> ledger \<Rightarrow> bool" where
  "ledger_run \<equiv> rtranclp ledger_step"

lemma ledger_step_keeps: "ledger_step db db' \<Longrightarrow> ledger_ok db \<Longrightarrow> ledger_ok db' \<and> grows db db'"
  by (erule ledger_stepE)
    (erule (1) start_op.keeps append_op.keeps cancel_op.keeps reconcile_op.keeps subscribe_op.keeps
      acquire_op.keeps release_op.keeps wait_op.keeps)+

lemma ledger_run_keeps: "ledger_run db db' \<Longrightarrow> ledger_ok db \<Longrightarrow> ledger_ok db' \<and> grows db db'"
proof (induction rule: rtranclp_induct)
  case (step b c)
  then show ?case using ledger_step_keeps grows_trans by blast
qed simp

lemmas reachable_ok = ledger_run_keeps [OF _ ledger_ok_empty, THEN conjunct1]

end
