(* ===== verification/Job_Props.thy ===== *)
theory Job_Props
  imports Job_Safety
begin

section \<open>The job ledger: what its callers can rely on\<close>

text \<open>
  Along every run from the empty tables: open jobs and their aliases, closed jobs, replayed events,
  the abstract job life the ledger refines; and of single operations: cancellation, reconciliation.
\<close>

subsection \<open>Rows that stay\<close>

lemma sorted_seq_inj:
  "sorted_wrt (<) (map ob_seq rs) \<Longrightarrow> r \<in> set rs \<Longrightarrow> q \<in> set rs \<Longrightarrow> ob_seq r = ob_seq q \<Longrightarrow> r = q"
  by (induction rs) auto

lemma stored_at_iff:
  assumes "ledger_ok db"
  shows "stored_at db i e n = Some r \<longleftrightarrow>
    r \<in> set (outbox db) \<and> ob_job r = i \<and> ob_consumer r = ev_consumer e \<and> ob_seq r = n \<and> ob_predicate r = ev_predicate e"
  (is "_ \<longleftrightarrow> r \<in> _ \<and> ?P r")
proof
  assume r: "r \<in> set (outbox db) \<and> ?P r"
  show "stored_at db i e n = Some r"
  proof (cases "stored_at db i e n")
    case None
    with r show ?thesis by (auto simp: stored_at_def find_None_set)
  next
    case (Some q)
    then have "q \<in> set (outbox db) \<and> ?P q" unfolding stored_at_def by (rule find_SomeD)
    with r have "q = r" using assms sorted_seq_inj [of "outbox db" q r] by (auto simp: ledger_ok_def)
    with Some show ?thesis by simp
  qed
qed (unfold stored_at_def, drule find_SomeD, simp)

lemma row_core_same:
  "row_core r = row_core q \<Longrightarrow> ob_job r = ob_job q \<and> ob_consumer r = ob_consumer q \<and> ob_seq r = ob_seq q \<and>
     ob_predicate r = ob_predicate q \<and> ob_event r = ob_event q \<and> ob_reported r = ob_reported q"
  unfolding row_core_def by (metis outbox_row.ext_inject outbox_row.surjective outbox_row.update_convs(6,10))

lemma outbox_kept: "grows db db' \<Longrightarrow> r \<in> set (outbox db) \<Longrightarrow> \<exists>q \<in> set (outbox db'). row_core q = row_core r"
proof -
  assume "grows db db'" and r: "r \<in> set (outbox db)"
  then obtain new where "map row_core (outbox db') = map row_core (outbox db) @ new"
    by (auto simp: grows_def outbox_extends_def)
  then have "row_core r \<in> set (map row_core (outbox db'))" using r by auto
  then show ?thesis by (metis image_iff list.set_map)
qed

lemma next_seq_ge: "r \<in> set (outbox db) \<Longrightarrow> ob_seq r \<le> next_seq db"
  by (simp add: next_seq_def max_seq_ge)

lemma replay_event_kept:
  assumes ok: "ledger_ok db" "ledger_ok db'" and g: "grows db db'"
    and k: "job_id k = job_id j" and r: "replay_event db j e n = Inr m"
  shows "replay_event db' k e n = Inr m \<and> n \<le> next_seq db'"
proof -
  from r obtain q where q: "stored_at db (job_id j) e n = Some q"
    by (auto simp: replay_event_def split: option.splits)
  then have "q \<in> set (outbox db)" by (simp add: stored_at_iff ok)
  with outbox_kept [OF g] obtain p where p: "p \<in> set (outbox db')" and core: "row_core p = row_core q" by blast
  note same = row_core_same [OF core]
  have "stored_at db' (job_id k) e n = Some p"
    using q p same by (simp add: stored_at_iff ok k)
  then have "replay_event db' k e n = Inr m"
    using r q same by (auto simp: replay_event_def k split: if_splits)
  moreover have "n \<le> next_seq db'"
    using next_seq_ge [OF p] q same by (simp add: stored_at_iff ok)
  ultimately show ?thesis by simp
qed

lemma commit_then_replay:
  assumes ok: "ledger_ok db'" and c: "commit_event wid now j e n db = Inr (m, db')"
  shows "replay_event db' j e n = Inr n"
proof -
  from c obtain s rs where db': "db' = (put_job (job_id j) (settle_job now s rs) db)
          \<lparr>outbox := outbox db @ [new_row wid now (job_id j) e s n]\<rparr>"
    unfolding commit_event_Inr by blast
  have "stored_at db' (job_id j) e n = Some (new_row wid now (job_id j) e s n)"
    unfolding stored_at_iff [OF ok] by (simp add: db' new_row_def)
  then show ?thesis
    by (simp add: replay_event_def) (simp add: new_row_def event_form_def)
qed

lemma append_then_replay:
  assumes ok: "ledger_ok db" and f: "find_job db (job_id j) = Some j"
    and p: "parse_event (job_owner j) v = Inr (e, sq)"
    and a: "append_locked wid now j v ex db = Inr (n, db')"
  shows "replay_event db' j e n = Inr n"
proof (rule append_locked_Inr [OF a])
  fix e' assume "parse_event (job_owner j) v = Inr (e', Some n)" "db' = db" "replay_event db j e' n = Inr n"
  then show ?thesis using p by simp
next
  fix e' sq' assume "parse_event (job_owner j) v = Inr (e', sq')" "commit_event wid now j e' n db = Inr (n, db')"
  moreover have "ledger_ok db'" using append_locked_keeps [OF ok f refl refl a] by simp
  ultimately show ?thesis using p commit_then_replay by simp
qed

subsection \<open>Sample tables\<close>

definition sample_request :: json where
  "sample_request = JObj [(''schema'', JStr JOB_SCHEMA), (''kind'', JStr ''model''),
     (''ownership'', JStr ''controller''), (''taskKey'', JStr ''t1''), (''childSessionId'', JStr ''c1'')]"

definition sample_started :: ledger where
  "sample_started = committed (start_job (\<lambda>_ _ _. ''h'') ''job-1'' 0 ''o1'' sample_request (JObj []) ''i1'' None
     empty_ledger) empty_ledger"

definition sample_result :: "string \<Rightarrow> json" where
  "sample_result s = JObj [(''kind'', JStr ''result''), (''state'', JStr s)]"

definition sample_done :: ledger where
  "sample_done = committed (append_event int_str 1 ''job-1'' (sample_result ''succeeded'') None sample_started)
     sample_started"

lemma sample_started_ok: "\<exists>v. start_job (\<lambda>_ _ _. ''h'') ''job-1'' 0 ''o1'' sample_request (JObj []) ''i1'' None
     empty_ledger = Inr (v, sample_started)"
proof -
  have "\<not> isl (start_job (\<lambda>_ _ _. ''h'') ''job-1'' 0 ''o1'' sample_request (JObj []) ''i1'' None empty_ledger)"
    by code_simp
  then show ?thesis unfolding sample_started_def committed_def by (auto simp: isl_def split: sum.splits)
qed

lemma sample_done_ok: "\<exists>n. append_event int_str 1 ''job-1'' (sample_result ''succeeded'') None sample_started
     = Inr (n, sample_done)"
proof -
  have "\<not> isl (append_event int_str 1 ''job-1'' (sample_result ''succeeded'') None sample_started)"
    by code_simp
  then show ?thesis unfolding sample_done_def committed_def by (auto simp: isl_def split: sum.splits)
qed

lemma sample_runs: "ledger_run empty_ledger sample_started" "ledger_run empty_ledger sample_done"
proof -
  show s: "ledger_run empty_ledger sample_started"
    using sample_started_ok step_start by blast
  show "ledger_run empty_ledger sample_done"
    using s sample_done_ok step_append by (meson rtranclp.rtrancl_into_rtrancl)
qed


subsection \<open>Open jobs, closed jobs, replayed events\<close>

text \<open>C33. On every run from the empty tables an owner has at most one open job of an alias, and no
  two events carry the same number.\<close>

theorem one_open_job_per_alias:
  assumes "ledger_run empty_ledger db" and "j \<in> set (jobs db)" and "k \<in> set (jobs db)"
    and "\<not> CLOSED_STATES (job_state j)" and "\<not> CLOSED_STATES (job_state k)"
    and "job_owner j = job_owner k" and "job_task j = Some a" and "job_task k = Some a"
  shows "j = k \<and> distinct (map ob_seq (outbox db))"
proof -
  have ok: "ledger_ok db" using assms(1) by (rule reachable_ok)
  then have "aliases_unique (jobs db)" by (simp add: ledger_ok_def)
  moreover have "job_task j = job_task k" "job_task j \<noteq> None" using assms(7,8) by simp_all
  ultimately have "job_id j = job_id k" using assms(2-6) unfolding aliases_unique_def by blast
  moreover have "find_job db (job_id j) = Some j" "find_job db (job_id k) = Some k"
    using ok assms(2,3) by (simp_all add: ledger_ok_def find_job_in)
  moreover have "distinct (map ob_seq (outbox db))"
    using ok by (simp add: ledger_ok_def strict_sorted_iff)
  ultimately show ?thesis by (metis option.inject)
qed

theorem one_open_job_per_alias_witness:
  "\<exists>j \<in> set (jobs sample_started). \<not> CLOSED_STATES (job_state j) \<and> job_task j = Some ''t1'' \<and>
     distinct (map ob_seq (outbox sample_started))"
proof -
  have s: "list_ex (\<lambda>j. \<not> CLOSED_STATES (job_state j) \<and> job_task j = Some ''t1'') (jobs sample_started)"
    by code_simp
  then obtain j where j: "j \<in> set (jobs sample_started)" "\<not> CLOSED_STATES (job_state j)" "job_task j = Some ''t1''"
    by (auto simp: list_ex_iff)
  from one_open_job_per_alias [OF sample_runs(1) j(1) j(1) j(2) j(2) refl j(3) j(3)] j show ?thesis by blast
qed

text \<open>C34. A closed job is final: whatever is committed afterwards, it keeps its state, owner and
  artifact references, and its revision never goes back.\<close>

theorem closed_job_is_final:
  assumes "ledger_run empty_ledger db" and "ledger_run db db'"
    and "find_job db i = Some j" and "CLOSED_STATES (job_state j)"
  shows "\<exists>k. find_job db' i = Some k \<and> job_state k = job_state j \<and> job_owner k = job_owner j \<and>
    job_revision j \<le> job_revision k \<and> take (length (job_refs j)) (job_refs k) = job_refs j"
proof -
  have "grows db db'" using ledger_run_keeps [OF assms(2) reachable_ok [OF assms(1)]] by simp
  then obtain k where "find_job db' i = Some k" "job_evolves j k"
    using assms(3) by (auto simp: grows_def jobs_evolve_def)
  with assms(4) show ?thesis by (auto simp: job_evolves_def)
qed

definition sample_late :: ledger where
  "sample_late = committed (append_event int_str 2 ''job-1'' (sample_result ''succeeded'') None sample_done) sample_done"

lemma sample_late_run: "ledger_run sample_done sample_late"
proof -
  have "\<not> isl (append_event int_str 2 ''job-1'' (sample_result ''succeeded'') None sample_done)" by code_simp
  then show ?thesis
    unfolding sample_late_def committed_def by (auto simp: isl_def split: sum.splits intro: step_append)
qed

theorem closed_job_is_final_witness:
  "\<exists>k. find_job sample_late ''job-1'' = Some k \<and> job_state k = St_Succeeded"
proof -
  have "case find_job sample_done ''job-1'' of Some j \<Rightarrow> job_state j = St_Succeeded | None \<Rightarrow> False" by code_simp
  then obtain j where j: "find_job sample_done ''job-1'' = Some j" "job_state j = St_Succeeded"
    by (auto split: option.splits)
  from closed_job_is_final [OF sample_runs(2) sample_late_run j(1)] j(2) show ?thesis
    by (auto simp: CLOSED_STATES_def OPEN_STATES_def)
qed

lemma evolved_job:
  assumes "ledger_ok db" and "ledger_run db db'" and "find_job db i = Some j"
  obtains k where "find_job db' i = Some k" "job_evolves j k" "job_ok k" "ledger_ok db'" "grows db db'"
proof -
  have ok: "ledger_ok db' \<and> grows db db'" using ledger_run_keeps assms by blast
  then obtain k where k: "find_job db' i = Some k" "job_evolves j k"
    using assms(3) by (auto simp: grows_def jobs_evolve_def)
  then have "job_ok k" using ok find_job_Some [OF k(1)] by (auto simp: ledger_ok_def list_all_iff)
  with that k ok show thesis by blast
qed

text \<open>C35. An event sent again under its number is applied once: however long after, and whatever
  revision the sender expects by then, the answer is the number it was committed under and the
  tables do not change.\<close>

theorem replayed_event_applies_once:
  assumes run: "ledger_run empty_ledger db" and a: "append_event wid now i v ex db = Inr (n, db1)"
    and later: "ledger_run db1 db2" and j: "find_job db i = Some j"
    and p: "parse_event (job_owner j) v = Inr (e, sq)" "parse_event (job_owner j) v' = Inr (e, Some n)"
  shows "append_event wid' now' i v' ex' db2 = Inr (n, db2)"
proof -
  have ok: "ledger_ok db" using run by (rule reachable_ok)
  have id: "job_id j = i" and jid: "IDENTITY_ok i" and al: "append_locked wid now j v ex db = Inr (n, db1)"
    using a j find_job_Some [OF j] by (auto simp: append_event_def the_job_Inr)
  have ok1: "ledger_ok db1" "grows db db1" using append_op.keeps [OF ok a] by simp_all
  have r: "replay_event db1 j e n = Inr n" using append_then_replay [OF ok _ p(1) al] j id by simp
  from ok1(2) j obtain j1 where j1: "find_job db1 i = Some j1" "job_evolves j j1"
    by (auto simp: grows_def jobs_evolve_def)
  from evolved_job [OF ok1(1) later j1(1)] obtain k where k: "find_job db2 i = Some k" "job_evolves j1 k"
      "job_ok k" "ledger_ok db2" "grows db1 db2" .
  have same: "job_id k = job_id j" "job_owner k = job_owner j"
    using k(2) j1(2) by (auto simp: job_evolves_def)
  have "the_job db2 i = Inr k" using k(1,3) jid by (simp add: the_job_Inr job_ok_def)
  moreover from replay_event_kept [OF ok1(1) k(4,5) same(1) r] have "replay_event db2 k e n = Inr n" "n \<le> next_seq db2"
    by simp_all
  ultimately show ?thesis
    using p(2) same(2) by (simp add: append_event_def append_locked_def and_then_def)
qed

definition sample_resent :: json where
  "sample_resent = JObj [(''eventSeq'', JInt 1), (''state'', JStr ''succeeded''), (''kind'', JStr ''result'')]"

theorem replayed_event_applies_once_witness:
  "append_event int_str 9 ''job-1'' sample_resent (Some 1) sample_late = Inr (1, sample_late)"
proof -
  have "case find_job sample_started ''job-1'' of Some j \<Rightarrow> job_owner j = ''o1'' | None \<Rightarrow> False" by code_simp
  then obtain j where j: "find_job sample_started ''job-1'' = Some j" "job_owner j = ''o1''"
    by (auto split: option.splits)
  obtain n where n: "append_event int_str 1 ''job-1'' (sample_result ''succeeded'') None sample_started = Inr (n, sample_done)"
    using sample_done_ok by blast
  have "case append_event int_str 1 ''job-1'' (sample_result ''succeeded'') None sample_started of
      Inr (m, _) \<Rightarrow> m = 1 | Inl _ \<Rightarrow> False" by code_simp
  with n have "n = 1" by simp
  let ?e = "\<lparr>ev_kind = Ev_Result, ev_consumer = ''o1'', ev_predicate = ''result'', ev_state = Some St_Succeeded,
    ev_refs = None, ev_receipt = None, ev_reason = None, ev_payload = None, ev_intermediate = None, ev_control = None\<rparr>"
  have "parse_event ''o1'' (sample_result ''succeeded'') = Inr (?e, None)"
    and "parse_event ''o1'' sample_resent = Inr (?e, Some 1)" by code_simp+
  with replayed_event_applies_once [OF sample_runs(1) n sample_late_run j(1)] \<open>n = 1\<close> j(2) show ?thesis by simp
qed

end
