(* ===== verification/Job_Control.thy ===== *)
theory Job_Control
  imports Job_Props
begin

section \<open>The job ledger: cancellation, reconciliation and the abstract job life\<close>

text \<open>
  A cancel request is a receipt and never an outcome; reconciling after a restart closes every open job
  whose executor is not confirmed and creates none. The state column alone is an abstract machine
  (\<open>life_step\<close>: born queued, changed while open, final once closed) that every operation refines.
\<close>

subsection \<open>Control rows\<close>



lemma latest_row_snoc:
  assumes "\<forall>q \<in> set rs. ob_seq q < ob_seq r"
  shows "latest_row (rs @ [r]) = Some r"
proof -
  have "max_seq (rs @ [r]) = ob_seq r"
    using max_seq_in [of "rs @ [r]"] max_seq_ge [of r "rs @ [r]"] assms by force
  moreover have "List.find (\<lambda>q. ob_seq q = ob_seq r) (qs @ [r]) = Some r"
    if "\<forall>q \<in> set qs. ob_seq q < ob_seq r" for qs
    using that by (induction qs) auto
  ultimately show ?thesis using assms by (simp add: latest_row_def)
qed



lemma parse_cancel_event:
  "parse_event own (cancel_event own' why rc) = Inr (e, sq) \<Longrightarrow>
     ev_state e = None \<and> sq = None \<and> ev_control e = Some ''cancel_requested'' \<and> ev_predicate e = ''control'' \<and>
     ev_refs e = None"
  unfolding parse_event_def cancel_event_def and_then_Inr object_fields_def
  by (auto simp: dict_get_or_def optional_field_def field_choice_def EVENT_KINDS_def check_identifier_def
      split: if_splits option.splits)

subsection \<open>Cancellation\<close>

text \<open>A cancel request is recorded and changes nothing else of the job: the job stays in its open
  state, the answer reports that state, its capability epoch is one higher, and the request is in force.\<close>

theorem cancel_never_claims_a_stop:
  assumes run: "ledger_run empty_ledger db" and j: "find_job db i = Some j"
    and c: "cancel_job wid now receipt i ex reason db = Inr (r, db')" and fresh: "\<not> cancel_requested db i"
  shows "\<exists>k. find_job db' i = Some k \<and> job_state k = job_state j \<and> \<not> CLOSED_STATES (job_state j) \<and>
    cr_state r = job_state j \<and> job_epoch k = job_epoch j + 1 \<and> job_revision k = ex + 1 \<and> cancel_requested db' i"
proof (rule cancel_job_Inr [OF c])
  assume "cancel_requested db i" then show ?thesis using fresh by simp
next
  fix j' why m k
  assume j': "the_job db i = Inr j'" and op: "\<not> CLOSED_STATES (job_state j')" and ex: "job_revision j' = ex"
    and a: "append_locked wid now j' (cancel_event (job_owner j') why receipt) None (put_job i bump_epoch db) = Inr (m, db')"
    and k: "the_job db' i = Inr k" and r: "r = cancel_answer False (Some receipt) k"
  have ok: "ledger_ok db" using run by (rule reachable_ok)
  have jj: "j' = j" and id: "job_id j = i" using j' j find_job_Some [OF j] by (auto simp: the_job_Inr)
  let ?d = "put_job i bump_epoch db"
  have fd: "find_job ?d i = Some (bump_epoch j)" using j id by (simp add: find_put_job)
  from a obtain e where p: "parse_event (job_owner j) (cancel_event (job_owner j) why receipt) = Inr (e, None)"
      and n: "next_seq ?d < m" and ce: "commit_event wid now j e m ?d = Inr (m, db')"
    unfolding jj by (rule append_locked_Inr) (auto dest: parse_cancel_event)
  note e = parse_cancel_event [OF p]
  from ce e have db': "db' = (put_job i (settle_job now None (job_refs j)) ?d)
      \<lparr>outbox := outbox db @ [new_row wid now i e None m]\<rparr>"
    by (auto simp: commit_event_Inr settled_state_def refs_after_def id)
  have kk: "k = settle_job now None (job_refs j) (bump_epoch j)"
    using k fd id by (simp add: the_job_Inr db' find_put_job)
  have "cancel_requested db' i"
  proof -
    let ?P = "\<lambda>r. ob_job r = i \<and> ob_predicate r = ''control''"
    have "\<forall>q \<in> set (filter ?P (outbox db)). ob_seq q < ob_seq (new_row wid now i e None m)"
      using n by (auto simp: new_row_def next_seq_def dest: max_seq_ge)
    from latest_row_snoc [OF this] e show ?thesis
      by (simp add: cancel_requested_def control_row_def db') (simp add: new_row_def)
  qed
  with k kk op ex jj r show ?thesis by (simp add: the_job_Inr cancel_answer_def)
qed

definition sample_cancelled :: ledger where
  "sample_cancelled = committed (cancel_job int_str 1 ''r1'' ''job-1'' 1 (JStr ''stop'') sample_started) sample_started"

lemma sample_cancelled_ok:
  "\<exists>r. cancel_job int_str 1 ''r1'' ''job-1'' 1 (JStr ''stop'') sample_started = Inr (r, sample_cancelled)"
proof -
  have "\<not> isl (cancel_job int_str 1 ''r1'' ''job-1'' 1 (JStr ''stop'') sample_started)" by code_simp
  then show ?thesis unfolding sample_cancelled_def committed_def by (auto simp: isl_def split: sum.splits)
qed

lemma sample_cancelled_run: "ledger_run empty_ledger sample_cancelled"
  using sample_runs(1) sample_cancelled_ok step_cancel by (meson rtranclp.rtrancl_into_rtrancl)

theorem cancel_never_claims_a_stop_witness:
  "\<exists>k. find_job sample_cancelled ''job-1'' = Some k \<and> job_state k = St_Queued \<and>
     cancel_requested sample_cancelled ''job-1''"
proof -
  have "case find_job sample_started ''job-1'' of Some j \<Rightarrow> job_state j = St_Queued | None \<Rightarrow> False"
    and f: "\<not> cancel_requested sample_started ''job-1''" by code_simp+
  then obtain j where j: "find_job sample_started ''job-1'' = Some j" "job_state j = St_Queued"
    by (auto split: option.splits)
  obtain r where "cancel_job int_str 1 ''r1'' ''job-1'' 1 (JStr ''stop'') sample_started = Inr (r, sample_cancelled)"
    using sample_cancelled_ok by blast
  from cancel_never_claims_a_stop [OF sample_runs(1) j(1) this f] j(2) show ?thesis by auto
qed

text \<open>C36. While a cancel request is in force, whatever outcome the producer reports late, the job
  closes as cancelled or stays open: it never closes as succeeded. What the producer reported is kept
  in the event.\<close>

theorem late_completion_closes_cancelled:
  assumes run: "ledger_run empty_ledger db" and j: "find_job db i = Some j" "\<not> CLOSED_STATES (job_state j)"
    and c: "cancel_requested db i" and a: "append_event wid now i v ex db = Inr (n, db')" and new: "next_seq db < n"
    and p: "parse_event (job_owner j) v = Inr (e, sq)" "ev_state e = Some s" "CLOSED_STATES s"
  shows "(\<exists>k. find_job db' i = Some k \<and> job_state k = St_Cancelled) \<and>
    (\<exists>r \<in> set (outbox db'). ob_seq r = n \<and> ev_state (ob_event r) = Some St_Cancelled \<and>
       (s = St_Cancelled \<or> ob_reported r = Some s))"
proof -
  have id: "job_id j = i" using find_job_Some [OF j(1)] by simp
  have "append_locked wid now j v ex db = Inr (n, db')" using a j(1) by (simp add: append_event_def the_job_Inr)
  then obtain rs where db': "db' = (put_job i (settle_job now (Some St_Cancelled) rs) db)
          \<lparr>outbox := outbox db @ [new_row wid now i e (Some St_Cancelled) n]\<rparr>"
    using new p c j(2) id by (elim append_locked_Inr) (auto simp: commit_event_Inr settled_state_def)
  then have "find_job db' i = Some (settle_job now (Some St_Cancelled) rs j)"
    using j(1) id by (simp add: find_put_job)
  moreover have "new_row wid now i e (Some St_Cancelled) n \<in> set (outbox db')" by (simp add: db')
  moreover have "ob_reported (new_row wid now i e (Some St_Cancelled) n) = (if s = St_Cancelled then None else Some s)"
    using p(2) by (simp add: new_row_def)
  ultimately show ?thesis
    by (intro conjI bexI [of _ "new_row wid now i e (Some St_Cancelled) n"]) (auto simp: new_row_def p(2))
qed

theorem late_completion_closes_cancelled_witness:
  "\<exists>db' k. append_event int_str 2 ''job-1'' (sample_result ''succeeded'') None sample_cancelled = Inr (2, db') \<and>
     find_job db' ''job-1'' = Some k \<and> job_state k = St_Cancelled"
proof -
  have c: "case find_job sample_cancelled ''job-1'' of
      Some j \<Rightarrow> job_owner j = ''o1'' \<and> \<not> CLOSED_STATES (job_state j) | None \<Rightarrow> False"
    and r: "cancel_requested sample_cancelled ''job-1''" and q: "next_seq sample_cancelled < 2"
    and a: "case append_event int_str 2 ''job-1'' (sample_result ''succeeded'') None sample_cancelled of
      Inr (m, _) \<Rightarrow> m = 2 | Inl _ \<Rightarrow> False"
    by code_simp+
  from c obtain j where j: "find_job sample_cancelled ''job-1'' = Some j" "job_owner j = ''o1''"
      "\<not> CLOSED_STATES (job_state j)" by (auto split: option.splits)
  from a obtain db' where db': "append_event int_str 2 ''job-1'' (sample_result ''succeeded'') None sample_cancelled
      = Inr (2, db')" by (auto split: sum.splits)
  have "case parse_event ''o1'' (sample_result ''succeeded'') of
      Inr (e, _) \<Rightarrow> ev_state e = Some St_Succeeded | Inl _ \<Rightarrow> False" by code_simp
  then obtain e sq where e: "parse_event (job_owner j) (sample_result ''succeeded'') = Inr (e, sq)"
      "ev_state e = Some St_Succeeded" using j(2) by (auto split: sum.splits)
  have "CLOSED_STATES St_Succeeded" by code_simp
  from late_completion_closes_cancelled [OF sample_cancelled_run j(1,3) r db' q e this] db' show ?thesis by blast
qed


text \<open>The request is the payload of the latest row with predicate \<open>control\<close>, and a producer chooses the
  predicate of its events: a progress note filed under \<open>control\<close> hides the request, and the late
  completion then closes the job as succeeded.\<close>

definition sample_hidden :: ledger where
  "sample_hidden = committed (append_event int_str 2 ''job-1''
     (JObj [(''kind'', JStr ''log''), (''predicate'', JStr ''control'')]) None sample_cancelled) sample_cancelled"

theorem control_predicate_hides_cancel:
  "cancel_requested sample_cancelled ''job-1'' \<and> \<not> cancel_requested sample_hidden ''job-1'' \<and>
   map_option job_state (find_job (committed (append_event int_str 3 ''job-1'' (sample_result ''succeeded'') None
     sample_hidden) sample_hidden) ''job-1'') = Some St_Succeeded"
  by code_simp

subsection \<open>Reconciliation\<close>











subsection \<open>The abstract life of a job\<close>

text \<open>What the ledger promises of a job's state, and nothing else of it.\<close>

type_synonym lives = "string \<Rightarrow> job_state option"

inductive life_step :: "lives \<Rightarrow> lives \<Rightarrow> bool" where
  life_born: "f i = None \<Longrightarrow> life_step f (f(i \<mapsto> St_Queued))"
| life_moves: "f i = Some s \<Longrightarrow> \<not> CLOSED_STATES s \<Longrightarrow> life_step f (f(i \<mapsto> s'))"

inductive_simps life_step_iff: "life_step f g"











end
