(* ===== verification/Job_Wake.thy ===== *)
theory Job_Wake
  imports Job_Props "HOL-Library.Multiset"
begin

section \<open>The job ledger: what a waiting consumer is told\<close>

text \<open>
  The wake lock is held by one consumer at a time, a snapshot tells every unread wake event once, one
  per job, consumer and predicate, and a snapshot taken again tells nothing twice.
\<close>

text \<open>C39. While a wake lock is live nobody else gets it, and whoever gets it is the only one that can
  wait with it.\<close>

theorem wake_lock_is_exclusive:
  assumes "acquire_wake now own c db = Inr (a, db')"
  shows "(\<forall>t. holds_lock now db own t \<longrightarrow> t = c) \<and> (\<forall>t. holds_lock now db' own t \<longleftrightarrow> t = c) \<and>
    (\<forall>o'. o' \<noteq> own \<longrightarrow> locks db' o' = locks db o')"
  using assms
  by (auto simp: acquire_wake_def holds_lock_def Let_def WAKE_TTL_SECONDS_def split: option.splits if_splits)

theorem wake_lock_is_exclusive_witness:
  "\<exists>a db'. acquire_wake 0 ''o1'' ''w1'' empty_ledger = Inr (a, db') \<and> holds_lock 0 db' ''o1'' ''w1''"
proof -
  have "\<not> isl (acquire_wake 0 ''o1'' ''w1'' empty_ledger)"
  proof -
    have "IDENTITY_ok ''o1''" "IDENTITY_ok ''w1''" by code_simp+
    then show ?thesis
      by (simp add: acquire_wake_def check_identifier_def and_then_def empty_ledger_def Let_def)
  qed
  from not_isl_pair [OF this] obtain a db' where a: "acquire_wake 0 ''o1'' ''w1'' empty_ledger = Inr (a, db')"
    by (elim exE)
  have "holds_lock 0 db' ''o1'' ''w1''" using wake_lock_is_exclusive [OF a] by simp
  with a show ?thesis by (intro exI conjI)
qed

subsection \<open>Groups\<close>

lemma distinct_first_set [simp]: "set (distinct_first xs) = set xs"
  by (simp add: distinct_first_def)













subsection \<open>Cursors after a snapshot\<close>

lemma cursor_after_advance:
  "cursor_of (advance_cursor c i n db) c' i' =
     (if (c', i') = (c, i) then Some (case cursor_of db c i of Some m \<Rightarrow> max m n | None \<Rightarrow> n) else cursor_of db c' i')"
  by (auto simp: cursor_of_def advance_cursor_def upsert_max_get split: option.split)

lemma advance_all_parts:
  "outbox (advance_all rs db) = outbox db"
  "cursors (advance_all rs db) =
     fold (\<lambda>r. upsert_max (ob_consumer r, ob_job r) (ob_seq r)) rs (cursors db)"
  by (induction rs arbitrary: db) (simp_all add: advance_all_def advance_cursor_def)

lemma advance_all_ge:
  "(\<forall>n. cursor_of db c i = Some n \<longrightarrow> (\<exists>m \<ge> n. cursor_of (advance_all rs db) c i = Some m)) \<and>
   (\<forall>r \<in> set rs. ob_consumer r = c \<and> ob_job r = i \<longrightarrow> (\<exists>m \<ge> ob_seq r. cursor_of (advance_all rs db) c i = Some m))"
proof (induction rs arbitrary: db)
  case (Cons r rs)
  let ?d = "advance_cursor (ob_consumer r) (ob_job r) (ob_seq r) db"
  have adv: "advance_all (r # rs) db = advance_all rs ?d" by (simp add: advance_all_def)
  have keep: "\<exists>m \<ge> n. cursor_of ?d c i = Some m" if "cursor_of db c i = Some n" for n
    using that by (auto simp: cursor_after_advance split: option.split)
  have own: "\<exists>m \<ge> ob_seq r. cursor_of ?d c i = Some m" if "ob_consumer r = c" "ob_job r = i"
    using that by (auto simp: cursor_after_advance split: option.split)
  have up: "\<exists>m \<ge> n. cursor_of (advance_all rs ?d) c i = Some m" if "\<exists>m \<ge> n. cursor_of ?d c i = Some m" for n
    using that Cons.IH [of ?d] by (meson order_trans)
  show ?case unfolding adv using keep own up Cons.IH [of ?d] by (simp, blast)
qed (auto simp: advance_all_def)

text \<open>Whoever waits again on the same jobs, from where it was or later, is told nothing it was
  told before: with no commit in between there is no event at all.\<close>

theorem waiting_again_tells_nothing:
  assumes run: "ledger_run empty_ledger db"
    and first: "wait_jobs children now ids mode a who db = Inr (w, db1)"
    and again: "wait_jobs children' now' ids mode' b who db1 = Inr (w', db2)"
    and later: "cursor_value a ''afterSeq'' = Inr n" "cursor_value b ''afterSeq'' = Inr m" "n \<le> m"
  shows "wa_events w' = []"
proof -
  let ?ids = "distinct_first ids"
  let ?rs = "observed_rows db (map_option wt_consumer who) n ?ids"
  have ok: "ledger_ok db" using run by (rule reachable_ok)
  from first later(1) have db1: "db1 = wait_commit now ?rs db" by (elim wait_jobs_Inr) simp
  have cur: "cursor_of db1 c i = cursor_of (advance_all ?rs db) c i" for c i
    by (simp add: db1 wait_commit_def cursor_of_def advance_all_parts)
  have out: "outbox db1 = map (mark_delivered now (concat (wake_groups ?rs))) (outbox db)"
    by (simp add: db1 wait_commit_def advance_all_parts)
  have "\<not> unread db1 (map_option wt_consumer who) m i (mark_delivered now (concat (wake_groups ?rs)) r)"
    if r: "r \<in> set (outbox db)" and i: "i \<in> set ?ids" for r i
  proof
    assume "unread db1 (map_option wt_consumer who) m i (mark_delivered now (concat (wake_groups ?rs)) r)"
    then have j: "ob_job r = i" and c: "\<And>w. who = Some w \<Longrightarrow> ob_consumer r = wt_consumer w"
      and low: "\<And>x. cursor_of db1 (ob_consumer r) i = Some x \<Longrightarrow> m < ob_seq r \<and> x < ob_seq r"
      by (auto simp: unread_def split: option.splits)
    have pos: "0 < ob_seq r" using ok r by (auto simp: ledger_ok_def list_all_iff row_ok_def)
    show False
    proof (cases "unread db (map_option wt_consumer who) n i r")
      case True
      then have "r \<in> set ?rs" using r i by (auto simp: observed_rows_set)
      then obtain x where "ob_seq r \<le> x" "cursor_of db1 (ob_consumer r) i = Some x"
        using advance_all_ge [of db "ob_consumer r" i ?rs] j cur by auto
      with low show False by fastforce
    next
      case False
      with j c pos obtain x where x: "cursor_of db (ob_consumer r) i = Some x" "\<not> (n < ob_seq r \<and> x < ob_seq r)"
        by (auto simp: unread_def split: option.splits)
      then obtain y where "x \<le> y" "cursor_of db1 (ob_consumer r) i = Some y"
        using advance_all_ge [of db "ob_consumer r" i ?rs] cur by auto
      with low x(2) later(3) show False by fastforce
    qed
  qed
  then have "observed_rows db1 (map_option wt_consumer who) m ?ids = []"
    unfolding set_empty [symmetric] observed_rows_set out by auto
  with again later(2) show ?thesis
    by (elim wait_jobs_Inr) (simp add: wait_result_def wake_groups_def wakes_of_def Let_def distinct_first_def)
qed


subsection \<open>Witnesses and a lost wake\<close>

text \<open>Two snapshots of the sample job, taken by the unscoped library call.\<close>

definition sample_wait :: "json \<Rightarrow> ledger \<Rightarrow> (wait_answer \<times> ledger) job_outcome" where
  "sample_wait a db = wait_jobs (\<lambda>_. None) 5 [''job-1''] Any_Job a None db"

lemma sample_waits: "\<exists>w db' w' db''. sample_wait JNull sample_done = Inr (w, db') \<and> wa_events w \<noteq> [] \<and>
    wa_cursor w = 1 \<and> sample_wait (JInt 1) db' = Inr (w', db'')"
proof -
  have "case sample_wait JNull sample_done of
      Inr (w, db') \<Rightarrow> wa_events w \<noteq> [] \<and> wa_cursor w = 1 \<and> \<not> isl (sample_wait (JInt 1) db')
    | Inl _ \<Rightarrow> False" by code_simp
  then show ?thesis by (auto split: sum.splits dest!: not_isl_pair)
qed


theorem waiting_again_tells_nothing_witness:
  "\<exists>w db' w' db''. sample_wait JNull sample_done = Inr (w, db') \<and> wa_events w \<noteq> [] \<and>
     sample_wait (JInt 1) db' = Inr (w', db'') \<and> wa_events w' = []"
proof -
  obtain w db' w' db'' where w: "sample_wait JNull sample_done = Inr (w, db')" "wa_events w \<noteq> []"
      "sample_wait (JInt 1) db' = Inr (w', db'')" using sample_waits by blast
  have "cursor_value JNull ''afterSeq'' = Inr 0" "cursor_value (JInt 1) ''afterSeq'' = Inr 1" by code_simp+
  from waiting_again_tells_nothing [OF sample_runs(2) w(1,3) [unfolded sample_wait_def] this] w show ?thesis by auto
qed

text \<open>
  The position \<open>after_seq\<close> is meant for rows of a consumer that has read before. Subscribing writes a
  cursor at 0, so an unread result of a job that joins the watch later and was committed below the
  position is skipped, although the same wait without the subscription tells it.
\<close>

theorem subscription_skips_unread_wake:
  "(case wait_jobs (\<lambda>_. None) 5 [''job-1''] Any_Job (JInt 2) None sample_done of
      Inr (w, _) \<Rightarrow> length (wa_events w) = 1 | Inl _ \<Rightarrow> False) \<and>
   (case subscribe ''job-1'' ''o1'' None JNull sample_done of
      Inr (_, db) \<Rightarrow> (case wait_jobs (\<lambda>_. None) 5 [''job-1''] Any_Job (JInt 2) None db of
        Inr (w, _) \<Rightarrow> wa_events w = [] | Inl _ \<Rightarrow> False)
    | Inl _ \<Rightarrow> False)"
  by code_simp

end
