(* ===== verification/Work_Graph.thy ===== *)
theory Work_Graph
  imports Permission_Paths "HOL-Library.List_Lexorder" "HOL-Library.Char_ord"
begin

section \<open>The work graph: nodes, validation, cycles, waves\<close>

text \<open>
  \<open>agent_core/work_graph.py\<close>, its pure helpers: the node a model sends is normalised
  (\<open>normalize_node\<close>), the graph is validated (\<open>graph_issues\<close>) with a depth-first search for a
  dependency cycle (\<open>find_cycle\<close>), and the execution nodes are layered (\<open>execution_waves\<close>). Errors are
  the code and the field they name; the sentences are left out.
\<close>

subsection \<open>Kinds and stages\<close>

datatype node_kind = NK_Explore | NK_Research | NK_Design | NK_Plan | NK_Build | NK_Debug | NK_Testing | NK_Simplify

datatype stage_name = Produce | Execute

datatype stage_status = SG_Pending | SG_Revise | SG_Running | SG_Reviewing | SG_Researching | SG_Needs_Checks
  | SG_Accepted | SG_Rejected | SG_Failed | SG_Needs_User | SG_Integration_Conflict

definition DISCOVERY_KINDS :: "node_kind list" where
  "DISCOVERY_KINDS = [NK_Explore, NK_Research, NK_Design]"

definition EXECUTION_KINDS :: "node_kind list" where
  "EXECUTION_KINDS = [NK_Build, NK_Debug, NK_Testing, NK_Simplify]"

definition NODE_KINDS :: "(string \<times> node_kind) list" where
  "NODE_KINDS = [(''explore'', NK_Explore), (''research'', NK_Research), (''design'', NK_Design),
     (''plan'', NK_Plan), (''build'', NK_Build), (''debug'', NK_Debug), (''testing'', NK_Testing),
     (''simplify'', NK_Simplify)]"

definition MAX_NODES :: nat where "MAX_NODES = 24"

definition IN_FLIGHT_STAGE :: "stage_status list" where
  "IN_FLIGHT_STAGE = [SG_Running, SG_Reviewing, SG_Researching]"

definition stages_for :: "node_kind \<Rightarrow> stage_name list" where
  "stages_for k = (if k \<in> set DISCOVERY_KINDS then [Produce]
     else if k = NK_Plan then [Produce, Execute] else [Execute])"

text \<open>
  The definition of a node is everything but its stages; SHA-256 digests of JSON are modelled by the data
  they are taken of, so two digests agree when the data does.
\<close>

record node_def =
  wn_id :: string
  wn_kind :: node_kind
  wn_title :: string
  wn_goal :: string
  wn_depends :: "string list"
  wn_acceptance :: "string list"
  wn_tests :: "string list"
  wn_files :: "string list"
  wn_policy :: "(string \<times> string) list"

text \<open>
  What a stage holds: a snapshot of the produced artifact with the inputs it was bound to, the check
  policy it is judged under (its hash is the digest of its body), and the conflicts a check found in the
  assignment itself.
\<close>

record policy_body =
  pb_version :: string
  pb_artifact :: string
  pb_consequential :: bool
  pb_required :: "(string \<times> string) list"
  pb_deferred :: "string list"
  pb_integration :: bool
  pb_tests :: "string list"

record check_policy = policy_body +
  pb_hash :: "policy_body option"

datatype bind_value =
    BV_None
  | BV_Definition node_def
  | BV_Dependencies "(string \<times> node_def \<times> string option) list"
  | BV_Owner string "json list"
  | BV_Policy policy_body
  | BV_Text string
  | BV_Data json

record artifact =
  ar_id :: string
  ar_node :: string
  ar_stage :: string
  ar_status :: string
  ar_binding :: "(string \<times> bind_value) list"

record conflict =
  cf_id :: string
  cf_requirement :: string
  cf_evidence :: string

record stage_state =
  sg_status :: stage_status
  sg_attempts :: int
  sg_rounds :: "json list"
  sg_output :: string
  sg_feedback :: string
  sg_feedback_source :: "string option"
  sg_error :: "string option"
  sg_artifact :: "artifact option"
  sg_policy :: "check_policy option"
  sg_conflicts :: "conflict list"
  sg_repairs :: nat
  sg_code_moved :: "string list option"
  sg_request :: "string option"

definition new_stage :: stage_state where
  "new_stage = \<lparr>sg_status = SG_Pending, sg_attempts = 0, sg_rounds = [], sg_output = [], sg_feedback = [],
     sg_feedback_source = None, sg_error = None, sg_artifact = None, sg_policy = None, sg_conflicts = [],
     sg_repairs = 0, sg_code_moved = None, sg_request = None\<rparr>"

record work_node = node_def +
  wn_stages :: "(stage_name \<times> stage_state) list"

definition definition_of :: "work_node \<Rightarrow> node_def" where
  "definition_of n = node_def.truncate n"

definition stage_of :: "work_node \<Rightarrow> stage_name \<Rightarrow> stage_state option" where
  "stage_of n s = map_of (wn_stages n) s"

subsection \<open>Normalising a node\<close>

datatype graph_issue =
    Duplicate_Id string
  | Unknown_Dependency string string
  | Planning_Waits_For_Code string string
  | Dependency_Cycle "string list"

datatype graph_error =
    Node_Invalid string
  | Node_Exists string
  | Node_Unknown string
  | Graph_Too_Large
  | Graph_Invalid "graph_issue list"

definition NODE_ID_ok :: "string \<Rightarrow> bool" where
  "NODE_ID_ok s = (case s of [] \<Rightarrow> False
     | c # cs \<Rightarrow> is_alpha c \<and> length cs \<le> 31 \<and> list_all (\<lambda>x. is_alnum x \<or> x = CHR ''_'' \<or> x = CHR ''-'') cs)"

definition clean_item :: "string \<Rightarrow> nat \<Rightarrow> json \<Rightarrow> (graph_error, string) outcome" where
  "clean_item field item_limit v =
     (case v of
        JStr s \<Rightarrow> if item_limit < length (strip s) then Inl (Node_Invalid field) else Inr (strip s)
      | _ \<Rightarrow> Inl (Node_Invalid field))"

definition clean_list :: "json \<Rightarrow> string \<Rightarrow> nat \<Rightarrow> nat \<Rightarrow> (graph_error, string list) outcome" where
  "clean_list v field limit item_limit =
     (case (case v of JNull \<Rightarrow> Some [] | JStr s \<Rightarrow> Some [JStr s] | JList xs \<Rightarrow> Some xs | _ \<Rightarrow> None) of
        None \<Rightarrow> Inl (Node_Invalid field)
      | Some xs \<Rightarrow>
          require (length xs \<le> limit) (Node_Invalid field)
            (and_then (map_outcome (clean_item field item_limit) xs)
              (\<lambda>ss. Inr (filter (\<lambda>s. s \<noteq> []) ss))))"

text \<open>The vocabularies of \<open>work_policy\<close>.\<close>

definition POLICY_FIELDS :: "(string \<times> string list) list" where
  "POLICY_FIELDS =
     [(''taskKind'', [''lookup'', ''diagnostic'', ''deliverable'', ''implementation'']),
      (''artifactKind'', [''knowledge'', ''diagnostic'', ''research'', ''design'', ''plan'', ''patch'', ''test_report'']),
      (''risk'', [''normal'', ''consequential'']),
      (''depth'', [''brief'', ''standard'', ''full''])]"

text \<open>\<open>str(raw.get(k) or base.get(k) or '').strip()\<close> and \<open>raw.get(k, base.get(k))\<close>.\<close>

definition node_text :: "(string \<times> json) list \<Rightarrow> string \<Rightarrow> string \<Rightarrow> string" where
  "node_text d k b = strip (if truthy (dict_get d k) then py_str (dict_get d k) else b)"

definition base_text :: "(work_node \<Rightarrow> string) \<Rightarrow> work_node option \<Rightarrow> string" where
  "base_text f ex = (case ex of None \<Rightarrow> [] | Some n \<Rightarrow> f n)"

definition kind_name :: "node_kind \<Rightarrow> string" where
  "kind_name k = (case List.find (\<lambda>p. snd p = k) NODE_KINDS of Some p \<Rightarrow> fst p | None \<Rightarrow> [])"

definition kind_kept :: "work_node option \<Rightarrow> node_kind \<Rightarrow> bool" where
  "kind_kept ex k = (case ex of None \<Rightarrow> True | Some n \<Rightarrow> k = wn_kind n)"

definition list_field :: "(string \<times> json) list \<Rightarrow> string \<Rightarrow> string list option \<Rightarrow> json" where
  "list_field d k b = dict_get_or (case b of None \<Rightarrow> JNull | Some ss \<Rightarrow> JList (map JStr ss)) d k"

definition policy_value ::
  "(string \<times> json) list \<Rightarrow> work_node option \<Rightarrow> string \<times> string list \<Rightarrow> (graph_error, (string \<times> string) list) outcome" where
  "policy_value d ex fc =
     (case fc of (f, choices) \<Rightarrow>
        (case dict_get_or (case Option.bind ex (\<lambda>n. map_of (wn_policy n) f) of None \<Rightarrow> JNull | Some s \<Rightarrow> JStr s) d f of
           JNull \<Rightarrow> Inr []
         | JStr s \<Rightarrow> if s \<in> set choices then Inr [(f, s)] else Inl (Node_Invalid f)
         | _ \<Rightarrow> Inl (Node_Invalid f)))"

definition carried_stages :: "node_kind \<Rightarrow> work_node option \<Rightarrow> (stage_name \<times> stage_state) list" where
  "carried_stages k ex =
     map (\<lambda>s. (s, case Option.bind ex (\<lambda>n. stage_of n s) of None \<Rightarrow> new_stage | Some st \<Rightarrow> st)) (stages_for k)"

definition normalize_node :: "json \<Rightarrow> work_node option \<Rightarrow> (graph_error, work_node) outcome" where
  "normalize_node raw ex =
     (case raw of
        JObj d \<Rightarrow>
          (let i = node_text d ''id'' (base_text wn_id ex);
               kind = lower (node_text d ''kind'' (base_text (\<lambda>n. kind_name (wn_kind n)) ex));
               title = take 160 (node_text d ''title'' (base_text wn_title ex));
               goal = take 6000 (node_text d ''goal'' (base_text wn_goal ex))
           in require (NODE_ID_ok i) (Node_Invalid ''id'') (
              case map_of NODE_KINDS kind of
                None \<Rightarrow> Inl (Node_Invalid ''kind'')
              | Some k \<Rightarrow>
                  require (kind_kept ex k) (Node_Invalid ''kind'') (
                  require (title \<noteq> []) (Node_Invalid ''title'') (
                  require (20 \<le> length goal) (Node_Invalid ''goal'') (
                  and_then (map_outcome (policy_value d ex) POLICY_FIELDS) (\<lambda>pols.
                  and_then (clean_list (list_field d ''dependsOn'' (map_option wn_depends ex)) ''dependsOn'' 16 32) (\<lambda>deps.
                  and_then (clean_list (list_field d ''acceptance'' (map_option wn_acceptance ex)) ''acceptance'' 64 600) (\<lambda>acc.
                  and_then (clean_list (list_field d ''tests'' (map_option wn_tests ex)) ''tests'' 20 600) (\<lambda>tests.
                  and_then (clean_list (list_field d ''files'' (map_option wn_files ex)) ''files'' 40 300) (\<lambda>files.
                  require (i \<notin> set deps) (Node_Invalid ''dependsOn'') (
                  require (\<not> (k = NK_Plan \<and> acc = [])) (Node_Invalid ''acceptance'') (
                  require (\<not> (k \<in> {NK_Plan, NK_Build, NK_Debug} \<and> tests = [])) (Node_Invalid ''tests'') (
                  Inr \<lparr>wn_id = i, wn_kind = k, wn_title = title, wn_goal = goal, wn_depends = deps,
                       wn_acceptance = acc, wn_tests = tests, wn_files = files, wn_policy = concat pols,
                       wn_stages = carried_stages k ex\<rparr>)))))))))))))
      | _ \<Rightarrow> Inl (Node_Invalid ''node''))"

subsection \<open>Cycles\<close>

text \<open>\<open>by_id\<close>: of two nodes with one id the later one counts.\<close>

definition node_by_id :: "work_node list \<Rightarrow> string \<Rightarrow> work_node option" where
  "node_by_id nodes i = map_of (rev (map (\<lambda>n. (wn_id n, n)) nodes)) i"

definition deps_of :: "work_node list \<Rightarrow> string \<Rightarrow> string list option" where
  "deps_of nodes i = map_option wn_depends (node_by_id nodes i)"

text \<open>
  The search state: \<open>state[i] = 1\<close> is grey (on the stack), \<open>2\<close> is black. \<open>visit\<close> spends one unit of fuel
  per level of the recursion; as only uncoloured nodes are visited, the number of nodes is enough.
\<close>

datatype colour = Grey | Black

record dfs =
  df_state :: "string \<Rightarrow> colour option"
  df_stack :: "string list"

definition index_of :: "'a \<Rightarrow> 'a list \<Rightarrow> nat" where
  "index_of x xs = length (takeWhile (\<lambda>y. y \<noteq> x) xs)"

function visit :: "nat \<Rightarrow> (string \<Rightarrow> string list option) \<Rightarrow> string \<Rightarrow> dfs \<Rightarrow> string list option \<times> dfs"
and visit_deps :: "nat \<Rightarrow> (string \<Rightarrow> string list option) \<Rightarrow> string \<Rightarrow> string list \<Rightarrow> dfs \<Rightarrow> string list option \<times> dfs" where
  "visit 0 g i s = (None, s)"
| "visit (Suc k) g i s =
     visit_deps k g i (case g i of None \<Rightarrow> [] | Some ds \<Rightarrow> ds)
       \<lparr>df_state = (df_state s)(i \<mapsto> Grey), df_stack = df_stack s @ [i]\<rparr>"
| "visit_deps k g i [] s = (None, \<lparr>df_state = (df_state s)(i \<mapsto> Black), df_stack = butlast (df_stack s)\<rparr>)"
| "visit_deps k g i (d # ds) s =
     (if g d = None then visit_deps k g i ds s
      else case df_state s d of
        Some Grey \<Rightarrow> (Some (drop (index_of d (df_stack s)) (df_stack s) @ [d]), s)
      | Some Black \<Rightarrow> visit_deps k g i ds s
      | None \<Rightarrow> (case visit k g d s of
          (Some c, s') \<Rightarrow> (Some c, s')
        | (None, s') \<Rightarrow> visit_deps k g i ds s'))"
  by pat_completeness auto

termination
  by (relation "measures [\<lambda>x. case x of Inl (k, _) \<Rightarrow> k | Inr (k, _) \<Rightarrow> k,
      \<lambda>x. case x of Inl _ \<Rightarrow> 0 | Inr (_, _, _, ds, _) \<Rightarrow> Suc (length ds)]") auto

fun visit_all :: "nat \<Rightarrow> (string \<Rightarrow> string list option) \<Rightarrow> string list \<Rightarrow> dfs \<Rightarrow> string list option" where
  "visit_all k g [] s = None"
| "visit_all k g (i # is) s =
     (if df_state s i = None
      then (case visit k g i s of (Some c, _) \<Rightarrow> Some c | (None, s') \<Rightarrow> visit_all k g is s')
      else visit_all k g is s)"

definition find_cycle :: "work_node list \<Rightarrow> string list option" where
  "find_cycle nodes =
     visit_all (length nodes) (deps_of nodes) (map wn_id nodes) \<lparr>df_state = Map.empty, df_stack = []\<rparr>"

subsection \<open>Validation\<close>

fun duplicate_ids :: "string list \<Rightarrow> string list \<Rightarrow> graph_issue list" where
  "duplicate_ids seen [] = []"
| "duplicate_ids seen (i # is) = (if i \<in> set seen then [Duplicate_Id i] else []) @ duplicate_ids (i # seen) is"

definition edge_issue :: "work_node list \<Rightarrow> work_node \<Rightarrow> string \<Rightarrow> graph_issue list" where
  "edge_issue nodes n d =
     (case node_by_id nodes d of
        None \<Rightarrow> [Unknown_Dependency (wn_id n) d]
      | Some t \<Rightarrow>
          if wn_kind n \<in> set (DISCOVERY_KINDS @ [NK_Plan]) \<and> wn_kind t \<in> set EXECUTION_KINDS
          then [Planning_Waits_For_Code (wn_id n) d] else [])"

definition graph_issues :: "work_node list \<Rightarrow> graph_issue list" where
  "graph_issues nodes =
     duplicate_ids [] (map wn_id nodes)
     @ concat (map (\<lambda>n. concat (map (edge_issue nodes n) (wn_depends n))) nodes)
     @ (case find_cycle nodes of None \<Rightarrow> [] | Some c \<Rightarrow> if c = [] then [] else [Dependency_Cycle c])"

definition check_graph :: "work_node list \<Rightarrow> (graph_error, unit) outcome" where
  "check_graph nodes = (if graph_issues nodes = [] then Inr () else Inl (Graph_Invalid (graph_issues nodes)))"

subsection \<open>Execution waves\<close>

text \<open>The rows \<open>remaining\<close> of the layering: an id and the dependencies it still waits for.\<close>

definition runnable :: "work_node list \<Rightarrow> work_node list" where
  "runnable nodes = filter (\<lambda>n. stage_of n Execute \<noteq> None) nodes"

definition waiting_rows :: "work_node list \<Rightarrow> (string \<times> string list) list" where
  "waiting_rows nodes =
     fold (\<lambda>n. dict_set (wn_id n) (filter (\<lambda>d. d \<in> set (map wn_id (runnable nodes))) (wn_depends n)))
       (runnable nodes) []"

definition layer_of :: "(string \<times> string list) list \<Rightarrow> string list" where
  "layer_of rows = sort (map fst (filter (\<lambda>r. snd r = []) rows))"

definition drop_layer :: "string list \<Rightarrow> (string \<times> string list) list \<Rightarrow> (string \<times> string list) list" where
  "drop_layer layer rows =
     map (\<lambda>(i, ds). (i, filter (\<lambda>d. d \<notin> set layer) ds)) (filter (\<lambda>r. fst r \<notin> set layer) rows)"

lemma layer_of_set: "i \<in> set (layer_of rows) \<longleftrightarrow> (i, []) \<in> set rows"
  by (force simp: layer_of_def)

lemma drop_layer_shorter: "layer_of rows \<noteq> [] \<Longrightarrow> length (drop_layer (layer_of rows) rows) < length rows"
proof -
  assume "layer_of rows \<noteq> []"
  then obtain i where "i \<in> set (layer_of rows)" by (cases "layer_of rows") auto
  then have "(i, []) \<in> set rows" "i \<in> set (layer_of rows)" by (simp_all add: layer_of_set)
  then have "length (filter (\<lambda>r. fst r \<notin> set (layer_of rows)) rows) < length rows"
    by (intro length_filter_less [of "(i, [])"]) simp_all
  then show ?thesis by (simp add: drop_layer_def)
qed

function waves_from :: "(string \<times> string list) list \<Rightarrow> string list list" where
  "waves_from rows = (if layer_of rows = [] then [] else layer_of rows # waves_from (drop_layer (layer_of rows) rows))"
  by pat_completeness auto

termination
  by (relation "measure length") (auto simp: drop_layer_shorter)

declare waves_from.simps [simp del]

definition execution_waves :: "work_node list \<Rightarrow> string list list" where
  "execution_waves nodes = waves_from (waiting_rows nodes)"

end
