(* ===== verification/Work_Cycle.thy ===== *)
theory Work_Cycle
  imports Work_Graph
begin

section \<open>The cycle search is correct\<close>

text \<open>
  \<open>find_cycle\<close> against the dependency relation: it answers nothing exactly when the relation is acyclic,
  and what it answers is a cycle. The search state keeps that black nodes only lead to black nodes and
  lie on no cycle, and that the stack is a path of the grey nodes.
\<close>

definition edges :: "(string \<Rightarrow> string list option) \<Rightarrow> (string \<times> string) set" where
  "edges g = {(a, b). \<exists>ds. g a = Some ds \<and> b \<in> set ds \<and> g b \<noteq> None}"

definition is_path :: "(string \<Rightarrow> string list option) \<Rightarrow> string list \<Rightarrow> bool" where
  "is_path g p = (\<forall>k. Suc k < length p \<longrightarrow> (p ! k, p ! Suc k) \<in> edges g)"

definition is_cycle :: "(string \<Rightarrow> string list option) \<Rightarrow> string list \<Rightarrow> bool" where
  "is_cycle g c = (2 \<le> length c \<and> hd c = last c \<and> is_path g c)"

subsection \<open>Paths\<close>

lemma is_path_snoc: "p \<noteq> [] \<Longrightarrow> is_path g (p @ [x]) \<longleftrightarrow> is_path g p \<and> (last p, x) \<in> edges g"
proof -
  assume p: "p \<noteq> []"
  have "is_path g (p @ [x]) \<longleftrightarrow> (\<forall>k. k < length p \<longrightarrow> ((p @ [x]) ! k, (p @ [x]) ! Suc k) \<in> edges g)"
    by (simp add: is_path_def)
  also have "\<dots> \<longleftrightarrow> (\<forall>k. Suc k < length p \<longrightarrow> (p ! k, p ! Suc k) \<in> edges g) \<and> (last p, x) \<in> edges g"
    (is "?L \<longleftrightarrow> ?R")
  proof
    assume L: ?L
    have "(p ! k, p ! Suc k) \<in> edges g" if "Suc k < length p" for k
      using L [rule_format, of k] that by (simp add: nth_append)
    moreover have "(last p, x) \<in> edges g"
      using L [rule_format, of "length p - 1"] p by (simp add: nth_append last_conv_nth)
    ultimately show ?R by blast
  next
    assume R: ?R
    show ?L
    proof (intro allI impI)
      fix k assume k: "k < length p"
      show "((p @ [x]) ! k, (p @ [x]) ! Suc k) \<in> edges g"
      proof (cases "Suc k < length p")
        case True
        with R show ?thesis by (simp add: nth_append)
      next
        case False
        with k have "k = length p - 1" by simp
        with R p k show ?thesis by (simp add: nth_append last_conv_nth)
      qed
    qed
  qed
  finally show ?thesis by (simp add: is_path_def)
qed

lemma is_path_single: "is_path g []" "is_path g [x]"
  by (simp_all add: is_path_def)

lemma is_path_drop: "is_path g p \<Longrightarrow> is_path g (drop n p)"
  by (auto simp: is_path_def)

lemma is_path_trancl:
  assumes "is_path g p" and "i < j" and "j < length p"
  shows "(p ! i, p ! j) \<in> (edges g)\<^sup>+"
  using assms(2,3)
proof (induction j)
  case (Suc j)
  have e: "(p ! j, p ! Suc j) \<in> edges g" using assms(1) Suc.prems(2) by (simp add: is_path_def)
  show ?case
  proof (cases "i = j")
    case True
    with e show ?thesis by blast
  next
    case False
    with Suc have "(p ! i, p ! j) \<in> (edges g)\<^sup>+" by simp
    from this e show ?thesis by (rule trancl_into_trancl)
  qed
qed simp

lemma is_cycle_trancl: "is_cycle g c \<Longrightarrow> \<exists>x. (x, x) \<in> (edges g)\<^sup>+"
proof -
  assume c: "is_cycle g c"
  then have "(c ! 0, c ! (length c - 1)) \<in> (edges g)\<^sup>+"
    by (intro is_path_trancl) (auto simp: is_cycle_def)
  moreover have "c \<noteq> []" "hd c = last c" using c by (auto simp: is_cycle_def)
  then have "c ! 0 = c ! (length c - 1)" by (simp add: hd_conv_nth last_conv_nth)
  ultimately show ?thesis by auto
qed

lemma index_of_split: "x \<in> set xs \<Longrightarrow> \<exists>ys. drop (index_of x xs) xs = x # ys"
  by (induction xs) (auto simp: index_of_def)

subsection \<open>What the search keeps\<close>

definition black_ok :: "(string \<Rightarrow> string list option) \<Rightarrow> (string \<Rightarrow> colour option) \<Rightarrow> bool" where
  "black_ok g c = (\<forall>b. c b = Some Black \<longrightarrow>
     (\<forall>d. (b, d) \<in> edges g \<longrightarrow> c d = Some Black) \<and> (b, b) \<notin> (edges g)\<^sup>+)"

definition stack_ok :: "(string \<Rightarrow> string list option) \<Rightarrow> dfs \<Rightarrow> bool" where
  "stack_ok g s = (is_path g (df_stack s) \<and> (\<forall>x. df_state s x = Some Grey \<longleftrightarrow> x \<in> set (df_stack s)) \<and>
     (\<forall>x \<in> set (df_stack s). g x \<noteq> None) \<and> distinct (df_stack s))"

definition white :: "(string \<Rightarrow> string list option) \<Rightarrow> (string \<Rightarrow> colour option) \<Rightarrow> string set" where
  "white g c = {x. g x \<noteq> None \<and> c x = None}"

text \<open>A finished part of the search: the stack is as before and only blacker.\<close>

definition darker :: "(string \<Rightarrow> string list option) \<Rightarrow> dfs \<Rightarrow> dfs \<Rightarrow> bool" where
  "darker g s s' = (df_stack s' = df_stack s \<and> (\<forall>x. df_state s x \<noteq> None \<longrightarrow> df_state s' x = df_state s x) \<and>
     (\<forall>x. df_state s' x = Some Grey \<longrightarrow> df_state s x = Some Grey))"

lemma darker_refl [simp]: "darker g s s"
  by (simp add: darker_def)

lemma darker_trans: "darker g a b \<Longrightarrow> darker g b c \<Longrightarrow> darker g a c"
  unfolding darker_def by metis

lemma black_reach: "(x, y) \<in> (edges g)\<^sup>+ \<Longrightarrow> black_ok g c \<Longrightarrow> c x = Some Black \<Longrightarrow> c y = Some Black"
  by (induction rule: trancl_induct) (auto simp: black_ok_def)

lemma blacken:
  assumes ok: "black_ok g c" and i: "c i \<noteq> Some Black" and d: "\<forall>d. (i, d) \<in> edges g \<longrightarrow> c d = Some Black"
  shows "black_ok g (c(i \<mapsto> Black))"
proof -
  have no: "(i, i) \<notin> (edges g)\<^sup>+"
  proof
    assume "(i, i) \<in> (edges g)\<^sup>+"
    then obtain z where z: "(i, z) \<in> edges g" "(z, i) \<in> (edges g)\<^sup>*" by (blast dest: tranclD)
    then have "c z = Some Black" using d by blast
    with z(2) i black_reach [OF _ ok] show False by (auto simp: rtrancl_eq_or_trancl)
  qed
  show ?thesis unfolding black_ok_def
  proof (intro allI impI conjI)
    fix b e assume "(c(i \<mapsto> Black)) b = Some Black" "(b, e) \<in> edges g"
    then show "(c(i \<mapsto> Black)) e = Some Black" using ok d
      by (cases "b = i") (auto simp: black_ok_def)
  next
    fix b assume "(c(i \<mapsto> Black)) b = Some Black"
    then show "(b, b) \<notin> (edges g)\<^sup>+" using ok no by (cases "b = i") (auto simp: black_ok_def)
  qed
qed

text \<open>Opening and closing a node.\<close>

lemma black_ok_grey: "black_ok g c \<Longrightarrow> c i \<noteq> Some Black \<Longrightarrow> black_ok g (c(i \<mapsto> Grey))"
  by (auto simp: black_ok_def)

lemma finite_white: "finite (dom g) \<Longrightarrow> finite (white g c)"
  by (rule finite_subset [of _ "dom g"]) (auto simp: white_def)

lemma white_opened: "white g (c(i \<mapsto> q)) = white g c - {i}"
  by (auto simp: white_def)

lemma white_darker: "darker g s s' \<Longrightarrow> white g (df_state s') \<subseteq> white g (df_state s)"
  by (force simp: white_def darker_def)

lemma stack_ok_push:
  assumes "stack_ok g s" and "df_state s i = None" and "g i \<noteq> None"
    and "df_stack s \<noteq> [] \<Longrightarrow> (last (df_stack s), i) \<in> edges g"
  shows "stack_ok g \<lparr>df_state = (df_state s)(i \<mapsto> Grey), df_stack = df_stack s @ [i]\<rparr>"
proof -
  have "i \<notin> set (df_stack s)" using assms(1,2) by (force simp: stack_ok_def)
  moreover have "is_path g (df_stack s @ [i])"
    using assms(1,4) by (cases "df_stack s = []") (simp_all add: is_path_snoc is_path_single stack_ok_def)
  ultimately show ?thesis using assms(1,3) by (auto simp: stack_ok_def)
qed

lemma stack_ok_pop:
  assumes "stack_ok g s" and "df_stack s = p @ [i]"
  shows "stack_ok g \<lparr>df_state = (df_state s)(i \<mapsto> Black), df_stack = p\<rparr>"
proof -
  have "is_path g p" using assms by (cases "p = []") (simp_all add: stack_ok_def is_path_snoc is_path_single)
  then show ?thesis using assms by (auto simp: stack_ok_def)
qed

text \<open>A grey dependency closes the stack to a cycle.\<close>

lemma grey_closes:
  assumes s: "stack_ok g s" and st: "df_stack s = p @ [i]" and e: "(i, d) \<in> edges g" and d: "df_state s d = Some Grey"
  shows "is_cycle g (drop (index_of d (df_stack s)) (df_stack s) @ [d])"
proof -
  let ?q = "drop (index_of d (df_stack s)) (df_stack s)"
  have "d \<in> set (df_stack s)" using s d by (auto simp: stack_ok_def)
  then obtain ys where q: "?q = d # ys" by (blast dest: index_of_split)
  have "is_path g ?q" using s by (auto simp: stack_ok_def intro: is_path_drop)
  moreover have "last ?q = i" using q st by (metis drop_eq_Nil2 last_drop last_snoc list.distinct(1) not_le)
  ultimately have "is_path g (?q @ [d])" using q e by (subst is_path_snoc) simp_all
  then show ?thesis using q by (simp add: is_cycle_def)
qed

subsection \<open>The search\<close>

definition search_ok :: "(string \<Rightarrow> string list option) \<Rightarrow> nat \<Rightarrow> dfs \<Rightarrow> bool" where
  "search_ok g k s = (black_ok g (df_state s) \<and> stack_ok g s \<and> card (white g (df_state s)) \<le> k)"

definition visit_ok :: "(string \<Rightarrow> string list option) \<Rightarrow> string \<Rightarrow> dfs \<Rightarrow> string list option \<times> dfs \<Rightarrow> bool" where
  "visit_ok g i s r = (case r of
       (Some c, _) \<Rightarrow> is_cycle g c
     | (None, s') \<Rightarrow> black_ok g (df_state s') \<and> stack_ok g s' \<and> darker g s s' \<and> df_state s' i = Some Black)"

lemma search_ok_darker:
  assumes "search_ok g k s" and "darker g s s'" and "black_ok g (df_state s')" and "stack_ok g s'" and "finite (dom g)"
  shows "search_ok g k s'"
proof -
  have "card (white g (df_state s')) \<le> card (white g (df_state s))"
    using assms(2,5) by (simp add: card_mono finite_white white_darker)
  then show ?thesis using assms by (simp add: search_ok_def)
qed

text \<open>\<open>s0\<close> is the state before the node \<open>i\<close> was opened, \<open>ds\<close> the dependencies still to follow.\<close>

definition opened :: "(string \<Rightarrow> string list option) \<Rightarrow> string \<Rightarrow> string list \<Rightarrow> dfs \<Rightarrow> dfs \<Rightarrow> bool" where
  "opened g i ds s0 s = (df_state s0 i = None \<and> df_stack s = df_stack s0 @ [i] \<and>
     darker g \<lparr>df_state = (df_state s0)(i \<mapsto> Grey), df_stack = df_stack s0 @ [i]\<rparr> s \<and>
     (\<forall>d \<in> set ds. g d \<noteq> None \<longrightarrow> (i, d) \<in> edges g) \<and>
     (\<forall>d. (i, d) \<in> edges g \<longrightarrow> d \<in> set ds \<or> df_state s d = Some Black))"

lemma opened_skip: "opened g i (d # ds) s0 s \<Longrightarrow> g d = None \<or> df_state s d = Some Black \<Longrightarrow> opened g i ds s0 s"
  by (fastforce simp: opened_def edges_def)

lemma opened_darker: "opened g i ds s0 s \<Longrightarrow> darker g s s' \<Longrightarrow> opened g i ds s0 s'"
  unfolding opened_def by (metis darker_def darker_trans option.distinct(1))

lemma opened_close:
  assumes "opened g i [] s0 s" and "black_ok g (df_state s)" and "stack_ok g s"
  shows "visit_ok g i s0 (None, \<lparr>df_state = (df_state s)(i \<mapsto> Black), df_stack = butlast (df_stack s)\<rparr>)"
proof -
  have grey: "df_state s i = Some Grey" using assms(1,3) by (auto simp: opened_def stack_ok_def)
  then have "black_ok g ((df_state s)(i \<mapsto> Black))"
    using assms(1,2) by (intro blacken) (auto simp: opened_def)
  moreover have "df_stack s = df_stack s0 @ [i]" using assms(1) by (simp add: opened_def)
  ultimately show ?thesis using assms(1) stack_ok_pop [OF assms(3)]
    by (auto simp: visit_ok_def opened_def darker_def)
qed

lemma visit_spec:
  "finite (dom g) \<Longrightarrow> search_ok g k s \<Longrightarrow> g i \<noteq> None \<Longrightarrow> df_state s i = None \<Longrightarrow>
      (df_stack s \<noteq> [] \<Longrightarrow> (last (df_stack s), i) \<in> edges g) \<Longrightarrow> visit_ok g i s (visit k g i s)"
  "finite (dom g) \<Longrightarrow> search_ok g k s \<Longrightarrow> opened g i ds s0 s \<Longrightarrow> visit_ok g i s0 (visit_deps k g i ds s)"
proof (induction k g i s and k g i ds s arbitrary: and s0 rule: visit_visit_deps.induct)
  case (1 g i s)
  then have "i \<in> white g (df_state s)" by (simp add: white_def)
  moreover have "finite (white g (df_state s))" using 1 by (simp add: finite_white)
  ultimately have "0 < card (white g (df_state s))" by (auto simp: card_gt_0_iff)
  with 1 show ?case by (simp add: search_ok_def)
next
  case (2 k g i s)
  let ?s = "\<lparr>df_state = (df_state s)(i \<mapsto> Grey), df_stack = df_stack s @ [i]\<rparr>"
  let ?ds = "case g i of None \<Rightarrow> [] | Some ds \<Rightarrow> ds"
  have "i \<in> white g (df_state s)" using 2 by (simp add: white_def)
  moreover have "finite (white g (df_state s))" using 2 by (simp add: finite_white)
  ultimately have "card (white g (df_state ?s)) < card (white g (df_state s))"
    by (metis white_opened card_Diff1_less dfs.select_convs(1))
  then have "search_ok g k ?s"
    using 2 by (simp add: search_ok_def black_ok_grey stack_ok_push)
  moreover have "opened g i ?ds s ?s"
    using 2(4,5) by (auto simp: opened_def edges_def)
  ultimately show ?case using 2(1,2) by simp
next
  case (3 k g i s)
  then show ?case by (simp add: opened_close search_ok_def)
next
  case (4 k g i d ds s)
  show ?case
  proof (cases "g d = None")
    case True
    with 4 show ?thesis by (simp add: opened_skip)
  next
    case False
    then have e: "(i, d) \<in> edges g" using 4 by (simp add: opened_def)
    have st: "df_stack s = df_stack s0 @ [i]" using 4 by (simp add: opened_def)
    show ?thesis
    proof (cases "df_state s d")
      case None
      have v: "visit_ok g d s (visit k g d s)"
        using 4 False None e st by simp
      show ?thesis
      proof (cases "fst (visit k g d s)")
        case (Some c)
        then show ?thesis using v False None by (cases "visit k g d s") (auto simp: visit_ok_def)
      next
        case N: None
        then obtain s' where s': "visit k g d s = (None, s')" by (cases "visit k g d s") simp
        have ok: "black_ok g (df_state s')" "stack_ok g s'" "darker g s s'" "df_state s' d = Some Black"
          using v s' by (simp_all add: visit_ok_def)
        have "search_ok g k s'" using 4 ok by (blast intro: search_ok_darker)
        moreover have "opened g i ds s0 s'" using 4 ok by (blast intro: opened_skip opened_darker)
        moreover have "visit_deps k g i (d # ds) s = visit_deps k g i ds s'" using False None s' by auto
        ultimately show ?thesis using 4(3) [OF False None s' [symmetric] refl] \<open>finite (dom g)\<close> by simp
      qed
    next
      case (Some q)
      show ?thesis
      proof (cases q)
        case Grey
        then have "visit_deps k g i (d # ds) s = (Some (drop (index_of d (df_stack s)) (df_stack s) @ [d]), s)"
          using False Some by auto
        moreover have "is_cycle g (drop (index_of d (df_stack s)) (df_stack s) @ [d])"
          using 4 Some Grey e st by (intro grey_closes) (simp_all add: search_ok_def)
        ultimately show ?thesis by (simp only: visit_ok_def prod.case option.case)
      next
        case Black
        then have "visit_deps k g i (d # ds) s = visit_deps k g i ds s" using False Some by auto
        then show ?thesis using 4 False Some Black by (simp add: opened_skip)
      qed
    qed
  qed
qed

lemma visit_all_none:
  assumes "finite (dom g)"
  shows "search_ok g k s \<Longrightarrow> df_stack s = [] \<Longrightarrow> set is \<subseteq> dom g \<Longrightarrow> visit_all k g is s = None \<Longrightarrow>
    \<exists>c. black_ok g c \<and> (\<forall>x. df_state s x = Some Black \<or> x \<in> set is \<longrightarrow> c x = Some Black)"
proof (induction "is" arbitrary: s)
  case Nil
  then show ?case by (auto simp: search_ok_def)
next
  case (Cons i "is")
  have nogrey: "df_state s x \<noteq> Some Grey" for x using Cons.prems(1,2) by (simp add: search_ok_def stack_ok_def)
  show ?case
  proof (cases "df_state s i")
    case None
    then obtain s' where s': "visit k g i s = (None, s')"
      using Cons.prems(4) by (auto split: prod.splits option.splits)
    moreover have "visit_ok g i s (visit k g i s)"
      using assms Cons.prems None by (intro visit_spec(1)) auto
    ultimately have ok: "black_ok g (df_state s')" "stack_ok g s'" "darker g s s'" "df_state s' i = Some Black"
      by (simp_all add: visit_ok_def)
    have "search_ok g k s'" using Cons.prems(1) ok assms by (blast intro: search_ok_darker)
    moreover have "df_stack s' = []" using ok(3) Cons.prems(2) by (simp add: darker_def)
    moreover have "visit_all k g is s' = None" using Cons.prems(4) None s' by simp
    ultimately obtain c where c: "black_ok g c" "\<forall>x. df_state s' x = Some Black \<or> x \<in> set is \<longrightarrow> c x = Some Black"
      using Cons.IH [of s'] Cons.prems(3) by auto
    have "df_state s x = Some Black \<Longrightarrow> df_state s' x = Some Black" for x
      using ok(3) by (auto simp: darker_def)
    with c ok(4) show ?thesis by auto
  next
    case (Some q)
    then have "df_state s i = Some Black" using nogrey [of i] by (cases q) auto
    moreover obtain c where "black_ok g c" "\<forall>x. df_state s x = Some Black \<or> x \<in> set is \<longrightarrow> c x = Some Black"
      using Cons.IH [of s] Cons.prems Some by auto
    ultimately show ?thesis by auto
  qed
qed

lemma visit_all_some:
  assumes "finite (dom g)"
  shows "search_ok g k s \<Longrightarrow> df_stack s = [] \<Longrightarrow> set is \<subseteq> dom g \<Longrightarrow> visit_all k g is s = Some c \<Longrightarrow> is_cycle g c"
proof (induction "is" arbitrary: s)
  case Nil
  then show ?case by simp
next
  case (Cons i "is")
  show ?case
  proof (cases "df_state s i = None")
    case True
    have v: "visit_ok g i s (visit k g i s)"
      using assms Cons.prems True by (intro visit_spec(1)) auto
    show ?thesis
    proof (cases "visit k g i s")
      case (Pair r s')
      show ?thesis
      proof (cases r)
        case None
        then have ok: "black_ok g (df_state s')" "stack_ok g s'" "darker g s s'"
          using v Pair by (simp_all add: visit_ok_def)
        have "search_ok g k s'" using Cons.prems(1) ok assms by (blast intro: search_ok_darker)
        moreover have "df_stack s' = []" using ok(3) Cons.prems(2) by (simp add: darker_def)
        ultimately show ?thesis using Cons Pair None True by simp
      qed (use Cons v Pair True in \<open>simp add: visit_ok_def\<close>)
    qed
  next
    case False
    then show ?thesis using Cons by auto
  qed
qed

subsection \<open>The cycle finder\<close>

lemma dom_deps_of: "dom (deps_of nodes) = set (map wn_id nodes)"
proof -
  have "dom (deps_of nodes) = dom (map_of (rev (map (\<lambda>n. (wn_id n, n)) nodes)))"
    by (auto simp: deps_of_def node_by_id_def)
  then show ?thesis by (simp add: dom_map_of_conv_image_fst image_image)
qed

lemma search_start:
  "search_ok (deps_of nodes) (length nodes) \<lparr>df_state = Map.empty, df_stack = []\<rparr>"
proof -
  have "white (deps_of nodes) Map.empty = set (map wn_id nodes)"
    using dom_deps_of [of nodes] by (auto simp: white_def dom_def)
  then have "card (white (deps_of nodes) Map.empty) \<le> length nodes"
    using card_length [of "map wn_id nodes"] by simp
  then show ?thesis by (simp add: search_ok_def black_ok_def stack_ok_def is_path_single)
qed

lemma find_cycle_some: "find_cycle nodes = Some c \<Longrightarrow> is_cycle (deps_of nodes) c"
  unfolding find_cycle_def
  by (rule visit_all_some [OF _ search_start]) (simp_all add: dom_deps_of)

lemma find_cycle_none: "find_cycle nodes = None \<Longrightarrow> acyclic (edges (deps_of nodes))"
proof -
  assume "find_cycle nodes = None"
  then obtain c where c: "black_ok (deps_of nodes) c" "\<forall>x \<in> set (map wn_id nodes). c x = Some Black"
    using visit_all_none [OF _ search_start, of nodes "map wn_id nodes"] by (auto simp: find_cycle_def dom_deps_of)
  have "(x, x) \<notin> (edges (deps_of nodes))\<^sup>+" for x
  proof
    assume x: "(x, x) \<in> (edges (deps_of nodes))\<^sup>+"
    then obtain y where "(x, y) \<in> edges (deps_of nodes)" by (blast dest: tranclD)
    then have "x \<in> set (map wn_id nodes)" using dom_deps_of [of nodes] by (auto simp: edges_def dom_def)
    with c x show False by (auto simp: black_ok_def)
  qed
  then show ?thesis by (simp add: acyclic_def)
qed

lemma find_cycle_iff: "find_cycle nodes = None \<longleftrightarrow> acyclic (edges (deps_of nodes))"
proof
  assume "acyclic (edges (deps_of nodes))"
  then show "find_cycle nodes = None"
    using is_cycle_trancl find_cycle_some by (cases "find_cycle nodes") (auto simp: acyclic_def, blast)
qed (rule find_cycle_none)

end
