(* ===== verification/Work_Ready.thy ===== *)
theory Work_Ready
  imports Work_Cycle
begin

section \<open>Which nodes may start, and which never will\<close>

text \<open>
  \<open>stage_done\<close>, \<open>gate_stage\<close>, \<open>dependency_satisfied\<close>, \<open>ready_nodes\<close> and \<open>blocked_nodes\<close> of
  \<open>agent_core/work_graph.py\<close>. The loop of \<open>blocked_nodes\<close> is compared with the inductive set of the
  nodes that are doomed, and a valid graph at rest has no node that neither runs nor is reported.
\<close>

subsection \<open>Gates\<close>

definition stage_done :: "work_node \<Rightarrow> stage_name \<Rightarrow> bool" where
  "stage_done n s = (case stage_of n s of
       None \<Rightarrow> False
     | Some st \<Rightarrow> sg_status st = SG_Accepted \<and>
         (case sg_artifact st of None \<Rightarrow> False | Some a \<Rightarrow> ar_status a = ''finalized''))"

definition gate_stage :: "work_node \<Rightarrow> work_node \<Rightarrow> stage_name \<Rightarrow> stage_name option" where
  "gate_stage n d s =
     (if s = Execute then Some (if stage_of d Execute \<noteq> None then Execute else Produce)
      else if wn_kind n = NK_Plan \<and> wn_kind d = NK_Plan then None
      else Some Produce)"

definition dependency_satisfied :: "work_node \<Rightarrow> work_node \<Rightarrow> stage_name \<Rightarrow> bool" where
  "dependency_satisfied n d s = (case gate_stage n d s of None \<Rightarrow> True | Some g \<Rightarrow> stage_done d g)"

definition startable :: "stage_status \<Rightarrow> bool" where
  "startable s = (s \<in> {SG_Pending, SG_Revise})"

definition node_ready :: "work_node list \<Rightarrow> stage_name \<Rightarrow> string list \<Rightarrow> work_node \<Rightarrow> bool" where
  "node_ready nodes s only n =
     ((case stage_of n s of None \<Rightarrow> False | Some st \<Rightarrow> startable (sg_status st)) \<and>
      (only = [] \<or> wn_id n \<in> set only) \<and>
      list_all (\<lambda>d. case node_by_id nodes d of None \<Rightarrow> False | Some t \<Rightarrow> dependency_satisfied n t s) (wn_depends n))"

definition ready_nodes :: "work_node list \<Rightarrow> stage_name \<Rightarrow> string list \<Rightarrow> work_node list" where
  "ready_nodes nodes s only = filter (node_ready nodes s only) nodes"

subsection \<open>The blocked nodes\<close>

definition ended :: "stage_status \<Rightarrow> bool" where
  "ended s = (s \<in> {SG_Rejected, SG_Failed})"

definition dead_end :: "stage_state \<Rightarrow> bool" where
  "dead_end st = (ended (sg_status st) \<or>
     sg_status st = SG_Needs_User \<and>
     starts_with (case sg_error st of None \<Rightarrow> [] | Some e \<Rightarrow> e) ''RESEARCH_NEEDS_MAIN'')"

text \<open>One dependency kills a node that has not started.\<close>

definition dep_kills :: "work_node list \<Rightarrow> stage_name \<Rightarrow> string list \<Rightarrow> work_node \<Rightarrow> string \<Rightarrow> bool" where
  "dep_kills nodes s dead n d =
     (case node_by_id nodes d of
        None \<Rightarrow> False
      | Some t \<Rightarrow>
          (case gate_stage n t s of
             None \<Rightarrow> False
           | Some g \<Rightarrow>
               (case stage_of t g of
                  None \<Rightarrow> False
                | Some st \<Rightarrow> d \<in> set dead \<or> ended (sg_status st))))"

definition dies :: "work_node list \<Rightarrow> stage_name \<Rightarrow> string list \<Rightarrow> work_node \<Rightarrow> bool" where
  "dies nodes s dead n =
     (case stage_of n s of
        None \<Rightarrow> False
      | Some st \<Rightarrow> wn_id n \<notin> set dead \<and>
          (dead_end st \<or> startable (sg_status st) \<and> list_ex (dep_kills nodes s dead n) (wn_depends n)))"

text \<open>One pass over the nodes, the set growing as it goes; passes until one adds nothing.\<close>

definition blocked_pass :: "work_node list \<Rightarrow> stage_name \<Rightarrow> string list \<Rightarrow> string list" where
  "blocked_pass nodes s dead = fold (\<lambda>n dead. if dies nodes s dead n then wn_id n # dead else dead) nodes dead"

lemma pass_grows:
  "\<exists>new. fold (\<lambda>n dead. if dies nodes s dead n then wn_id n # dead else dead) ns dead = new @ dead \<and>
     set new \<subseteq> set (map wn_id ns) - set dead"
proof (induction ns arbitrary: dead)
  case (Cons n ns)
  show ?case
  proof (cases "dies nodes s dead n")
    case True
    then have n: "wn_id n \<notin> set dead" by (auto simp: dies_def split: option.splits)
    obtain new where "fold (\<lambda>n dead. if dies nodes s dead n then wn_id n # dead else dead) ns (wn_id n # dead)
        = new @ wn_id n # dead" "set new \<subseteq> set (map wn_id ns) - set (wn_id n # dead)" using Cons.IH by blast
    with True n show ?thesis by (intro exI [of _ "new @ [wn_id n]"]) auto
  next
    case False
    with Cons.IH [of dead] show ?thesis by auto
  qed
qed simp

lemma pass_shrinks:
  "blocked_pass nodes s dead \<noteq> dead \<Longrightarrow>
   card (set (map wn_id nodes) - set (blocked_pass nodes s dead)) < card (set (map wn_id nodes) - set dead)"
proof -
  assume ne: "blocked_pass nodes s dead \<noteq> dead"
  obtain new where new: "blocked_pass nodes s dead = new @ dead" "set new \<subseteq> set (map wn_id nodes) - set dead"
    using pass_grows [of nodes s nodes dead] by (auto simp: blocked_pass_def)
  then obtain x where "x \<in> set new" using ne by (cases new) auto
  then show ?thesis using new by (intro psubset_card_mono) auto
qed

function blocked_loop :: "work_node list \<Rightarrow> stage_name \<Rightarrow> string list \<Rightarrow> string list" where
  "blocked_loop nodes s dead =
     (if blocked_pass nodes s dead = dead then dead else blocked_loop nodes s (blocked_pass nodes s dead))"
  by pat_completeness auto

termination
  by (relation "measure (\<lambda>(nodes, s, dead). card (set (map wn_id nodes) - set dead))")
    (simp, simp only: in_measure prod.case, rule pass_shrinks)

declare blocked_loop.simps [simp del]

definition open_node :: "work_node list \<Rightarrow> stage_name \<Rightarrow> string \<Rightarrow> bool" where
  "open_node nodes s i =
     (case Option.bind (node_by_id nodes i) (\<lambda>n. stage_of n s) of None \<Rightarrow> False | Some st \<Rightarrow> startable (sg_status st))"

definition blocked_nodes :: "work_node list \<Rightarrow> stage_name \<Rightarrow> string list" where
  "blocked_nodes nodes s = sort (filter (open_node nodes s) (blocked_loop nodes s []))"

subsection \<open>The doomed nodes\<close>

text \<open>The reference: the least set with the dead ends that a dependency carries on.\<close>

inductive doomed :: "work_node list \<Rightarrow> stage_name \<Rightarrow> string \<Rightarrow> bool" for nodes s where
  doomed_end: "n \<in> set nodes \<Longrightarrow> stage_of n s = Some st \<Longrightarrow> dead_end st \<Longrightarrow> doomed nodes s (wn_id n)"
| doomed_dep: "n \<in> set nodes \<Longrightarrow> stage_of n s = Some st \<Longrightarrow> startable (sg_status st) \<Longrightarrow> d \<in> set (wn_depends n) \<Longrightarrow>
    node_by_id nodes d = Some t \<Longrightarrow> gate_stage n t s = Some g \<Longrightarrow> stage_of t g = Some st' \<Longrightarrow>
    doomed nodes s d \<or> ended (sg_status st') \<Longrightarrow> doomed nodes s (wn_id n)"

lemma dep_killsD:
  "dep_kills nodes s dead n d \<Longrightarrow> \<exists>t g st. node_by_id nodes d = Some t \<and> gate_stage n t s = Some g \<and>
     stage_of t g = Some st \<and> (d \<in> set dead \<or> ended (sg_status st))"
  by (auto simp: dep_kills_def split: option.splits)

lemma diesD:
  "dies nodes s dead n \<Longrightarrow> \<exists>st. stage_of n s = Some st \<and>
     (dead_end st \<or> startable (sg_status st) \<and> (\<exists>d \<in> set (wn_depends n). dep_kills nodes s dead n d))"
  by (auto simp: dies_def list_ex_iff split: option.splits)

lemma dies_doomed: "n \<in> set nodes \<Longrightarrow> \<forall>i \<in> set dead. doomed nodes s i \<Longrightarrow> dies nodes s dead n \<Longrightarrow> doomed nodes s (wn_id n)"
  by (fast dest!: diesD dep_killsD intro: doomed_end doomed_dep)

lemma pass_doomed:
  "set ns \<subseteq> set nodes \<Longrightarrow> \<forall>i \<in> set dead. doomed nodes s i \<Longrightarrow>
   \<forall>i \<in> set (fold (\<lambda>n dead. if dies nodes s dead n then wn_id n # dead else dead) ns dead). doomed nodes s i"
proof (induction ns arbitrary: dead)
  case (Cons n ns)
  have "\<forall>i \<in> set (if dies nodes s dead n then wn_id n # dead else dead). doomed nodes s i"
    using Cons.prems dies_doomed [of n nodes dead s] by auto
  with Cons.IH Cons.prems(1) show ?case by simp
qed simp

lemma loop_doomed: "\<forall>i \<in> set dead. doomed nodes s i \<Longrightarrow> \<forall>i \<in> set (blocked_loop nodes s dead). doomed nodes s i"
proof (induction nodes s dead rule: blocked_loop.induct)
  case (1 nodes s dead)
  have "\<forall>i \<in> set (blocked_pass nodes s dead). doomed nodes s i"
    unfolding blocked_pass_def using 1(2) by (intro pass_doomed) simp_all
  then show ?case using 1 by (subst blocked_loop.simps) simp
qed

lemma pass_fixed:
  "fold (\<lambda>n dead. if dies nodes s dead n then wn_id n # dead else dead) ns dead = dead \<Longrightarrow>
   n \<in> set ns \<Longrightarrow> \<not> dies nodes s dead n"
proof (induction ns)
  case (Cons m ns)
  have "\<not> dies nodes s dead m"
  proof
    assume "dies nodes s dead m"
    moreover obtain new where
      "fold (\<lambda>n dead. if dies nodes s dead n then wn_id n # dead else dead) ns (wn_id m # dead) = new @ wn_id m # dead"
      using pass_grows by blast
    ultimately have "new @ wn_id m # dead = dead" using Cons.prems(1) by simp
    then have "length (new @ wn_id m # dead) = length dead" by (rule arg_cong)
    then show False by simp
  qed
  with Cons show ?case by auto
qed simp

lemma loop_fixed: "n \<in> set nodes \<Longrightarrow> \<not> dies nodes s (blocked_loop nodes s dead) n"
proof (induction nodes s dead rule: blocked_loop.induct)
  case (1 nodes s dead)
  show ?case
  proof (cases "blocked_pass nodes s dead = dead")
    case True
    then show ?thesis using 1(2) pass_fixed [of nodes s nodes dead n]
      by (subst blocked_loop.simps) (simp add: blocked_pass_def)
  next
    case False
    with 1 show ?thesis by (subst blocked_loop.simps) simp
  qed
qed

lemma doomed_loop: "doomed nodes s i \<Longrightarrow> i \<in> set (blocked_loop nodes s [])"
proof (induction rule: doomed.induct)
  case (doomed_end n st)
  then show ?case using loop_fixed [of n nodes s "[]"] by (auto simp: dies_def)
next
  case (doomed_dep n st d t g st')
  then have "dep_kills nodes s (blocked_loop nodes s []) n d" by (auto simp: dep_kills_def)
  then have "list_ex (dep_kills nodes s (blocked_loop nodes s []) n) (wn_depends n)"
    using doomed_dep by (auto simp: list_ex_iff)
  with doomed_dep show ?case using loop_fixed [of n nodes s "[]"] by (auto simp: dies_def)
qed

lemma loop_iff: "i \<in> set (blocked_loop nodes s []) \<longleftrightarrow> doomed nodes s i"
  using doomed_loop loop_doomed [of "[]"] by auto

lemma blocked_iff: "i \<in> set (blocked_nodes nodes s) \<longleftrightarrow> doomed nodes s i \<and> open_node nodes s i"
  by (auto simp: blocked_nodes_def loop_iff)

end
