(* ===== verification/Work_Valid.thy ===== *)
theory Work_Valid
  imports Work_Ready
begin

section \<open>Valid graphs\<close>

text \<open>
  What a graph that \<open>check_graph\<close> accepts is known to be; the shape of a normalised node; the layers of
  the execution graph; and that a valid graph at rest reports every node that cannot start.
\<close>

subsection \<open>The shape of a node\<close>

definition wf_node :: "work_node \<Rightarrow> bool" where
  "wf_node n = (map fst (wn_stages n) = stages_for (wn_kind n))"

lemma stages_for_distinct: "distinct (stages_for k)"
  by (simp add: stages_for_def)

lemma map_of_all: "map_of (map (\<lambda>s. (s, f s)) ss) x = (if x \<in> set ss then Some (f x) else None)"
  by (induction ss) auto

lemma wf_stage: "wf_node n \<Longrightarrow> stage_of n s \<noteq> None \<longleftrightarrow> s \<in> set (stages_for (wn_kind n))"
  by (metis map_of_eq_None_iff set_map stage_of_def wf_node_def)

lemma wf_produce: "wf_node n \<Longrightarrow> stage_of n Produce \<noteq> None \<longleftrightarrow> wn_kind n \<in> set (DISCOVERY_KINDS @ [NK_Plan])"
  using wf_stage [of n Produce] by (auto simp: stages_for_def split: if_splits)

lemma wf_some_stage: "wf_node n \<Longrightarrow> stage_of n Execute = None \<Longrightarrow> stage_of n Produce \<noteq> None"
  using wf_stage [of n Execute] wf_stage [of n Produce] by (auto simp: stages_for_def split: if_splits)

lemma clean_list_bounds:
  "clean_list v f lm il = Inr ss \<Longrightarrow> length ss \<le> lm \<and> (\<forall>s \<in> set ss. s \<noteq> [] \<and> length s \<le> il)"
proof -
  assume "clean_list v f lm il = Inr ss"
  then obtain xs ys where xs: "length xs \<le> lm" "map_outcome (clean_item f il) xs = Inr ys"
      and ss: "ss = filter (\<lambda>s. s \<noteq> []) ys"
    by (auto simp: clean_list_def split: option.splits)
  have all: "list_all2 (\<lambda>x y. clean_item f il x = Inr y) xs ys" using xs(2) by (rule map_outcome_Inr)
  have "length y \<le> il" if "y \<in> set ys" for y
  proof -
    obtain x where "clean_item f il x = Inr y"
      using all \<open>y \<in> set ys\<close> by (auto simp: list_all2_conv_all_nth in_set_conv_nth)
    then show ?thesis by (auto simp: clean_item_def split: json.splits if_splits)
  qed
  moreover have "length ss \<le> lm"
    using xs(1) all ss by (metis length_filter_le list_all2_lengthD order_trans)
  ultimately show ?thesis using ss by auto
qed

text \<open>What \<open>normalize_node\<close> hands out.\<close>

definition node_shape :: "work_node \<Rightarrow> bool" where
  "node_shape n = (wf_node n \<and> NODE_ID_ok (wn_id n) \<and> wn_title n \<noteq> [] \<and> length (wn_title n) \<le> 160 \<and>
     20 \<le> length (wn_goal n) \<and> length (wn_goal n) \<le> 6000 \<and>
     wn_id n \<notin> set (wn_depends n) \<and> length (wn_depends n) \<le> 16 \<and> length (wn_acceptance n) \<le> 64 \<and>
     length (wn_tests n) \<le> 20 \<and> length (wn_files n) \<le> 40 \<and>
     (wn_kind n = NK_Plan \<longrightarrow> wn_acceptance n \<noteq> []) \<and>
     (wn_kind n \<in> {NK_Plan, NK_Build, NK_Debug} \<longrightarrow> wn_tests n \<noteq> []))"

lemma normalize_node_shape: "normalize_node raw ex = Inr n \<Longrightarrow> node_shape n"
proof -
  assume "normalize_node raw ex = Inr n"
  then show ?thesis
    by (cases raw) (clarsimp simp: normalize_node_def Let_def node_shape_def wf_node_def carried_stages_def comp_def
        split: option.split_asm; (drule clean_list_bounds)+; auto)+
qed

lemma normalize_node_carries:
  "normalize_node raw (Some m) = Inr n \<Longrightarrow> wn_kind n = wn_kind m \<and>
   (\<forall>s st. stage_of m s = Some st \<longrightarrow> s \<in> set (stages_for (wn_kind m)) \<longrightarrow> stage_of n s = Some st)"
proof -
  assume n: "normalize_node raw (Some m) = Inr n"
  have "wn_kind n = wn_kind m \<and> wn_stages n = carried_stages (wn_kind m) (Some m)"
    using n by (cases raw) (clarsimp simp: normalize_node_def Let_def kind_kept_def split: option.split_asm)+
  then show ?thesis by (auto simp: stage_of_def carried_stages_def map_of_all)
qed

subsection \<open>What validation means\<close>

lemma duplicate_ids_iff: "duplicate_ids seen is = [] \<longleftrightarrow> distinct is \<and> set is \<inter> set seen = {}"
  by (induction "is" arbitrary: seen) auto

lemma node_by_id_mem: "node_by_id nodes i = Some n \<Longrightarrow> n \<in> set nodes \<and> wn_id n = i"
  by (auto simp: node_by_id_def dest: map_of_SomeD)

lemma node_by_id_distinct:
  "distinct (map wn_id nodes) \<Longrightarrow> n \<in> set nodes \<Longrightarrow> node_by_id nodes (wn_id n) = Some n"
  unfolding node_by_id_def by (rule map_of_is_SomeI) (simp_all add: rev_map comp_def flip: rev_map)

lemma deps_of_distinct:
  "distinct (map wn_id nodes) \<Longrightarrow> n \<in> set nodes \<Longrightarrow> deps_of nodes (wn_id n) = Some (wn_depends n)"
  by (simp add: deps_of_def node_by_id_distinct)

definition valid_nodes :: "work_node list \<Rightarrow> bool" where
  "valid_nodes nodes = (distinct (map wn_id nodes) \<and>
     (\<forall>n \<in> set nodes. \<forall>d \<in> set (wn_depends n). \<exists>t. node_by_id nodes d = Some t \<and>
        \<not> (wn_kind n \<in> set (DISCOVERY_KINDS @ [NK_Plan]) \<and> wn_kind t \<in> set EXECUTION_KINDS)) \<and>
     acyclic (edges (deps_of nodes)))"

lemma edge_issue_nil:
  "edge_issue nodes n d = [] \<longleftrightarrow> (\<exists>t. node_by_id nodes d = Some t \<and>
     \<not> (wn_kind n \<in> set (DISCOVERY_KINDS @ [NK_Plan]) \<and> wn_kind t \<in> set EXECUTION_KINDS))"
  by (auto simp: edge_issue_def split: option.splits)

lemma find_cycle_not_nil: "find_cycle nodes = Some c \<Longrightarrow> c \<noteq> []"
  by (auto dest!: find_cycle_some simp: is_cycle_def)

lemma graph_issues_valid: "graph_issues nodes = [] \<longleftrightarrow> valid_nodes nodes"
  unfolding graph_issues_def valid_nodes_def append_is_Nil_conv find_cycle_iff [symmetric]
  by (auto simp: duplicate_ids_iff edge_issue_nil split: option.splits dest: find_cycle_not_nil)

lemma finite_edges: "finite (edges (deps_of nodes))"
proof (rule finite_subset)
  show "edges (deps_of nodes) \<subseteq> set (map wn_id nodes) \<times> set (map wn_id nodes)"
    unfolding dom_deps_of [symmetric] by (auto simp: edges_def)
qed simp

lemma valid_wf: "valid_nodes nodes \<Longrightarrow> wf ((edges (deps_of nodes))\<inverse>)"
  by (simp add: valid_nodes_def finite_edges finite_acyclic_wf_converse)

lemma valid_edge:
  "valid_nodes nodes \<Longrightarrow> n \<in> set nodes \<Longrightarrow> d \<in> set (wn_depends n) \<Longrightarrow>
   \<exists>t. node_by_id nodes d = Some t \<and> t \<in> set nodes \<and> wn_id t = d \<and> (wn_id n, d) \<in> edges (deps_of nodes)"
proof -
  assume v: "valid_nodes nodes" and n: "n \<in> set nodes" and d: "d \<in> set (wn_depends n)"
  then obtain t where t: "node_by_id nodes d = Some t" by (auto simp: valid_nodes_def)
  moreover have "deps_of nodes (wn_id n) = Some (wn_depends n)"
    using v n by (simp add: valid_nodes_def deps_of_distinct)
  ultimately show ?thesis using d node_by_id_mem [OF t] by (auto simp: edges_def deps_of_def)
qed

lemma valid_kinds:
  "valid_nodes nodes \<Longrightarrow> n \<in> set nodes \<Longrightarrow> d \<in> set (wn_depends n) \<Longrightarrow> node_by_id nodes d = Some t \<Longrightarrow>
   \<not> (wn_kind n \<in> set (DISCOVERY_KINDS @ [NK_Plan]) \<and> wn_kind t \<in> set EXECUTION_KINDS)"
  unfolding valid_nodes_def by (metis option.inject)

text \<open>Induction over a valid graph: from the dependencies of a node to the node.\<close>

lemma valid_induct [consumes 2, case_names below]:
  assumes v: "valid_nodes nodes" and n: "n \<in> set nodes"
    and step: "\<And>n. n \<in> set nodes \<Longrightarrow>
      (\<And>d t. d \<in> set (wn_depends n) \<Longrightarrow> node_by_id nodes d = Some t \<Longrightarrow> P t) \<Longrightarrow> P n"
  shows "P n"
proof -
  have "\<forall>n \<in> set nodes. wn_id n = i \<longrightarrow> P n" for i
  proof (induction i rule: wf_induct_rule [OF valid_wf [OF v]])
    case (1 i)
    show ?case
    proof (intro ballI impI)
      fix m assume m: "m \<in> set nodes" "wn_id m = i"
      show "P m"
      proof (rule step [OF m(1)])
        fix d t assume d: "d \<in> set (wn_depends m)" "node_by_id nodes d = Some t"
        then have "t \<in> set nodes" "wn_id t = d" "(i, d) \<in> edges (deps_of nodes)"
          using valid_edge [OF v m(1), of d] m(2) by auto
        with 1 show "P t" by auto
      qed
    qed
  qed
  with n show ?thesis by blast
qed

subsection \<open>A graph at rest\<close>

text \<open>
  The stage of a node that the others wait for in stage \<open>s\<close>, and a graph in which that stage has either
  not started or ended: nothing runs, nothing waits for a check.
\<close>

definition gating :: "stage_name \<Rightarrow> work_node \<Rightarrow> stage_name" where
  "gating s t = (if s = Execute \<and> stage_of t Execute \<noteq> None then Execute else Produce)"

definition at_rest :: "work_node list \<Rightarrow> stage_name \<Rightarrow> bool" where
  "at_rest nodes s = (\<forall>t \<in> set nodes. \<forall>st. stage_of t (gating s t) = Some st \<longrightarrow>
     (if gating s t = s then startable (sg_status st) \<or> dead_end st \<or> stage_done t s
      else ended (sg_status st) \<or> stage_done t (gating s t)))"

lemma gate_gating: "gate_stage n t s = Some g \<Longrightarrow> g = gating s t"
  by (auto simp: gate_stage_def gating_def split: if_splits)

lemma rest_doomed:
  assumes v: "valid_nodes nodes" and wf: "\<forall>n \<in> set nodes. wf_node n" and rest: "at_rest nodes s"
    and none: "ready_nodes nodes s [] = []" and n: "n \<in> set nodes"
  shows "\<forall>st. stage_of n s = Some st \<longrightarrow> startable (sg_status st) \<longrightarrow> doomed nodes s (wn_id n)"
  using v n
proof (induction rule: valid_induct)
  case (below n)
  show ?case
  proof (intro allI impI)
    fix st assume st: "stage_of n s = Some st" "startable (sg_status st)"
    have "\<not> node_ready nodes s [] n" using none below(1) by (auto simp: ready_nodes_def filter_empty_conv)
    then obtain d where d: "d \<in> set (wn_depends n)"
        "\<not> (case node_by_id nodes d of None \<Rightarrow> False | Some t \<Rightarrow> dependency_satisfied n t s)"
      using st by (auto simp: node_ready_def list_all_iff)
    then obtain t where t: "node_by_id nodes d = Some t" "t \<in> set nodes" "wn_id t = d"
      using valid_edge [OF v below(1)] by blast
    then obtain g where g: "gate_stage n t s = Some g" "\<not> stage_done t g"
      using d(2) by (auto simp: dependency_satisfied_def split: option.splits)
    then have gg: "g = gating s t" by (simp add: gate_gating)
    have "stage_of t g \<noteq> None"
    proof (cases "s = Execute")
      case True
      then show ?thesis using gg wf_some_stage [of t] wf t(2) by (auto simp: gating_def)
    next
      case False
      then have s: "s = Produce" "g = Produce" using gg by (cases s; simp add: gating_def)+
      have "wn_kind n \<in> set (DISCOVERY_KINDS @ [NK_Plan])" using st(1) s wf below(1) wf_produce [of n] by auto
      then have "wn_kind t \<notin> set EXECUTION_KINDS" using valid_kinds [OF v below(1) d(1) t(1)] by blast
      then have "wn_kind t \<in> set (DISCOVERY_KINDS @ [NK_Plan])"
        by (cases "wn_kind t") (simp_all add: DISCOVERY_KINDS_def EXECUTION_KINDS_def)
      then show ?thesis using s wf t(2) wf_produce [of t] by simp
    qed
    then obtain st' where st': "stage_of t g = Some st'" by blast
    have "doomed nodes s d \<or> ended (sg_status st')"
    proof (cases "g = s")
      case True
      then have "startable (sg_status st') \<or> dead_end st'"
        using rest t(2) st' g(2) gg by (fastforce simp: at_rest_def)
      then show ?thesis
      proof
        assume "startable (sg_status st')"
        then show ?thesis using below(2) [OF d(1) t(1)] st' True t(3) by blast
      next
        assume "dead_end st'"
        then show ?thesis using doomed_end [OF t(2)] st' True t(3) by blast
      qed
    next
      case False
      then show ?thesis using rest t(2) st' g(2) gg by (fastforce simp: at_rest_def)
    qed
    then show "doomed nodes s (wn_id n)"
      using doomed_dep [OF below(1) st d(1) t(1) g(1) st'] by blast
  qed
qed

end
