(* ===== verification/Work_Waves.thy ===== *)
theory Work_Waves
  imports Work_Valid
begin

section \<open>The execution waves\<close>

text \<open>
  \<open>execution_waves\<close> layers the execution nodes of a valid graph: every node is in exactly one wave, after
  every node it depends on.
\<close>

definition row_edges :: "(string \<times> string list) list \<Rightarrow> (string \<times> string) set" where
  "row_edges rows = {(d, i). \<exists>ds. (i, ds) \<in> set rows \<and> d \<in> set ds}"

definition rows_closed :: "(string \<times> string list) list \<Rightarrow> bool" where
  "rows_closed rows = (distinct (map fst rows) \<and> (\<forall>r \<in> set rows. set (snd r) \<subseteq> set (map fst rows)) \<and>
     wf (row_edges rows))"

lemma drop_layer_mem:
  "(i, ds) \<in> set (drop_layer l rows) \<longleftrightarrow> i \<notin> set l \<and> (\<exists>es. (i, es) \<in> set rows \<and> ds = filter (\<lambda>d. d \<notin> set l) es)"
  by (force simp: drop_layer_def)

lemma drop_layer_fst: "map fst (drop_layer l rows) = filter (\<lambda>i. i \<notin> set l) (map fst rows)"
  by (induction rows) (auto simp: drop_layer_def)

lemma layer_sub: "set (layer_of rows) \<subseteq> set (map fst rows)"
  by (force simp: layer_of_set)

lemma layer_distinct: "distinct (map fst rows) \<Longrightarrow> distinct (layer_of rows)"
  unfolding layer_of_def distinct_sort by (rule distinct_map_filter)

lemma rows_closed_drop: "rows_closed rows \<Longrightarrow> rows_closed (drop_layer l rows)"
proof -
  assume c: "rows_closed rows"
  have "row_edges (drop_layer l rows) \<subseteq> row_edges rows"
    by (auto simp: row_edges_def drop_layer_mem)
  then have "wf (row_edges (drop_layer l rows))" using c by (auto simp: rows_closed_def intro: wf_subset)
  moreover have "set ds \<subseteq> set (map fst (drop_layer l rows))" if "(i, ds) \<in> set (drop_layer l rows)" for i ds
    using that c unfolding drop_layer_fst by (fastforce simp: drop_layer_mem rows_closed_def)
  moreover have "distinct (map fst (drop_layer l rows))"
    using c unfolding drop_layer_fst by (simp add: rows_closed_def)
  ultimately show ?thesis unfolding rows_closed_def by fastforce
qed

lemma layer_exists: "rows_closed rows \<Longrightarrow> rows \<noteq> [] \<Longrightarrow> layer_of rows \<noteq> []"
proof -
  assume c: "rows_closed rows" and ne: "rows \<noteq> []"
  then obtain x where "x \<in> set (map fst rows)" by (cases rows) auto
  then obtain i where i: "i \<in> set (map fst rows)" "\<And>d. (d, i) \<in> row_edges rows \<Longrightarrow> d \<notin> set (map fst rows)"
    using c wfE_min [of "row_edges rows" x "set (map fst rows)"] unfolding rows_closed_def by blast
  then obtain ds where ds: "(i, ds) \<in> set rows" by auto
  have "ds = []"
  proof (cases ds)
    case (Cons d es)
    then have "(d, i) \<in> row_edges rows" using ds by (auto simp: row_edges_def)
    moreover have "d \<in> set (map fst rows)" using c ds Cons by (fastforce simp: rows_closed_def)
    ultimately show ?thesis using i(2) by blast
  qed
  then have "i \<in> set (layer_of rows)" using ds by (simp add: layer_of_set)
  then show ?thesis by auto
qed

lemma waves_cover: "rows_closed rows \<Longrightarrow> set (concat (waves_from rows)) = set (map fst rows)"
proof (induction rows rule: waves_from.induct)
  case (1 rows)
  show ?case
  proof (cases "layer_of rows = []")
    case True
    then show ?thesis using 1(2) layer_exists by (auto simp: waves_from.simps [of rows])
  next
    case False
    then have "set (concat (waves_from (drop_layer (layer_of rows) rows))) = set (map fst rows) - set (layer_of rows)"
      using 1 unfolding drop_layer_fst by (auto simp: rows_closed_drop drop_layer_fst)
    then show ?thesis using False layer_sub [of rows] by (subst waves_from.simps) auto
  qed
qed

lemma waves_sub: "set (concat (waves_from rows)) \<subseteq> set (map fst rows)"
proof (induction rows rule: waves_from.induct)
  case (1 rows)
  show ?case
  proof (cases "layer_of rows = []")
    case True
    then show ?thesis by (simp add: waves_from.simps [of rows])
  next
    case False
    then have "set (concat (waves_from (drop_layer (layer_of rows) rows))) \<subseteq> set (map fst rows)"
      using 1 unfolding drop_layer_fst by auto
    then show ?thesis using False layer_sub [of rows] by (subst waves_from.simps) auto
  qed
qed

lemma waves_distinct: "distinct (map fst rows) \<Longrightarrow> distinct (concat (waves_from rows))"
proof (induction rows rule: waves_from.induct)
  case (1 rows)
  show ?case
  proof (cases "layer_of rows = []")
    case True
    then show ?thesis by (simp add: waves_from.simps [of rows])
  next
    case False
    have "set (concat (waves_from (drop_layer (layer_of rows) rows))) \<inter> set (layer_of rows) = {}"
      using waves_sub [of "drop_layer (layer_of rows) rows"] unfolding drop_layer_fst by auto
    then show ?thesis using False 1 layer_distinct [of rows]
      by (subst waves_from.simps) (auto simp: drop_layer_fst)
  qed
qed

lemma waves_ordered:
  "distinct (map fst rows) \<Longrightarrow> (i, ds) \<in> set rows \<Longrightarrow> d \<in> set ds \<Longrightarrow> k < length (waves_from rows) \<Longrightarrow>
   i \<in> set (waves_from rows ! k) \<Longrightarrow> \<exists>j < k. d \<in> set (waves_from rows ! j)"
proof (induction rows arbitrary: ds k rule: waves_from.induct)
  case (1 rows)
  have ne: "layer_of rows \<noteq> []" using "1.prems"(4) by (auto simp: waves_from.simps [of rows] split: if_splits)
  then have w: "waves_from rows = layer_of rows # waves_from (drop_layer (layer_of rows) rows)"
    by (simp add: waves_from.simps [of rows])
  have il: "i \<notin> set (layer_of rows)"
  proof
    assume "i \<in> set (layer_of rows)"
    then have "(i, []) \<in> set rows" by (simp add: layer_of_set)
    then have "ds = []" using "1.prems"(1,2) by (metis eq_key_imp_eq_value)
    with "1.prems"(3) show False by simp
  qed
  then obtain k' where k: "k = Suc k'" using "1.prems"(5) w by (cases k) auto
  show ?case
  proof (cases "d \<in> set (layer_of rows)")
    case True
    then show ?thesis using w k by (intro exI [of _ 0]) simp
  next
    case False
    let ?r = "drop_layer (layer_of rows) rows"
    have "(i, filter (\<lambda>d. d \<notin> set (layer_of rows)) ds) \<in> set ?r"
      using "1.prems"(2) il by (auto simp: drop_layer_mem)
    moreover have "distinct (map fst ?r)" using "1.prems"(1) by (simp add: drop_layer_fst)
    ultimately obtain j where "j < k'" "d \<in> set (waves_from ?r ! j)"
      using "1.IH" [OF ne, of "filter (\<lambda>d. d \<notin> set (layer_of rows)) ds" k'] "1.prems"(3,4,5) False w k by auto
    then show ?thesis using w k by (intro exI [of _ "Suc j"]) simp
  qed
qed

subsection \<open>The rows of a valid graph\<close>

lemma dict_set_new: "k \<notin> set (map fst d) \<Longrightarrow> dict_set k v d = d @ [(k, v)]"
  by (induction d) auto

lemma rows_fold:
  "distinct (map fst d @ map f ns) \<Longrightarrow> fold (\<lambda>n. dict_set (f n) (g n)) ns d = d @ map (\<lambda>n. (f n, g n)) ns"
  by (induction ns arbitrary: d) (simp_all add: dict_set_new)

lemma waiting_rows_valid:
  "distinct (map wn_id nodes) \<Longrightarrow> waiting_rows nodes =
     map (\<lambda>n. (wn_id n, filter (\<lambda>d. d \<in> set (map wn_id (runnable nodes))) (wn_depends n))) (runnable nodes)"
  unfolding waiting_rows_def by (subst rows_fold) (simp_all add: runnable_def distinct_map_filter)

lemma rows_closed_valid: "valid_nodes nodes \<Longrightarrow> rows_closed (waiting_rows nodes)"
proof -
  assume v: "valid_nodes nodes"
  then have d: "distinct (map wn_id nodes)" by (simp add: valid_nodes_def)
  have r: "set (runnable nodes) \<subseteq> set nodes" by (auto simp: runnable_def)
  have "row_edges (waiting_rows nodes) \<subseteq> (edges (deps_of nodes))\<inverse>"
    unfolding row_edges_def waiting_rows_valid [OF d] using r valid_edge [OF v] by fastforce
  with valid_wf [OF v] have "wf (row_edges (waiting_rows nodes))" by (rule wf_subset)
  moreover have "distinct (map wn_id (runnable nodes))"
    unfolding runnable_def using d by (rule distinct_map_filter)
  ultimately show ?thesis
    unfolding rows_closed_def by (auto simp: waiting_rows_valid [OF d] comp_def)
qed

end
