(* ===== verification/Work_State.thy ===== *)
theory Work_State
  imports Work_Waves
begin

section \<open>The state of a work run\<close>

text \<open>
  The durable document of a run (\<open>work_runs\<close> of \<open>agent_core/work_graph.py\<close>) with the rows of the check
  table that belong to it (\<open>work_checks\<close> of \<open>agent_core/work_checks.py\<close>).
\<close>

datatype run_status = RS_Drafting | RS_Discovering | RS_Verifying | RS_Needs_Revision | RS_Verified
  | RS_Awaiting_Approval | RS_Approved | RS_Executing | RS_Executed | RS_Execute_Failed
  | RS_Shipped | RS_Cancelled | RS_Rejected | RS_Paused

definition TERMINAL_STATUSES :: "run_status list" where
  "TERMINAL_STATUSES = [RS_Shipped, RS_Cancelled, RS_Rejected]"

datatype approver = By_Owner | By_Autopilot
datatype approval_status = AS_Approved | AS_Changes_Requested | AS_Rejected

record approval =
  ap_status :: approval_status
  ap_by :: approver

datatype review_verdict = V_Ok | V_Revise

text \<open>What the whole-plan review is bound to: goal, interviews, node definitions and produced artifacts.\<close>

record whole_binding =
  wb_goal :: string
  wb_interviews :: "json list"
  wb_nodes :: "node_def list"
  wb_artifacts :: "string option list"

record graph_review =
  gr_status :: "review_verdict option"
  gr_binding :: "whole_binding option"
  gr_rounds :: "review_verdict option list"

definition no_review :: graph_review where
  "no_review = \<lparr>gr_status = None, gr_binding = None, gr_rounds = []\<rparr>"

datatype check_status = CS_Running | CS_Pass | CS_Revise | CS_Unverified | CS_Error | CS_Superseded

record check_record =
  ck_id :: string
  ck_node :: string
  ck_stage :: stage_name
  ck_artifact :: string
  ck_policy :: "policy_body option"
  ck_kind :: string
  ck_status :: check_status
  ck_started :: rat
  ck_inputs :: string
  ck_findings :: string
  ck_conflicts :: "conflict list"
  ck_resolved :: bool

record merge_state =
  ig_status :: "string option"
  ig_nodes :: "(string \<times> string) list"
  ig_snapshot :: "string option"
  ig_tree :: "string option"
  ig_needs_tests :: bool
  ig_stage :: stage_state

record isolation =
  is_version :: int
  is_mode :: string

record work_run =
  wr_goal :: string
  wr_flow :: string
  wr_status :: run_status
  wr_nodes :: "work_node list"
  wr_review :: graph_review
  wr_past_reviews :: "graph_review list"
  wr_approval :: "approval option"
  wr_requested :: bool
  wr_version :: string
  wr_interviews :: "json list"
  wr_isolation :: "isolation option"
  wr_integration :: "merge_state option"
  wr_checks :: "check_record list"

definition git_mode :: "work_run \<Rightarrow> bool" where
  "git_mode r = (case wr_isolation r of None \<Rightarrow> False | Some i \<Rightarrow> 1 \<le> is_version i \<and> is_mode i = ''git'')"

definition find_node :: "work_run \<Rightarrow> string \<Rightarrow> work_node option" where
  "find_node r i = List.find (\<lambda>n. wn_id n = i) (wr_nodes r)"

subsection \<open>Writing to a stage\<close>

definition put_stage :: "stage_name \<Rightarrow> (stage_state \<Rightarrow> stage_state) \<Rightarrow> work_node \<Rightarrow> work_node" where
  "put_stage s f n = n\<lparr>wn_stages := map (\<lambda>(s', st). (s', if s' = s then f st else st)) (wn_stages n)\<rparr>"

definition put_node :: "string \<Rightarrow> stage_name \<Rightarrow> (stage_state \<Rightarrow> stage_state) \<Rightarrow> work_run \<Rightarrow> work_run" where
  "put_node i s f r = r\<lparr>wr_nodes := map (\<lambda>n. if wn_id n = i then put_stage s f n else n) (wr_nodes r)\<rparr>"

lemma map_of_put: "map_of (map (\<lambda>(k, v). (k, if k = s then f v else v)) xs) k =
    (if k = s then map_option f (map_of xs s) else map_of xs k)"
  by (induction xs) auto

lemma stage_of_put: "stage_of (put_stage s f n) s' = (if s' = s then map_option f (stage_of n s) else stage_of n s')"
  by (simp add: stage_of_def put_stage_def map_of_put)

lemma put_stage_def_of [simp]:
  "wn_id (put_stage s f n) = wn_id n" "wn_kind (put_stage s f n) = wn_kind n"
  "wn_depends (put_stage s f n) = wn_depends n" "definition_of (put_stage s f n) = definition_of n"
  by (simp_all add: put_stage_def definition_of_def node_def.truncate_def)

lemma put_stage_names [simp]: "map fst (wn_stages (put_stage s f n)) = map fst (wn_stages n)"
  by (simp add: put_stage_def comp_def case_prod_beta)

lemma put_node_frame [simp]:
  "wr_status (put_node i s f r) = wr_status r" "wr_approval (put_node i s f r) = wr_approval r"
  "wr_review (put_node i s f r) = wr_review r" "wr_checks (put_node i s f r) = wr_checks r"
  "wr_goal (put_node i s f r) = wr_goal r" "wr_requested (put_node i s f r) = wr_requested r"
  "wr_integration (put_node i s f r) = wr_integration r" "wr_isolation (put_node i s f r) = wr_isolation r"
  by (simp_all add: put_node_def)

lemma put_node_ids [simp]: "map wn_id (wr_nodes (put_node i s f r)) = map wn_id (wr_nodes r)"
  by (simp add: put_node_def comp_def if_distrib cong: if_cong)

end
