(* ===== verification/Work_Policy.thy ===== *)
theory Work_Policy
  imports Work_State Regex
begin

section \<open>Verification policy\<close>

text \<open>
  \<open>agent_core/work_policy.py\<close>: the checks a draft must pass (\<open>derive\<close>), the checks of the merged run
  branch (\<open>integration\<close>), \<open>research_only\<close> and \<open>git_isolated\<close>. The texts of the criteria are left out. The
  texts searched are ASCII here, so the Vietnamese alternatives of the two patterns never match and are
  dropped.
\<close>

definition POLICY_VERSION :: string where "POLICY_VERSION = ''work-checks/10''"

definition COMPATIBLE_VERSIONS :: "string list" where
  "COMPATIBLE_VERSIONS = [''work-checks/10'', ''work-checks/11'']"

definition version_ok :: "string \<Rightarrow> bool" where
  "version_ok v = (v \<in> set COMPATIBLE_VERSIONS)"

definition ARTIFACTS :: "string list" where
  "ARTIFACTS = [''knowledge'', ''diagnostic'', ''research'', ''design'', ''plan'', ''patch'', ''test_report'']"

definition CONSEQUENTIAL :: rx where
  "CONSEQUENTIAL = Words [''medical'', ''clinical'', ''health'', ''legal'', ''security'', ''auth'', ''migration'',
     ''production'', ''irreversible'']"

definition PLAN_CONTENT :: rx where
  "PLAN_CONTENT = Seqs [Bos, Text ''#'', Opt (Text ''#''), Opt (Text ''#''), Opt (Text ''#''), Plus Sp,
     Star (Cls True [One (CHR 0x0A)]), Words [''milestones'', ''implementation plan'', ''sub-plan'']]"

text \<open>\<open>^\<close> with \<open>re.M\<close>: the text from the start of each line on.\<close>

fun line_starts :: "string \<Rightarrow> string list" where
  "line_starts [] = []"
| "line_starts (c # cs) = (if c = CHR 0x0A then [cs] else []) @ line_starts cs"

definition plan_content :: "string \<Rightarrow> bool" where
  "plan_content t = list_ex (\<lambda>s. ends True PLAN_CONTENT (None, s) \<noteq> []) (t # line_starts t)"

definition git_isolated :: "work_run \<Rightarrow> bool" where
  "git_isolated r = (case wr_isolation r of None \<Rightarrow> False | Some i \<Rightarrow> 1 \<le> is_version i \<and> is_mode i = ''git'')"

definition field_of :: "work_node \<Rightarrow> string \<Rightarrow> string option" where
  "field_of n f = map_of (wn_policy n) f"

definition default_artifact :: "node_kind \<Rightarrow> string" where
  "default_artifact k =
     (case k of
        NK_Explore \<Rightarrow> ''knowledge''
      | NK_Debug \<Rightarrow> ''diagnostic''
      | NK_Testing \<Rightarrow> ''test_report''
      | _ \<Rightarrow> if kind_name k \<in> set ARTIFACTS then kind_name k else ''patch'')"

definition artifact_kind :: "work_node \<Rightarrow> stage_name \<Rightarrow> string \<Rightarrow> bool \<Rightarrow> string" where
  "artifact_kind n s text changed =
     (let k = wn_kind n; task = field_of n ''taskKind'';
          declared = (case field_of n ''artifactKind'' of None \<Rightarrow> default_artifact k | Some a \<Rightarrow> a);
          first = (if k = NK_Research \<and> task = Some ''lookup'' \<and> field_of n ''artifactKind'' = None
                   then ''knowledge'' else declared)
      in if changed \<or> s = Execute \<and> (k \<in> {NK_Plan, NK_Build, NK_Simplify} \<or>
              k = NK_Debug \<and> task = Some ''implementation'') then ''patch''
         else if k = NK_Plan \<or> first = ''plan'' \<or> plan_content text then ''plan''
         else if k = NK_Design then ''design''
         else if k = NK_Research \<and> task \<noteq> Some ''lookup'' then ''research''
         else first)"

definition consequential :: "work_run \<Rightarrow> work_node \<Rightarrow> bool \<Rightarrow> bool" where
  "consequential r n code_risk =
     (code_risk \<or> field_of n ''risk'' = Some ''consequential'' \<or>
      search_from True CONSEQUENTIAL None (wr_goal r @ '' '' @ wn_goal n))"

definition base_checks :: "node_kind \<Rightarrow> string \<Rightarrow> bool \<Rightarrow> (string \<times> string) list" where
  "base_checks k a cons =
     (let reviewer = (if k = NK_Research then ''research-review'' else ''review'');
          critic = (if k = NK_Research then ''research-review'' else ''plan-review'')
      in (if a = ''patch'' then (''tests'', ''testing'') # (if cons then [(''code_review'', ''review'')] else [])
          else if a = ''plan'' then [(''plan_review'', ''plan-review'')]
          else if a = ''design'' then [(''design_review'', ''plan-review'')]
          else if a = ''research'' then [(''evidence'', ''research-review'')]
          else if a \<in> {''knowledge'', ''diagnostic''} \<and> cons then [(''evidence'', reviewer)]
          else [])
         @ (if cons \<and> a \<in> {''research'', ''knowledge'', ''diagnostic'', ''plan'', ''design''}
            then [(''critique'', critic)] else []))"

definition with_hash :: "policy_body \<Rightarrow> check_policy" where
  "with_hash b = policy_body.extend b \<lparr>pb_hash = Some b\<rparr>"

definition derive :: "work_run \<Rightarrow> work_node \<Rightarrow> stage_name \<Rightarrow> string \<Rightarrow> bool \<Rightarrow> bool \<Rightarrow> check_policy" where
  "derive r n s text changed code_risk =
     (let a = artifact_kind n s text changed; cons = consequential r n code_risk;
          checks = base_checks (wn_kind n) a cons;
          defer = a = ''patch'' \<and> git_isolated r
      in with_hash \<lparr>pb_version = POLICY_VERSION, pb_artifact = a, pb_consequential = cons,
           pb_required = (if defer then filter (\<lambda>c. fst c \<noteq> ''code_review'') checks else checks),
           pb_deferred = (if defer then [''code_review''] else []), pb_integration = False, pb_tests = []\<rparr>)"

definition accepted_nodes :: "work_run \<Rightarrow> work_node list" where
  "accepted_nodes r = filter (\<lambda>n. case stage_of n Execute of None \<Rightarrow> False | Some st \<Rightarrow> sg_status st = SG_Accepted)
     (wr_nodes r)"

definition execute_policy :: "work_node \<Rightarrow> check_policy option" where
  "execute_policy n = Option.bind (stage_of n Execute) sg_policy"

definition integration :: "work_run \<Rightarrow> check_policy" where
  "integration r =
     (let acc = accepted_nodes r;
          needs = (case wr_integration r of None \<Rightarrow> False | Some g \<Rightarrow> ig_needs_tests g);
          review = list_ex (\<lambda>n. case execute_policy n of None \<Rightarrow> False | Some p \<Rightarrow> pb_consequential p) acc;
          deferred = list_ex (\<lambda>n. case execute_policy n of None \<Rightarrow> False | Some p \<Rightarrow> pb_deferred p \<noteq> []) acc
      in with_hash \<lparr>pb_version = POLICY_VERSION, pb_artifact = ''patch'', pb_consequential = review,
           pb_required = (if needs \<or> list_ex (\<lambda>n. wn_tests n \<noteq> []) acc then [(''tests'', ''testing'')] else [])
             @ (if review \<or> deferred then [(''code_review'', ''review'')] else []),
           pb_deferred = [], pb_integration = True,
           pb_tests = sort (remdups (concat (map wn_tests acc)))\<rparr>)"

definition research_only :: "work_run \<Rightarrow> bool" where
  "research_only r =
     (let producers = filter (\<lambda>n. stage_of n Produce \<noteq> None) (wr_nodes r)
      in wr_flow r = ''research'' \<and> producers \<noteq> [] \<and>
         list_all (\<lambda>n. case Option.bind (stage_of n Produce) sg_policy of None \<Rightarrow> False
             | Some p \<Rightarrow> pb_artifact p \<in> {''knowledge'', ''research''}) producers)"

subsection \<open>What the policy demands\<close>

definition check_ids :: "check_policy \<Rightarrow> string list" where
  "check_ids p = map fst (pb_required p)"

lemma with_hash_sel [simp]:
  "pb_version (with_hash b) = pb_version b" "pb_artifact (with_hash b) = pb_artifact b"
  "pb_consequential (with_hash b) = pb_consequential b" "pb_required (with_hash b) = pb_required b"
  "pb_deferred (with_hash b) = pb_deferred b" "pb_hash (with_hash b) = Some b" "policy_body.truncate (with_hash b) = b"
  by (simp_all add: with_hash_def policy_body.defs)

lemma executed_code_is_patch:
  "wn_kind n \<in> {NK_Plan, NK_Build, NK_Simplify} \<Longrightarrow> pb_artifact (derive r n Execute text ch cr) = ''patch''"
  by (auto simp: derive_def artifact_kind_def Let_def)

lemma changed_code_is_patch: "pb_artifact (derive r n s text True cr) = ''patch''"
  by (simp add: derive_def artifact_kind_def Let_def)

lemma patch_checks:
  "pb_artifact (derive r n s text ch cr) = ''patch'' \<Longrightarrow>
   ''tests'' \<in> set (check_ids (derive r n s text ch cr)) \<and>
   (if git_isolated r then pb_deferred (derive r n s text ch cr) = [''code_review'']
    else pb_consequential (derive r n s text ch cr) \<longrightarrow> ''code_review'' \<in> set (check_ids (derive r n s text ch cr)))"
  by (auto simp: derive_def Let_def base_checks_def check_ids_def)

lemma integration_reviews_deferred:
  assumes n: "n \<in> set (accepted_nodes r)" and p: "execute_policy n = Some p" "pb_deferred p \<noteq> [] \<or> pb_consequential p"
  shows "''code_review'' \<in> set (check_ids (integration r))"
proof -
  have "list_ex (\<lambda>n. case execute_policy n of None \<Rightarrow> False | Some p \<Rightarrow> pb_consequential p) (accepted_nodes r) \<or>
        list_ex (\<lambda>n. case execute_policy n of None \<Rightarrow> False | Some p \<Rightarrow> pb_deferred p \<noteq> []) (accepted_nodes r)"
    using p(2)
  proof
    assume "pb_deferred p \<noteq> []"
    then show ?thesis using n p(1) unfolding list_ex_iff by (intro disjI2 bexI [of _ n]) simp_all
  next
    assume "pb_consequential p"
    then show ?thesis using n p(1) unfolding list_ex_iff by (intro disjI1 bexI [of _ n]) simp_all
  qed
  then show ?thesis by (simp add: integration_def Let_def check_ids_def)
qed

lemma integration_tests:
  assumes n: "n \<in> set (accepted_nodes r)" and t: "wn_tests n \<noteq> []"
  shows "''tests'' \<in> set (check_ids (integration r))"
proof -
  have "list_ex (\<lambda>n. wn_tests n \<noteq> []) (accepted_nodes r)" using n t by (auto simp: list_ex_iff)
  then show ?thesis by (simp add: integration_def Let_def check_ids_def)
qed

lemma consequential_is_checked:
  assumes "pb_consequential (derive r n s text ch cr)" and "pb_artifact (derive r n s text ch cr) \<noteq> ''test_report''"
    and "pb_artifact (derive r n s text ch cr) \<in> set ARTIFACTS"
  shows "check_ids (derive r n s text ch cr) \<noteq> []"
  using assms by (auto simp: derive_def Let_def base_checks_def check_ids_def ARTIFACTS_def)

end
