(* ===== verification/Work_Gate.thy ===== *)
theory Work_Gate
  imports Work_Policy
begin

section \<open>The gate: current inputs and passed checks\<close>

text \<open>
  \<open>Checks.binding\<close>, \<open>Checks.latest\<close> and \<open>Checks.valid\<close> of \<open>agent_core/work_checks.py\<close>, with
  \<open>WorkGraph.whole_binding\<close>. What other services answer is a field of the record \<open>world\<close>: the decisions
  recorded for a node (\<open>feedback\<close>), whether the artifact registry still holds the inputs of the checks,
  the code identity of the workspace and of the run branch, how a merge of a node goes (\<open>None\<close> a conflict,
  otherwise whether the tree needs tests, and its hash), the snapshot of the run branch, the answered
  requests, the repository chosen for the run, what the owner asked for, the session's Autopilot
  switch, and the cards that wait.
\<close>

record world =
  w_decisions :: "string \<Rightarrow> json option"
  w_inputs_ok :: "artifact \<Rightarrow> check_record list \<Rightarrow> bool"
  w_same_code :: "artifact option \<Rightarrow> bool"
  w_branch_same :: bool
  w_merge :: "string \<Rightarrow> (bool \<times> string option) option"
  w_snapshot :: "(string \<times> string) option"
  w_new_artifact :: string
  w_request_ready :: "string \<Rightarrow> bool"
  w_isolation :: "isolation option"
  w_requested :: bool
  w_autopilot :: bool
  w_card_waiting :: bool
  w_busy :: bool

definition INPUTS_VERSION :: string where "INPUTS_VERSION = ''work-check-inputs/2''"

definition artifact_id :: "stage_state option \<Rightarrow> string option" where
  "artifact_id st = map_option ar_id (Option.bind st sg_artifact)"

definition binding_dependencies :: "work_run \<Rightarrow> work_node \<Rightarrow> stage_name \<Rightarrow> (string \<times> node_def \<times> string option) list" where
  "binding_dependencies r n s =
     concat (map (\<lambda>d. case find_node r d of
         None \<Rightarrow> []
       | Some t \<Rightarrow> (case gate_stage n t s of
             None \<Rightarrow> []
           | Some g \<Rightarrow> [(d, definition_of t, artifact_id (stage_of t g))])) (wn_depends n))"

definition text_value :: "string option \<Rightarrow> bind_value" where
  "text_value v = (case v of None \<Rightarrow> BV_None | Some t \<Rightarrow> BV_Text t)"

definition binding_of :: "world \<Rightarrow> work_run \<Rightarrow> work_node \<Rightarrow> stage_name \<Rightarrow> (string \<times> bind_value) list" where
  "binding_of w r n s =
     [(''nodeDefinition'', BV_Definition (definition_of n)),
      (''dependencies'', BV_Dependencies (binding_dependencies r n s)),
      (''owner'', BV_Owner (wr_goal r) (wr_interviews r))]
     @ (case w_decisions w (wn_id n) of None \<Rightarrow> [] | Some d \<Rightarrow> [(''feedbackDecisions'', BV_Data d)])
     @ (if s = Execute \<and> wn_kind n = NK_Plan
        then [(''ownPlan'', text_value (artifact_id (stage_of n Produce)))] else [])"

definition bound_value :: "artifact \<Rightarrow> string \<Rightarrow> bind_value" where
  "bound_value a k = (case map_of (ar_binding a) k of None \<Rightarrow> BV_None | Some v \<Rightarrow> v)"

definition binding_current :: "world \<Rightarrow> work_run \<Rightarrow> work_node \<Rightarrow> stage_name \<Rightarrow> artifact \<Rightarrow> bool" where
  "binding_current w r n s a = list_all (\<lambda>(k, v). bound_value a k = v) (binding_of w r n s)"

subsection \<open>The latest record of each check\<close>

definition relevant :: "work_node \<Rightarrow> stage_name \<Rightarrow> check_record \<Rightarrow> bool" where
  "relevant n s k =
     (case stage_of n s of
        None \<Rightarrow> False
      | Some st \<Rightarrow>
          ck_node k = wn_id n \<and> ck_stage k = s \<and> Some (ck_artifact k) = map_option ar_id (sg_artifact st) \<and>
          ck_policy k = Option.bind (sg_policy st) pb_hash \<and>
          ck_kind k \<in> set (case sg_policy st of None \<Rightarrow> [] | Some p \<Rightarrow> check_ids p))"

definition overtakes :: "check_record \<Rightarrow> (string \<times> check_record) list \<Rightarrow> bool" where
  "overtakes k acc = (case map_of acc (ck_kind k) of None \<Rightarrow> True | Some p \<Rightarrow> ck_started p < ck_started k)"

definition take_later :: "check_record \<Rightarrow> (string \<times> check_record) list \<Rightarrow> (string \<times> check_record) list" where
  "take_later k acc = (if overtakes k acc then dict_set (ck_kind k) k acc else acc)"

definition latest :: "work_run \<Rightarrow> work_node \<Rightarrow> stage_name \<Rightarrow> (string \<times> check_record) list" where
  "latest r n s = fold take_later (filter (relevant n s) (wr_checks r)) []"

definition policy_sound :: "artifact \<Rightarrow> check_policy option \<Rightarrow> bool" where
  "policy_sound a p =
     (case p of
        None \<Rightarrow> False
      | Some q \<Rightarrow> version_ok (pb_version q) \<and>
          (case pb_hash q of
             None \<Rightarrow> False
           | Some h \<Rightarrow> bound_value a ''policyHash'' = BV_Policy h \<and> policy_body.truncate q = h))"

definition req_passed :: "(string \<times> check_record) list \<Rightarrow> string \<times> string \<Rightarrow> bool" where
  "req_passed recs c =
     (case map_of recs (fst c) of
        None \<Rightarrow> False
      | Some k \<Rightarrow> ck_status k = CS_Pass \<and> ck_inputs k = INPUTS_VERSION)"

definition gate_open :: "world \<Rightarrow> work_run \<Rightarrow> work_node \<Rightarrow> stage_name \<Rightarrow> bool" where
  "gate_open w r n s =
     (case Option.bind (stage_of n s) sg_artifact of
        None \<Rightarrow> False
      | Some a \<Rightarrow>
          ar_status a = ''finalized'' \<and> binding_current w r n s a \<and>
          (case Option.bind (stage_of n s) sg_policy of
             None \<Rightarrow> False
           | Some p \<Rightarrow> policy_sound a (Some p) \<and>
               w_inputs_ok w a (map snd (latest r n s)) \<and>
               list_all (req_passed (latest r n s)) (pb_required p)))"

definition whole_binding_of :: "work_run \<Rightarrow> whole_binding" where
  "whole_binding_of r =
     \<lparr>wb_goal = wr_goal r, wb_interviews = wr_interviews r, wb_nodes = map definition_of (wr_nodes r),
      wb_artifacts = map (\<lambda>n. artifact_id (stage_of n Produce))
        (filter (\<lambda>n. stage_of n Produce \<noteq> None) (wr_nodes r))\<rparr>"

subsection \<open>What the latest records are\<close>

lemma map_of_dict_set: "map_of (dict_set k v d) j = (if j = k then Some v else map_of d j)"
  by (induction d) auto

lemma take_later_map_of:
  "map_of (take_later k acc) j = (if j = ck_kind k \<and> overtakes k acc then Some k else map_of acc j)"
  by (simp add: take_later_def map_of_dict_set)

lemma not_overtakes: "\<not> overtakes k acc \<Longrightarrow> \<exists>p. map_of acc (ck_kind k) = Some p \<and> ck_started k \<le> ck_started p"
  by (auto simp: overtakes_def split: option.splits)

lemma overtakes_Some: "overtakes k acc \<Longrightarrow> map_of acc (ck_kind k) = Some p \<Longrightarrow> ck_started p < ck_started k"
  by (simp add: overtakes_def)

definition newest :: "check_record list \<Rightarrow> (string \<times> check_record) list \<Rightarrow> bool" where
  "newest ks acc = (\<forall>j c. map_of acc j = Some c \<longrightarrow>
     c \<in> set ks \<and> ck_kind c = j \<and> (\<forall>k \<in> set ks. ck_kind k = j \<longrightarrow> ck_started k \<le> ck_started c))"

definition complete :: "check_record list \<Rightarrow> (string \<times> check_record) list \<Rightarrow> bool" where
  "complete ks acc = (\<forall>k \<in> set ks. map_of acc (ck_kind k) \<noteq> None)"

lemma newest_step: "newest ks acc \<Longrightarrow> complete ks acc \<Longrightarrow> newest (ks @ [k]) (take_later k acc)"
  unfolding newest_def
proof (intro allI impI)
  fix j c assume n: "\<forall>j c. map_of acc j = Some c \<longrightarrow>
     c \<in> set ks \<and> ck_kind c = j \<and> (\<forall>k \<in> set ks. ck_kind k = j \<longrightarrow> ck_started k \<le> ck_started c)"
    and m: "complete ks acc" and c: "map_of (take_later k acc) j = Some c"
  show "c \<in> set (ks @ [k]) \<and> ck_kind c = j \<and> (\<forall>i \<in> set (ks @ [k]). ck_kind i = j \<longrightarrow> ck_started i \<le> ck_started c)"
  proof (cases "j = ck_kind k \<and> overtakes k acc")
    case True
    then have "c = k" using c by (simp add: take_later_map_of)
    moreover have "ck_started i \<le> ck_started k" if i: "i \<in> set ks" "ck_kind i = ck_kind k" for i
    proof -
      obtain p where p: "map_of acc (ck_kind k) = Some p" using i m by (force simp: complete_def)
      then have "ck_started i \<le> ck_started p" using n i by blast
      also have "ck_started p < ck_started k" using True p by (blast intro: overtakes_Some)
      finally show ?thesis by simp
    qed
    ultimately show ?thesis using True by auto
  next
    case False
    then have old: "map_of acc j = Some c" using c by (auto simp: take_later_map_of split: if_splits)
    have "ck_started k \<le> ck_started c" if "ck_kind k = j"
      using not_overtakes [of k acc] False old that by auto
    then show ?thesis using n old by auto
  qed
qed

lemma complete_step: "complete ks acc \<Longrightarrow> complete (ks @ [k]) (take_later k acc)"
  using not_overtakes [of k acc] by (auto simp: complete_def take_later_map_of)

lemma fold_newest: "newest ks (fold take_later ks []) \<and> complete ks (fold take_later ks [])"
proof (induction ks rule: rev_induct)
  case Nil
  show ?case by (simp add: newest_def complete_def)
next
  case (snoc k ks)
  then show ?case by (simp add: newest_step complete_step)
qed

lemma latest_newest:
  "map_of (latest r n s) j = Some c \<Longrightarrow>
   c \<in> set (wr_checks r) \<and> relevant n s c \<and> ck_kind c = j \<and>
   (\<forall>k \<in> set (wr_checks r). relevant n s k \<longrightarrow> ck_kind k = j \<longrightarrow> ck_started k \<le> ck_started c)"
proof -
  assume "map_of (latest r n s) j = Some c"
  then have "c \<in> set (filter (relevant n s) (wr_checks r)) \<and> ck_kind c = j \<and>
     (\<forall>k \<in> set (filter (relevant n s) (wr_checks r)). ck_kind k = j \<longrightarrow> ck_started k \<le> ck_started c)"
    using fold_newest [of "filter (relevant n s) (wr_checks r)"] unfolding latest_def newest_def by blast
  then show ?thesis by simp
qed

text \<open>An open gate: every required check has a passing record that no later one overtook.\<close>

definition gate_facts :: "world \<Rightarrow> work_run \<Rightarrow> work_node \<Rightarrow> stage_name \<Rightarrow> artifact \<Rightarrow> check_policy \<Rightarrow> bool" where
  "gate_facts w r n s a p = (ar_status a = ''finalized'' \<and> binding_current w r n s a \<and> policy_sound a (Some p) \<and>
     list_all (req_passed (latest r n s)) (pb_required p))"

lemma gate_openD:
  "gate_open w r n s \<Longrightarrow> \<exists>a p. Option.bind (stage_of n s) sg_artifact = Some a \<and>
     Option.bind (stage_of n s) sg_policy = Some p \<and> gate_facts w r n s a p"
  unfolding gate_open_def gate_facts_def
  by (cases "Option.bind (stage_of n s) sg_artifact"; cases "Option.bind (stage_of n s) sg_policy")
    simp_all

lemma req_passedD:
  "req_passed (latest r n s) c \<Longrightarrow> \<exists>k \<in> set (wr_checks r). relevant n s k \<and> ck_kind k = fst c \<and> ck_status k = CS_Pass \<and>
     ck_inputs k = INPUTS_VERSION \<and>
     (\<forall>j \<in> set (wr_checks r). relevant n s j \<longrightarrow> ck_kind j = fst c \<longrightarrow> ck_started j \<le> ck_started k)"
  by (auto simp: req_passed_def split: option.splits dest!: latest_newest)

end
