(* ===== verification/Work_Refresh.thy ===== *)
theory Work_Refresh
  imports Work_Gate
begin

section \<open>Invalidating what rests on changed inputs\<close>

text \<open>
  \<open>WorkGraph.refresh\<close> of \<open>agent_core/work_graph.py\<close>: passes over all stages until one resets nothing,
  then the whole-plan review. The loop ends because a reset drops an artifact. Afterwards no accepted
  stage rests on an input that changed or on a check that is no longer current.
\<close>

definition reset_stage :: "stage_state \<Rightarrow> stage_state" where
  "reset_stage st = new_stage\<lparr>sg_rounds := sg_rounds st, sg_feedback := ''Consumed snapshot changed.''\<rparr>"

definition supersede :: "string \<Rightarrow> work_run \<Rightarrow> work_run" where
  "supersede aid r = r\<lparr>wr_checks := map (\<lambda>k. if ck_artifact k = aid then k\<lparr>ck_status := CS_Superseded\<rparr> else k) (wr_checks r)\<rparr>"

definition draft_held :: "stage_state \<Rightarrow> bool" where
  "draft_held st = (sg_artifact st \<noteq> None \<and> sg_status st \<in> {SG_Accepted, SG_Needs_Checks, SG_Revise})"

definition must_pass :: "stage_state \<Rightarrow> bool" where
  "must_pass st = (sg_status st = SG_Accepted \<and> (case sg_policy st of None \<Rightarrow> False | Some p \<Rightarrow> pb_required p \<noteq> []))"

definition close_stage :: "stage_state \<Rightarrow> stage_state" where
  "close_stage st = st\<lparr>sg_status := SG_Needs_Checks, sg_error := Some ''WORK_CHECKS_STALE''\<rparr>"

definition refresh_at :: "world \<Rightarrow> string \<times> stage_name \<Rightarrow> bool \<times> work_run \<Rightarrow> bool \<times> work_run" where
  "refresh_at w p c =
     (case Option.bind (find_node (snd c) (fst p)) (\<lambda>n. map_option (Pair n) (stage_of n (snd p))) of
        None \<Rightarrow> c
      | Some (n, st) \<Rightarrow>
          (case sg_artifact st of
             None \<Rightarrow> c
           | Some a \<Rightarrow>
               if \<not> draft_held st then c
               else if \<not> binding_current w (snd c) n (snd p) a
               then (True, supersede (ar_id a) (put_node (fst p) (snd p) reset_stage (snd c)))
               else if must_pass st \<and> \<not> gate_open w (snd c) n (snd p)
               then (fst c, put_node (fst p) (snd p) close_stage (snd c))
               else c))"

definition positions :: "work_run \<Rightarrow> (string \<times> stage_name) list" where
  "positions r = concat (map (\<lambda>n. map (\<lambda>x. (wn_id n, fst x)) (wn_stages n)) (wr_nodes r))"

definition refresh_pass :: "world \<Rightarrow> work_run \<Rightarrow> bool \<times> work_run" where
  "refresh_pass w r = fold (refresh_at w) (positions r) (False, r)"

subsection \<open>A reset drops an artifact\<close>

definition held :: "work_node \<Rightarrow> nat" where
  "held n = length (filter (\<lambda>x. sg_artifact (snd x) \<noteq> None) (wn_stages n))"

definition all_held :: "work_run \<Rightarrow> nat" where
  "all_held r = sum_list (map held (wr_nodes r))"

lemma held_put_list:
  "(\<And>st. sg_artifact st = None \<Longrightarrow> sg_artifact (f st) = None) \<Longrightarrow>
   length (filter (\<lambda>x. sg_artifact (snd x) \<noteq> None) (map (\<lambda>(s', st). (s', if s' = s then f st else st)) xs))
   \<le> length (filter (\<lambda>x. sg_artifact (snd x) \<noteq> None) xs)"
  by (induction xs) (auto split: if_splits)

lemma held_put_le: "(\<And>st. sg_artifact st = None \<Longrightarrow> sg_artifact (f st) = None) \<Longrightarrow> held (put_stage s f n) \<le> held n"
  unfolding held_def put_stage_def using held_put_list [of f s "wn_stages n"] by simp

lemma held_put_less_list:
  "(\<And>st. sg_artifact (f st) = None) \<Longrightarrow> map_of xs s = Some st \<Longrightarrow> sg_artifact st \<noteq> None \<Longrightarrow>
   length (filter (\<lambda>x. sg_artifact (snd x) \<noteq> None) (map (\<lambda>(s', st). (s', if s' = s then f st else st)) xs))
   < length (filter (\<lambda>x. sg_artifact (snd x) \<noteq> None) xs)"
proof (induction xs)
  case (Cons x xs)
  then show ?case using held_put_list [of f s xs] by (cases x) (auto simp: less_Suc_eq_le split: if_splits)
qed simp

lemma held_put_less:
  "(\<And>st. sg_artifact (f st) = None) \<Longrightarrow> stage_of n s = Some st \<Longrightarrow> sg_artifact st \<noteq> None \<Longrightarrow>
   held (put_stage s f n) < held n"
  unfolding held_def put_stage_def stage_of_def using held_put_less_list [of f "wn_stages n" s st] by simp

lemma sum_list_less:
  fixes f g :: "'a \<Rightarrow> nat"
  shows "(\<And>x. x \<in> set xs \<Longrightarrow> f x \<le> g x) \<Longrightarrow> y \<in> set xs \<Longrightarrow> f y < g y \<Longrightarrow> sum_list (map f xs) < sum_list (map g xs)"
proof (induction xs)
  case (Cons x xs)
  have "sum_list (map f xs) \<le> sum_list (map g xs)" using Cons.prems(1) by (intro sum_list_mono) simp
  with Cons show ?case by (cases "y = x") (auto intro: add_less_le_mono add_le_less_mono)
qed simp

lemma all_held_put_le:
  "(\<And>st. sg_artifact st = None \<Longrightarrow> sg_artifact (f st) = None) \<Longrightarrow> all_held (put_node i s f r) \<le> all_held r"
  unfolding all_held_def put_node_def by (simp add: comp_def, rule sum_list_mono) (simp add: held_put_le)

lemma all_held_put_less:
  assumes "\<And>st. sg_artifact (f st) = None" and "find_node r i = Some n" and "stage_of n s = Some st" and "sg_artifact st \<noteq> None"
  shows "all_held (put_node i s f r) < all_held r"
proof -
  have "n \<in> set (wr_nodes r)" "wn_id n = i"
    using assms(2) by (auto simp: find_node_def find_Some_iff)
  moreover have "held (put_stage s f n) < held n" using assms by (intro held_put_less)
  ultimately show ?thesis unfolding all_held_def put_node_def
    by (simp add: comp_def, intro sum_list_less [where y = n]) (simp_all add: held_put_le assms(1))
qed

lemma all_held_supersede [simp]: "all_held (supersede a r) = all_held r"
  by (simp add: all_held_def supersede_def)

text \<open>A step either resets, or keeps every artifact and the flag.\<close>

definition step_keeps :: "bool \<times> work_run \<Rightarrow> bool \<times> work_run \<Rightarrow> bool" where
  "step_keeps c c' = (all_held (snd c') < all_held (snd c) \<and> fst c' \<or> all_held (snd c') \<le> all_held (snd c) \<and> fst c' = fst c)"

lemma refresh_at_keeps: "step_keeps c (refresh_at w p c)"
proof (cases "Option.bind (find_node (snd c) (fst p)) (\<lambda>n. map_option (Pair n) (stage_of n (snd p)))")
  case (Some q)
  then obtain n st where q: "q = (n, st)" "find_node (snd c) (fst p) = Some n" "stage_of n (snd p) = Some st"
    by (auto simp: bind_eq_Some_conv)
  show ?thesis
  proof (cases "sg_artifact st")
    case (Some a)
    have "all_held (put_node (fst p) (snd p) reset_stage (snd c)) < all_held (snd c)"
      using Some by (intro all_held_put_less [OF _ q(2,3)]) (simp_all add: reset_stage_def new_stage_def)
    moreover have "all_held (put_node (fst p) (snd p) close_stage (snd c)) \<le> all_held (snd c)"
      by (intro all_held_put_le) (simp add: close_stage_def)
    ultimately show ?thesis using q Some by (simp add: refresh_at_def step_keeps_def)
  qed (use q in \<open>simp add: refresh_at_def step_keeps_def\<close>)
qed (simp add: refresh_at_def step_keeps_def)

lemma step_keeps_trans: "step_keeps a b \<Longrightarrow> step_keeps b c \<Longrightarrow> step_keeps a c"
  by (auto simp: step_keeps_def)

lemma fold_keeps: "step_keeps c (fold (refresh_at w) ps c)"
proof (induction ps arbitrary: c)
  case (Cons p ps)
  have "step_keeps c (refresh_at w p c)" by (rule refresh_at_keeps)
  also have "step_keeps (refresh_at w p c) (fold (refresh_at w) ps (refresh_at w p c))" by (rule Cons.IH)
  finally (step_keeps_trans) show ?case by simp
qed (simp add: step_keeps_def)

function refresh_loop :: "world \<Rightarrow> work_run \<Rightarrow> work_run" where
  "refresh_loop w r = (if fst (refresh_pass w r) then refresh_loop w (snd (refresh_pass w r)) else snd (refresh_pass w r))"
  by pat_completeness auto

termination
proof (relation "measure (\<lambda>(w, r). all_held r)")
  fix w r assume "fst (refresh_pass w r)"
  then show "((w, snd (refresh_pass w r)), (w, r)) \<in> measure (\<lambda>(w, r). all_held r)"
    using fold_keeps [of "(False, r)" w "positions r"] by (auto simp: refresh_pass_def step_keeps_def)
qed simp

declare refresh_loop.simps [simp del]

definition review_stale :: "work_run \<Rightarrow> bool" where
  "review_stale r = (case gr_binding (wr_review r) of None \<Rightarrow> False | Some b \<Rightarrow> b \<noteq> whole_binding_of r)"

definition AFTER_REVIEW :: "run_status list" where
  "AFTER_REVIEW = [RS_Verified, RS_Awaiting_Approval, RS_Approved, RS_Executing, RS_Executed, RS_Execute_Failed]"

definition drop_review :: "work_run \<Rightarrow> work_run" where
  "drop_review r = r\<lparr>wr_past_reviews := wr_past_reviews r @ [wr_review r], wr_review := no_review, wr_approval := None,
     wr_status := if wr_status r \<in> set AFTER_REVIEW then RS_Drafting else wr_status r\<rparr>"

definition refresh :: "world \<Rightarrow> work_run \<Rightarrow> work_run" where
  "refresh w r = (let r' = refresh_loop w r in if review_stale r' then drop_review r' else r')"

end
