(* ===== verification/Work_Fresh.thy ===== *)
theory Work_Fresh
  imports Work_Refresh
begin

section \<open>After a refresh nothing accepted is stale\<close>

text \<open>
  The gate of a stage looks at everything but statuses and errors, so closing a stage does not move
  another; a pass that resets nothing leaves every stage it visited settled.
\<close>

subsection \<open>What the gate looks at\<close>

definition erase :: "stage_state \<Rightarrow> stage_state" where
  "erase st = st\<lparr>sg_status := SG_Pending, sg_error := None\<rparr>"

definition core_node :: "work_node \<Rightarrow> work_node" where
  "core_node n = n\<lparr>wn_stages := map (\<lambda>(s, st). (s, erase st)) (wn_stages n)\<rparr>"

definition same_core :: "work_run \<Rightarrow> work_run \<Rightarrow> bool" where
  "same_core r r' = (map core_node (wr_nodes r) = map core_node (wr_nodes r') \<and> wr_checks r = wr_checks r' \<and>
     wr_goal r = wr_goal r' \<and> wr_interviews r = wr_interviews r')"

lemma stage_of_core: "stage_of (core_node n) s = map_option erase (stage_of n s)"
  unfolding stage_of_def core_node_def by (induction "wn_stages n" arbitrary: n) (auto simp: map_of_map)

lemma core_fields [simp]:
  "wn_id (core_node n) = wn_id n" "wn_kind (core_node n) = wn_kind n" "wn_depends (core_node n) = wn_depends n"
  "definition_of (core_node n) = definition_of n"
  by (simp_all add: core_node_def definition_of_def node_def.truncate_def)

lemma erase_fields [simp]: "sg_artifact (erase st) = sg_artifact st" "sg_policy (erase st) = sg_policy st"
  by (simp_all add: erase_def)

lemma bind_core:
  "Option.bind (stage_of (core_node n) s) sg_artifact = Option.bind (stage_of n s) sg_artifact"
  "Option.bind (stage_of (core_node n) s) sg_policy = Option.bind (stage_of n s) sg_policy"
  by (simp_all add: stage_of_core bind_map_option comp_def)

lemma artifact_id_core: "artifact_id (stage_of (core_node n) s) = artifact_id (stage_of n s)"
  by (simp add: artifact_id_def bind_core)

lemma gate_stage_core: "gate_stage (core_node n) (core_node t) s = gate_stage n t s"
  by (simp add: gate_stage_def stage_of_core)

definition core :: "work_run \<Rightarrow> work_run" where
  "core r = r\<lparr>wr_nodes := map core_node (wr_nodes r)\<rparr>"

lemma find_core: "List.find (\<lambda>n. wn_id n = i) (map core_node ns) = map_option core_node (List.find (\<lambda>n. wn_id n = i) ns)"
  by (induction ns) auto

lemma find_node_core: "find_node (core r) i = map_option core_node (find_node r i)"
  by (simp add: find_node_def core_def find_core)

lemma dependencies_core: "binding_dependencies (core r) (core_node n) s = binding_dependencies r n s"
  unfolding binding_dependencies_def
  by (rule arg_cong [of _ _ concat], rule map_cong)
    (auto simp: find_node_core gate_stage_core artifact_id_core split: option.splits)

lemma binding_core: "binding_of w (core r) (core_node n) s = binding_of w r n s"
  by (simp add: binding_of_def dependencies_core artifact_id_core) (simp add: core_def)

lemma relevant_core: "relevant (core_node n) s k = relevant n s k"
  by (simp add: relevant_def stage_of_core split: option.splits)

lemma latest_core: "latest (core r) (core_node n) s = latest r n s"
  by (simp add: latest_def relevant_core core_def cong: filter_cong)

lemma current_core: "binding_current w (core r) (core_node n) s a = binding_current w r n s a"
  by (simp add: binding_current_def binding_core)

lemma gate_core: "gate_open w (core r) (core_node n) s = gate_open w r n s"
  by (simp add: gate_open_def bind_core current_core latest_core cong: option.case_cong)

text \<open>Two runs with one core have the same gates.\<close>

lemma gate_cong:
  assumes "same_core r r'" and "core_node n = core_node n'"
  shows "gate_open w r n s = gate_open w r' n' s" and "binding_current w r n s a = binding_current w r' n' s a"
proof -
  have nodes: "wr_nodes (core r) = wr_nodes (core r')" and other: "wr_checks (core r) = wr_checks (core r')"
      "wr_goal (core r) = wr_goal (core r')" "wr_interviews (core r) = wr_interviews (core r')"
    using assms(1) by (simp_all add: same_core_def core_def)
  have b: "binding_of w (core r) m s = binding_of w (core r') m s" for m
    unfolding binding_of_def binding_dependencies_def find_node_def nodes other ..
  have l: "latest (core r) m s = latest (core r') m s" for m
    unfolding latest_def other ..
  have c: "binding_current w (core r) m s a = binding_current w (core r') m s a" for m a
    by (simp add: binding_current_def b)
  have g: "gate_open w (core r) m s = gate_open w (core r') m s" for m
    by (simp add: gate_open_def c l cong: option.case_cong)
  show "gate_open w r n s = gate_open w r' n' s" using g [of "core_node n"] assms(2) by (metis gate_core)
  show "binding_current w r n s a = binding_current w r' n' s a" using c [of "core_node n"] assms(2) by (metis current_core)
qed

lemma same_core_refl [simp]: "same_core r r"
  by (simp add: same_core_def)

lemma same_core_trans: "same_core a b \<Longrightarrow> same_core b c \<Longrightarrow> same_core a c"
  by (simp add: same_core_def)

lemma core_put_stage: "(\<And>st. erase (f st) = erase st) \<Longrightarrow> core_node (put_stage s f n) = core_node n"
  by (simp add: core_node_def put_stage_def case_prod_beta comp_def if_distrib cong: if_cong)

lemma same_core_put: "(\<And>st. erase (f st) = erase st) \<Longrightarrow> same_core (put_node i s f r) r"
  by (simp add: same_core_def put_node_def comp_def core_put_stage if_distrib cong: if_cong)

lemma find_put:
  "find_node (put_node i s f r) j = map_option (\<lambda>n. if wn_id n = i then put_stage s f n else n) (find_node r j)"
proof -
  have "List.find (\<lambda>n. wn_id n = j) (map (\<lambda>n. if wn_id n = i then put_stage s f n else n) ns)
      = map_option (\<lambda>n. if wn_id n = i then put_stage s f n else n) (List.find (\<lambda>n. wn_id n = j) ns)" for ns
    by (induction ns) auto
  then show ?thesis by (simp add: find_node_def put_node_def)
qed

subsection \<open>Settled stages\<close>

definition settled :: "world \<Rightarrow> work_run \<Rightarrow> string \<times> stage_name \<Rightarrow> bool" where
  "settled w r p = (\<forall>n st a. find_node r (fst p) = Some n \<longrightarrow> stage_of n (snd p) = Some st \<longrightarrow> sg_artifact st = Some a \<longrightarrow>
     draft_held st \<longrightarrow> binding_current w r n (snd p) a \<and> (must_pass st \<longrightarrow> gate_open w r n (snd p)))"

lemma erase_close: "erase (close_stage st) = erase st"
  by (simp add: erase_def close_stage_def)

lemma closed_status: "draft_held (close_stage st) \<longleftrightarrow> sg_artifact st \<noteq> None" "\<not> must_pass (close_stage st)"
  by (simp_all add: draft_held_def must_pass_def close_stage_def)

lemma settled_close:
  assumes s: "settled w r q" and here: "\<And>n a. find_node r i = Some n \<Longrightarrow> Option.bind (stage_of n s) sg_artifact = Some a \<Longrightarrow>
      binding_current w r n s a"
  shows "settled w (put_node i s close_stage r) q"
  unfolding settled_def
proof (intro allI impI)
  let ?r = "put_node i s close_stage r"
  fix n st a assume n: "find_node ?r (fst q) = Some n" and st: "stage_of n (snd q) = Some st" "sg_artifact st = Some a" "draft_held st"
  obtain m where m: "find_node r (fst q) = Some m" "n = (if wn_id m = i then put_stage s close_stage m else m)"
    using n by (auto simp: find_put)
  have core: "core_node n = core_node m" using m(2) by (simp add: core_put_stage erase_close)
  have same: "same_core ?r r" by (rule same_core_put) (rule erase_close)
  have mid: "wn_id m = fst q" using m(1) by (auto simp: find_node_def find_Some_iff)
  show "binding_current w ?r n (snd q) a \<and> (must_pass st \<longrightarrow> gate_open w ?r n (snd q))"
  proof (cases "wn_id m = i \<and> snd q = s")
    case True
    then obtain st0 where "stage_of m s = Some st0" "st = close_stage st0"
      using st(1) m(2) by (auto simp: stage_of_put)
    then have "\<not> must_pass st" "Option.bind (stage_of m s) sg_artifact = Some a"
      using st(2) closed_status(2) [of st0] by (simp_all add: close_stage_def)
    moreover have "binding_current w r m s a" using here m(1) mid True calculation(2) by auto
    ultimately show ?thesis using gate_cong(2) [OF same core] True by simp
  next
    case False
    then have "stage_of m (snd q) = Some st" using st(1) m(2) by (auto simp: stage_of_put split: if_splits)
    then have "binding_current w r m (snd q) a \<and> (must_pass st \<longrightarrow> gate_open w r m (snd q))"
      using s m(1) st(2,3) by (auto simp: settled_def)
    then show ?thesis using gate_cong [OF same core] by simp
  qed
qed

lemma close_settles:
  assumes n: "find_node r i = Some n" and st: "stage_of n s = Some st" and cur: "\<And>a. sg_artifact st = Some a \<Longrightarrow> binding_current w r n s a"
  shows "settled w (put_node i s close_stage r) (i, s)"
  unfolding settled_def fst_conv snd_conv
proof (intro allI impI)
  let ?r = "put_node i s close_stage r"
  fix n' st' a' assume n': "find_node ?r i = Some n'" "stage_of n' s = Some st'" "sg_artifact st' = Some a'"
  have "wn_id n = i" using n by (auto simp: find_node_def find_Some_iff)
  then have np: "n' = put_stage s close_stage n" using n n'(1) by (simp add: find_put)
  then have st': "st' = close_stage st" using n'(2) st by (simp add: stage_of_put)
  then have "sg_artifact st = Some a'" using n'(3) by (simp add: close_stage_def)
  then have "binding_current w r n s a'" by (rule cur)
  moreover have "core_node n' = core_node n" using np by (simp add: core_put_stage erase_close)
  moreover have "same_core ?r r" by (rule same_core_put) (rule erase_close)
  ultimately have "binding_current w ?r n' s a'" using gate_cong(2) by metis
  moreover have "\<not> must_pass st'" using st' closed_status(2) [of st] by simp
  ultimately show "binding_current w ?r n' s a' \<and> (must_pass st' \<longrightarrow> gate_open w ?r n' s)" by simp
qed

lemma refresh_at_settles:
  assumes "\<not> fst (refresh_at w p c)" and "\<not> fst c"
  shows "settled w (snd (refresh_at w p c)) p" and "settled w (snd c) q \<Longrightarrow> settled w (snd (refresh_at w p c)) q"
proof -
  let ?o = "Option.bind (find_node (snd c) (fst p)) (\<lambda>n. map_option (Pair n) (stage_of n (snd p)))"
  have "settled w (snd (refresh_at w p c)) p \<and> (settled w (snd c) q \<longrightarrow> settled w (snd (refresh_at w p c)) q)"
  proof (cases ?o)
    case None
    then have "settled w (snd c) p" by (auto simp: settled_def bind_eq_None_conv)
    with None show ?thesis by (simp add: refresh_at_def)
  next
    case (Some x)
    then obtain n st where x: "x = (n, st)" "find_node (snd c) (fst p) = Some n" "stage_of n (snd p) = Some st"
      by (auto simp: bind_eq_Some_conv)
    show ?thesis
    proof (cases "sg_artifact st")
      case None
      then have "settled w (snd c) p" using x by (simp add: settled_def)
      with None x show ?thesis by (simp add: refresh_at_def)
    next
      case A: (Some a)
      show ?thesis
      proof (cases "draft_held st")
        case False
        then have "settled w (snd c) p" using x by (simp add: settled_def)
        with False x A show ?thesis by (simp add: refresh_at_def)
      next
        case held: True
        have cur: "binding_current w (snd c) n (snd p) a"
        proof (rule ccontr)
          assume "\<not> binding_current w (snd c) n (snd p) a"
          then have "fst (refresh_at w p c)" using x A held by (simp add: refresh_at_def)
          with assms(1) show False by simp
        qed
        show ?thesis
        proof (cases "must_pass st \<and> \<not> gate_open w (snd c) n (snd p)")
          case True
          then have r: "snd (refresh_at w p c) = put_node (fst p) (snd p) close_stage (snd c)"
            using x A held cur by (simp add: refresh_at_def)
          have "settled w (put_node (fst p) (snd p) close_stage (snd c)) (fst p, snd p)"
            using x A cur by (intro close_settles) auto
          moreover have "settled w (snd c) q \<longrightarrow> settled w (put_node (fst p) (snd p) close_stage (snd c)) q"
          proof
            assume "settled w (snd c) q"
            then show "settled w (put_node (fst p) (snd p) close_stage (snd c)) q"
              by (rule settled_close) (use x A cur in auto)
          qed
          ultimately show ?thesis using r by simp
        next
          case False
          then have "refresh_at w p c = c" using x A held cur by (auto simp: refresh_at_def)
          moreover have "settled w (snd c) p" using x A held cur False by (simp add: settled_def)
          ultimately show ?thesis by simp
        qed
      qed
    qed
  qed
  then show "settled w (snd (refresh_at w p c)) p" and "settled w (snd c) q \<Longrightarrow> settled w (snd (refresh_at w p c)) q"
    by blast+
qed

lemma flag_stays: "fst c \<Longrightarrow> fst (refresh_at w p c)"
  using refresh_at_keeps [of c w p] by (auto simp: step_keeps_def)

lemma flag_stays_fold: "fst c \<Longrightarrow> fst (fold (refresh_at w) ps c)"
  by (induction ps arbitrary: c) (simp_all add: flag_stays)

lemma fold_settles:
  "\<not> fst (fold (refresh_at w) ps c) \<Longrightarrow> q \<in> set ps \<or> settled w (snd c) q \<Longrightarrow>
   settled w (snd (fold (refresh_at w) ps c)) q"
proof (induction ps arbitrary: c)
  case (Cons p ps)
  have nf: "\<not> fst (refresh_at w p c)"
  proof
    assume "fst (refresh_at w p c)"
    then have "fst (fold (refresh_at w) ps (refresh_at w p c))" by (rule flag_stays_fold)
    with Cons.prems(1) show False by simp
  qed
  then have nc: "\<not> fst c" using flag_stays by blast
  have "q \<in> set ps \<or> settled w (snd (refresh_at w p c)) q"
    using Cons.prems(2) refresh_at_settles(1) [OF nf nc] refresh_at_settles(2) [OF nf nc, of q] by auto
  then show ?case using Cons.IH [of "refresh_at w p c"] Cons.prems(1) by simp
qed simp

subsection \<open>After the loop\<close>

lemma refresh_at_positions: "positions (snd (refresh_at w p c)) = positions (snd c) \<and>
    map wn_id (wr_nodes (snd (refresh_at w p c))) = map wn_id (wr_nodes (snd c))"
proof -
  have 1: "positions (put_node i s f r) = positions r" for i s f r
  proof -
    have "map (\<lambda>x. (wn_id (if wn_id n = i then put_stage s f n else n), fst x))
        (wn_stages (if wn_id n = i then put_stage s f n else n)) = map (\<lambda>x. (wn_id n, fst x)) (wn_stages n)" for n
      by (simp add: put_stage_def comp_def case_prod_beta)
    then show ?thesis by (simp add: positions_def put_node_def comp_def)
  qed
  have 2: "positions (supersede a r) = positions r" "wr_nodes (supersede a r) = wr_nodes r" for a r
    by (simp_all add: positions_def supersede_def)
  show ?thesis unfolding refresh_at_def by (simp add: 1 2 split: option.split prod.split)
qed

lemma fold_positions: "positions (snd (fold (refresh_at w) ps c)) = positions (snd c) \<and>
    map wn_id (wr_nodes (snd (fold (refresh_at w) ps c))) = map wn_id (wr_nodes (snd c))"
  by (induction ps arbitrary: c) (simp_all add: refresh_at_positions)

lemma loop_settled: "p \<in> set (positions r) \<Longrightarrow> settled w (refresh_loop w r) p"
  and loop_positions: "positions (refresh_loop w r) = positions r \<and> map wn_id (wr_nodes (refresh_loop w r)) = map wn_id (wr_nodes r)"
proof (induction w r rule: refresh_loop.induct)
  case (1 w r)
  have pos: "positions (snd (refresh_pass w r)) = positions r"
      "map wn_id (wr_nodes (snd (refresh_pass w r))) = map wn_id (wr_nodes r)"
    using fold_positions [of w "positions r" "(False, r)"] by (simp_all add: refresh_pass_def)
  {
    case 1
    then show ?case
    proof (cases "fst (refresh_pass w r)")
      case True
      then show ?thesis using "1.IH"(1) pos 1 by (subst refresh_loop.simps) simp
    next
      case False
      then show ?thesis using fold_settles [of w "positions r" "(False, r)" p] 1
        by (subst refresh_loop.simps) (simp add: refresh_pass_def)
    qed
  next
    case 2
    then show ?case
    proof (cases "fst (refresh_pass w r)")
      case True
      then show ?thesis using "1.IH"(2) pos by (subst (1 2) refresh_loop.simps) simp
    next
      case False
      then show ?thesis using pos by (subst (1 2) refresh_loop.simps) simp
    qed
  }
qed

lemma same_core_drop_review: "same_core (drop_review r) r"
  by (simp add: same_core_def drop_review_def)

lemma settled_drop_review: "settled w r p \<Longrightarrow> settled w (drop_review r) p"
proof -
  assume s: "settled w r p"
  have f: "find_node (drop_review r) i = find_node r i" for i
    by (simp add: find_node_def drop_review_def)
  show ?thesis
    using s gate_cong [OF same_core_drop_review refl] unfolding settled_def f by simp
qed

lemma refresh_ids: "map wn_id (wr_nodes (refresh w r)) = map wn_id (wr_nodes r)"
  using loop_positions [of w r] by (simp add: refresh_def Let_def drop_review_def)

lemma refresh_settled: "p \<in> set (positions (refresh w r)) \<Longrightarrow> settled w (refresh w r) p"
proof -
  have pos: "positions (refresh w r) = positions r"
    using loop_positions [of w r] by (simp add: refresh_def Let_def drop_review_def positions_def)
  assume "p \<in> set (positions (refresh w r))"
  then have "settled w (refresh_loop w r) p" using pos loop_settled by simp
  then show ?thesis by (simp add: refresh_def Let_def settled_drop_review)
qed

lemma find_node_distinct: "distinct (map wn_id (wr_nodes r)) \<Longrightarrow> n \<in> set (wr_nodes r) \<Longrightarrow> find_node r (wn_id n) = Some n"
proof -
  have "distinct (map wn_id ns) \<Longrightarrow> n \<in> set ns \<Longrightarrow> List.find (\<lambda>m. wn_id m = wn_id n) ns = Some n" for ns
    by (induction ns) (auto simp: image_iff)
  then show "distinct (map wn_id (wr_nodes r)) \<Longrightarrow> n \<in> set (wr_nodes r) \<Longrightarrow> ?thesis"
    by (simp add: find_node_def)
qed

lemma refresh_no_stale_accept:
  assumes d: "distinct (map wn_id (wr_nodes r))" and n: "n \<in> set (wr_nodes (refresh w r))"
    and st: "stage_of n s = Some st" "sg_status st = SG_Accepted" "sg_artifact st = Some a"
  shows "binding_current w (refresh w r) n s a \<and> (must_pass st \<longrightarrow> gate_open w (refresh w r) n s)"
proof -
  have "(wn_id n, s) \<in> set (positions (refresh w r))"
    using n st(1) by (force simp: positions_def stage_of_def dest: map_of_SomeD)
  then have "settled w (refresh w r) (wn_id n, s)" by (rule refresh_settled)
  moreover have "find_node (refresh w r) (wn_id n) = Some n"
    using d n by (intro find_node_distinct) (simp_all add: refresh_ids)
  ultimately show ?thesis using st by (simp add: settled_def draft_held_def)
qed

end
