(* ===== verification/Work_Edit.thy ===== *)
theory Work_Edit
  imports Work_Fresh
begin

section \<open>Editing the graph\<close>

text \<open>
  \<open>apply_nodes\<close>, the branches of \<open>graph\<close> (\<open>remove\<close>, \<open>retry\<close>, \<open>resolve\<close>, \<open>cancel\<close>), \<open>retry\<close>,
  \<open>resolve_conflicts\<close> and \<open>recover\<close> of \<open>agent_core/work_graph.py\<close>. An operation answers the error it
  raised, if any, and the run as it is stored afterwards: the document changes only when it is saved,
  the rows of the check table as soon as they are written.
\<close>

datatype work_error =
    WE_Graph graph_error
  | WE_Closed | WE_Busy | WE_Phase | WE_Execute_Failed | WE_Approval_Required | WE_Requirements_Only
  | WE_Not_Verified | WE_Code_Stale | WE_Not_Ready "string list" | WE_Review_Exhausted | WE_Legacy_Checks
  | WE_Nothing_To_Execute | WE_Nothing_To_Retry | WE_Not_Executed | WE_Unknown_Node | WE_Check_Not_Ready
  | WE_Check_Stale | WE_Still_Used "string list" | WE_No_Conflict | WE_Nothing_To_Verify | WE_Documents_Failed | WE_Ship_Stale

type_synonym result = "work_error option \<times> work_run"

text \<open>A call that raises leaves the stored document, but not the check rows it has written.\<close>

definition unsaved :: "work_run \<Rightarrow> work_run \<Rightarrow> work_run" where
  "unsaved r r' = r\<lparr>wr_checks := wr_checks r'\<rparr>"

subsection \<open>Adding and updating nodes\<close>

definition reindex :: "string list \<Rightarrow> conflict list \<Rightarrow> conflict list" where
  "reindex acceptance cs =
     map (\<lambda>c. c\<lparr>cf_id := ''A'' @ nat_digits (Suc (index_of (cf_requirement c) acceptance))\<rparr>)
       (filter (\<lambda>c. cf_requirement c \<in> set acceptance) cs)"

definition redefined_stage :: "string list \<Rightarrow> stage_state \<Rightarrow> stage_state" where
  "redefined_stage acceptance st =
     (if sg_status st \<in> set IN_FLIGHT_STAGE then st
      else new_stage\<lparr>sg_feedback := ''Node definition changed by main.'', sg_rounds := sg_rounds st,
             sg_conflicts := reindex acceptance (sg_conflicts st)\<rparr>)"

definition redefined :: "work_node \<Rightarrow> work_node" where
  "redefined n = n\<lparr>wn_stages := map (\<lambda>(s, st). (s, redefined_stage (wn_acceptance n) st)) (wn_stages n)\<rparr>"

definition dropped_artifacts :: "work_node \<Rightarrow> string list" where
  "dropped_artifacts n =
     concat (map (\<lambda>(s, st). if sg_status st \<in> set IN_FLIGHT_STAGE then []
         else case sg_artifact st of None \<Rightarrow> [] | Some a \<Rightarrow> [ar_id a]) (wn_stages n))"

definition raw_id :: "json \<Rightarrow> string" where
  "raw_id raw = (case raw of JObj d \<Rightarrow> if truthy (dict_get d ''id'') then strip (py_str (dict_get d ''id'')) else [] | _ \<Rightarrow> [])"

definition put_by_id :: "work_node \<Rightarrow> work_node list \<Rightarrow> work_node list" where
  "put_by_id n ns = (if wn_id n \<in> set (map wn_id ns) then map (\<lambda>m. if wn_id m = wn_id n then n else m) ns else ns @ [n])"

record edit =
  ed_nodes :: "work_node list"
  ed_changed :: bool
  ed_run :: work_run

definition edit_node :: "bool \<Rightarrow> json \<Rightarrow> edit \<Rightarrow> (graph_error, edit) outcome" where
  "edit_node replace raw e =
     (let ex = List.find (\<lambda>n. wn_id n = raw_id raw) (ed_nodes e)
      in require (ex = None \<or> replace) (Node_Exists (raw_id raw))
        (require (ex \<noteq> None \<or> \<not> replace) (Node_Unknown (raw_id raw))
        (and_then (normalize_node raw ex) (\<lambda>n.
          case ex of
            None \<Rightarrow> Inr (e\<lparr>ed_nodes := put_by_id n (ed_nodes e)\<rparr>)
          | Some m \<Rightarrow>
              if definition_of m = definition_of n
              then Inr (e\<lparr>ed_nodes := put_by_id n (ed_nodes e)\<rparr>)
              else Inr (e\<lparr>ed_nodes := put_by_id (redefined n) (ed_nodes e), ed_changed := True,
                          ed_run := fold supersede (dropped_artifacts n) (ed_run e)\<rparr>)))))"

text \<open>The loop over the nodes sent: it stops at the first error, keeping what it has written.\<close>

fun edit_nodes :: "bool \<Rightarrow> json list \<Rightarrow> edit \<Rightarrow> graph_error option \<times> edit" where
  "edit_nodes replace [] e = (None, e)"
| "edit_nodes replace (raw # raws) e =
     (case edit_node replace raw e of
        Inl err \<Rightarrow> (Some err, e)
      | Inr e' \<Rightarrow> edit_nodes replace raws e')"

definition RESET_BY_EDIT :: "run_status list" where
  "RESET_BY_EDIT = [RS_Verified, RS_Awaiting_Approval, RS_Approved, RS_Execute_Failed]"

definition forget_review :: "work_run \<Rightarrow> work_run" where
  "forget_review r = r\<lparr>wr_past_reviews := wr_past_reviews r @ (if gr_rounds (wr_review r) \<noteq> [] then [wr_review r] else []),
     wr_review := no_review\<rparr>"

definition demote :: "work_run \<Rightarrow> work_run" where
  "demote r = (if wr_status r \<in> set RESET_BY_EDIT then r\<lparr>wr_status := RS_Drafting, wr_approval := None\<rparr> else r)"

definition apply_nodes :: "world \<Rightarrow> bool \<Rightarrow> json \<Rightarrow> work_run \<Rightarrow> result" where
  "apply_nodes w replace raws r =
     (case raws of
        JList (x # xs) \<Rightarrow>
          (case edit_nodes replace (x # xs) \<lparr>ed_nodes = wr_nodes r, ed_changed = \<not> replace, ed_run = r\<rparr> of
             (Some err, e) \<Rightarrow> (Some (WE_Graph err), unsaved r (ed_run e))
           | (None, e) \<Rightarrow>
               if MAX_NODES < length (ed_nodes e) then (Some (WE_Graph Graph_Too_Large), unsaved r (ed_run e))
               else (case check_graph (ed_nodes e) of
                   Inl err \<Rightarrow> (Some (WE_Graph err), unsaved r (ed_run e))
                 | Inr _ \<Rightarrow>
                     (let r' = refresh w ((ed_run e)\<lparr>wr_nodes := ed_nodes e\<rparr>)
                      in (None, if ed_changed e then demote (forget_review r') else r'))))
      | _ \<Rightarrow> (Some (WE_Graph (Node_Invalid ''nodes'')), r))"

subsection \<open>Removing, retrying, resolving\<close>

definition node_ids :: "json \<Rightarrow> (work_error, string list) outcome" where
  "node_ids v = (case clean_list v ''nodeIds'' 24 32 of Inl e \<Rightarrow> Inl (WE_Graph e) | Inr ids \<Rightarrow> Inr ids)"

definition users_of :: "string list \<Rightarrow> work_node list \<Rightarrow> string list" where
  "users_of ids ns = map wn_id (filter (\<lambda>n. wn_id n \<notin> set ids \<and> list_ex (\<lambda>d. d \<in> set ids) (wn_depends n)) ns)"

definition remove_nodes :: "world \<Rightarrow> json \<Rightarrow> work_run \<Rightarrow> result" where
  "remove_nodes w v r =
     (case node_ids v of
        Inl e \<Rightarrow> (Some e, r)
      | Inr ids \<Rightarrow>
          if ids = [] then (Some (WE_Graph (Node_Invalid ''nodeIds'')), r)
          else if users_of ids (wr_nodes r) \<noteq> [] then (Some (WE_Still_Used (users_of ids (wr_nodes r))), r)
          else (None, refresh w (r\<lparr>wr_nodes := filter (\<lambda>n. wn_id n \<notin> set ids) (wr_nodes r)\<rparr>)))"

definition retry_stage :: "stage_state \<Rightarrow> stage_state" where
  "retry_stage st =
     (if ended (sg_status st)
      then new_stage\<lparr>sg_feedback := take 3000 (''Retry after: '' @
               (if sg_feedback st \<noteq> [] then sg_feedback st else case sg_error st of None \<Rightarrow> [] | Some e \<Rightarrow> e)),
             sg_feedback_source := (if sg_feedback st \<noteq> [] then sg_feedback_source st else Some ''execution''),
             sg_rounds := sg_rounds st\<rparr>
      else st)"

definition selected :: "string list \<Rightarrow> work_node \<Rightarrow> bool" where
  "selected ids n = (ids = [] \<or> wn_id n \<in> set ids)"

definition reopened :: "string list \<Rightarrow> work_run \<Rightarrow> bool" where
  "reopened ids r = list_ex (\<lambda>n. selected ids n \<and> list_ex (\<lambda>x. ended (sg_status (snd x))) (wn_stages n)) (wr_nodes r)"

definition retry :: "json \<Rightarrow> work_run \<Rightarrow> result" where
  "retry v r =
     (case node_ids v of
        Inl e \<Rightarrow> (Some e, r)
      | Inr ids \<Rightarrow>
          if \<not> reopened ids r then (Some WE_Nothing_To_Retry, r)
          else (None, r\<lparr>wr_nodes := map (\<lambda>n. if selected ids n
                 then n\<lparr>wn_stages := map (\<lambda>(s, st). (s, retry_stage st)) (wn_stages n)\<rparr> else n) (wr_nodes r),
               wr_status := (if wr_status r = RS_Execute_Failed then RS_Approved
                 else if wr_status r = RS_Needs_Revision then RS_Discovering else wr_status r)\<rparr>))"

definition stage_chosen :: "stage_name option \<Rightarrow> stage_name \<Rightarrow> bool" where
  "stage_chosen only s = (case only of None \<Rightarrow> True | Some o' \<Rightarrow> s = o')"

definition mark_resolved :: "(string \<times> stage_name) list \<Rightarrow> work_run \<Rightarrow> work_run" where
  "mark_resolved ps r = r\<lparr>wr_checks := map (\<lambda>k. if (ck_node k, ck_stage k) \<in> set ps \<and> ck_conflicts k \<noteq> [] \<and> \<not> ck_resolved k
     then k\<lparr>ck_resolved := True\<rparr> else k) (wr_checks r)\<rparr>"

definition conflicted :: "string list \<Rightarrow> stage_name option \<Rightarrow> work_run \<Rightarrow> (string \<times> stage_name) list" where
  "conflicted ids only r =
     concat (map (\<lambda>n. if selected ids n
         then map (\<lambda>x. (wn_id n, fst x)) (filter (\<lambda>x. stage_chosen only (fst x) \<and> sg_conflicts (snd x) \<noteq> []) (wn_stages n))
         else []) (wr_nodes r))"

definition refused :: "string list \<Rightarrow> stage_name option \<Rightarrow> work_run \<Rightarrow> (string \<times> stage_name) list" where
  "refused ids only r =
     concat (map (\<lambda>n. if selected ids n
         then map (\<lambda>x. (wn_id n, fst x)) (filter (\<lambda>x. stage_chosen only (fst x) \<and>
             sg_status (snd x) \<in> {SG_Needs_Checks, SG_Revise} \<and> latest r n (fst x) \<noteq> [] \<and>
             list_all (\<lambda>k. ck_status (snd k) = CS_Superseded) (latest r n (fst x))) (wn_stages n))
         else []) (wr_nodes r))"

definition clear_conflicts :: "stage_state \<Rightarrow> stage_state" where
  "clear_conflicts st = st\<lparr>sg_conflicts := []\<rparr>"

definition back_to_production :: "stage_state \<Rightarrow> stage_state" where
  "back_to_production st = st\<lparr>sg_conflicts := [], sg_status := SG_Pending, sg_error := None\<rparr>"

definition resolve_conflicts :: "json \<Rightarrow> stage_name option \<Rightarrow> work_run \<Rightarrow> result" where
  "resolve_conflicts v only r =
     (case node_ids v of
        Inl e \<Rightarrow> (Some e, r)
      | Inr ids \<Rightarrow>
          (let cs = conflicted ids only r;
               r1 = mark_resolved cs (fold (\<lambda>p. put_node (fst p) (snd p) clear_conflicts) cs r);
               bs = refused ids only r1;
               r2 = mark_resolved bs (fold (\<lambda>p. put_node (fst p) (snd p) back_to_production) bs r1)
           in if cs = [] \<and> bs = [] then (Some WE_No_Conflict, r) else (None, r2)))"

subsection \<open>After a restart\<close>

definition interrupted_stage :: "stage_state \<Rightarrow> stage_state" where
  "interrupted_stage st =
     (if sg_status st \<in> set IN_FLIGHT_STAGE
      then st\<lparr>sg_status := (if sg_rounds st \<noteq> [] then SG_Revise else SG_Pending), sg_attempts := max 0 (sg_attempts st - 1),
              sg_error := Some ''interrupted by a restart''\<rparr>
      else st)"

text \<open>\<open>lost\<close>: node, stage and id of the requests that were resuming a producer.\<close>

definition lost_request :: "string \<Rightarrow> stage_state \<Rightarrow> stage_state" where
  "lost_request q st = st\<lparr>sg_status := SG_Needs_User, sg_request := Some q, sg_error := Some ''WORK_RESUME_INTERRUPTED''\<rparr>"

definition recover :: "(string \<times> stage_name \<times> string) list \<Rightarrow> work_run \<Rightarrow> work_run" where
  "recover lost r =
     (if wr_status r \<in> set TERMINAL_STATUSES then r
      else let r1 = fold (\<lambda>(i, s, q). put_node i s (lost_request q)) lost r
        in r1\<lparr>wr_nodes := map (\<lambda>n. n\<lparr>wn_stages := map (\<lambda>(s, st). (s, interrupted_stage st)) (wn_stages n)\<rparr>) (wr_nodes r1),
              wr_status := (if wr_status r1 = RS_Executing then RS_Approved
                else if wr_status r1 = RS_Verifying then RS_Discovering else wr_status r1)\<rparr>)"

subsection \<open>The tool\<close>

datatype graph_action = GA_Add json | GA_Update json | GA_Remove json | GA_Retry json
  | GA_Resolve json "stage_name option" | GA_Cancel

definition graph :: "world \<Rightarrow> graph_action \<Rightarrow> work_run \<Rightarrow> result" where
  "graph w a r =
     (if wr_status r \<in> set TERMINAL_STATUSES then (Some WE_Closed, r)
      else if w_busy w then (Some WE_Busy, r)
      else case a of
        GA_Add v \<Rightarrow> apply_nodes w False v r
      | GA_Update v \<Rightarrow> apply_nodes w True v r
      | GA_Remove v \<Rightarrow> remove_nodes w v r
      | GA_Retry v \<Rightarrow> retry v r
      | GA_Resolve v s \<Rightarrow> resolve_conflicts v s r
      | GA_Cancel \<Rightarrow> (None, r\<lparr>wr_status := RS_Cancelled\<rparr>))"

end
