(* ===== verification/Work_Merge.thy ===== *)
theory Work_Merge
  imports Work_Edit
begin

section \<open>Merging accepted nodes\<close>

text \<open>
  A run isolated in git: \<open>integrate_nodes\<close>, \<open>build_integration\<close>, \<open>integration_node\<close>, \<open>execute_status\<close>
  of \<open>agent_core/work_graph.py\<close>, and the records \<open>Worktrees.integrate\<close> keeps of a merge. The shell
  commands are the world's: a merge succeeds or conflicts, and the branch has a snapshot or not.
\<close>

definition INTEGRATION_NODE :: string where "INTEGRATION_NODE = ''__integration__''"

definition new_integration :: merge_state where
  "new_integration = \<lparr>ig_status = None, ig_nodes = [], ig_snapshot = None, ig_tree = None, ig_needs_tests = False,
     ig_stage = new_stage\<rparr>"

definition integration_of :: "work_run \<Rightarrow> merge_state" where
  "integration_of r = (case wr_integration r of None \<Rightarrow> new_integration | Some g \<Rightarrow> g)"

definition integration_node :: "work_run \<Rightarrow> work_node" where
  "integration_node r =
     \<lparr>wn_id = INTEGRATION_NODE, wn_kind = NK_Build, wn_title = ''Integrated run branch'',
      wn_goal = ''Verify the merged changes of this run on one exact snapshot of the run branch.'',
      wn_depends = map wn_id (filter (\<lambda>n. case stage_of n Execute of None \<Rightarrow> False
          | Some st \<Rightarrow> sg_status st \<in> {SG_Accepted, SG_Revise}) (wr_nodes r)),
      wn_acceptance = [''Every required test passes on the integrated snapshot.''],
      wn_tests = sort (remdups (concat (map wn_tests (wr_nodes r)))), wn_files = [],
      wn_policy = [(''risk'', ''normal''), (''artifactKind'', ''patch''), (''depth'', ''standard'')],
      wn_stages = [(Execute, ig_stage (integration_of r))]\<rparr>"

definition commit_of :: "work_node \<Rightarrow> string option" where
  "commit_of n =
     (case Option.bind (stage_of n Execute) sg_artifact of
        None \<Rightarrow> None
      | Some a \<Rightarrow>
          (case bound_value a ''codeCommit'' of
             BV_Data (JObj d) \<Rightarrow> (case dict_get d ''nodeCommit'' of JStr c \<Rightarrow> if c = [] then None else Some c | _ \<Rightarrow> None)
           | _ \<Rightarrow> None))"

definition merged :: "work_run \<Rightarrow> work_node \<Rightarrow> bool" where
  "merged r n = (case commit_of n of None \<Rightarrow> False | Some c \<Rightarrow> map_of (ig_nodes (integration_of r)) (wn_id n) = Some c)"

definition set_integration :: "(merge_state \<Rightarrow> merge_state) \<Rightarrow> work_run \<Rightarrow> work_run" where
  "set_integration f r = r\<lparr>wr_integration := Some (f (integration_of r))\<rparr>"

definition tested_merged :: "work_run \<Rightarrow> (string \<times> string) list \<Rightarrow> nat" where
  "tested_merged r ms = length (filter (\<lambda>n. wn_id n \<in> set (map fst ms) \<and> wn_tests n \<noteq> []) (wr_nodes r))"

definition merge_done :: "string \<Rightarrow> string \<Rightarrow> bool \<Rightarrow> string option \<Rightarrow> work_run \<Rightarrow> work_run" where
  "merge_done i c needs tree r =
     set_integration (\<lambda>g. let ms = dict_set i c (ig_nodes g) in
       g\<lparr>ig_nodes := ms, ig_status := Some ''pending'', ig_snapshot := None, ig_tree := tree,
         ig_needs_tests := ig_needs_tests g \<or> needs \<or> 1 < tested_merged r ms\<rparr>) r"

definition mark_conflict :: "stage_state \<Rightarrow> stage_state" where
  "mark_conflict st = st\<lparr>sg_status := SG_Integration_Conflict, sg_error := Some ''WORK_INTEGRATION_CONFLICT''\<rparr>"

text \<open>One node; carried along are whether something was merged, and the document as last saved.\<close>

definition merge_conflict :: "string \<Rightarrow> work_run \<Rightarrow> work_run" where
  "merge_conflict i r = set_integration (\<lambda>g. g\<lparr>ig_status := Some ''conflict''\<rparr>) (put_node i Execute mark_conflict r)"

definition integrate_one :: "world \<Rightarrow> string \<Rightarrow> bool \<times> work_run option \<times> work_run \<Rightarrow> bool \<times> work_run option \<times> work_run" where
  "integrate_one w i c =
     (case c of (did, saved, r) \<Rightarrow>
        (case find_node r i of
           None \<Rightarrow> c
         | Some n \<Rightarrow>
             (case commit_of n of
                None \<Rightarrow> c
              | Some m \<Rightarrow>
                  if n \<notin> set (accepted_nodes r) \<or> merged r n then c
                  else (case w_merge w i of
                      Some (needs, tree) \<Rightarrow> (True, saved, merge_done i m needs tree r)
                    | None \<Rightarrow> (did, Some (merge_conflict i r), merge_conflict i r)))))"

definition integrate_nodes :: "world \<Rightarrow> work_run \<Rightarrow> bool \<times> work_run option \<times> work_run" where
  "integrate_nodes w r = fold (integrate_one w) (map wn_id (wr_nodes r)) (False, None, r)"

definition execute_statuses :: "work_run \<Rightarrow> stage_status list" where
  "execute_statuses r = concat (map (\<lambda>n. case stage_of n Execute of None \<Rightarrow> [] | Some st \<Rightarrow> [sg_status st]) (wr_nodes r))"

definition all_accepted :: "work_run \<Rightarrow> bool" where
  "all_accepted r = (execute_statuses r \<noteq> [] \<and> list_all (\<lambda>s. s = SG_Accepted) (execute_statuses r))"

definition execute_status :: "work_run \<Rightarrow> run_status option" where
  "execute_status r =
     (if \<not> all_accepted r then None
      else if \<not> git_mode r then Some RS_Executed
      else Some (if ig_status (integration_of r) = Some ''checked'' then RS_Executed else RS_Approved))"

definition integration_binding :: "world \<Rightarrow> work_run \<Rightarrow> string \<Rightarrow> (string \<times> bind_value) list" where
  "integration_binding w r h =
     binding_of w r (integration_node r) Execute
     @ [(''policyHash'', BV_Policy (policy_body.truncate (integration r))), (''codeSnapshot'', BV_Text h)]"

definition ready_to_check :: "world \<Rightarrow> work_run \<Rightarrow> string \<Rightarrow> stage_state \<Rightarrow> stage_state" where
  "ready_to_check w r h st =
     st\<lparr>sg_status := (if pb_required (integration r) \<noteq> [] then SG_Needs_Checks else SG_Accepted),
        sg_attempts := max 1 (sg_attempts st), sg_policy := Some (integration r),
        sg_artifact := Some \<lparr>ar_id = w_new_artifact w, ar_node = INTEGRATION_NODE, ar_stage = ''execute'',
          ar_status = ''finalized'', ar_binding = integration_binding w r h\<rparr>,
        sg_rounds := (if sg_rounds st \<noteq> [] then sg_rounds st else [JObj [(''attempt'', JInt 1)]]),
        sg_output := [], sg_error := None\<rparr>"

definition build_integration :: "world \<Rightarrow> work_run \<Rightarrow> bool \<times> work_run" where
  "build_integration w r =
     (if \<not> all_accepted r then (False, r)
      else if sg_status (ig_stage (integration_of r)) \<in> {SG_Accepted, SG_Needs_Checks, SG_Revise} then (False, r)
      else case w_snapshot w of
        None \<Rightarrow> (False, set_integration (\<lambda>g. g\<lparr>ig_stage := (ig_stage g)\<lparr>sg_status := SG_Failed,
            sg_error := Some ''WORK_CODE_SNAPSHOT_REQUIRED''\<rparr>\<rparr>) r)
      | Some (h, tree) \<Rightarrow>
          (True, set_integration (\<lambda>g. g\<lparr>ig_stage := ready_to_check w r h (ig_stage g),
             ig_status := Some (if pb_required (integration r) \<noteq> [] then ''checking'' else ''checked''),
             ig_tree := Some tree, ig_snapshot := Some h\<rparr>) r))"

subsection \<open>What merging leaves alone\<close>

lemma set_integration_frame [simp]:
  "wr_status (set_integration f r) = wr_status r" "wr_approval (set_integration f r) = wr_approval r"
  "wr_nodes (set_integration f r) = wr_nodes r" "wr_checks (set_integration f r) = wr_checks r"
  "wr_isolation (set_integration f r) = wr_isolation r" "wr_requested (set_integration f r) = wr_requested r"
  by (simp_all add: set_integration_def)

definition same_standing :: "work_run \<Rightarrow> work_run \<Rightarrow> bool" where
  "same_standing r r' = (wr_status r' = wr_status r \<and> wr_approval r' = wr_approval r \<and> wr_isolation r' = wr_isolation r)"

lemma same_standing_refl [simp]: "same_standing r r"
  by (simp add: same_standing_def)

lemma same_standing_trans: "same_standing a b \<Longrightarrow> same_standing b c \<Longrightarrow> same_standing a c"
  by (simp add: same_standing_def)

text \<open>The document under way and the saved ones keep the standing of the run they started from.\<close>

definition all_stand :: "work_run \<Rightarrow> bool \<times> work_run option \<times> work_run \<Rightarrow> bool" where
  "all_stand r c = (same_standing r (snd (snd c)) \<and> (\<forall>s. fst (snd c) = Some s \<longrightarrow> same_standing r s))"

lemma integrate_one_standing: "all_stand r c \<Longrightarrow> all_stand r (integrate_one w i c)"
  by (auto simp: integrate_one_def all_stand_def same_standing_def merge_done_def merge_conflict_def
      split: prod.splits option.splits)

lemma integrate_fold_standing: "all_stand r c \<Longrightarrow> all_stand r (fold (integrate_one w) is c)"
  by (induction "is" arbitrary: c) (simp_all add: integrate_one_standing)

lemma integrate_standing: "all_stand r (integrate_nodes w r)"
  unfolding integrate_nodes_def by (rule integrate_fold_standing) (simp add: all_stand_def)

lemma build_standing: "same_standing r (snd (build_integration w r))"
  by (auto simp: build_integration_def same_standing_def split: option.splits)

end
