(* ===== verification/Work_Life.thy ===== *)
theory Work_Life
  imports Work_Merge
begin

section \<open>The life of a run\<close>

text \<open>
  Admission of \<open>work_run\<close>, the end of \<open>schedule_nodes\<close>, \<open>verify\<close> with \<open>finish_verify\<close>, \<open>submit\<close> with the
  owner's answer, the guards of \<open>ship\<close>, and the end of a check (\<open>Checks.start_locked\<close>), with the guards
  they share (\<open>require_execution\<close>, \<open>require_planning_current\<close>, \<open>require_code_current\<close>,
  \<open>approve_by_autopilot\<close>).
\<close>

subsection \<open>Guards\<close>

definition producers :: "work_run \<Rightarrow> work_node list" where
  "producers r = filter (\<lambda>n. stage_of n Produce \<noteq> None) (wr_nodes r)"

definition produced :: "world \<Rightarrow> work_run \<Rightarrow> work_node \<Rightarrow> bool" where
  "produced w r n = ((case stage_of n Produce of None \<Rightarrow> False | Some st \<Rightarrow> sg_status st = SG_Accepted) \<and> gate_open w r n Produce)"

definition planning_current :: "world \<Rightarrow> work_run \<Rightarrow> bool" where
  "planning_current w r =
     (producers r = [] \<or>
      list_all (produced w r) (producers r) \<and> gr_binding (wr_review r) = Some (whole_binding_of r) \<and>
      gr_status (wr_review r) = Some V_Ok)"

definition mark_stale :: "stage_state \<Rightarrow> stage_state" where
  "mark_stale st = st\<lparr>sg_status := SG_Revise, sg_error := Some ''WORK_CODE_STALE'',
     sg_feedback := ''Integrated source changed: preserve valid changes, inspect current code and produce a fresh handoff for testing.''\<rparr>"

definition code_stale :: "world \<Rightarrow> work_run \<Rightarrow> work_node \<Rightarrow> bool" where
  "code_stale w r n =
     (case stage_of n Execute of
        None \<Rightarrow> False
      | Some st \<Rightarrow> sg_status st = SG_Accepted \<and> \<not> (w_same_code w (sg_artifact st) \<and> gate_open w r n Execute))"

text \<open>\<open>None\<close>: the code is current. Otherwise whether the run was saved, and the run.\<close>

definition code_refusal :: "world \<Rightarrow> work_run \<Rightarrow> (bool \<times> work_run) option" where
  "code_refusal w r =
     (if git_mode r
      then (if list_ex (\<lambda>n. \<not> merged r n) (accepted_nodes r)
            then Some (False, set_integration (\<lambda>g. g\<lparr>ig_status := Some ''stale'', ig_snapshot := None\<rparr>) r)
            else if ig_snapshot (integration_of r) = None \<or> w_branch_same w then None
            else Some (True, set_integration (\<lambda>g. g\<lparr>ig_status := Some ''stale''\<rparr>) r))
      else (case List.find (code_stale w r) (wr_nodes r) of
          None \<Rightarrow> None
        | Some n \<Rightarrow> Some (True, (put_node (wn_id n) Execute mark_stale r)\<lparr>wr_status := RS_Approved\<rparr>)))"

definition approve_by :: "approver \<Rightarrow> work_run \<Rightarrow> work_run" where
  "approve_by who r = r\<lparr>wr_approval := Some \<lparr>ap_status = AS_Approved, ap_by = who\<rparr>, wr_status := RS_Approved\<rparr>"

subsection \<open>Admission of a phase\<close>

definition CURRENT_VERSION :: string where "CURRENT_VERSION = ''work-checks/10''"

definition legacy_stage :: "stage_state \<Rightarrow> stage_state" where
  "legacy_stage st = new_stage\<lparr>sg_rounds := sg_rounds st, sg_feedback := ''Legacy review is not current verification.''\<rparr>"

definition import_legacy :: "world \<Rightarrow> work_run \<Rightarrow> work_run" where
  "import_legacy w r =
     (if wr_version r = CURRENT_VERSION then r
      else r\<lparr>wr_review := no_review, wr_version := CURRENT_VERSION, wr_status := RS_Drafting, wr_approval := None,
             wr_requested := w_requested w,
             wr_nodes := map (\<lambda>n. n\<lparr>wn_stages := map (\<lambda>(s, st). (s, legacy_stage st)) (wn_stages n)\<rparr>) (wr_nodes r)\<rparr>)"

definition answer_stage :: "world \<Rightarrow> stage_state \<Rightarrow> stage_state" where
  "answer_stage w st =
     (case sg_request st of
        None \<Rightarrow> st
      | Some q \<Rightarrow> if sg_status st = SG_Needs_User \<and> w_request_ready w q then st\<lparr>sg_status := SG_Pending\<rparr> else st)"

definition take_answers :: "world \<Rightarrow> work_run \<Rightarrow> work_run" where
  "take_answers w r =
     r\<lparr>wr_nodes := map (\<lambda>n. n\<lparr>wn_stages := map (\<lambda>(s, st). (s, answer_stage w st)) (wn_stages n)\<rparr>) (wr_nodes r)\<rparr>"

definition stage_conflicts :: "stage_name \<Rightarrow> string list \<Rightarrow> work_run \<Rightarrow> bool" where
  "stage_conflicts s only r = list_ex (\<lambda>n. selected only n \<and>
     (case stage_of n s of None \<Rightarrow> False | Some st \<Rightarrow> sg_conflicts st \<noteq> [])) (wr_nodes r)"

datatype run_admission = Admitted work_run | Held_By_Conflicts work_run | Refused work_error work_run

definition RUNNABLE :: "run_status list" where
  "RUNNABLE = [RS_Approved, RS_Executing, RS_Executed]"

text \<open>The status gate of the execute phase; \<open>old\<close> is what is stored if it refuses.\<close>

definition admit_execute :: "world \<Rightarrow> work_run \<Rightarrow> work_run \<Rightarrow> run_admission" where
  "admit_execute w old r =
     (if wr_status r = RS_Execute_Failed then Refused WE_Execute_Failed (unsaved old r)
      else if wr_status r \<in> set RUNNABLE then
        (if w_busy w then Refused WE_Busy (unsaved old r) else Admitted (r\<lparr>wr_status := RS_Executing\<rparr>))
      else if w_autopilot w \<and> wr_status r = RS_Verified then
        (if w_busy w then Refused WE_Busy (unsaved old r)
         else Admitted ((approve_by By_Autopilot r)\<lparr>wr_status := RS_Executing\<rparr>))
      else Refused WE_Approval_Required (unsaved old r))"

definition check_code :: "world \<Rightarrow> work_run \<Rightarrow> work_run \<Rightarrow> run_admission" where
  "check_code w old r =
     (case code_refusal w r of
        Some (saved, r') \<Rightarrow> Refused WE_Code_Stale (if saved then r' else unsaved old r')
      | None \<Rightarrow> admit_execute w old r)"

definition admit_run :: "world \<Rightarrow> stage_name \<Rightarrow> json \<Rightarrow> work_run \<Rightarrow> run_admission" where
  "admit_run w s v r =
     (if wr_status r \<in> set TERMINAL_STATUSES then Refused WE_Closed r
      else if graph_issues (wr_nodes r) \<noteq> [] then Refused (WE_Graph (Graph_Invalid (graph_issues (wr_nodes r)))) r
      else
        (let r1 = take_answers w (refresh w (import_legacy w r))
         in case node_ids v of
           Inl e \<Rightarrow> Refused e (unsaved r r1)
         | Inr only \<Rightarrow>
             if stage_conflicts s only r1 then Held_By_Conflicts (unsaved r r1)
             else if s = Execute then
               (if \<not> wr_requested r1 then Refused WE_Requirements_Only (unsaved r r1)
                else if \<not> planning_current w r1 then Refused WE_Not_Verified (unsaved r r1)
                else
                  (let r2 = r1\<lparr>wr_isolation := w_isolation w\<rparr>;
                       (did, saved, r3) = (if git_mode r2 then integrate_nodes w r2 else (False, None, r2));
                       (built, r4) = (if did then build_integration w r3 else (False, r3))
                   in check_code w (if built then r4 else case saved of None \<Rightarrow> r | Some r' \<Rightarrow> r') r4))
             else if wr_status r1 \<in> {RS_Approved, RS_Executing, RS_Executed, RS_Execute_Failed}
             then Refused WE_Phase (unsaved r r1)
             else if w_busy w then Refused WE_Busy (unsaved r r1)
             else Admitted (r1\<lparr>wr_status := RS_Discovering\<rparr>)))"

definition stored_after :: "run_admission \<Rightarrow> work_run" where
  "stored_after a = (case a of Admitted r \<Rightarrow> r | Held_By_Conflicts r \<Rightarrow> r | Refused _ r \<Rightarrow> r)"

subsection \<open>The end of a phase\<close>

definition stage_statuses :: "stage_name \<Rightarrow> work_run \<Rightarrow> stage_status list" where
  "stage_statuses s r = concat (map (\<lambda>n. case stage_of n s of None \<Rightarrow> [] | Some st \<Rightarrow> [sg_status st]) (wr_nodes r))"

definition merge_phase :: "world \<Rightarrow> work_run \<Rightarrow> work_run" where
  "merge_phase w r = (if git_mode r then snd (build_integration w (snd (snd (integrate_nodes w r)))) else r)"

definition finish_phase :: "world \<Rightarrow> stage_name \<Rightarrow> work_run \<Rightarrow> work_run" where
  "finish_phase w s r =
     (let sts = stage_statuses s r
      in if s = Execute then
           (let r' = merge_phase w r
            in r'\<lparr>wr_status :=
                 (if list_all (\<lambda>x. x = SG_Accepted) sts then (case execute_status r' of None \<Rightarrow> RS_Approved | Some x \<Rightarrow> x)
                  else if list_ex (\<lambda>x. x \<in> {SG_Rejected, SG_Failed, SG_Integration_Conflict}) sts then RS_Execute_Failed
                  else RS_Approved)\<rparr>)
         else r\<lparr>wr_status := (if list_ex ended sts then RS_Needs_Revision else RS_Discovering)\<rparr>)"

subsection \<open>Whole-plan review\<close>

definition MAX_GRAPH_REVIEWS :: nat where "MAX_GRAPH_REVIEWS = 3"

definition verify_start :: "world \<Rightarrow> work_run \<Rightarrow> result" where
  "verify_start w r =
     (if wr_version r \<noteq> CURRENT_VERSION then (Some WE_Legacy_Checks, r)
      else let r1 = refresh w r in
        if w_busy w then (Some WE_Busy, unsaved r r1)
        else if wr_status r1 \<in> {RS_Approved, RS_Executing, RS_Executed, RS_Execute_Failed} \<union> set TERMINAL_STATUSES
        then (Some WE_Phase, unsaved r r1)
        else if producers r1 = [] then (Some WE_Nothing_To_Verify, unsaved r r1)
        else if \<not> list_all (produced w r1) (producers r1)
        then (Some (WE_Not_Ready (map wn_id (filter (\<lambda>n. \<not> produced w r1 n) (producers r1)))), unsaved r r1)
        else if MAX_GRAPH_REVIEWS \<le> length (gr_rounds (wr_review r1)) \<and> gr_status (wr_review r1) \<noteq> Some V_Ok
        then (Some WE_Review_Exhausted, unsaved r r1)
        else (None, r1\<lparr>wr_status := RS_Verifying\<rparr>))"

definition revise_produce :: "string \<Rightarrow> stage_state \<Rightarrow> stage_state" where
  "revise_produce reason st = st\<lparr>sg_status := SG_Revise, sg_feedback := ''Whole-plan review: '' @ reason,
     sg_feedback_source := Some ''checks'', sg_attempts := max 0 (sg_attempts st - 1)\<rparr>"

text \<open>What the reviewer came back with: nothing (it raised), or a verdict with the nodes it sends back.\<close>

datatype judged = Judge_Raised | Judged "review_verdict option" "(string \<times> string) list" bool

definition verify_finish :: "judged \<Rightarrow> work_run \<Rightarrow> result" where
  "verify_finish j r =
     (case j of
        Judge_Raised \<Rightarrow> (Some WE_Documents_Failed, r\<lparr>wr_status := RS_Needs_Revision\<rparr>)
      | Judged v targets docs_ok \<Rightarrow>
          (let r1 = r\<lparr>wr_review := \<lparr>gr_status = v, gr_binding = Some (whole_binding_of r),
                       gr_rounds = gr_rounds (wr_review r) @ [v]\<rparr>\<rparr>
           in if v = Some V_Ok then
                (if docs_ok then (None, r1\<lparr>wr_status := RS_Verified\<rparr>)
                 else (Some WE_Documents_Failed, r1\<lparr>wr_status := RS_Needs_Revision\<rparr>))
              else (None, (fold (\<lambda>(i, why). put_node i Produce (revise_produce why)) (if v = Some V_Revise then targets else []) r1)
                     \<lparr>wr_status := RS_Needs_Revision\<rparr>)))"

subsection \<open>Approval\<close>

definition submit :: "world \<Rightarrow> work_run \<Rightarrow> result" where
  "submit w r =
     (if graph_issues (wr_nodes r) \<noteq> [] then (Some (WE_Graph (Graph_Invalid (graph_issues (wr_nodes r)))), r)
      else if \<not> wr_requested r then (Some WE_Requirements_Only, r)
      else let r1 = refresh w r in
        if \<not> planning_current w r1 then (Some WE_Not_Verified, unsaved r r1)
        else if wr_status r1 = RS_Awaiting_Approval \<and> w_card_waiting w then (Some WE_Busy, unsaved r r1)
        else
          (let r2 = (if wr_status r1 = RS_Awaiting_Approval then r1\<lparr>wr_status := RS_Verified\<rparr> else r1)
           in if producers r2 \<noteq> [] \<and> wr_status r2 \<noteq> RS_Verified then (Some WE_Not_Verified, unsaved r r2)
              else if runnable (wr_nodes r2) = [] then (Some WE_Nothing_To_Execute, unsaved r r2)
              else if w_autopilot w then (None, approve_by By_Autopilot r2)
              else (None, r2\<lparr>wr_status := RS_Awaiting_Approval\<rparr>)))"

datatype owner_answer = Owner_Approves | Owner_Declines bool

definition owner_decides :: "owner_answer \<Rightarrow> work_run \<Rightarrow> work_run" where
  "owner_decides a r =
     (case a of
        Owner_Approves \<Rightarrow> approve_by By_Owner r
      | Owner_Declines noted \<Rightarrow>
          r\<lparr>wr_approval := Some \<lparr>ap_status = (if noted then AS_Changes_Requested else AS_Rejected), ap_by = By_Owner\<rparr>,
            wr_status := (if noted then RS_Needs_Revision else RS_Verified)\<rparr>)"

subsection \<open>Checks and shipping\<close>

definition put_checked :: "work_run \<Rightarrow> work_node \<Rightarrow> stage_name \<Rightarrow> (stage_state \<Rightarrow> stage_state) \<Rightarrow> work_run" where
  "put_checked r n s f =
     (if wn_id n = INTEGRATION_NODE then set_integration (\<lambda>g. g\<lparr>ig_stage := f (ig_stage g)\<rparr>) r
      else put_node (wn_id n) s f r)"

definition node_or_branch :: "work_run \<Rightarrow> string \<Rightarrow> work_node option" where
  "node_or_branch r i =
     (case find_node r i of
        Some n \<Rightarrow> Some n
      | None \<Rightarrow> if i = INTEGRATION_NODE \<and> git_mode r \<and> wr_integration r \<noteq> None then Some (integration_node r) else None)"

text \<open>The guards of a check (identity, budget and capability guards of the admission left out).\<close>

definition check_refusal :: "world \<Rightarrow> string \<Rightarrow> stage_name \<Rightarrow> string \<Rightarrow> work_run \<Rightarrow> work_error option" where
  "check_refusal w i s aid r =
     (if wr_status r \<in> {RS_Cancelled, RS_Shipped, RS_Rejected, RS_Paused} then Some WE_Closed
      else case node_or_branch r i of
        None \<Rightarrow> Some WE_Unknown_Node
      | Some n \<Rightarrow>
          (case stage_of n s of
             None \<Rightarrow> Some WE_Unknown_Node
           | Some st \<Rightarrow>
               if sg_status st \<notin> {SG_Needs_Checks, SG_Revise, SG_Accepted} then Some WE_Check_Not_Ready
               else (case sg_artifact st of
                   None \<Rightarrow> Some WE_Check_Not_Ready
                 | Some a \<Rightarrow>
                     if ar_status a \<noteq> ''finalized'' then Some WE_Check_Not_Ready
                     else if ar_id a \<noteq> aid \<or> \<not> binding_current w r n s a \<or> \<not> policy_sound a (sg_policy st)
                     then Some WE_Check_Stale
                     else None)))"

definition red_findings :: "(string \<times> check_record) list \<Rightarrow> string" where
  "red_findings recs = intercalate [CHR 0x0A] (map (\<lambda>k. ck_findings (snd k)) (filter (\<lambda>k. ck_status (snd k) = CS_Revise) recs))"

definition judge_stage :: "world \<Rightarrow> work_run \<Rightarrow> work_node \<Rightarrow> stage_name \<Rightarrow> int \<Rightarrow> stage_state \<Rightarrow> stage_state" where
  "judge_stage w r n s max_rounds st =
     (if gate_open w r n s then st\<lparr>sg_status := SG_Accepted, sg_feedback := [], sg_error := None\<rparr>
      else if sg_code_moved st \<noteq> None \<and> sg_status st = SG_Pending then st
      else if list_ex (\<lambda>k. ck_status (snd k) = CS_Revise) (latest r n s)
      then st\<lparr>sg_status := (if sg_attempts st < max_rounds then SG_Revise else SG_Rejected),
              sg_feedback_source := Some ''checks'', sg_feedback := red_findings (latest r n s)\<rparr>
      else st\<lparr>sg_status := SG_Needs_Checks\<rparr>)"

definition open_conflicts :: "work_run \<Rightarrow> work_node \<Rightarrow> stage_name \<Rightarrow> conflict list" where
  "open_conflicts r n s = concat (map (\<lambda>k. if ck_resolved (snd k) then [] else ck_conflicts (snd k)) (latest r n s))"

text \<open>The end of \<open>start_locked\<close>: \<open>recs\<close> are the check rows this call wrote.\<close>

definition check_finish :: "world \<Rightarrow> string \<Rightarrow> stage_name \<Rightarrow> int \<Rightarrow> check_record list \<Rightarrow> work_run \<Rightarrow> work_run" where
  "check_finish w i s max_rounds recs r0 =
     (let r = r0\<lparr>wr_checks := wr_checks r0 @ recs\<rparr>
      in case node_or_branch r i of
        None \<Rightarrow> r
      | Some n \<Rightarrow>
          (let r1 = put_checked r n s (\<lambda>st. (judge_stage w r n s max_rounds st)\<lparr>sg_conflicts := open_conflicts r n s\<rparr>);
               st = (case stage_of n s of None \<Rightarrow> new_stage | Some st \<Rightarrow> judge_stage w r n s max_rounds st);
               r2 = (if s = Execute \<and> wn_id n = INTEGRATION_NODE
                     then set_integration (\<lambda>g. if sg_status st = SG_Accepted then g\<lparr>ig_status := Some ''checked''\<rparr>
                            else if ig_status g = Some ''checked'' then g\<lparr>ig_status := Some ''pending''\<rparr> else g) r1
                     else r1)
           in if s = Execute
              then r2\<lparr>wr_status := (case execute_status r2 of
                       Some x \<Rightarrow> x
                     | None \<Rightarrow> if sg_status st = SG_Rejected then RS_Execute_Failed else RS_Approved)\<rparr>
              else r2))"

definition work_check :: "world \<Rightarrow> string \<Rightarrow> stage_name \<Rightarrow> string \<Rightarrow> int \<Rightarrow> check_record list \<Rightarrow> work_run \<Rightarrow> result" where
  "work_check w i s aid max_rounds recs r =
     (if w_busy w then (Some WE_Busy, r)
      else case check_refusal w i s aid r of
        Some e \<Rightarrow> (Some e, r)
      | None \<Rightarrow> (None, check_finish w i s max_rounds recs r))"

definition ship :: "world \<Rightarrow> bool \<Rightarrow> work_run \<Rightarrow> result" where
  "ship w delivered r =
     (if \<not> wr_requested r then (Some WE_Requirements_Only, r)
      else let r1 = refresh w r in
        if \<not> planning_current w r1 then (Some WE_Not_Verified, unsaved r r1)
        else case code_refusal w r1 of
          Some (saved, r2) \<Rightarrow> (Some WE_Code_Stale, if saved then r2 else unsaved r r2)
        | None \<Rightarrow>
            if wr_status r1 \<noteq> RS_Executed then (Some WE_Not_Executed, unsaved r r1)
            else if git_mode r1 \<and> ig_status (integration_of r1) \<noteq> Some ''checked'' then (Some WE_Ship_Stale, unsaved r r1)
            else (None, if delivered then r1\<lparr>wr_status := RS_Shipped\<rparr> else r1))"

end
