(* ===== verification/Work_Approval.thy ===== *)
theory Work_Approval
  imports Work_Life
begin

section \<open>Execution needs an approval\<close>

text \<open>
  The contract every operation on a run keeps: a run that may execute has an approval on record. It is
  stated once as a locale, proved for each operation of the model by an interpretation, and then holds
  along every run of the program that contains no bypass. The two bypasses the code has are named.
\<close>

definition approved :: "work_run \<Rightarrow> bool" where
  "approved r = (case wr_approval r of None \<Rightarrow> False | Some a \<Rightarrow> ap_status a = AS_Approved)"

definition AUTHORISED :: "run_status list" where
  "AUTHORISED = [RS_Approved, RS_Executing, RS_Executed, RS_Execute_Failed]"

definition authorised :: "work_run \<Rightarrow> bool" where
  "authorised r = (wr_status r \<in> set AUTHORISED \<longrightarrow> approved r)"

locale run_operation =
  fixes opr :: "work_run \<Rightarrow> work_run"
  assumes keeps: "authorised r \<Longrightarrow> authorised (opr r)"
begin

lemma keeps_many: "authorised r \<Longrightarrow> authorised ((opr ^^ k) r)"
  by (induction k) (simp_all add: keeps)

lemma never_executes_unapproved: "authorised r \<Longrightarrow> wr_status (opr r) = RS_Executing \<Longrightarrow> approved (opr r)"
  using keeps [of r] by (simp add: authorised_def AUTHORISED_def)

end

subsection \<open>The operations\<close>

lemma authorised_standing: "same_standing r r' \<Longrightarrow> authorised r' = authorised r"
  by (simp add: same_standing_def authorised_def approved_def)

lemma authorised_same: "wr_status r' = wr_status r \<Longrightarrow> wr_approval r' = wr_approval r \<Longrightarrow> authorised r' = authorised r"
  by (simp add: authorised_def approved_def)

lemma authorised_unsaved [simp]: "authorised (unsaved r r') = authorised r"
  by (rule authorised_same) (simp_all add: unsaved_def)

lemma supersede_frame [simp]: "wr_status (supersede a r) = wr_status r" "wr_approval (supersede a r) = wr_approval r"
  by (simp_all add: supersede_def)

lemma refresh_at_frame: "wr_status (snd (refresh_at w p c)) = wr_status (snd c) \<and> wr_approval (snd (refresh_at w p c)) = wr_approval (snd c)"
  by (simp add: refresh_at_def split: option.split prod.split)

lemma refresh_fold_frame:
  "wr_status (snd (fold (refresh_at w) ps c)) = wr_status (snd c) \<and> wr_approval (snd (fold (refresh_at w) ps c)) = wr_approval (snd c)"
  by (induction ps arbitrary: c) (simp_all add: refresh_at_frame)

lemma refresh_loop_frame: "wr_status (refresh_loop w r) = wr_status r \<and> wr_approval (refresh_loop w r) = wr_approval r"
proof (induction w r rule: refresh_loop.induct)
  case (1 w r)
  have "wr_status (snd (refresh_pass w r)) = wr_status r \<and> wr_approval (snd (refresh_pass w r)) = wr_approval r"
    using refresh_fold_frame [of w "positions r" "(False, r)"] by (simp add: refresh_pass_def)
  then show ?case using 1 by (subst (1 2) refresh_loop.simps) simp
qed

lemma authorised_drop_review [simp]: "authorised (drop_review r)"
  by (auto simp: authorised_def drop_review_def AUTHORISED_def AFTER_REVIEW_def)

interpretation refresh_op: run_operation "refresh w" for w
proof
  fix r assume "authorised r"
  then have "authorised (refresh_loop w r)" using refresh_loop_frame [of w r] by (simp add: authorised_def approved_def)
  then show "authorised (refresh w r)" by (simp add: refresh_def Let_def)
qed

lemma authorised_demote: "authorised r \<Longrightarrow> authorised (demote r)"
  by (auto simp: authorised_def demote_def approved_def AUTHORISED_def)

lemma authorised_forget: "authorised (forget_review r) = authorised r"
  by (rule authorised_same) (simp_all add: forget_review_def)

lemma supersede_fold_frame: "wr_status (fold supersede as r) = wr_status r \<and> wr_approval (fold supersede as r) = wr_approval r"
  by (induction as arbitrary: r) simp_all

lemma edit_node_frame:
  "edit_node rep raw e = Inr e' \<Longrightarrow> wr_status (ed_run e') = wr_status (ed_run e) \<and> wr_approval (ed_run e') = wr_approval (ed_run e)"
  by (auto simp: edit_node_def Let_def supersede_fold_frame split: option.splits if_splits)

lemma edit_nodes_frame:
  "wr_status (ed_run (snd (edit_nodes rep raws e))) = wr_status (ed_run e) \<and>
   wr_approval (ed_run (snd (edit_nodes rep raws e))) = wr_approval (ed_run e)"
  by (induction rep raws e rule: edit_nodes.induct) (auto dest: edit_node_frame split: sum.split)

lemma apply_nodes_keeps: "authorised r \<Longrightarrow> authorised (snd (apply_nodes w rep raws r))"
proof (cases "\<exists>x xs. raws = JList (x # xs)")
  case True
  then obtain x xs where raws: "raws = JList (x # xs)" by blast
  assume r: "authorised r"
  obtain err e where e: "edit_nodes rep (x # xs) \<lparr>ed_nodes = wr_nodes r, ed_changed = \<not> rep, ed_run = r\<rparr> = (err, e)"
    by (cases "edit_nodes rep (x # xs) \<lparr>ed_nodes = wr_nodes r, ed_changed = \<not> rep, ed_run = r\<rparr>") simp
  then have "authorised ((ed_run e)\<lparr>wr_nodes := ed_nodes e\<rparr>)"
    using edit_nodes_frame [of rep "x # xs" "\<lparr>ed_nodes = wr_nodes r, ed_changed = \<not> rep, ed_run = r\<rparr>"] r
    by (simp add: authorised_def approved_def del: edit_nodes.simps)
  then have "authorised (refresh w ((ed_run e)\<lparr>wr_nodes := ed_nodes e\<rparr>))" by (rule refresh_op.keeps)
  then show ?thesis using r e raws
    by (simp add: apply_nodes_def Let_def authorised_demote authorised_forget del: edit_nodes.simps split: option.split sum.split)
next
  case False
  assume "authorised r"
  then show ?thesis using False by (simp add: apply_nodes_def split: json.split list.split)
qed

lemma map_stages_keeps: "authorised (r\<lparr>wr_nodes := ns\<rparr>) = authorised r"
  by (rule authorised_same) simp_all

lemma remove_keeps: "authorised r \<Longrightarrow> authorised (snd (remove_nodes w v r))"
  by (simp add: remove_nodes_def map_stages_keeps refresh_op.keeps split: sum.split)

lemma retry_keeps: "authorised r \<Longrightarrow> authorised (snd (retry v r))"
  by (auto simp: retry_def authorised_def approved_def AUTHORISED_def split: sum.split)

lemma fold_put_frame:
  "wr_status (fold (\<lambda>p. put_node (fst p) (snd p) f) ps r) = wr_status r \<and>
   wr_approval (fold (\<lambda>p. put_node (fst p) (snd p) f) ps r) = wr_approval r"
  by (induction ps arbitrary: r) simp_all

lemma mark_resolved_frame: "wr_status (mark_resolved ps r) = wr_status r" "wr_approval (mark_resolved ps r) = wr_approval r"
  by (simp_all add: mark_resolved_def)

lemma resolve_keeps: "authorised r \<Longrightarrow> authorised (snd (resolve_conflicts v only r))"
  by (simp add: resolve_conflicts_def Let_def authorised_def approved_def mark_resolved_frame fold_put_frame split: sum.split)

lemma authorised_idle: "s \<notin> set AUTHORISED \<Longrightarrow> authorised (r\<lparr>wr_status := s\<rparr>)"
  by (simp add: authorised_def)

lemma cancelled_idle [simp]: "RS_Cancelled \<notin> set AUTHORISED" "RS_Verified \<notin> set AUTHORISED"
    "RS_Needs_Revision \<notin> set AUTHORISED" "RS_Awaiting_Approval \<notin> set AUTHORISED" "RS_Verifying \<notin> set AUTHORISED"
    "RS_Shipped \<notin> set AUTHORISED" "RS_Discovering \<notin> set AUTHORISED" "RS_Drafting \<notin> set AUTHORISED"
  by (simp_all add: AUTHORISED_def)

interpretation graph_op: run_operation "\<lambda>r. snd (graph w a r)" for w a
proof
  fix r assume "authorised r"
  then show "authorised (snd (graph w a r))"
    by (cases a) (simp_all add: graph_def apply_nodes_keeps remove_keeps retry_keeps resolve_keeps authorised_idle)
qed

lemma fold_lost_frame:
  "wr_status (fold (\<lambda>(i, s, q). put_node i s (lost_request q)) ps r) = wr_status r \<and>
   wr_approval (fold (\<lambda>(i, s, q). put_node i s (lost_request q)) ps r) = wr_approval r"
  by (induction ps arbitrary: r) (simp_all add: case_prod_beta)

interpretation recover_op: run_operation "recover lost" for lost
proof
  fix r assume "authorised r"
  then show "authorised (recover lost r)"
    using fold_lost_frame [of lost r] by (auto simp: recover_def Let_def authorised_def approved_def AUTHORISED_def)
qed

lemma import_keeps: "authorised r \<Longrightarrow> authorised (import_legacy w r)"
  by (simp add: import_legacy_def authorised_def AUTHORISED_def)

lemma take_answers_keeps: "authorised (take_answers w r) = authorised r"
  by (rule authorised_same) (simp_all add: take_answers_def)

text \<open>Work on a stage, and the end of a phase.\<close>

interpretation stage_op: run_operation "put_node i s f" for i s f
  by unfold_locales (simp add: authorised_def approved_def)

definition finish_if_active :: "world \<Rightarrow> stage_name \<Rightarrow> work_run \<Rightarrow> work_run" where
  "finish_if_active w s r =
     (if wr_status r = (if s = Execute then RS_Executing else RS_Discovering) then finish_phase w s r else r)"

lemma merge_phase_frame: "wr_approval (merge_phase w r) = wr_approval r"
  using integrate_standing [of r w] build_standing [of "snd (snd (integrate_nodes w r))" w]
  by (simp add: merge_phase_def all_stand_def same_standing_def)

interpretation finish_op: run_operation "finish_if_active w s" for w s
proof
  fix r assume "authorised r"
  then show "authorised (finish_if_active w s r)"
    by (auto simp: finish_if_active_def finish_phase_def Let_def authorised_def approved_def AUTHORISED_def merge_phase_frame)
qed

interpretation verify_start_op: run_operation "\<lambda>r. snd (verify_start w r)" for w
proof
  fix r assume "authorised r"
  then show "authorised (snd (verify_start w r))"
    by (simp add: verify_start_def Let_def) (simp add: authorised_def AUTHORISED_def)
qed

interpretation verify_finish_op: run_operation "\<lambda>r. snd (verify_finish j r)" for j
  by unfold_locales (auto simp: verify_finish_def Let_def authorised_def AUTHORISED_def split: judged.split)

lemma authorised_approve [simp]: "authorised (approve_by who r)"
  by (simp add: approve_by_def authorised_def approved_def)

interpretation submit_op: run_operation "\<lambda>r. snd (submit w r)" for w
proof
  fix r assume "authorised r"
  then show "authorised (snd (submit w r))"
    by (simp add: submit_def Let_def) (simp add: authorised_def AUTHORISED_def)
qed

interpretation owner_op: run_operation "owner_decides a" for a
  by unfold_locales (cases a; simp add: owner_decides_def; simp add: authorised_def)

subsection \<open>Admission, checks and shipping\<close>

text \<open>A refusal for stale code saves the status \<open>approved\<close>, whatever the status was.\<close>

definition refused_unapproved :: "run_admission \<Rightarrow> bool" where
  "refused_unapproved a = (case a of Refused WE_Code_Stale r \<Rightarrow> \<not> approved r | _ \<Rightarrow> False)"

lemma admit_execute_keeps: "authorised old \<Longrightarrow> authorised r \<Longrightarrow> authorised (stored_after (admit_execute w old r))"
  by (auto simp: admit_execute_def stored_after_def authorised_def approved_def approve_by_def RUNNABLE_def AUTHORISED_def
      unsaved_def)

lemma authorised_approved: "approved r \<Longrightarrow> authorised r"
  by (simp add: authorised_def)

lemma check_code_keeps:
  assumes "authorised old" and "authorised r" and nb: "\<not> refused_unapproved (check_code w old r)"
  shows "authorised (stored_after (check_code w old r))"
proof (cases "code_refusal w r")
  case None
  then show ?thesis using assms by (simp add: check_code_def admit_execute_keeps)
next
  case (Some x)
  then obtain sv r' where x: "x = (sv, r')" by (cases x)
  then have "check_code w old r = Refused WE_Code_Stale (if sv then r' else unsaved old r')"
    using Some by (simp add: check_code_def)
  then show ?thesis using nb authorised_approved by (simp add: refused_unapproved_def stored_after_def)
qed

lemma standing_base:
  assumes "authorised r" and "authorised r2" and "integrate_nodes w r2 = (did, saved, r3)"
  shows "authorised r3" and "authorised (case saved of None \<Rightarrow> r | Some r' \<Rightarrow> r')"
proof -
  have a: "all_stand r2 (did, saved, r3)" using integrate_standing [of r2 w] assms(3) by simp
  then have "same_standing r2 r3" by (simp add: all_stand_def)
  then show "authorised r3" using assms(2) by (simp add: authorised_standing)
  show "authorised (case saved of None \<Rightarrow> r | Some r' \<Rightarrow> r')"
    using a assms(1,2) by (cases saved) (auto simp: all_stand_def authorised_standing)
qed

text \<open>The part of an admission after the guards: merge what is accepted, compare the code, admit.\<close>

definition merge_and_admit :: "world \<Rightarrow> work_run \<Rightarrow> work_run \<Rightarrow> run_admission" where
  "merge_and_admit w r r2 =
     (let (did, saved, r3) = (if git_mode r2 then integrate_nodes w r2 else (False, None, r2));
          (built, r4) = (if did then build_integration w r3 else (False, r3))
      in check_code w (if built then r4 else case saved of None \<Rightarrow> r | Some r' \<Rightarrow> r') r4)"

lemma merge_and_admit_keeps:
  assumes r: "authorised r" and r2: "authorised r2" and nb: "\<not> refused_unapproved (merge_and_admit w r r2)"
  shows "authorised (stored_after (merge_and_admit w r r2))"
proof -
  obtain did saved r3 where m: "(if git_mode r2 then integrate_nodes w r2 else (False, None, r2)) = (did, saved, r3)"
    by (metis prod_cases3)
  obtain built r4 where b: "(if did then build_integration w r3 else (False, r3)) = (built, r4)" by (metis surj_pair)
  have a: "authorised r3 \<and> authorised (case saved of None \<Rightarrow> r | Some r' \<Rightarrow> r')"
    using m standing_base [OF r r2, of w did saved r3] r r2 by (auto split: if_splits)
  have "same_standing r3 r4" using b build_standing [of r3 w] by (auto split: if_splits)
  then have r4: "authorised r4" using a authorised_standing by blast
  have eq: "merge_and_admit w r r2 = check_code w (if built then r4 else case saved of None \<Rightarrow> r | Some r' \<Rightarrow> r') r4"
    by (simp add: merge_and_admit_def m b)
  show ?thesis unfolding eq using a r4 nb [unfolded eq] by (intro check_code_keeps) simp_all
qed

lemma admit_run_merge:
  "admit_run w s v r =
     (if wr_status r \<in> set TERMINAL_STATUSES then Refused WE_Closed r
      else if graph_issues (wr_nodes r) \<noteq> [] then Refused (WE_Graph (Graph_Invalid (graph_issues (wr_nodes r)))) r
      else
        (let r1 = take_answers w (refresh w (import_legacy w r))
         in case node_ids v of
           Inl e \<Rightarrow> Refused e (unsaved r r1)
         | Inr only \<Rightarrow>
             if stage_conflicts s only r1 then Held_By_Conflicts (unsaved r r1)
             else if s = Execute then
               (if \<not> wr_requested r1 then Refused WE_Requirements_Only (unsaved r r1)
                else if \<not> planning_current w r1 then Refused WE_Not_Verified (unsaved r r1)
                else merge_and_admit w r (r1\<lparr>wr_isolation := w_isolation w\<rparr>))
             else if wr_status r1 \<in> {RS_Approved, RS_Executing, RS_Executed, RS_Execute_Failed}
             then Refused WE_Phase (unsaved r r1)
             else if w_busy w then Refused WE_Busy (unsaved r r1)
             else Admitted (r1\<lparr>wr_status := RS_Discovering\<rparr>)))"
  by (simp only: admit_run_def merge_and_admit_def Let_def)

lemma admit_keeps:
  assumes r: "authorised r" and nb: "\<not> refused_unapproved (admit_run w s v r)"
  shows "authorised (stored_after (admit_run w s v r))"
proof -
  let ?r1 = "take_answers w (refresh w (import_legacy w r))"
  have r1: "authorised ?r1" using r by (simp add: take_answers_keeps refresh_op.keeps import_keeps)
  then have r2: "authorised (?r1\<lparr>wr_isolation := w_isolation w\<rparr>)" by (simp add: authorised_def approved_def)
  show ?thesis
  proof (cases "wr_status r \<in> set TERMINAL_STATUSES \<or> graph_issues (wr_nodes r) \<noteq> []")
    case True
    then show ?thesis using r by (auto simp: admit_run_def stored_after_def)
  next
    case False
    show ?thesis
    proof (cases "node_ids v")
      case (Inl e)
      then show ?thesis using False r by (simp add: admit_run_def Let_def stored_after_def)
    next
      case (Inr only)
      show ?thesis
      proof (cases "s = Execute \<and> \<not> stage_conflicts s only ?r1 \<and> wr_requested ?r1 \<and> planning_current w ?r1")
        case True
        then have eq: "admit_run w s v r = merge_and_admit w r (?r1\<lparr>wr_isolation := w_isolation w\<rparr>)"
          using False Inr by (auto simp: admit_run_merge Let_def)
        show ?thesis unfolding eq using r r2 nb [unfolded eq] by (rule merge_and_admit_keeps)
      next
        case other: False
        then have "stored_after (admit_run w s v r) = unsaved r ?r1 \<or>
            stored_after (admit_run w s v r) = ?r1\<lparr>wr_status := RS_Discovering\<rparr>"
          using False Inr by (auto simp: admit_run_merge Let_def stored_after_def)
        then show ?thesis using r authorised_idle [of RS_Discovering ?r1] by auto
      qed
    qed
  qed
qed

lemma put_checked_approval: "wr_approval (put_checked r n s f) = wr_approval r"
  by (simp add: put_checked_def)

lemma check_finish_approval: "wr_approval (check_finish w i s m recs r) = wr_approval r"
  by (simp add: check_finish_def Let_def put_checked_approval split: option.split)

lemma check_finish_produce: "wr_status (check_finish w i Produce m recs r) = wr_status r"
  by (simp add: check_finish_def Let_def put_checked_def split: option.split)

lemma work_check_keeps:
  "authorised r \<Longrightarrow> s = Execute \<longrightarrow> approved r \<Longrightarrow> authorised (snd (work_check w i s aid m recs r))"
proof (cases s)
  case Produce
  assume "authorised r"
  moreover have "authorised (check_finish w i s m recs r) = authorised r"
    using Produce by (intro authorised_same) (simp_all add: check_finish_produce check_finish_approval)
  ultimately show ?thesis by (simp add: work_check_def split: option.split)
next
  case Execute
  assume "authorised r" "s = Execute \<longrightarrow> approved r"
  then have "approved (check_finish w i s m recs r)"
    using Execute check_finish_approval [of w i s m recs r] by (simp add: approved_def)
  then show ?thesis using \<open>authorised r\<close> by (simp add: work_check_def authorised_approved split: option.split)
qed

lemma ship_keeps:
  assumes "authorised r" and "fst (ship w d r) = Some WE_Code_Stale \<Longrightarrow> approved (snd (ship w d r))"
  shows "authorised (snd (ship w d r))"
proof -
  have "authorised (refresh w r)" using assms(1) by (rule refresh_op.keeps)
  then show ?thesis using assms
    by (cases "code_refusal w (refresh w r)") (auto simp: ship_def Let_def authorised_idle intro: authorised_approved split: if_splits)
qed

subsection \<open>Runs of the program\<close>

datatype run_event =
    Ev_Graph world graph_action
  | Ev_Admit world stage_name json
  | Ev_Work string stage_name stage_state
  | Ev_Finish world stage_name
  | Ev_Verify_Start world
  | Ev_Verify_Finish judged
  | Ev_Submit world
  | Ev_Owner owner_answer
  | Ev_Check world string stage_name string int "check_record list"
  | Ev_Ship world bool
  | Ev_Recover "(string \<times> stage_name \<times> string) list"

fun run_step :: "run_event \<Rightarrow> work_run \<Rightarrow> work_run" where
  "run_step (Ev_Graph w a) r = snd (graph w a r)"
| "run_step (Ev_Admit w s v) r = stored_after (admit_run w s v r)"
| "run_step (Ev_Work i s st) r = put_node i s (\<lambda>_. st) r"
| "run_step (Ev_Finish w s) r = finish_if_active w s r"
| "run_step (Ev_Verify_Start w) r = snd (verify_start w r)"
| "run_step (Ev_Verify_Finish j) r = snd (verify_finish j r)"
| "run_step (Ev_Submit w) r = snd (submit w r)"
| "run_step (Ev_Owner a) r = owner_decides a r"
| "run_step (Ev_Check w i s aid m recs) r = snd (work_check w i s aid m recs r)"
| "run_step (Ev_Ship w d) r = snd (ship w d r)"
| "run_step (Ev_Recover lost) r = recover lost r"

text \<open>
  The two ways round the approval: a check of an execution stage ends while no approval is on record, and
  a call is refused for stale code while none is.
\<close>

fun bypass :: "run_event \<Rightarrow> work_run \<Rightarrow> bool" where
  "bypass (Ev_Check w i s aid m recs) r = (s = Execute \<and> \<not> approved r)"
| "bypass (Ev_Admit w s v) r = refused_unapproved (admit_run w s v r)"
| "bypass (Ev_Ship w d) r = (fst (ship w d r) = Some WE_Code_Stale \<and> \<not> approved (snd (ship w d r)))"
| "bypass _ r = False"

fun no_bypass :: "run_event list \<Rightarrow> work_run \<Rightarrow> bool" where
  "no_bypass [] r = True"
| "no_bypass (e # es) r = (\<not> bypass e r \<and> no_bypass es (run_step e r))"

lemma run_step_keeps: "authorised r \<Longrightarrow> \<not> bypass e r \<Longrightarrow> authorised (run_step e r)"
proof (cases e)
  case (Ev_Ship w d)
  assume "authorised r" "\<not> bypass e r"
  then show ?thesis using Ev_Ship ship_keeps [of r w d] by auto
qed (simp_all add: graph_op.keeps admit_keeps stage_op.keeps finish_op.keeps verify_start_op.keeps verify_finish_op.keeps
    submit_op.keeps owner_op.keeps recover_op.keeps work_check_keeps)

lemma run_keeps: "authorised r \<Longrightarrow> no_bypass es r \<Longrightarrow> authorised (run run_step es r)"
  by (induction es arbitrary: r) (simp_all add: run_step_keeps)

end
