(* ===== verification/Work_Props.thy ===== *)
theory Work_Props
  imports Work_Approval
begin

section \<open>What the work graph guarantees\<close>

text \<open>
  The properties of the work graph and of the life of a run, with concrete graphs and runs on which
  they apply, and the runs that show the two bypasses of the approval and the smaller divergences.
\<close>

subsection \<open>Sample graphs and runs\<close>

definition sample_stage :: "stage_status \<Rightarrow> artifact option \<Rightarrow> check_policy option \<Rightarrow> stage_state" where
  "sample_stage s a p = new_stage\<lparr>sg_status := s, sg_artifact := a, sg_policy := p\<rparr>"

definition sample_node :: "string \<Rightarrow> node_kind \<Rightarrow> string list \<Rightarrow> (stage_name \<times> stage_state) list \<Rightarrow> work_node" where
  "sample_node i k ds sts = \<lparr>wn_id = i, wn_kind = k, wn_title = ''Parser'', wn_goal = ''Write the parser and its tests'',
     wn_depends = ds, wn_acceptance = [''parses''], wn_tests = [''pytest''], wn_files = [], wn_policy = [], wn_stages = sts\<rparr>"

definition pending_stages :: "node_kind \<Rightarrow> (stage_name \<times> stage_state) list" where
  "pending_stages k = map (\<lambda>s. (s, new_stage)) (stages_for k)"

definition sample_graph :: "work_node list" where
  "sample_graph =
     [sample_node ''P2'' NK_Plan [''P1'', ''E1''] (pending_stages NK_Plan),
      sample_node ''P1'' NK_Plan [''E1''] (pending_stages NK_Plan),
      sample_node ''E1'' NK_Explore [] [(Produce, sample_stage SG_Failed None None)],
      sample_node ''T1'' NK_Testing [''P2''] (pending_stages NK_Testing)]"

subsection \<open>Nodes and graphs\<close>

text \<open>
  C11. The node a model sends is refused or normalised: its id has the shape of an id, title and goal are
  within bounds, it does not depend on itself, its lists are bounded, a plan has acceptance criteria and
  code has tests, and it has exactly the stages of its kind.
\<close>
theorem normalized_node_shape: "normalize_node raw ex = Inr n \<Longrightarrow> node_shape n"
  by (rule normalize_node_shape)

definition sample_raw :: json where
  "sample_raw = JObj [(''id'', JStr ''P1''), (''kind'', JStr ''plan''), (''title'', JStr ''Parser''),
     (''goal'', JStr ''Write the parser and its tests''), (''acceptance'', JList [JStr ''parses'']),
     (''tests'', JStr ''pytest'')]"

theorem normalized_node_shape_witness: "\<exists>n. normalize_node sample_raw None = Inr n \<and> node_shape n"
proof -
  have "is_ok (normalize_node sample_raw None)" by code_simp
  then obtain n where "normalize_node sample_raw None = Inr n" by (cases "normalize_node sample_raw None") auto
  then show ?thesis using normalized_node_shape [of sample_raw None n] by blast
qed

text \<open>
  C8. The cycle search is right both ways: it answers nothing exactly for an acyclic dependency relation, and
  what it answers is a closed path of dependencies.
\<close>
theorem cycle_search_correct:
  "case find_cycle nodes of
     None \<Rightarrow> acyclic (edges (deps_of nodes))
   | Some c \<Rightarrow> is_cycle (deps_of nodes) c \<and> \<not> acyclic (edges (deps_of nodes))"
  using find_cycle_iff [of nodes] find_cycle_some [of nodes] by (cases "find_cycle nodes") auto

text \<open>
  C9. The waves of a graph without issues: they hold every execution node exactly once, and a node comes in a
  later wave than every execution node it depends on.
\<close>
theorem waves_layer_valid_graph:
  assumes "graph_issues nodes = []"
  shows "distinct (concat (execution_waves nodes)) \<and>
     set (concat (execution_waves nodes)) = set (map wn_id (runnable nodes)) \<and>
     (\<forall>n \<in> set (runnable nodes). \<forall>d \<in> set (wn_depends n) \<inter> set (map wn_id (runnable nodes)).
        \<forall>k < length (execution_waves nodes). wn_id n \<in> set (execution_waves nodes ! k) \<longrightarrow>
          (\<exists>j < k. d \<in> set (execution_waves nodes ! j)))"
proof -
  have v: "valid_nodes nodes" using assms by (simp add: graph_issues_valid)
  then have d: "distinct (map wn_id nodes)" by (simp add: valid_nodes_def)
  note rows = waiting_rows_valid [OF d]
  have c: "rows_closed (waiting_rows nodes)" using v by (rule rows_closed_valid)
  then have dr: "distinct (map fst (waiting_rows nodes))" by (simp add: rows_closed_def)
  have ids: "set (map fst (waiting_rows nodes)) = set (map wn_id (runnable nodes))" by (auto simp: rows)
  have "\<exists>j < k. e \<in> set (execution_waves nodes ! j)"
    if n: "n \<in> set (runnable nodes)" "e \<in> set (wn_depends n) \<inter> set (map wn_id (runnable nodes))"
      and k: "k < length (execution_waves nodes)" "wn_id n \<in> set (execution_waves nodes ! k)" for n e k
    using waves_ordered [OF dr, of "wn_id n" "filter (\<lambda>d. d \<in> set (map wn_id (runnable nodes))) (wn_depends n)" e k]
      n k by (simp add: execution_waves_def rows)
  moreover have "distinct (concat (execution_waves nodes))"
    unfolding execution_waves_def by (rule waves_distinct [OF dr])
  ultimately show ?thesis using waves_cover [OF c] ids by (auto simp: execution_waves_def)
qed

theorem waves_layer_valid_graph_witness:
  "graph_issues sample_graph = [] \<and> execution_waves sample_graph = [[''P1''], [''P2''], [''T1'']] \<and>
   distinct (concat (execution_waves sample_graph))"
proof -
  have g: "graph_issues sample_graph = []" by code_simp
  have "execution_waves sample_graph = [[''P1''], [''P2''], [''T1'']]" by code_simp
  then show ?thesis using g waves_layer_valid_graph [OF g] by blast
qed

subsection \<open>Ready, blocked, waiting\<close>

text \<open>
  C6. The nodes reported as blocked are exactly the nodes that have not started and are doomed: reached along
  dependencies from a node that ended rejected, failed, or parked for the main session.
\<close>
theorem blocked_are_the_doomed:
  "set (blocked_nodes nodes s) = {i. doomed nodes s i \<and> open_node nodes s i}"
  by (auto simp: blocked_iff)



subsection \<open>Checks\<close>

text \<open>
  C10. A stage whose gate is open: its artifact is finalized and bound to the current definition, dependencies,
  goal and decisions, its policy is the one the artifact was bound to, and every check the policy requires
  has a passing record under the current input contract that no later record of that check overtook.
\<close>
theorem open_gate_means_passed:
  assumes "gate_open w r n s"
  shows "\<exists>a p. Option.bind (stage_of n s) sg_artifact = Some a \<and> Option.bind (stage_of n s) sg_policy = Some p \<and>
     ar_status a = ''finalized'' \<and> binding_current w r n s a \<and> policy_sound a (Some p) \<and>
     (\<forall>c \<in> set (pb_required p). \<exists>k \<in> set (wr_checks r). relevant n s k \<and> ck_kind k = fst c \<and> ck_status k = CS_Pass \<and>
        ck_inputs k = INPUTS_VERSION \<and>
        (\<forall>j \<in> set (wr_checks r). relevant n s j \<longrightarrow> ck_kind j = fst c \<longrightarrow> ck_started j \<le> ck_started k))"
proof -
  obtain a p where "Option.bind (stage_of n s) sg_artifact = Some a" "Option.bind (stage_of n s) sg_policy = Some p"
      and f: "gate_facts w r n s a p" using gate_openD [OF assms] by blast
  moreover have "req_passed (latest r n s) c" if "c \<in> set (pb_required p)" for c
    using f that by (simp add: gate_facts_def list_all_iff)
  ultimately show ?thesis using req_passedD [of r n s] unfolding gate_facts_def by blast
qed

text \<open>
  C5. After a refresh no accepted stage rests on an input that changed, and no accepted stage whose policy
  requires checks stands without an open gate.
\<close>
theorem refresh_leaves_nothing_stale:
  assumes "distinct (map wn_id (wr_nodes r))" and "n \<in> set (wr_nodes (refresh w r))"
    and "stage_of n s = Some st" and "sg_status st = SG_Accepted" and "sg_artifact st = Some a"
  shows "binding_current w (refresh w r) n s a \<and> (must_pass st \<longrightarrow> gate_open w (refresh w r) n s)"
  using assms by (rule refresh_no_stale_accept)

text \<open>
  A run with two build nodes: \<open>B1\<close> is accepted on a passed test, \<open>B2\<close> has not started, and the run is back
  in \<open>drafting\<close> without an approval, as after an update of \<open>B2\<close>.
\<close>

definition sample_world :: world where
  "sample_world = \<lparr>w_decisions = \<lambda>_. None, w_inputs_ok = \<lambda>_ _. True, w_same_code = \<lambda>_. True, w_branch_same = True,
     w_merge = \<lambda>_. None, w_snapshot = None, w_new_artifact = ''a-9'', w_request_ready = \<lambda>_. False, w_isolation = None,
     w_requested = True, w_autopilot = False, w_card_waiting = False, w_busy = False\<rparr>"

definition sample_body :: policy_body where
  "sample_body = \<lparr>pb_version = ''work-checks/10'', pb_artifact = ''patch'', pb_consequential = False,
     pb_required = [(''tests'', ''testing'')], pb_deferred = [], pb_integration = False, pb_tests = []\<rparr>"

definition sample_artifact :: artifact where
  "sample_artifact = \<lparr>ar_id = ''a-1'', ar_node = ''B1'', ar_stage = ''execute'', ar_status = ''finalized'',
     ar_binding = [(''nodeDefinition'', BV_Definition (definition_of (sample_node ''B1'' NK_Build [] []))),
       (''dependencies'', BV_Dependencies []), (''owner'', BV_Owner ''Fix the parser'' []), (''policyHash'', BV_Policy sample_body)]\<rparr>"

definition sample_check :: check_record where
  "sample_check = \<lparr>ck_id = ''c-1'', ck_node = ''B1'', ck_stage = Execute, ck_artifact = ''a-1'', ck_policy = Some sample_body,
     ck_kind = ''tests'', ck_status = CS_Pass, ck_started = 1, ck_inputs = ''work-check-inputs/2'', ck_findings = [],
     ck_conflicts = [], ck_resolved = False\<rparr>"

definition accepted_b1 :: work_node where
  "accepted_b1 = sample_node ''B1'' NK_Build []
     [(Execute, sample_stage SG_Accepted (Some sample_artifact) (Some (with_hash sample_body)))]"

definition sample_run :: "run_status \<Rightarrow> work_run" where
  "sample_run s = \<lparr>wr_goal = ''Fix the parser'', wr_flow = ''fix'', wr_status = s,
     wr_nodes = [accepted_b1, sample_node ''B2'' NK_Build [''B1''] (pending_stages NK_Build)],
     wr_review = no_review, wr_past_reviews = [], wr_approval = None, wr_requested = True,
     wr_version = ''work-checks/10'', wr_interviews = [], wr_isolation = None, wr_integration = None,
     wr_checks = [sample_check]\<rparr>"

lemma sample_gate: "gate_open sample_world (sample_run s) accepted_b1 Execute"
  by (cases s; code_simp)

theorem open_gate_means_passed_witness:
  "\<exists>k \<in> set (wr_checks (sample_run RS_Drafting)). ck_kind k = ''tests'' \<and> ck_status k = CS_Pass"
proof -
  have p: "Option.bind (stage_of accepted_b1 Execute) sg_policy = Some (with_hash sample_body)" by code_simp
  obtain a q where q: "Option.bind (stage_of accepted_b1 Execute) sg_policy = Some q"
    "\<forall>c \<in> set (pb_required q). \<exists>k \<in> set (wr_checks (sample_run RS_Drafting)). relevant accepted_b1 Execute k \<and>
       ck_kind k = fst c \<and> ck_status k = CS_Pass \<and> ck_inputs k = INPUTS_VERSION \<and>
       (\<forall>j \<in> set (wr_checks (sample_run RS_Drafting)). relevant accepted_b1 Execute j \<longrightarrow> ck_kind j = fst c \<longrightarrow>
          ck_started j \<le> ck_started k)"
    using open_gate_means_passed [OF sample_gate [of RS_Drafting]] by blast
  have "q = with_hash sample_body" using p q(1) by simp
  then have "(''tests'', ''testing'') \<in> set (pb_required q)" by (simp add: sample_body_def)
  then show ?thesis using q(2) by fastforce
qed

lemma sample_refresh: "refresh sample_world (sample_run RS_Drafting) = sample_run RS_Drafting"
proof -
  have p: "refresh_pass sample_world (sample_run RS_Drafting) = (False, sample_run RS_Drafting)" by code_simp
  have "refresh_loop sample_world (sample_run RS_Drafting) = sample_run RS_Drafting"
    using p by (subst refresh_loop.simps) simp
  moreover have "\<not> review_stale (sample_run RS_Drafting)" by code_simp
  ultimately show ?thesis by (simp add: refresh_def Let_def)
qed

theorem refresh_leaves_nothing_stale_witness:
  "binding_current sample_world (refresh sample_world (sample_run RS_Drafting)) accepted_b1 Execute sample_artifact \<and>
   gate_open sample_world (refresh sample_world (sample_run RS_Drafting)) accepted_b1 Execute"
proof -
  let ?st = "sample_stage SG_Accepted (Some sample_artifact) (Some (with_hash sample_body))"
  have d: "distinct (map wn_id (wr_nodes (sample_run RS_Drafting)))" by code_simp
  have n: "accepted_b1 \<in> set (wr_nodes (refresh sample_world (sample_run RS_Drafting)))"
    unfolding sample_refresh by (simp add: sample_run_def)
  have s: "stage_of accepted_b1 Execute = Some ?st" by code_simp
  have a: "sg_status ?st = SG_Accepted" "sg_artifact ?st = Some sample_artifact" by code_simp+
  have "must_pass ?st" by code_simp
  then show ?thesis using refresh_leaves_nothing_stale [OF d n s a] by blast
qed

subsection \<open>The approval\<close>

text \<open>
  C4. From a run with nothing approved, every sequence of edits, admissions, stage work, reviews, submissions,
  owner answers, checks, restarts and shipping that contains no bypass executes only with an approval on
  record.
\<close>
theorem execution_needs_approval:
  assumes "wr_status r = RS_Drafting" and "no_bypass es r" and "wr_status (run run_step es r) = RS_Executing"
  shows "approved (run run_step es r)"
proof -
  have "authorised r" using assms(1) by (simp add: authorised_def AUTHORISED_def)
  then have "authorised (run run_step es r)" using assms(2) by (rule run_keeps)
  then show ?thesis using assms(3) by (simp add: authorised_def AUTHORISED_def)
qed

definition sample_events :: "run_event list" where
  "sample_events = [Ev_Submit sample_world, Ev_Owner Owner_Approves, Ev_Admit sample_world Execute JNull]"

lemma sample_events_run: "no_bypass sample_events (sample_run RS_Drafting)"
    "wr_status (run run_step sample_events (sample_run RS_Drafting)) = RS_Executing"
  by code_simp+

theorem execution_needs_approval_witness:
  "wr_status (run run_step sample_events (sample_run RS_Drafting)) = RS_Executing \<and>
   approved (run run_step sample_events (sample_run RS_Drafting))"
proof -
  have "wr_status (sample_run RS_Drafting) = RS_Drafting" by (simp add: sample_run_def)
  then show ?thesis using sample_events_run execution_needs_approval by blast
qed

text \<open>
  The first bypass: a check of an accepted execution stage ends, and a run without an approval is
  \<open>approved\<close>; the next call of \<open>work_run\<close> executes it.
\<close>

definition check_bypass :: "run_event list" where
  "check_bypass = [Ev_Check sample_world ''B1'' Execute ''a-1'' 3 [], Ev_Admit sample_world Execute JNull]"

lemma check_approves_a_draft:
  "wr_status (run run_step check_bypass (sample_run RS_Drafting)) = RS_Executing \<and>
   wr_approval (run run_step check_bypass (sample_run RS_Drafting)) = None"
  by code_simp

text \<open>The second: the code of an accepted stage changed; the refusal stores \<open>approved\<close>, and the next call executes.\<close>

definition moved_world :: world where
  "moved_world = sample_world\<lparr>w_same_code := \<lambda>_. False\<rparr>"

definition stale_bypass :: "run_event list" where
  "stale_bypass = [Ev_Admit moved_world Execute JNull, Ev_Admit moved_world Execute JNull]"

lemma stale_refusal_approves_a_draft:
  "wr_status (run run_step stale_bypass (sample_run RS_Drafting)) = RS_Executing \<and>
   wr_approval (run run_step stale_bypass (sample_run RS_Drafting)) = None"
  by code_simp

text \<open>A cancelled run without producers is submitted again: nothing refuses it, and it can be approved.\<close>

lemma submit_reopens_cancelled:
  "fst (submit sample_world (sample_run RS_Cancelled)) = None \<and>
   wr_status (snd (submit sample_world (sample_run RS_Cancelled))) = RS_Awaiting_Approval"
  by code_simp

text \<open>
  A merge conflict: the phase ends \<open>approved\<close> (the statuses were read before the merge), and \<open>retry\<close>, which
  the owner is told to call, finds nothing to retry.
\<close>

definition conflict_run :: work_run where
  "conflict_run =
     (let b = sample_artifact\<lparr>ar_binding := ar_binding sample_artifact @ [(''codeCommit'', BV_Data (JObj [(''nodeCommit'', JStr ''c1'')]))]\<rparr>;
          n = sample_node ''B1'' NK_Build [] [(Execute, sample_stage SG_Accepted (Some b) (Some (with_hash sample_body)))]
      in (sample_run RS_Executing)\<lparr>wr_nodes := [n], wr_isolation := Some \<lparr>is_version = 1, is_mode = ''git''\<rparr>\<rparr>)"

lemma conflict_ends_approved:
  "wr_status (finish_phase sample_world Execute conflict_run) = RS_Approved \<and>
   execute_statuses (finish_phase sample_world Execute conflict_run) = [SG_Integration_Conflict]"
  by code_simp

lemma conflict_cannot_be_retried:
  "fst (retry JNull (finish_phase sample_world Execute conflict_run)) = Some WE_Nothing_To_Retry"
  by code_simp

text \<open>An update that is refused as a whole has already withdrawn the checks of its first node.\<close>

definition half_update :: json where
  "half_update = JList [JObj [(''id'', JStr ''B1''), (''title'', JStr ''Another parser'')], JObj [(''id'', JStr ''B7'')]]"

lemma refused_update_withdraws_checks:
  "fst (apply_nodes sample_world True half_update (sample_run RS_Approved)) = Some (WE_Graph (Node_Unknown ''B7'')) \<and>
   map ck_status (wr_checks (sample_run RS_Approved)) = [CS_Pass] \<and>
   map ck_status (wr_checks (snd (apply_nodes sample_world True half_update (sample_run RS_Approved)))) = [CS_Superseded]"
  by code_simp

subsection \<open>Merged patches\<close>

text \<open>
  On a run isolated in git the review of a patch is put off, never dropped: the merged run branch requires
  a code review as soon as one accepted node carries a policy derived for a patch, and its tests when that
  node has tests. Outside git a consequential patch is reviewed at its own node.
\<close>
theorem merged_patches_are_reviewed:
  assumes "pb_artifact (derive r n Execute text changed risk) = ''patch''"
  shows "''tests'' \<in> set (check_ids (derive r n Execute text changed risk)) \<and>
    (\<not> git_isolated r \<longrightarrow> pb_consequential (derive r n Execute text changed risk) \<longrightarrow>
       ''code_review'' \<in> set (check_ids (derive r n Execute text changed risk))) \<and>
    (git_isolated r \<longrightarrow> n \<in> set (accepted_nodes r) \<longrightarrow> execute_policy n = Some (derive r n Execute text changed risk) \<longrightarrow>
       ''code_review'' \<in> set (check_ids (integration r)) \<and>
       (wn_tests n \<noteq> [] \<longrightarrow> ''tests'' \<in> set (check_ids (integration r))))"
  using patch_checks [OF assms] integration_reviews_deferred [of n r "derive r n Execute text changed risk"]
    integration_tests [of n r] by (simp split: if_splits)

definition isolated_run :: work_run where
  "isolated_run = (sample_run RS_Executing)\<lparr>wr_isolation := Some \<lparr>is_version = 1, is_mode = ''git''\<rparr>\<rparr>"

definition merged_node :: work_node where
  "merged_node = sample_node ''B1'' NK_Build [] [(Execute, sample_stage SG_Accepted None
     (Some (derive isolated_run (sample_node ''B1'' NK_Build [] []) Execute [] True True)))]"

definition merged_run :: work_run where
  "merged_run = isolated_run\<lparr>wr_nodes := [merged_node]\<rparr>"

lemma merged_policy: "execute_policy merged_node = Some (derive merged_run merged_node Execute [] True True)"
  by (simp add: execute_policy_def merged_node_def stage_of_def sample_node_def sample_stage_def derive_def
      artifact_kind_def consequential_def git_isolated_def merged_run_def)

lemma merged_accepted: "merged_node \<in> set (accepted_nodes merged_run)"
  by (simp add: accepted_nodes_def merged_run_def merged_node_def stage_of_def sample_node_def sample_stage_def)

theorem merged_patches_are_reviewed_witness:
  "''code_review'' \<in> set (check_ids (integration merged_run)) \<and> ''tests'' \<in> set (check_ids (integration merged_run))"
proof -
  have p: "pb_artifact (derive merged_run merged_node Execute [] True True) = ''patch''" by (rule changed_code_is_patch)
  have g: "git_isolated merged_run" by (simp add: git_isolated_def merged_run_def isolated_run_def)
  have t: "wn_tests merged_node \<noteq> []" by (simp add: merged_node_def sample_node_def)
  show ?thesis using merged_patches_are_reviewed [OF p] g merged_accepted merged_policy t by blast
qed

end
