(* ===== verification/Decision_Store.thy ===== *)
theory Decision_Store
  imports Job_Ledger
begin

section \<open>Decision cards: the store\<close>

text \<open>
  \<open>agent_core/decision_store.py\<close>: the cards the owner is asked to answer, one row each in the order they
  were requested. A row keeps the outcome and the answered invocation with its reply, so a repeated answer
  gets its first reply. A transaction that raises leaves the rows as they were; the event log, the time of
  the answer and the schema are left out. A binding is opaque here (\<open>'b\<close>), ids are ASCII.
\<close>

datatype card_status = CS_Pending | CS_Approved | CS_Answered | CS_Rejected | CS_Expired | CS_Cancelled

text \<open>\<open>DE_Effect\<close>: the side effect raised \<open>e\<close>; \<open>DE_Elsewhere\<close>: the answer belongs to another store.\<close>

datatype 'e decision_error = DE_Invalid | DE_Conflict | DE_Not_Found | DE_Resolved | DE_Stale | DE_Note_Required
  | DE_Note_Too_Long | DE_Elsewhere | DE_Crash | DE_Effect 'e

type_synonym ('e, 'a) card_result = "('e decision_error, 'a) outcome"

record 'b card_row =
  dc_session :: string
  dc_id :: string
  dc_kind :: string
  dc_status :: card_status
  dc_revision :: int
  dc_request :: "(string \<times> json) list"
  dc_binding :: 'b
  dc_deadline :: "rat option"
  dc_outcome :: "json option"
  dc_invocation :: "string option"
  dc_hash :: "string option"
  dc_reply :: "json option"
  dc_created :: rat

text \<open>\<open>view\<close>: the request with the columns of the row over it.\<close>

record 'b card_view =
  cv_request :: "(string \<times> json) list"
  cv_id :: string
  cv_revision :: int
  cv_resolved :: bool
  cv_status :: card_status
  cv_outcome :: "json option"
  cv_binding :: 'b

definition view_of :: "'b card_row \<Rightarrow> 'b card_view" where
  "view_of c = \<lparr>cv_request = dc_request c, cv_id = dc_id c, cv_revision = dc_revision c,
     cv_resolved = (dc_status c \<noteq> CS_Pending), cv_status = dc_status c, cv_outcome = dc_outcome c,
     cv_binding = dc_binding c\<rparr>"

definition ds_find :: "string \<Rightarrow> string \<Rightarrow> 'b card_row list \<Rightarrow> 'b card_row option" where
  "ds_find sid did db = List.find (\<lambda>c. dc_session c = sid \<and> dc_id c = did) db"

definition ds_get :: "string \<Rightarrow> string \<Rightarrow> 'b card_row list \<Rightarrow> 'b card_view option" where
  "ds_get sid did db = map_option view_of (ds_find sid did db)"

definition ds_put :: "string \<Rightarrow> string \<Rightarrow> ('b card_row \<Rightarrow> 'b card_row) \<Rightarrow> 'b card_row list \<Rightarrow> 'b card_row list" where
  "ds_put sid did f db = map (\<lambda>c. if dc_session c = sid \<and> dc_id c = did then f c else c) db"

subsection \<open>Asking\<close>

definition dict_update :: "(string \<times> json) list \<Rightarrow> (string \<times> json) list \<Rightarrow> (string \<times> json) list" where
  "dict_update d kvs = fold (\<lambda>(k, v) acc. dict_set k v acc) kvs d"

text \<open>\<open>rec\<close> is the record without its future; its session, id, kind and deadline are given apart.\<close>

definition ds_request :: "string \<Rightarrow> string \<Rightarrow> string \<Rightarrow> rat option \<Rightarrow> (string \<times> json) list \<Rightarrow> (string \<times> json) list
    \<Rightarrow> 'b \<Rightarrow> rat \<Rightarrow> 'b card_row list \<Rightarrow> ('e, 'b card_view \<times> 'b card_row list) card_result" where
  "ds_request sid did kind deadline rec payload binding now db =
     (if ds_find sid did db \<noteq> None then Inl DE_Crash
      else (let c = \<lparr>dc_session = sid, dc_id = did, dc_kind = kind, dc_status = CS_Pending, dc_revision = 1,
              dc_request = dict_update rec payload, dc_binding = binding, dc_deadline = deadline, dc_outcome = None,
              dc_invocation = None, dc_hash = None, dc_reply = None, dc_created = now\<rparr>
            in Inr (view_of c, db @ [c])))"

subsection \<open>Pages\<close>

text \<open>The filter a state name stands for: \<open>Some None\<close> for all.\<close>

definition status_filter :: "string \<Rightarrow> card_status option option" where
  "status_filter s = map_of [(''pending'', Some CS_Pending), (''all'', None), (''approved'', Some CS_Approved),
     (''answered'', Some CS_Answered), (''rejected'', Some CS_Rejected), (''expired'', Some CS_Expired),
     (''cancelled'', Some CS_Cancelled)] s"

record 'b card_page =
  cp_cards :: "'b card_view list"
  cp_more :: bool
  cp_next :: "string option"

text \<open>\<open>after or ''\<close>: a missing cursor is the empty string.\<close>

definition cursor :: "string option \<Rightarrow> string" where
  "cursor a = (case a of None \<Rightarrow> [] | Some s \<Rightarrow> s)"

definition page_rows :: "string \<Rightarrow> card_status option \<Rightarrow> string \<Rightarrow> 'b card_row list \<Rightarrow> 'b card_row list" where
  "page_rows sid f a db = sort_key dc_id (filter (\<lambda>c. dc_session c = sid \<and> a < dc_id c \<and>
     (case f of None \<Rightarrow> True | Some s \<Rightarrow> dc_status c = s)) db)"

definition ds_page :: "string \<Rightarrow> string \<Rightarrow> string option \<Rightarrow> json \<Rightarrow> 'b card_row list \<Rightarrow> ('e, 'b card_page) card_result" where
  "ds_page sid state a limit db =
     (case status_filter state of
        None \<Rightarrow> Inl DE_Invalid
      | Some f \<Rightarrow>
          (case limit of
             JInt n \<Rightarrow>
               if 1 \<le> n \<and> n \<le> 100 then
                 (let rows = take (nat n + 1) (page_rows sid f (cursor a) db);
                      items = map view_of (take (nat n) rows)
                  in Inr \<lparr>cp_cards = items, cp_more = (nat n < length rows),
                          cp_next = (if items = [] then None else Some (cv_id (last items)))\<rparr>)
               else Inl DE_Invalid
           | _ \<Rightarrow> Inl DE_Invalid))"

subsection \<open>Answering\<close>

text \<open>\<open>retry\<close>: the reply of an earlier answer under the same invocation. \<open>h\<close> is the digest of the reply payload.\<close>

definition ds_retry :: "string \<Rightarrow> string \<Rightarrow> string option \<Rightarrow> string \<Rightarrow> 'b card_row list \<Rightarrow> ('e, json option) card_result" where
  "ds_retry sid did ik h db =
     (if ik = None \<or> ik = Some [] then Inr None
      else (case ds_find sid did db of
          None \<Rightarrow> Inr None
        | Some c \<Rightarrow>
            if dc_invocation c \<noteq> ik then Inr None
            else if dc_hash c \<noteq> Some h then Inl DE_Conflict
            else (case dc_reply c of None \<Rightarrow> Inl DE_Crash | Some r \<Rightarrow> Inr (Some r))))"

record card_outcome =
  oc_status :: card_status
  oc_by_user :: bool
  oc_doc :: json

definition settled_card :: "card_outcome \<Rightarrow> string option \<Rightarrow> string \<Rightarrow> json option \<Rightarrow> 'b card_row \<Rightarrow> 'b card_row" where
  "settled_card oc ik h reply c = c\<lparr>dc_status := oc_status oc, dc_revision := dc_revision c + 1,
     dc_outcome := Some (oc_doc oc), dc_invocation := ik,
     dc_hash := (if ik = None \<or> ik = Some [] then None else Some h), dc_reply := reply\<rparr>"

text \<open>
  The side effect runs inside the transaction on the rest of the database, \<open>x\<close>. \<open>expected\<close> and \<open>current\<close>
  are the revision and the binding the caller insists on.
\<close>

definition ds_settle :: "string \<Rightarrow> string \<Rightarrow> card_outcome \<Rightarrow> string option \<Rightarrow> string \<Rightarrow> json option \<Rightarrow> json \<Rightarrow> 'b option
    \<Rightarrow> ('x \<Rightarrow> ('e, 'x) outcome) \<Rightarrow> rat \<Rightarrow> 'b card_row list \<times> 'x
    \<Rightarrow> ('e, json option \<times> 'b card_row list \<times> 'x) card_result" where
  "ds_settle sid did oc ik h reply expected current effect now = (\<lambda>(db, x).
     case ds_find sid did db of
       None \<Rightarrow> Inl DE_Not_Found
     | Some c \<Rightarrow>
         and_then (ds_retry sid did ik h db) (\<lambda>old.
         case old of
           Some r \<Rightarrow> Inr (Some r, db, x)
         | None \<Rightarrow>
             require (dc_status c = CS_Pending) DE_Resolved
               (require (expected = JNull \<or> eq_form expected = eq_form (JInt (dc_revision c))) DE_Stale
               (require (case current of None \<Rightarrow> True | Some b \<Rightarrow> b = dc_binding c) DE_Stale
               (require (\<not> ((case dc_deadline c of None \<Rightarrow> False | Some d \<Rightarrow> d \<le> now) \<and> oc_by_user oc)) DE_Stale
               (case effect x of
                  Inl e \<Rightarrow> Inl (DE_Effect e)
                | Inr x' \<Rightarrow> Inr (reply, ds_put sid did (settled_card oc ik h reply) db, x')))))))"

text \<open>\<open>bound\<close>: the newest card of a tool call that was asked under the same binding.\<close>

definition ds_bound :: "string \<Rightarrow> string \<Rightarrow> 'b \<Rightarrow> 'b card_row list \<Rightarrow> 'b card_view option" where
  "ds_bound sid call b db =
     map_option view_of (List.find (\<lambda>c. dc_binding c = b)
       (sort_key (\<lambda>c. - dc_created c)
         (filter (\<lambda>c. dc_session c = sid \<and> dict_get (dc_request c) ''toolCallId'' = JStr call) db)))"

subsection \<open>One row per card, and settled cards stay\<close>

text \<open>A pending card has no answer on record.\<close>

definition cards_ok :: "'b card_row list \<Rightarrow> bool" where
  "cards_ok db = (distinct (map (\<lambda>c. (dc_session c, dc_id c)) db) \<and>
     list_all (\<lambda>c. dc_status c = CS_Pending \<longrightarrow> dc_invocation c = None) db)"

definition cards_grow :: "'b card_row list \<Rightarrow> 'b card_row list \<Rightarrow> bool" where
  "cards_grow db db' = (\<forall>s i c. ds_find s i db = Some c \<longrightarrow>
     (\<exists>c'. ds_find s i db' = Some c' \<and> dc_revision c \<le> dc_revision c' \<and> dc_binding c' = dc_binding c \<and>
       (dc_status c \<noteq> CS_Pending \<longrightarrow> c' = c)))"

lemma cards_grow_refl [simp]: "cards_grow db db"
  by (simp add: cards_grow_def)

lemma cards_grow_trans: "cards_grow a b \<Longrightarrow> cards_grow b c \<Longrightarrow> cards_grow a c"
proof -
  assume g: "cards_grow a b" "cards_grow b c"
  show "cards_grow a c" unfolding cards_grow_def
  proof (intro allI impI)
    fix s i x assume "ds_find s i a = Some x"
    then obtain y where y: "ds_find s i b = Some y" "dc_revision x \<le> dc_revision y" "dc_binding y = dc_binding x" "dc_status x \<noteq> CS_Pending \<longrightarrow> y = x"
      using g(1) unfolding cards_grow_def by blast
    then obtain z where "ds_find s i c = Some z" "dc_revision y \<le> dc_revision z" "dc_binding z = dc_binding y" "dc_status y \<noteq> CS_Pending \<longrightarrow> z = y"
      using g(2) unfolding cards_grow_def by blast
    then show "\<exists>z. ds_find s i c = Some z \<and> dc_revision x \<le> dc_revision z \<and> dc_binding z = dc_binding x \<and> (dc_status x \<noteq> CS_Pending \<longrightarrow> z = x)"
      using y by force
  qed
qed

lemma ds_find_Some: "ds_find s i db = Some c \<Longrightarrow> c \<in> set db \<and> dc_session c = s \<and> dc_id c = i"
  unfolding ds_find_def by (drule find_SomeD) simp

lemma ds_find_append: "ds_find s i (db @ db') = (case ds_find s i db of Some c \<Rightarrow> Some c | None \<Rightarrow> ds_find s i db')"
  by (simp add: ds_find_def find_append split: option.split)

lemma ds_find_put:
  assumes "\<And>c. dc_session (f c) = dc_session c" "\<And>c. dc_id (f c) = dc_id c"
  shows "ds_find s i (ds_put sid did f db) = map_option (if s = sid \<and> i = did then f else id) (ds_find s i db)"
  using assms by (induction db) (auto simp: ds_find_def ds_put_def)

lemma put_keys:
  assumes "\<And>c. dc_session (f c) = dc_session c" "\<And>c. dc_id (f c) = dc_id c"
  shows "map (\<lambda>c. (dc_session c, dc_id c)) (ds_put sid did f db) = map (\<lambda>c. (dc_session c, dc_id c)) db"
  using assms by (simp add: ds_put_def)

lemma settled_keys [simp]: "dc_session (settled_card oc ik h reply c) = dc_session c" "dc_id (settled_card oc ik h reply c) = dc_id c"
  by (simp_all add: settled_card_def)

lemma request_grows:
  assumes "ds_request sid did kind deadline rec payload binding now db = Inr (v, db')" and "cards_ok db"
  shows "cards_ok db' \<and> cards_grow db db'"
proof -
  obtain c where c: "db' = db @ [c]" "dc_session c = sid" "dc_id c = did" "dc_invocation c = None" and none: "ds_find sid did db = None"
    using assms(1) by (auto simp: ds_request_def Let_def split: if_splits)
  have "(sid, did) \<notin> (\<lambda>c. (dc_session c, dc_id c)) ` set db" using none by (auto simp: ds_find_def find_None_set)
  then show ?thesis using assms(2) c by (auto simp: cards_ok_def cards_grow_def ds_find_append)
qed

lemma settle_grows:
  assumes "ds_settle sid did oc ik h reply expected current effect now (db, x) = Inr (r, db', x')" and "cards_ok db"
    and "oc_status oc \<noteq> CS_Pending"
  shows "cards_ok db' \<and> cards_grow db db'"
proof -
  have "db' = db \<or> (\<exists>c. ds_find sid did db = Some c \<and> dc_status c = CS_Pending \<and> db' = ds_put sid did (settled_card oc ik h reply) db)"
    using assms(1) by (auto simp: ds_settle_def split: option.splits sum.splits)
  moreover have "list_all (\<lambda>c. dc_status c = CS_Pending \<longrightarrow> dc_invocation c = None) (ds_put sid did (settled_card oc ik h reply) db)"
    using assms(2,3) by (auto simp: cards_ok_def list_all_iff ds_put_def settled_card_def)
  ultimately show ?thesis using assms(2)
    by (auto simp: cards_ok_def put_keys cards_grow_def ds_find_put) (auto simp: settled_card_def)
qed

subsection \<open>Walking the pages\<close>

lemma page_after:
  assumes "sorted (map f xs)" and "distinct (map f xs)" and "0 < n" and "n \<le> length xs"
  shows "filter (\<lambda>x. f (last (take n xs)) < f x) xs = drop n xs"
proof -
  let ?l = "last (take n xs)"
  have ne: "take n xs \<noteq> []" using assms(3,4) by auto
  then have l: "?l \<in> set (take n xs)" by (rule last_in_set)
  have "sorted (map f (take n xs) @ map f (drop n xs))" "distinct (map f (take n xs) @ map f (drop n xs))"
    using assms(1,2) by (simp_all flip: map_append)
  note split = this [unfolded sorted_append distinct_append]
  have low: "\<not> f ?l < f x" if "x \<in> set (take n xs)" for x
  proof -
    have t: "sorted (map f (take n xs))" using sorted_wrt_take [OF assms(1), of n] by (simp add: take_map)
    obtain ys where ys: "take n xs = ys @ [?l]" using ne by (metis append_butlast_last_id)
    have "x \<in> set (ys @ [?l])" using that ys by metis
    moreover have "sorted (map f (ys @ [?l]))" using t ys by metis
    ultimately show ?thesis by (auto simp: sorted_append not_less)
  qed
  have high: "f ?l < f x" if "x \<in> set (drop n xs)" for x
  proof -
    have "f ?l \<le> f x" using split(1) l that by auto
    moreover have "f ?l \<noteq> f x" using split(2) l that by (auto simp: disjoint_iff)
    ultimately show ?thesis by simp
  qed
  have "filter (\<lambda>x. f ?l < f x) (take n xs) = []" "filter (\<lambda>x. f ?l < f x) (drop n xs) = drop n xs"
    using low high by (simp_all add: filter_empty_conv)
  then show ?thesis by (metis append_self_conv2 append_take_drop_id filter_append)
qed

lemma page_rows_after: "a \<le> l \<Longrightarrow> page_rows sid f l db = filter (\<lambda>c. l < dc_id c) (page_rows sid f a db)"
  unfolding page_rows_def filter_sort filter_filter by (rule arg_cong [of _ _ "sort_key dc_id"], rule filter_cong) auto

lemma page_more:
  assumes "ds_page sid state a (JInt n) db = Inr p" and "cp_more p"
  obtains f l where "status_filter state = Some f" "cp_next p = Some l" "cursor a < l"
    "l = dc_id (last (take (nat n) (page_rows sid f (cursor a) db)))" "0 < nat n" "nat n < length (page_rows sid f (cursor a) db)"
proof -
  obtain f where f: "status_filter state = Some f" and n: "1 \<le> n" "n \<le> 100" using assms(1)
    by (auto simp: ds_page_def split: option.splits if_splits)
  let ?rows = "page_rows sid f (cursor a) db"
  have items: "take (nat n) (take (nat n + 1) ?rows) = take (nat n) ?rows" by (simp add: min_def)
  have p: "cp_next p = (if take (nat n) ?rows = [] then None else Some (cv_id (last (map view_of (take (nat n) ?rows)))))"
      "cp_more p = (nat n < length (take (nat n + 1) ?rows))"
    using assms(1) f n items by (simp_all add: ds_page_def Let_def) auto
  have len: "nat n < length ?rows" "0 < nat n" using p(2) assms(2) n by (auto simp: min_def split: if_splits)
  then have ne: "take (nat n) ?rows \<noteq> []" by auto
  then have "last (take (nat n) ?rows) \<in> set ?rows" by (metis in_set_takeD last_in_set)
  then have "cursor a < dc_id (last (take (nat n) ?rows))" by (simp add: page_rows_def)
  then show ?thesis using that f p(1) ne len by (auto simp: last_map view_of_def)
qed

text \<open>The walk \<open>hydrate_decisions\<close> takes over all cards of a session, page by page.\<close>

function walk :: "string \<Rightarrow> int \<Rightarrow> string option \<Rightarrow> 'b card_row list \<Rightarrow> 'b card_view list" where
  "walk sid n a db =
     (case (ds_page sid ''all'' a (JInt n) db :: (unit, 'b card_page) card_result) of
        Inl _ \<Rightarrow> []
      | Inr p \<Rightarrow> cp_cards p @ (if cp_more p then walk sid n (cp_next p) db else []))"
  by pat_completeness auto

termination
proof (relation "measure (\<lambda>(sid, n, a, db). length (page_rows sid None (cursor a) db))", goal_cases)
  case (2 sid n a db p)
  then obtain l where l: "cp_next p = Some l" "cursor a < l"
      "l = dc_id (last (take (nat n) (page_rows sid None (cursor a) db)))" "0 < nat n" "nat n < length (page_rows sid None (cursor a) db)"
    by (elim page_more) (auto simp: status_filter_def)
  let ?rows = "page_rows sid None (cursor a) db"
  have "take (nat n) ?rows \<noteq> []" using l(4,5) by auto
  then have "last (take (nat n) ?rows) \<in> set ?rows" by (metis in_set_takeD last_in_set)
  then have "length (filter (\<lambda>c. l < dc_id c) ?rows) < length ?rows" using l(3) by (intro length_filter_less) auto
  then show ?case using l(1,2) page_rows_after [of "cursor a" l sid None db] by (simp add: cursor_def)
qed simp

declare walk.simps [simp del]

lemma walk_page_rows:
  assumes "cards_ok db" and "1 \<le> n" and "n \<le> 100"
  shows "walk sid n a db = map view_of (page_rows sid None (cursor a) db)"
  using assms
proof (induction sid n a db rule: walk.induct)
  case (1 sid n a db)
  let ?rows = "page_rows sid None (cursor a) db"
  obtain p where p: "(ds_page sid ''all'' a (JInt n) db :: (unit, 'a card_page) card_result) = Inr p"
      "cp_cards p = map view_of (take (nat n) ?rows)" "cp_more p = (nat n < length ?rows)"
    using 1(3,4) by (auto simp: ds_page_def status_filter_def Let_def min_def)
  show ?case
  proof (cases "cp_more p")
    case False
    then show ?thesis using p by (simp add: walk.simps [of sid n a db])
  next
    case True
    then obtain l where l: "cp_next p = Some l" "cursor a < l" "l = dc_id (last (take (nat n) ?rows))" "0 < nat n" "nat n < length ?rows"
      using p(1) by (elim page_more) (auto simp: status_filter_def)
    have keys: "distinct (map dc_id ?rows)" "sorted (map dc_id ?rows)"
      using 1(2) by (auto simp: page_rows_def cards_ok_def distinct_map inj_on_def)
    have "page_rows sid None l db = drop (nat n) ?rows"
      using page_rows_after [of "cursor a" l sid None db] l page_after [OF keys(2,1) l(4)] by simp
    then have "walk sid n (Some l) db = map view_of (drop (nat n) ?rows)"
      using 1(1) [OF p(1) True] l(1) 1(2-4) by (simp add: cursor_def)
    then show ?thesis using p True l(1) by (simp add: walk.simps [of sid n a db] flip: map_append)
  qed
qed

end
