(* ===== verification/Longtask_Store.thy ===== *)
theory Longtask_Store
  imports Job_Ledger
begin

section \<open>Long tasks: the store\<close>

text \<open>
  \<open>agent_core/longtask_store.py\<close>: the runs of long tasks with their budget, lease and stop epoch, the
  receipts of admitted segments, the outbox of continuations, owner inspections and the memory of
  invocations, one list per table. A transaction that raises leaves the tables as they were; the partial
  unique index on active runs is checked when a transaction commits. The clock, ids and digests are
  arguments; the \<open>updated\<close> columns and the event log are never read back and left out.
\<close>

datatype lt_state = LT_Ready | LT_Running | LT_Waiting_Children | LT_Waiting_Job | LT_Needs_User | LT_Paused
  | LT_Interrupted | LT_Budget_Exhausted | LT_Completed | LT_Cancelled | LT_Failed
datatype resume_policy = Manual | Safe_Auto
datatype continuation_state = CO_Pending | CO_Claimed | CO_Admitted | CO_Cancelled | CO_Interrupted

definition LT_TERMINAL :: "lt_state list" where
  "LT_TERMINAL = [LT_Completed, LT_Cancelled, LT_Failed]"

text \<open>\<open>LE_Crash\<close>: an exception that is no \<open>LongtaskError\<close> (no such row, a unique index, a wrong type).\<close>

datatype lt_error = LE_Budget_Invalid | LE_Invocation_Required | LE_Invocation_Conflict | LE_Stale | LE_Consent_Required
  | LE_Invalid | LE_Inspection_Required | LE_Inspection_Invalid | LE_Inspection_Scope | LE_Acceptance_Required
  | LE_Unknown | LE_Blocked | LE_Lease_Busy | LE_Segment_Replay | LE_Budget_Exhausted | LE_Wall_Deadline
  | LE_Budget_Too_Small | LE_Controller_Owned | LE_Manual | LE_Revalidation | LE_Pending_Decision | LE_Unsafe
  | LE_Evidence_Unavailable | LE_Evidence_Invalid | LE_No_Controller | LE_Recovery_Blocked | LE_Decision_Stale
  | LE_Turn_Failed | LE_Root_Only | LE_No_Binding | LE_Crash

type_synonym 'a lt_outcome = "(lt_error, 'a) outcome"

subsection \<open>Rows\<close>

text \<open>What the owner's contract pins; an absent key of the JSON document is \<open>None\<close>.\<close>

record lt_binding =
  bn_project :: string
  bn_goal :: int
  bn_contract_revision :: "int option"
  bn_contract :: string
  bn_event :: string
  bn_capability :: int
  bn_allocation :: "string option"
  bn_work :: "string option"
  bn_plan :: "string option"

record lt_budget =
  bu_revision :: int
  bu_event :: string
  bu_step_limit :: int
  bu_steps :: int
  bu_time_limit :: rat
  bu_time :: rat
  bu_started :: rat
  bu_deadline :: "rat option"
  bu_reserve_steps :: int
  bu_reserve_ms :: rat
  bu_allocation :: "string option"

record lt_progress =
  pg_fingerprint :: "string option"
  pg_unchanged :: nat

record lt_run =
  lr_id :: string
  lr_session :: string
  lr_project :: string
  lr_work :: "string option"
  lr_plan :: "string option"
  lr_state :: lt_state
  lr_revision :: int
  lr_goal :: int
  lr_contract :: string
  lr_binding :: lt_binding
  lr_policy :: resume_policy
  lr_budget :: lt_budget
  lr_checkpoint :: "json option"
  lr_progress :: lt_progress
  lr_stop :: int
  lr_capability :: int
  lr_lease :: "string option"
  lr_expires :: "rat option"
  lr_lease_epoch :: int
  lr_blocked :: "string option"
  lr_created :: rat

record lt_segment =
  se_run :: string
  se_key :: string
  se_steps :: int
  se_bound :: rat
  se_used :: "rat option"
  se_settled :: bool
  se_stop :: int

record lt_continuation =
  co_run :: string
  co_source :: string
  co_revision :: int
  co_stop :: int
  co_state :: continuation_state

text \<open>The fingerprint an inspection is pinned to: run, goal, contract with its revision, capabilities.\<close>

type_synonym inspection_key = "string \<times> int \<times> string \<times> int \<times> int"

record lt_inspection =
  ip_run :: string
  ip_invocation :: string
  ip_key :: inspection_key
  ip_refs :: "(string \<times> int) list"
  ip_evidence :: json

record lt_invocation =
  iv_session :: string
  iv_id :: string
  iv_hash :: string
  iv_result :: lt_run

record lt_store =
  ls_runs :: "lt_run list"
  ls_segments :: "lt_segment list"
  ls_conts :: "lt_continuation list"
  ls_inspections :: "lt_inspection list"
  ls_invocations :: "lt_invocation list"

definition empty_longtask :: lt_store where
  "empty_longtask = \<lparr>ls_runs = [], ls_segments = [], ls_conts = [], ls_inspections = [], ls_invocations = []\<rparr>"

subsection \<open>Reading and writing rows\<close>

text \<open>\<open>finite\<close>: a positive number; a positive integer where one is asked for.\<close>

fun finite_number :: "json \<Rightarrow> rat lt_outcome" where
  "finite_number (JInt n) = (if 0 < n then Inr (of_int n) else Inl LE_Budget_Invalid)"
| "finite_number (JFloat _ q) = (if 0 < q then Inr q else Inl LE_Budget_Invalid)"
| "finite_number _ = Inl LE_Budget_Invalid"

fun finite_integer :: "json \<Rightarrow> int lt_outcome" where
  "finite_integer (JInt n) = (if 0 < n then Inr n else Inl LE_Budget_Invalid)"
| "finite_integer _ = Inl LE_Budget_Invalid"

definition lt_by_id :: "lt_store \<Rightarrow> string \<Rightarrow> lt_run option" where
  "lt_by_id db i = List.find (\<lambda>r. lr_id r = i) (ls_runs db)"

text \<open>\<open>ORDER BY created DESC LIMIT 1\<close>.\<close>

definition later_run :: "string \<Rightarrow> lt_run \<Rightarrow> lt_run option \<Rightarrow> lt_run option" where
  "later_run sid r acc =
     (if lr_session r = sid \<and> (case acc of None \<Rightarrow> True | Some a \<Rightarrow> lr_created a < lr_created r) then Some r else acc)"

definition lt_of_session :: "lt_store \<Rightarrow> string \<Rightarrow> lt_run option" where
  "lt_of_session db sid = fold (later_run sid) (ls_runs db) None"

definition put_run :: "string \<Rightarrow> (lt_run \<Rightarrow> lt_run) \<Rightarrow> lt_store \<Rightarrow> lt_store" where
  "put_run i f db = db\<lparr>ls_runs := map (\<lambda>r. if lr_id r = i then f r else r) (ls_runs db)\<rparr>"

text \<open>The unique index \<open>longtask_root_active\<close>.\<close>

definition roots_unique :: "lt_store \<Rightarrow> bool" where
  "roots_unique db = distinct (map lr_session (filter (\<lambda>r. lr_state r \<notin> set LT_TERMINAL) (ls_runs db)))"

definition lt_commit :: "'a \<Rightarrow> lt_store \<Rightarrow> ('a \<times> lt_store) lt_outcome" where
  "lt_commit a db = (if roots_unique db then Inr (a, db) else Inl LE_Crash)"

text \<open>The row after an update, as the operations answer it.\<close>

definition answer_run :: "string \<Rightarrow> lt_store \<Rightarrow> (lt_run \<times> lt_store) lt_outcome" where
  "answer_run i db = (case lt_by_id db i of None \<Rightarrow> Inl LE_Crash | Some r \<Rightarrow> lt_commit r db)"

subsection \<open>Invocations\<close>

text \<open>\<open>_retry\<close>: the invocation id, and what an earlier call under it answered.\<close>

definition lt_retry :: "string \<Rightarrow> lt_store \<Rightarrow> string \<Rightarrow> json \<Rightarrow> (string \<times> lt_run option) lt_outcome" where
  "lt_retry h db sid v =
     (case v of
        JStr i \<Rightarrow>
          if strip i = [] then Inl LE_Invocation_Required
          else (case List.find (\<lambda>x. iv_session x = sid \<and> iv_id x = i) (ls_invocations db) of
              None \<Rightarrow> Inr (i, None)
            | Some x \<Rightarrow> if iv_hash x \<noteq> h then Inl LE_Invocation_Conflict else Inr (i, Some (iv_result x)))
      | _ \<Rightarrow> Inl LE_Invocation_Required)"

definition lt_remember :: "string \<Rightarrow> string \<Rightarrow> string \<Rightarrow> lt_run \<Rightarrow> lt_store \<Rightarrow> lt_store" where
  "lt_remember sid i h r db =
     db\<lparr>ls_invocations := ls_invocations db @ [\<lparr>iv_session = sid, iv_id = i, iv_hash = h, iv_result = r\<rparr>]\<rparr>"

subsection \<open>Barrier\<close>

definition barred :: "lt_state \<Rightarrow> string \<Rightarrow> lt_run \<Rightarrow> lt_run" where
  "barred s why r = r\<lparr>lr_state := s, lr_blocked := Some why, lr_revision := lr_revision r + 1, lr_stop := lr_stop r + 1,
     lr_lease_epoch := lr_lease_epoch r + 1, lr_lease := None, lr_expires := None\<rparr>"

definition cancel_open :: "string \<Rightarrow> lt_continuation \<Rightarrow> lt_continuation" where
  "cancel_open i c = (if co_run c = i \<and> co_state c \<in> {CO_Pending, CO_Claimed} then c\<lparr>co_state := CO_Cancelled\<rparr> else c)"

definition lt_bar :: "lt_state \<Rightarrow> string \<Rightarrow> string \<Rightarrow> lt_store \<Rightarrow> lt_store" where
  "lt_bar s why i db =
     (let db' = put_run i (barred s why) db in db'\<lparr>ls_conts := map (cancel_open i) (ls_conts db')\<rparr>)"

definition lt_barrier :: "string \<Rightarrow> lt_state \<Rightarrow> string \<Rightarrow> lt_store \<Rightarrow> (lt_run option \<times> lt_store) lt_outcome" where
  "lt_barrier sid s why db =
     (case lt_of_session db sid of
        None \<Rightarrow> Inr (None, db)
      | Some r \<Rightarrow>
          if lr_state r \<in> set LT_TERMINAL then Inr (Some r, db)
          else (let db' = lt_bar s why (lr_id r) db in lt_commit (lt_of_session db' sid) db'))"

subsection \<open>Configuring a run\<close>

definition parse_policy :: "json \<Rightarrow> resume_policy lt_outcome" where
  "parse_policy v =
     (if v = JStr ''manual'' then Inr Manual else if v = JStr ''safe_auto'' then Inr Safe_Auto else Inl LE_Invalid)"

definition parse_deadline :: "rat \<Rightarrow> json \<Rightarrow> rat option lt_outcome" where
  "parse_deadline now v =
     (if v = JNull then Inr None
      else and_then (finite_number v) (\<lambda>q. require (now < q) LE_Budget_Invalid (Inr (Some q))))"

definition parse_budget :: "rat \<Rightarrow> lt_binding \<Rightarrow> json \<Rightarrow> lt_budget lt_outcome" where
  "parse_budget now b v =
     (case (if truthy v then v else JObj []) of
        JObj d \<Rightarrow>
          and_then (finite_integer (dict_get d ''totalStepLimit'')) (\<lambda>steps.
          and_then (finite_number (dict_get d ''activeTimeLimitMs'')) (\<lambda>ms.
          and_then (parse_deadline now (dict_get d ''wallDeadlineAt'')) (\<lambda>deadline.
          Inr \<lparr>bu_revision = 1, bu_event = bn_event b, bu_step_limit = steps, bu_steps = 0, bu_time_limit = ms,
               bu_time = 0, bu_started = now, bu_deadline = deadline, bu_reserve_steps = 1, bu_reserve_ms = 1000,
               bu_allocation = bn_allocation b\<rparr>)))
      | _ \<Rightarrow> Inl LE_Crash)"

definition new_run :: "string \<Rightarrow> rat \<Rightarrow> string \<Rightarrow> lt_binding \<Rightarrow> resume_policy \<Rightarrow> lt_budget \<Rightarrow> lt_run" where
  "new_run i now sid b p bu =
     \<lparr>lr_id = i, lr_session = sid, lr_project = bn_project b, lr_work = bn_work b, lr_plan = bn_plan b,
      lr_state = LT_Ready, lr_revision = 1, lr_goal = bn_goal b, lr_contract = bn_contract b, lr_binding = b,
      lr_policy = p, lr_budget = bu, lr_checkpoint = None, lr_progress = \<lparr>pg_fingerprint = None, pg_unchanged = 0\<rparr>,
      lr_stop = 0, lr_capability = bn_capability b, lr_lease = None, lr_expires = None, lr_lease_epoch = 0,
      lr_blocked = None, lr_created = now\<rparr>"

text \<open>The branch of \<open>configure\<close> for a session with an active run, and the one without.\<close>

definition lt_disable :: "(string \<times> json) list \<Rightarrow> lt_run \<Rightarrow> lt_store \<Rightarrow> (lt_run \<times> lt_store) lt_outcome" where
  "lt_disable body r db =
     require (eq_form (dict_get body ''expectedRevision'') = eq_form (JInt (lr_revision r))) LE_Stale
       (require (dict_get body ''enabled'' = JBool False) LE_Consent_Required
         (answer_run (lr_id r) (lt_bar LT_Paused ''LONGTASK_DISABLED'' (lr_id r) db)))"

definition lt_enable :: "string \<Rightarrow> rat \<Rightarrow> string \<Rightarrow> (string \<times> json) list \<Rightarrow> lt_binding \<Rightarrow> lt_store \<Rightarrow> (lt_run \<times> lt_store) lt_outcome" where
  "lt_enable i now sid body b db =
     require (dict_get body ''enabled'' = JBool True) LE_Invalid
       (and_then (parse_policy (dict_get body ''resumePolicy'')) (\<lambda>p.
        and_then (parse_budget now b (dict_get body ''budget'')) (\<lambda>bu.
        if i \<in> lr_id ` set (ls_runs db) then Inl LE_Crash
        else answer_run i (db\<lparr>ls_runs := ls_runs db @ [new_run i now sid b p bu]\<rparr>))))"

definition lt_configure :: "string \<Rightarrow> string \<Rightarrow> rat \<Rightarrow> string \<Rightarrow> (string \<times> json) list \<Rightarrow> lt_binding \<Rightarrow> lt_store
    \<Rightarrow> (lt_run \<times> lt_store) lt_outcome" where
  "lt_configure h i now sid body b db =
     and_then (lt_retry h db sid (dict_get body ''invocationId'')) (\<lambda>(call, cached).
       case cached of
         Some r \<Rightarrow> Inr (r, db)
       | None \<Rightarrow>
           and_then (case lt_of_session db sid of
               Some r \<Rightarrow> if lr_state r \<notin> set LT_TERMINAL then lt_disable body r db else lt_enable i now sid body b db
             | None \<Rightarrow> lt_enable i now sid body b db)
             (\<lambda>(r, db'). Inr (r, lt_remember sid call h r db')))"

subsection \<open>Pinning a run to the current contract\<close>

definition inspection_binding :: "lt_run \<Rightarrow> inspection_key" where
  "inspection_binding r = (lr_id r, lr_goal r, lr_contract r,
     (case bn_contract_revision (lr_binding r) of None \<Rightarrow> lr_goal r | Some v \<Rightarrow> v), lr_capability r)"

definition repinned :: "lt_run \<Rightarrow> lt_binding \<Rightarrow> resume_policy option \<Rightarrow> lt_run \<Rightarrow> lt_run" where
  "repinned old b p r =
     (let s = (if lr_state old = LT_Needs_User \<and> lr_blocked old = Some ''LONGTASK_STALE'' then LT_Ready else lr_state old)
      in r\<lparr>lr_goal := bn_goal b, lr_contract := bn_contract b, lr_binding := b,
           lr_policy := (case p of None \<Rightarrow> lr_policy r | Some q \<Rightarrow> q), lr_state := s,
           lr_blocked := (if s = LT_Ready then None else lr_blocked old), lr_revision := lr_revision r + 1\<rparr>)"

text \<open>\<open>old\<close> is the row as the caller read it.\<close>

definition lt_repin :: "lt_run \<Rightarrow> lt_binding \<Rightarrow> resume_policy option \<Rightarrow> lt_store \<Rightarrow> (lt_run \<times> lt_store) lt_outcome" where
  "lt_repin old b p db =
     (let db' = put_run (lr_id old) (repinned old b p) db
      in case lt_by_id db' (lr_id old) of
        None \<Rightarrow> Inl LE_Crash
      | Some r \<Rightarrow> lt_commit r (db'\<lparr>ls_inspections :=
            map (\<lambda>x. if ip_run x = lr_id old then x\<lparr>ip_key := inspection_binding r\<rparr> else x) (ls_inspections db')\<rparr>))"

subsection \<open>Inspection by the owner\<close>

definition inspected_refs :: "lt_store \<Rightarrow> lt_run \<Rightarrow> (string \<times> int) list" where
  "inspected_refs db r =
     concat (map ip_refs (filter (\<lambda>x. ip_run x = lr_id r \<and> ip_key x = inspection_binding r) (ls_inspections db)))"

text \<open>
  The session of the run and its descendants: \<open>pending\<close> is the stack of sessions whose children are still
  to be read, its last element first.
\<close>

definition children_of :: "(string \<times> string option) list \<Rightarrow> string \<Rightarrow> string list" where
  "children_of ss p = map fst (filter (\<lambda>x. snd x = Some p) ss)"

definition unseen :: "string list \<Rightarrow> string list \<Rightarrow> string list" where
  "unseen seen xs = remdups (filter (\<lambda>x. x \<notin> set seen) xs)"

function family :: "(string \<times> string option) list \<Rightarrow> string list \<Rightarrow> string list \<Rightarrow> string list" where
  "family ss seen [] = seen"
| "family ss seen (p # pending) =
     (let new = unseen seen (children_of ss p) in family ss (seen @ new) (rev new @ pending))"
  by pat_completeness auto

termination
proof (relation "measures [\<lambda>(ss, seen, _). card (set (map fst ss) - set seen), \<lambda>(_, _, pending). length pending]", goal_cases)
  case (2 ss seen p pending new)
  show ?case
  proof (cases "new = []")
    case False
    have new: "set new \<subseteq> set (map fst ss)" "set new \<inter> set seen = {}"
      using 2 by (auto simp: unseen_def children_of_def)
    have "set (map fst ss) - set (seen @ new) \<subset> set (map fst ss) - set seen"
      using new False by (cases new) auto
    then have "card (set (map fst ss) - set (seen @ new)) < card (set (map fst ss) - set seen)"
      by (intro psubset_card_mono) auto
    then show ?thesis by simp
  qed simp
qed simp

declare family.simps [simp del]

record event_row =
  er_session :: string
  er_seq :: int
  er_kind :: string
  er_code :: "string option"

definition unsafe_receipt :: "event_row list \<Rightarrow> string \<Rightarrow> int \<Rightarrow> bool" where
  "unsafe_receipt evs s n =
     (case List.find (\<lambda>e. er_session e = s \<and> er_seq e = n) evs of
        None \<Rightarrow> False
      | Some e \<Rightarrow> er_kind e = ''tool_end'' \<and> er_code e = Some ''TOOL_INTERRUPTED_UNSAFE'')"

definition parse_receipt :: "string list \<Rightarrow> event_row list \<Rightarrow> json \<Rightarrow> (string \<times> int) lt_outcome" where
  "parse_receipt targets evs v =
     (case v of
        JObj d \<Rightarrow>
          if set (map fst d) \<noteq> {''sessionId'', ''seq''} then Inl LE_Inspection_Scope
          else (case dict_get d ''sessionId'' of
              JStr s \<Rightarrow>
                if s \<notin> set targets then Inl LE_Inspection_Scope
                else (case dict_get d ''seq'' of
                    JInt n \<Rightarrow> if unsafe_receipt evs s n then Inr (s, n) else Inl LE_Inspection_Invalid
                  | _ \<Rightarrow> Inl LE_Inspection_Scope)
            | JList _ \<Rightarrow> Inl LE_Crash
            | JObj _ \<Rightarrow> Inl LE_Crash
            | _ \<Rightarrow> Inl LE_Inspection_Scope)
      | _ \<Rightarrow> Inl LE_Inspection_Scope)"

definition accepted_by :: "(string \<times> json) list \<Rightarrow> json list \<Rightarrow> bool" where
  "accepted_by acc evidence =
     (dict_get acc ''acceptanceSatisfied'' = JBool True \<and> eq_form (dict_get acc ''evidenceRefs'') = eq_form (JList evidence) \<and>
      truthy (dict_get acc ''evidenceFingerprint'') \<and> \<not> truthy (dict_get acc ''failedChecks'') \<and>
      \<not> truthy (dict_get acc ''staleChecks'') \<and> \<not> truthy (dict_get acc ''requiredActive'') \<and>
      \<not> truthy (dict_get acc ''requiredBlocked''))"

definition list_or_empty :: "json \<Rightarrow> json list option" where
  "list_or_empty v = (if truthy v then (case v of JList xs \<Rightarrow> Some xs | _ \<Rightarrow> None) else Some [])"

definition INSPECTABLE :: "lt_state list" where
  "INSPECTABLE = [LT_Ready, LT_Needs_User, LT_Paused, LT_Interrupted]"

text \<open>The two answers an owner may give after looking: \<open>accept\<close> closes the run, \<open>inspect\<close> reopens it.\<close>

definition evidence_ok :: "bool \<Rightarrow> (string \<times> json) list \<Rightarrow> json \<Rightarrow> json lt_outcome" where
  "evidence_ok accept acc v =
     (if \<not> accept then Inr (py_or v (JList []))
      else (case list_or_empty v of
          Some (x # xs) \<Rightarrow>
            if 100 < length (x # xs) \<or> \<not> accepted_by acc (x # xs) then Inl LE_Acceptance_Required
            else Inr (JList (x # xs))
        | _ \<Rightarrow> Inl LE_Acceptance_Required))"

definition lt_inspect :: "(string \<times> string option) list \<Rightarrow> event_row list \<Rightarrow> bool \<Rightarrow> string \<Rightarrow> (string \<times> json) list
    \<Rightarrow> (string \<times> json) list \<Rightarrow> lt_run \<Rightarrow> lt_store \<Rightarrow> lt_store lt_outcome" where
  "lt_inspect ss evs accept call acc body r db =
     require (dict_get body ''confirm'' = JBool True \<and> lr_state r \<in> set INSPECTABLE) LE_Inspection_Required
       (require (accept \<or> truthy (dict_get body ''receiptRefs'')) LE_Inspection_Required
       (case list_or_empty (dict_get body ''receiptRefs'') of
          None \<Rightarrow> Inl LE_Inspection_Invalid
        | Some raw \<Rightarrow>
            require (length raw \<le> 100) LE_Inspection_Invalid
              (and_then (map_outcome (parse_receipt (family ss [lr_session r] [lr_session r]) evs) raw) (\<lambda>refs.
               and_then (evidence_ok accept acc (dict_get body ''evidenceRefs'')) (\<lambda>evidence.
               if list_ex (\<lambda>x. ip_run x = lr_id r \<and> ip_invocation x = call) (ls_inspections db) then Inl LE_Crash
               else
                 (let db' = db\<lparr>ls_inspections := ls_inspections db @ [\<lparr>ip_run = lr_id r, ip_invocation = call,
                       ip_key = inspection_binding r, ip_refs = refs, ip_evidence = evidence\<rparr>]\<rparr>
                  in Inr (put_run (lr_id r) (\<lambda>x. x\<lparr>lr_state := (if accept then LT_Completed else LT_Ready),
                        lr_blocked := None, lr_revision := lr_revision x + 1\<rparr>) db')))))))"

subsection \<open>The owner's actions\<close>

definition lt_resume :: "lt_run \<Rightarrow> lt_store \<Rightarrow> lt_store lt_outcome" where
  "lt_resume r db =
     require (lr_state r \<notin> set LT_TERMINAL \<and> lr_state r \<notin> {LT_Budget_Exhausted, LT_Needs_User}) LE_Blocked
       (Inr (put_run (lr_id r) (\<lambda>x. x\<lparr>lr_state := LT_Ready, lr_blocked := None, lr_revision := lr_revision x + 1\<rparr>) db))"

definition lt_act :: "(string \<times> string option) list \<Rightarrow> event_row list \<Rightarrow> string \<Rightarrow> (string \<times> json) list
    \<Rightarrow> (string \<times> json) list \<Rightarrow> lt_run \<Rightarrow> lt_store \<Rightarrow> lt_store lt_outcome" where
  "lt_act ss evs call acc body r db =
     (let a = dict_get body ''action'' in
      if a = JStr ''pause'' then Inr (lt_bar LT_Paused ''OWNER_PAUSE'' (lr_id r) db)
      else if a = JStr ''cancel'' then Inr (lt_bar LT_Cancelled ''OWNER_CANCEL'' (lr_id r) db)
      else if a = JStr ''inspect'' then lt_inspect ss evs False call acc body r db
      else if a = JStr ''accept'' then lt_inspect ss evs True call acc body r db
      else if a = JStr ''resume'' then lt_resume r db
      else Inl LE_Invalid)"

definition lt_action :: "(string \<times> string option) list \<Rightarrow> event_row list \<Rightarrow> string \<Rightarrow> string \<Rightarrow> (string \<times> json) list
    \<Rightarrow> (string \<times> json) list \<Rightarrow> lt_store \<Rightarrow> (lt_run \<times> lt_store) lt_outcome" where
  "lt_action ss evs h sid body acc db =
     and_then (lt_retry h db sid (dict_get body ''invocationId'')) (\<lambda>(call, cached).
       case cached of
         Some r \<Rightarrow> Inr (r, db)
       | None \<Rightarrow>
           (case lt_of_session db sid of
              None \<Rightarrow> Inl LE_Unknown
            | Some r \<Rightarrow>
                require (dict_get body ''runId'' = JStr (lr_id r)) LE_Unknown
                  (require (eq_form (dict_get body ''expectedRevision'') = eq_form (JInt (lr_revision r))) LE_Stale
                  (and_then (lt_act ss evs call acc body r db) (\<lambda>db'.
                    case lt_of_session db' sid of
                      None \<Rightarrow> Inl LE_Crash
                    | Some r' \<Rightarrow> lt_commit r' (lt_remember sid call h r' db'))))))"

subsection \<open>The runner\<close>

text \<open>In the operations below \<open>old\<close> is the row as the runner last read it.\<close>

definition lt_transition :: "lt_run \<Rightarrow> lt_state \<Rightarrow> string option \<Rightarrow> json option \<Rightarrow> lt_progress option \<Rightarrow> lt_store
    \<Rightarrow> (lt_run \<times> lt_store) lt_outcome" where
  "lt_transition old s why check progress db =
     (case lt_by_id db (lr_id old) of
        None \<Rightarrow> Inl LE_Crash
      | Some now \<Rightarrow>
          if lr_stop now \<noteq> lr_stop old \<or> lr_state now \<in> set LT_TERMINAL then Inr (now, db)
          else answer_run (lr_id old) (put_run (lr_id old) (\<lambda>r. r\<lparr>lr_state := s, lr_blocked := why,
                 lr_checkpoint := (case check of None \<Rightarrow> lr_checkpoint r | Some c \<Rightarrow> Some c),
                 lr_progress := (case progress of None \<Rightarrow> lr_progress r | Some p \<Rightarrow> p),
                 lr_revision := lr_revision r + 1\<rparr>) db))"

definition lt_claim :: "lt_run \<Rightarrow> string \<Rightarrow> rat \<Rightarrow> lt_store \<Rightarrow> (lt_run \<times> lt_store) lt_outcome" where
  "lt_claim old runner expires db =
     (case lt_by_id db (lr_id old) of
        None \<Rightarrow> Inl LE_Crash
      | Some now \<Rightarrow>
          require (lr_stop now = lr_stop old \<and> lr_revision now = lr_revision old) LE_Stale
            (require (lr_lease now = None \<or> lr_lease now = Some runner) LE_Lease_Busy
            (answer_run (lr_id old) (put_run (lr_id old) (\<lambda>r. r\<lparr>lr_lease := Some runner, lr_expires := Some expires,
               lr_lease_epoch := lr_lease_epoch r + (if lr_lease now = None then 1 else 0)\<rparr>) db))))"

definition find_segment :: "lt_store \<Rightarrow> string \<Rightarrow> string \<Rightarrow> lt_segment option" where
  "find_segment db i k = List.find (\<lambda>s. se_run s = i \<and> se_key s = k) (ls_segments db)"

definition ADMISSIBLE :: "bool \<Rightarrow> lt_state list" where
  "ADMISSIBLE manual = (if manual
     then [LT_Ready, LT_Running, LT_Waiting_Children, LT_Waiting_Job, LT_Needs_User, LT_Interrupted]
     else [LT_Ready, LT_Running])"

definition within_budget :: "lt_budget \<Rightarrow> int \<Rightarrow> rat \<Rightarrow> bool" where
  "within_budget b steps bound = (bu_steps b + steps + bu_reserve_steps b \<le> bu_step_limit b \<and>
     bu_time b + bound + bu_reserve_ms b \<le> bu_time_limit b)"

definition spend :: "int \<Rightarrow> rat \<Rightarrow> lt_run \<Rightarrow> lt_run" where
  "spend steps bound r = r\<lparr>lr_budget := (lr_budget r)\<lparr>bu_steps := bu_steps (lr_budget r) + steps,
     bu_time := bu_time (lr_budget r) + bound\<rparr>, lr_state := LT_Running\<rparr>"

definition admit_segment :: "lt_run \<Rightarrow> string \<Rightarrow> int \<Rightarrow> rat \<Rightarrow> lt_store \<Rightarrow> lt_store" where
  "admit_segment old key steps bound db =
     (put_run (lr_id old) (spend steps bound) db)\<lparr>ls_segments := ls_segments db @ [\<lparr>se_run = lr_id old, se_key = key,
        se_steps = steps, se_bound = bound, se_used = None, se_settled = False, se_stop = lr_stop old\<rparr>]\<rparr>"

definition lt_reserve :: "lt_run \<Rightarrow> string \<Rightarrow> int \<Rightarrow> rat \<Rightarrow> bool \<Rightarrow> rat \<Rightarrow> lt_store \<Rightarrow> (string \<times> lt_store) lt_outcome" where
  "lt_reserve old key steps bound manual clock db =
     require (0 < bound) LE_Budget_Invalid
       (require (find_segment db (lr_id old) key = None) LE_Segment_Replay
       (case lt_by_id db (lr_id old) of
          None \<Rightarrow> Inl LE_Crash
        | Some now \<Rightarrow>
            require (lr_state now \<noteq> LT_Budget_Exhausted) LE_Budget_Exhausted
              (require (lr_stop now = lr_stop old \<and> lr_revision now = lr_revision old \<and>
                  lr_lease_epoch now = lr_lease_epoch old \<and> lr_state now \<in> set (ADMISSIBLE manual)) LE_Stale
              (require (case bu_deadline (lr_budget now) of None \<Rightarrow> True | Some d \<Rightarrow> clock < d) LE_Wall_Deadline
              (if \<not> within_budget (lr_budget now) steps bound
               then Inl (if bu_time (lr_budget now) = 0 \<and> bu_steps (lr_budget now) = 0
                         then LE_Budget_Too_Small else LE_Budget_Exhausted)
               else lt_commit key (admit_segment old key steps bound db))))))"

definition settle_row :: "string \<Rightarrow> string \<Rightarrow> rat \<Rightarrow> lt_segment \<Rightarrow> lt_segment" where
  "settle_row i k used s = (if se_run s = i \<and> se_key s = k then s\<lparr>se_settled := True, se_used := Some used\<rparr> else s)"

definition lt_settle :: "lt_run \<Rightarrow> string \<Rightarrow> rat \<Rightarrow> lt_store \<Rightarrow> (bool \<times> lt_store) lt_outcome" where
  "lt_settle old key used_ms db =
     (case find_segment db (lr_id old) key of
        None \<Rightarrow> Inr (False, db)
      | Some s \<Rightarrow>
          if se_settled s then Inr (False, db)
          else if lt_by_id db (lr_id old) = None then Inl LE_Crash
          else (let used = max 0 used_ms;
                    db' = put_run (lr_id old) (\<lambda>r. r\<lparr>lr_budget := (lr_budget r)\<lparr>bu_time :=
                            bu_time (lr_budget r) + (used - se_bound s)\<rparr>\<rparr>) db
                in lt_commit True (db'\<lparr>ls_segments := map (settle_row (lr_id old) key used) (ls_segments db)\<rparr>)))"

definition lt_queue :: "lt_run \<Rightarrow> string \<Rightarrow> lt_store \<Rightarrow> ((string \<times> string) \<times> lt_store) lt_outcome" where
  "lt_queue old source db =
     require ((case lr_work old of None \<Rightarrow> True | Some w \<Rightarrow> w = []) \<and> (case lr_plan old of None \<Rightarrow> True | Some w \<Rightarrow> w = []))
       LE_Controller_Owned
       (case lt_by_id db (lr_id old) of
          None \<Rightarrow> Inl LE_Crash
        | Some now \<Rightarrow>
            require (lr_revision now = lr_revision old \<and> lr_stop now = lr_stop old \<and> lr_state now = LT_Ready) LE_Stale
              (Inr ((lr_id old, source),
                if list_ex (\<lambda>c. co_run c = lr_id old \<and> co_source c = source) (ls_conts db) then db
                else db\<lparr>ls_conts := ls_conts db @ [\<lparr>co_run = lr_id old, co_source = source,
                       co_revision = lr_revision old, co_stop = lr_stop old, co_state = CO_Pending\<rparr>]\<rparr>)))"

definition recover_run :: "lt_run \<Rightarrow> lt_run" where
  "recover_run r = (if lr_state r = LT_Running
     then r\<lparr>lr_state := LT_Interrupted, lr_blocked := Some ''HARNESS_RESTART'', lr_revision := lr_revision r + 1,
            lr_lease_epoch := lr_lease_epoch r + 1, lr_lease := None, lr_expires := None\<rparr>
     else r)"

definition recover_continuation :: "lt_continuation \<Rightarrow> lt_continuation" where
  "recover_continuation c = (case co_state c of
     CO_Claimed \<Rightarrow> c\<lparr>co_state := CO_Pending\<rparr> | CO_Admitted \<Rightarrow> c\<lparr>co_state := CO_Interrupted\<rparr> | _ \<Rightarrow> c)"

definition lt_recover :: "lt_store \<Rightarrow> lt_store" where
  "lt_recover db = db\<lparr>ls_conts := map recover_continuation (ls_conts db), ls_runs := map recover_run (ls_runs db)\<rparr>"

end
