(* ===== verification/Longtask_Runtime.thy ===== *)
theory Longtask_Runtime
  imports Longtask_Store
begin

section \<open>Long tasks: the runtime's gates\<close>

text \<open>
  \<open>agent_core/longtask_runtime.py\<close>: the owner's configuration of a root session, the gate every turn, model call and tool call of a long task passes
  (\<open>check\<close>), parking a run (\<open>block\<close>), the end of a turn (\<open>finish\<close>), the owner's answer to a budget card, the
  segments around a call, and the pump that hands pending continuations to new turns. Beside the store a
  runtime keeps the run each session's turn was admitted with. What other services answer is a field of
  \<open>lt_env\<close>: the switch, the root of a session, the live binding, pending cards, interrupted calls, the live
  turns, the sessions and events tables, the last checkpoint and whether a controller is there.
\<close>

record lt_env =
  le_enabled :: bool
  le_root :: "string \<Rightarrow> string"
  le_authority :: "(lt_run \<Rightarrow> lt_binding) option"
  le_pending :: "string \<Rightarrow> bool"
  le_interrupted :: "string \<Rightarrow> (int \<times> bool) list"
  le_live :: "string \<Rightarrow> bool"
  le_sessions :: "(string \<times> string option) list"
  le_events :: "event_row list"
  le_checkpoint :: json
  le_controller :: bool

record lt_runtime =
  rt_db :: lt_store
  rt_snaps :: "(string \<times> lt_run) list"

text \<open>What a call answers, and the state it leaves even when it raises.\<close>

type_synonym 'a lt_call = "'a lt_outcome \<times> lt_runtime"

definition with_db :: "('a \<times> lt_store) lt_outcome \<Rightarrow> lt_runtime \<Rightarrow> 'a lt_call" where
  "with_db o' st = (case o' of Inl e \<Rightarrow> (Inl e, st) | Inr (a, db) \<Rightarrow> (Inr a, st\<lparr>rt_db := db\<rparr>))"

definition snap :: "string \<Rightarrow> lt_run \<Rightarrow> lt_runtime \<Rightarrow> lt_runtime" where
  "snap sid r st = st\<lparr>rt_snaps := dict_set sid r (rt_snaps st)\<rparr>"

definition root_run :: "lt_env \<Rightarrow> string \<Rightarrow> lt_store \<Rightarrow> lt_run option" where
  "root_run w sid db =
     (case lt_of_session db (le_root w sid) of
        None \<Rightarrow> None
      | Some r \<Rightarrow> if lr_state r \<in> set LT_TERMINAL then None else Some r)"

text \<open>\<open>SCOPE_KEYS\<close>: what a new word of the owner may not change.\<close>

definition same_authority_scope :: "lt_binding \<Rightarrow> lt_binding \<Rightarrow> bool" where
  "same_authority_scope a b = (bn_project a = bn_project b \<and> bn_capability a = bn_capability b \<and>
     bn_allocation a = bn_allocation b \<and> bn_work a = bn_work b \<and> bn_plan a = bn_plan b)"

subsection \<open>Configuration\<close>

text \<open>\<open>hook\<close> is the canonical contract of the owner, \<open>None\<close> when nobody supplies one.\<close>

definition complete_binding :: "lt_binding \<Rightarrow> bool" where
  "complete_binding b = (bn_project b \<noteq> [] \<and> bn_goal b \<noteq> 0 \<and> bn_contract b \<noteq> [] \<and> bn_event b \<noteq> [] \<and> bn_capability b \<noteq> 0)"

definition repin_policy :: "json \<Rightarrow> resume_policy option lt_outcome" where
  "repin_policy v = (if v = JNull then Inr None else and_then (parse_policy v) (\<lambda>p. Inr (Some p)))"

definition setup_first :: "string \<Rightarrow> string \<Rightarrow> rat \<Rightarrow> string \<Rightarrow> (string \<times> json) list \<Rightarrow> lt_binding option \<Rightarrow> lt_store
    \<Rightarrow> (lt_run \<times> lt_store) lt_outcome" where
  "setup_first h i now sid body hook db =
     (case hook of
        None \<Rightarrow> Inl LE_No_Binding
      | Some b \<Rightarrow>
          require (complete_binding b) LE_No_Binding
            (require (eq_form (dict_get body ''goalRevision'') = eq_form (JInt (bn_goal b))) LE_Stale
              (lt_configure h i now sid body b db)))"

definition lt_setup :: "string \<Rightarrow> string \<Rightarrow> rat \<Rightarrow> string \<Rightarrow> bool \<Rightarrow> (string \<times> json) list \<Rightarrow> lt_binding option \<Rightarrow> lt_store
    \<Rightarrow> (lt_run \<times> lt_store) lt_outcome" where
  "lt_setup h i now sid child body hook db =
     require (\<not> child) LE_Root_Only
       (case lt_of_session db sid of
          None \<Rightarrow> setup_first h i now sid body hook db
        | Some r \<Rightarrow>
            if lr_state r \<in> set LT_TERMINAL then setup_first h i now sid body hook db
            else if dict_get body ''enabled'' \<noteq> JBool True then lt_configure h i now sid body (lr_binding r) db
            else require (eq_form (dict_get body ''expectedRevision'') = eq_form (JInt (lr_revision r))) LE_Stale
              (case hook of
                 None \<Rightarrow> Inl LE_No_Binding
               | Some b \<Rightarrow> and_then (repin_policy (dict_get body ''resumePolicy'')) (\<lambda>p. lt_repin r b p db)))"

subsection \<open>The gate\<close>

definition AUTONOMOUS :: "lt_state list" where
  "AUTONOMOUS = [LT_Ready, LT_Running, LT_Interrupted]"

definition gate_state :: "lt_env \<Rightarrow> bool \<Rightarrow> lt_run \<Rightarrow> lt_error option" where
  "gate_state w auto r =
     (if auto \<and> lr_state r \<notin> set AUTONOMOUS then Some LE_Blocked
      else if \<not> auto \<and> lr_state r = LT_Paused then Some LE_Blocked
      else if auto \<and> (\<not> le_enabled w \<or> lr_policy r \<noteq> Safe_Auto) then Some LE_Manual
      else None)"

text \<open>
  Calls a session has started and not finished: the call in flight, or the newest of a live session, is
  not one of them. An unsafe one, or an unsafe receipt nobody has inspected, closes the gate.
\<close>

definition stuck_calls :: "lt_env \<Rightarrow> (string \<times> int) option \<Rightarrow> string \<Rightarrow> (int \<times> bool) list" where
  "stuck_calls w flight s =
     (let calls = le_interrupted w s in
      if flight \<noteq> None \<and> fst (the flight) = s then filter (\<lambda>c. fst c \<noteq> snd (the flight)) calls
      else if le_live w s \<and> calls \<noteq> [] then filter (\<lambda>c. fst c \<noteq> Max (set (map fst calls))) calls
      else calls)"

definition unsafe_session :: "lt_env \<Rightarrow> (string \<times> int) option \<Rightarrow> (string \<times> int) list \<Rightarrow> string \<Rightarrow> bool" where
  "unsafe_session w flight inspected s =
     (list_ex (\<lambda>c. \<not> snd c) (stuck_calls w flight s) \<or>
      list_ex (\<lambda>e. er_session e = s \<and> er_kind e = ''tool_end'' \<and> er_code e = Some ''TOOL_INTERRUPTED_UNSAFE'' \<and>
        (s, er_seq e) \<notin> set inspected) (le_events w))"

definition gate_calls :: "lt_env \<Rightarrow> (string \<times> int) option \<Rightarrow> lt_store \<Rightarrow> lt_run \<Rightarrow> lt_error option" where
  "gate_calls w flight db r =
     (if le_pending w (lr_session r) then Some LE_Pending_Decision
      else if list_ex (unsafe_session w flight (inspected_refs db r))
                (family (le_sessions w) [lr_session r] [lr_session r]) then Some LE_Unsafe
      else None)"

text \<open>\<open>repinned\<close> writes the current binding when only the owner's contract moved.\<close>

definition gate_binding :: "lt_env \<Rightarrow> bool \<Rightarrow> lt_run \<Rightarrow> lt_runtime \<Rightarrow> lt_run lt_call" where
  "gate_binding w auto r st =
     (case le_authority w of
        None \<Rightarrow> (Inl LE_Revalidation, st)
      | Some f \<Rightarrow>
          if f r = lr_binding r then (Inr r, st)
          else if auto \<or> \<not> same_authority_scope (lr_binding r) (f r) then (Inl LE_Stale, st)
          else with_db (lt_repin r (f r) None (rt_db st)) st)"

definition stale_snapshot :: "lt_run \<Rightarrow> lt_run \<Rightarrow> bool" where
  "stale_snapshot s r = (lr_stop s \<noteq> lr_stop r \<or> lr_capability s \<noteq> lr_capability r \<or> lr_lease_epoch s \<noteq> lr_lease_epoch r)"

text \<open>\<open>lt_gate\<close> is the part of \<open>check\<close> after the row is read; a turn with a snapshot keeps it up to date.\<close>

definition lt_gate :: "lt_env \<Rightarrow> string \<Rightarrow> bool \<Rightarrow> bool \<Rightarrow> (string \<times> int) option \<Rightarrow> lt_run \<Rightarrow> lt_runtime \<Rightarrow> lt_run option lt_call" where
  "lt_gate w sid snapped auto flight r st =
     (case gate_state w auto r of
        Some e \<Rightarrow> (Inl e, st)
      | None \<Rightarrow>
          (case gate_binding w auto r st of
             (Inl e, st2) \<Rightarrow> (Inl e, st2)
           | (Inr r2, st2) \<Rightarrow>
               (let st3 = (if snapped \<and> r2 \<noteq> r then snap sid r2 st2 else st2)
                in case gate_calls w flight (rt_db st3) r2 of
                     Some e \<Rightarrow> (Inl e, st3)
                   | None \<Rightarrow> (Inr (Some r2), st3))))"

definition lt_check :: "lt_env \<Rightarrow> string \<Rightarrow> lt_run option \<Rightarrow> bool \<Rightarrow> (string \<times> int) option \<Rightarrow> lt_runtime \<Rightarrow> lt_run option lt_call" where
  "lt_check w sid snapshot auto flight st =
     (case snapshot of
        None \<Rightarrow>
          (case root_run w sid (rt_db st) of
             None \<Rightarrow> (Inr None, st)
           | Some r \<Rightarrow> lt_gate w sid False auto flight r st)
      | Some s \<Rightarrow>
          (case lt_by_id (rt_db st) (lr_id s) of
             None \<Rightarrow> (Inr None, st)
           | Some r \<Rightarrow>
               if stale_snapshot s r then (Inl LE_Stale, st)
               else lt_gate w sid True auto flight r (if lr_revision s \<noteq> lr_revision r then snap sid r st else st)))"

subsection \<open>Parking a run\<close>

definition lt_code :: "lt_error \<Rightarrow> string" where
  "lt_code e = (case e of
      LE_Budget_Exhausted \<Rightarrow> ''LONGTASK_BUDGET_EXHAUSTED'' | LE_Wall_Deadline \<Rightarrow> ''LONGTASK_WALL_DEADLINE''
    | LE_Budget_Too_Small \<Rightarrow> ''LONGTASK_BUDGET_TOO_SMALL'' | LE_Stale \<Rightarrow> ''LONGTASK_STALE''
    | LE_Blocked \<Rightarrow> ''LONGTASK_BLOCKED'' | LE_Manual \<Rightarrow> ''LONGTASK_MANUAL'' | LE_Revalidation \<Rightarrow> ''LONGTASK_REVALIDATION_UNAVAILABLE''
    | LE_Pending_Decision \<Rightarrow> ''LONGTASK_PENDING_DECISION'' | LE_Unsafe \<Rightarrow> ''LONGTASK_UNSAFE_INTERRUPTION''
    | LE_Evidence_Unavailable \<Rightarrow> ''LONGTASK_EVIDENCE_UNAVAILABLE'' | LE_Evidence_Invalid \<Rightarrow> ''LONGTASK_EVIDENCE_INVALID''
    | LE_No_Controller \<Rightarrow> ''LONGTASK_CONTROLLER_UNAVAILABLE'' | LE_Recovery_Blocked \<Rightarrow> ''LONGTASK_RECOVERY_BLOCKED''
    | LE_Lease_Busy \<Rightarrow> ''LONGTASK_LEASE_BUSY'' | LE_Segment_Replay \<Rightarrow> ''LONGTASK_SEGMENT_REPLAY''
    | LE_Turn_Failed \<Rightarrow> ''LONGTASK_TURN_FAILED'' | LE_Budget_Invalid \<Rightarrow> ''LONGTASK_BUDGET_INVALID'' | LE_Controller_Owned \<Rightarrow> ''LONGTASK_CONTROLLER_OWNED''
    | _ \<Rightarrow> ''LONGTASK_INVALID'')"

definition parked_state :: "lt_error \<Rightarrow> lt_state" where
  "parked_state e = (case e of LE_Budget_Exhausted \<Rightarrow> LT_Budget_Exhausted | LE_Wall_Deadline \<Rightarrow> LT_Paused | _ \<Rightarrow> LT_Needs_User)"

text \<open>The card a run out of budget gets is the decision store's.\<close>

definition lt_block :: "lt_env \<Rightarrow> string \<Rightarrow> lt_error \<Rightarrow> lt_runtime \<Rightarrow> lt_runtime" where
  "lt_block w sid e st =
     (case root_run w sid (rt_db st) of
        None \<Rightarrow> st
      | Some r \<Rightarrow>
          if lr_state r \<in> {LT_Cancelled, LT_Paused} \<or> e = LE_Pending_Decision \<and> lr_state r = LT_Budget_Exhausted then st
          else snd (with_db (lt_transition r (parked_state e) (Some (lt_code e)) (Some (le_checkpoint w)) None (rt_db st)) st))"

text \<open>\<open>park_failed_turn\<close>: a turn that died of something else.\<close>

definition lt_park_failed :: "lt_env \<Rightarrow> string \<Rightarrow> lt_runtime \<Rightarrow> lt_runtime" where
  "lt_park_failed w sid st =
     (case root_run w sid (rt_db st) of
        None \<Rightarrow> st
      | Some r \<Rightarrow> if lr_state r \<in> {LT_Ready, LT_Running} then lt_block w sid LE_Turn_Failed st else st)"

text \<open>
  The owner's answer to the card: the budget the card was made for once more, or none. The card carries the
  limits of the budget revision it was made for, which change only with the revision.
\<close>

definition extend_budget :: "lt_run \<Rightarrow> lt_run" where
  "extend_budget r = r\<lparr>lr_budget := (lr_budget r)\<lparr>bu_step_limit := 2 * bu_step_limit (lr_budget r),
     bu_time_limit := 2 * bu_time_limit (lr_budget r), bu_revision := bu_revision (lr_budget r) + 1\<rparr>,
     lr_state := LT_Ready, lr_blocked := None, lr_revision := lr_revision r + 1\<rparr>"

definition lt_budget_effect :: "string \<Rightarrow> int \<Rightarrow> bool \<Rightarrow> lt_store \<Rightarrow> lt_store lt_outcome" where
  "lt_budget_effect i shown yes db =
     (case lt_by_id db i of
        None \<Rightarrow> Inl LE_Crash
      | Some r \<Rightarrow>
          if bu_revision (lr_budget r) \<noteq> shown then Inl LE_Decision_Stale
          else if lr_state r \<in> set LT_TERMINAL then Inr db
          else if lr_state r \<notin> {LT_Budget_Exhausted, LT_Needs_User} then Inl LE_Decision_Stale
          else Inr (put_run i (if yes then extend_budget
                               else (\<lambda>x. x\<lparr>lr_state := LT_Paused, lr_revision := lr_revision x + 1\<rparr>)) db))"

subsection \<open>Model and tool calls\<close>

text \<open>The segment around a call is admitted before it and settled after it, whatever the call did.\<close>

definition lt_admit_call :: "lt_env \<Rightarrow> string \<Rightarrow> string \<Rightarrow> int \<Rightarrow> rat \<Rightarrow> bool \<Rightarrow> (string \<times> int) option \<Rightarrow> rat \<Rightarrow> lt_runtime
    \<Rightarrow> lt_run option lt_call" where
  "lt_admit_call w sid key steps bound auto flight clock st =
     (case lt_check w sid (map_of (rt_snaps st) sid) False flight st of
        (Inl e, st1) \<Rightarrow> (Inl e, st1)
      | (Inr None, st1) \<Rightarrow> (Inr None, st1)
      | (Inr (Some r), st1) \<Rightarrow>
          (case with_db (lt_reserve r key steps bound (\<not> auto) clock (rt_db st1)) st1 of
             (Inl e, st2) \<Rightarrow> (Inl e, if e = LE_Crash then st2 else lt_block w sid e st2)
           | (Inr _, st2) \<Rightarrow> (Inr (Some r), st2)))"

definition lt_settle_call :: "lt_run \<Rightarrow> string \<Rightarrow> rat \<Rightarrow> lt_runtime \<Rightarrow> lt_runtime" where
  "lt_settle_call r key ms st = snd (with_db (lt_settle r key ms (rt_db st)) st)"

subsection \<open>The end of a turn\<close>

datatype proposed = P_Runnable | P_Waiting_Children | P_Waiting_Job | P_Needs_User | P_Completed

record proposal =
  pr_state :: "proposed option"
  pr_satisfied :: bool
  pr_open :: bool
  pr_fingerprint :: "string option"
  pr_reason :: "string option"

text \<open>A completion needs satisfied acceptance with evidence and nothing open (\<open>pr_open\<close>: failed or stale
  checks, required work active or blocked).\<close>

definition completes :: "proposal \<Rightarrow> bool" where
  "completes p = (pr_satisfied p \<and> \<not> pr_open p \<and> pr_fingerprint p \<noteq> None)"

definition NO_PROGRESS :: nat where "NO_PROGRESS = 3"

definition next_progress :: "string option \<Rightarrow> lt_progress \<Rightarrow> lt_progress" where
  "next_progress f p = \<lparr>pg_fingerprint = f,
     pg_unchanged = (if f = None \<or> f = pg_fingerprint p then pg_unchanged p + 1 else 0)\<rparr>"

text \<open>The state a turn ends in, with the reason and the progress on record.\<close>

definition turn_end :: "lt_run \<Rightarrow> proposed \<Rightarrow> proposal \<Rightarrow> proposed \<times> string option \<times> lt_progress" where
  "turn_end r s p =
     (let s1 = (if s = P_Completed \<and> \<not> completes p then P_Needs_User else s)
      in if (lr_work r = None \<or> lr_work r = Some []) \<and> s1 = P_Runnable then
           (let pg = next_progress (pr_fingerprint p) (lr_progress r)
            in if NO_PROGRESS \<le> pg_unchanged pg then (P_Needs_User, Some ''LONGTASK_NO_PROGRESS'', pg)
               else (s1, pr_reason p, pg))
         else (s1, pr_reason p, lr_progress r))"

definition proposed_state :: "proposed \<Rightarrow> lt_state" where
  "proposed_state s = (case s of P_Runnable \<Rightarrow> LT_Ready | P_Waiting_Children \<Rightarrow> LT_Waiting_Children
     | P_Waiting_Job \<Rightarrow> LT_Waiting_Job | P_Needs_User \<Rightarrow> LT_Needs_User | P_Completed \<Rightarrow> LT_Completed)"

definition owned_by_controller :: "lt_run \<Rightarrow> bool" where
  "owned_by_controller r = ((lr_work r \<noteq> None \<and> lr_work r \<noteq> Some []) \<or> (lr_plan r \<noteq> None \<and> lr_plan r \<noteq> Some []))"

text \<open>After the transition: the next turn is queued, or left to the controller.\<close>

definition continue_run :: "lt_env \<Rightarrow> string \<Rightarrow> lt_run \<Rightarrow> lt_runtime \<Rightarrow> unit lt_call" where
  "continue_run w source r st =
     (if owned_by_controller r then
        (if le_controller w then (Inr (), st)
         else case with_db (lt_transition r LT_Needs_User (Some (lt_code LE_No_Controller)) None None (rt_db st)) st of
           (Inl e, st') \<Rightarrow> (Inl e, st') | (Inr _, st') \<Rightarrow> (Inr (), st'))
      else case with_db (lt_queue r source (rt_db st)) st of
        (Inl e, st') \<Rightarrow> (Inl e, st') | (Inr _, st') \<Rightarrow> (Inr (), st'))"

definition end_turn :: "lt_env \<Rightarrow> string \<Rightarrow> proposal \<Rightarrow> proposed \<Rightarrow> lt_run \<Rightarrow> lt_runtime \<Rightarrow> unit lt_call" where
  "end_turn w source p s r st =
     (case turn_end r s p of (s', why, pg) \<Rightarrow>
        (case with_db (lt_transition r (proposed_state s') why (Some (le_checkpoint w)) (Some pg) (rt_db st)) st of
           (Inl e, st2) \<Rightarrow> (Inl e, st2)
         | (Inr r', st2) \<Rightarrow>
             if s' = P_Runnable \<and> le_enabled w \<and> lr_policy r = Safe_Auto
             then continue_run w source r' st2 else (Inr (), st2)))"

text \<open>\<open>prop\<close>: what the completion hook projects, \<open>None\<close> without a hook; \<open>source\<close>: \<open>turn:\<close> and its number.\<close>

definition lt_finish :: "lt_env \<Rightarrow> string \<Rightarrow> proposal option \<Rightarrow> string \<Rightarrow> lt_runtime \<Rightarrow> unit lt_call" where
  "lt_finish w sid prop source st =
     (case lt_check w sid (map_of (rt_snaps st) sid) False None st of
        (Inl e, st1) \<Rightarrow> if e = LE_Crash then (Inl LE_Crash, st1) else (Inr (), lt_block w sid e st1)
      | (Inr None, st1) \<Rightarrow> (Inr (), st1)
      | (Inr (Some r), st1) \<Rightarrow>
          (case prop of
             None \<Rightarrow> (Inr (), lt_block w sid LE_Evidence_Unavailable st1)
           | Some p \<Rightarrow>
               (case pr_state p of
                  None \<Rightarrow> (Inl LE_Evidence_Invalid, st1)
                | Some s \<Rightarrow> end_turn w source p s r st1)))"

subsection \<open>Starting a turn and the pump\<close>

text \<open>The head of \<open>HarnessRuntime.start\<close>: the gate and the lease.\<close>

definition lt_start :: "lt_env \<Rightarrow> string \<Rightarrow> bool \<Rightarrow> string \<Rightarrow> rat \<Rightarrow> lt_runtime \<Rightarrow> lt_run option lt_call" where
  "lt_start w sid auto runner expires st =
     (if root_run w sid (rt_db st) = None then (Inr None, st)
      else case lt_check w sid None auto None st of
        (Inl e, st1) \<Rightarrow> (Inl e, if e = LE_Crash then st1 else lt_block w sid e st1)
      | (Inr None, st1) \<Rightarrow> (Inl LE_Crash, st1)
      | (Inr (Some r), st1) \<Rightarrow>
          (case with_db (lt_claim r runner expires (rt_db st1)) st1 of
             (Inl e, st2) \<Rightarrow> (Inl e, if e = LE_Crash then st2 else lt_block w sid e st2)
           | (Inr r', st2) \<Rightarrow> (Inr (Some r'), snap sid r' st2)))"

text \<open>The update that admits a pending row: its run must be ready under the revision and epoch it was queued with.\<close>

definition admissible_row :: "lt_store \<Rightarrow> lt_continuation \<Rightarrow> bool" where
  "admissible_row db c = (\<exists>r \<in> set (ls_runs db). lr_id r = co_run c \<and> lr_state r = LT_Ready \<and>
     lr_revision r = co_revision c \<and> lr_stop r = co_stop c)"

definition admit_row :: "lt_continuation \<Rightarrow> lt_store \<Rightarrow> lt_store" where
  "admit_row c db = db\<lparr>ls_conts := map (\<lambda>x. if co_run x = co_run c \<and> co_source x = co_source c \<and>
      co_state x = CO_Pending \<and> admissible_row db x then x\<lparr>co_state := CO_Admitted\<rparr> else x) (ls_conts db)\<rparr>"

definition row_pending :: "lt_continuation \<Rightarrow> lt_store \<Rightarrow> bool" where
  "row_pending c db = list_ex (\<lambda>x. co_run x = co_run c \<and> co_source x = co_source c \<and> co_state x = CO_Pending \<and>
     admissible_row db x) (ls_conts db)"

definition call_pump :: "lt_env \<Rightarrow> string \<Rightarrow> lt_continuation \<Rightarrow> string \<Rightarrow> rat \<Rightarrow> lt_runtime \<Rightarrow> bool lt_call" where
  "call_pump w sid c runner expires st =
     (case lt_check w sid None True None st of
        (Inl e, st1) \<Rightarrow> (Inl e, st1)
      | (Inr None, st1) \<Rightarrow> (Inl LE_Crash, st1)
      | (Inr (Some r), st1) \<Rightarrow>
          if lr_revision r \<noteq> co_revision c \<or> lr_stop r \<noteq> co_stop c then (Inl LE_Stale, st1)
          else if \<not> row_pending c (rt_db st1) then (Inr False, st1)
          else (case lt_start w sid True runner expires (st1\<lparr>rt_db := admit_row c (rt_db st1)\<rparr>) of
              (Inl e, st2) \<Rightarrow> (Inl e, st2)
            | (Inr None, st2) \<Rightarrow> (Inl LE_Stale, st2)
            | (Inr (Some r'), st2) \<Rightarrow> if lr_id r' = co_run c then (Inr True, st2) else (Inl LE_Stale, st2)))"

text \<open>One row of the pump. A \<open>LongtaskError\<close> parks the run; any other exception leaves the pump.\<close>

definition pump_row :: "lt_env \<Rightarrow> string \<Rightarrow> rat \<Rightarrow> lt_continuation \<Rightarrow> lt_runtime \<Rightarrow> bool lt_call" where
  "pump_row w runner expires c st =
     (case lt_by_id (rt_db st) (co_run c) of
        None \<Rightarrow> (Inl LE_Crash, st)
      | Some r \<Rightarrow>
          (let sid = lr_session r in
           if le_live w sid then (Inr False, st)
           else if \<not> le_enabled w \<or> lr_policy r \<noteq> Safe_Auto then
             (if lr_state r \<notin> set LT_TERMINAL \<and> lr_state r \<noteq> LT_Paused
              then (case with_db (lt_barrier sid LT_Paused ''LONGTASK_AUTO_DISABLED'' (rt_db st)) st of
                  (Inl e, st') \<Rightarrow> (Inl e, st') | (Inr _, st') \<Rightarrow> (Inr False, st'))
              else (Inr False, st))
           else (case call_pump w sid c runner expires st of
               (Inl e, st') \<Rightarrow> if e = LE_Crash then (Inl LE_Crash, st') else (Inr False, lt_block w sid e st')
             | (Inr b, st') \<Rightarrow> (Inr b, st'))))"

text \<open>A turn that was started is live for the rows after it.\<close>

definition now_live :: "lt_env \<Rightarrow> lt_store \<Rightarrow> lt_continuation \<Rightarrow> lt_env" where
  "now_live w db c = (case lt_by_id db (co_run c) of
     None \<Rightarrow> w | Some r \<Rightarrow> w\<lparr>le_live := (\<lambda>s. s = lr_session r \<or> le_live w s)\<rparr>)"

fun pump_rows :: "lt_env \<Rightarrow> string \<Rightarrow> rat \<Rightarrow> lt_continuation list \<Rightarrow> lt_runtime \<Rightarrow> nat lt_call" where
  "pump_rows w runner expires [] st = (Inr 0, st)"
| "pump_rows w runner expires (c # cs) st =
     (case pump_row w runner expires c st of
        (Inl e, st') \<Rightarrow> (Inl e, st')
      | (Inr b, st') \<Rightarrow>
          (case pump_rows (if b then now_live w (rt_db st') c else w) runner expires cs st' of
             (Inl e, st2) \<Rightarrow> (Inl e, st2)
           | (Inr n, st2) \<Rightarrow> (Inr (n + (if b then 1 else 0)), st2)))"

definition lt_pump :: "lt_env \<Rightarrow> string \<Rightarrow> rat \<Rightarrow> lt_runtime \<Rightarrow> nat lt_call" where
  "lt_pump w runner expires st =
     pump_rows w runner expires (take 20 (filter (\<lambda>c. co_state c = CO_Pending) (ls_conts (rt_db st)))) st"

subsection \<open>After a restart\<close>

text \<open>One interrupted run: \<open>runnable\<close> is what the completion hook projects, \<open>None\<close> without a hook.\<close>

definition resume_interrupted :: "lt_env \<Rightarrow> bool option \<Rightarrow> lt_run \<Rightarrow> lt_runtime \<Rightarrow> unit lt_call" where
  "resume_interrupted w runnable r st =
     (case lt_check w (lr_session r) None True None st of
        (Inl e, st1) \<Rightarrow> (Inl e, st1)
      | (Inr _, st1) \<Rightarrow>
          (case runnable of
             None \<Rightarrow> (Inl LE_Evidence_Unavailable, st1)
           | Some False \<Rightarrow> (Inl LE_Recovery_Blocked, st1)
           | Some True \<Rightarrow>
               (case with_db (lt_transition r LT_Ready None None None (rt_db st1)) st1 of
                  (Inl e, st2) \<Rightarrow> (Inl e, st2)
                | (Inr r', st2) \<Rightarrow>
                    if owned_by_controller r' then (if le_controller w then Inr () else Inl LE_No_Controller, st2)
                    else (case with_db (lt_queue r' (''restart:'' @ int_str (lr_lease_epoch r')) (rt_db st2)) st2 of
                        (Inl e, st3) \<Rightarrow> (Inl e, st3) | (Inr _, st3) \<Rightarrow> (Inr (), st3)))))"

definition recover_one :: "lt_env \<Rightarrow> bool option \<Rightarrow> lt_run \<Rightarrow> lt_runtime \<Rightarrow> unit lt_call" where
  "recover_one w runnable r st =
     (if \<not> le_enabled w \<or> lr_policy r \<noteq> Safe_Auto
      then (case with_db (lt_barrier (lr_session r) LT_Paused ''LONGTASK_MANUAL_RESTART'' (rt_db st)) st of
          (Inl e, st') \<Rightarrow> (Inl e, st') | (Inr _, st') \<Rightarrow> (Inr (), st'))
      else case resume_interrupted w runnable r st of
        (Inl e, st') \<Rightarrow> if e = LE_Crash then (Inl LE_Crash, st') else (Inr (), lt_block w (lr_session r) e st')
      | (Inr _, st') \<Rightarrow> (Inr (), st'))"

fun recover_rows :: "lt_env \<Rightarrow> (lt_run \<Rightarrow> bool option) \<Rightarrow> string list \<Rightarrow> lt_runtime \<Rightarrow> unit lt_call" where
  "recover_rows w runnable [] st = (Inr (), st)"
| "recover_rows w runnable (i # is) st =
     (case lt_by_id (rt_db st) i of
        None \<Rightarrow> (Inl LE_Crash, st)
      | Some r \<Rightarrow>
          (case recover_one w (runnable r) r st of
             (Inl e, st') \<Rightarrow> (Inl e, st')
           | (Inr _, st') \<Rightarrow> recover_rows w runnable is st'))"

definition recover_all :: "lt_env \<Rightarrow> (lt_run \<Rightarrow> bool option) \<Rightarrow> lt_runtime \<Rightarrow> unit lt_call" where
  "recover_all w runnable st =
     (let st1 = st\<lparr>rt_db := lt_recover (rt_db st)\<rparr>
      in recover_rows w runnable (map lr_id (filter (\<lambda>r. lr_state r = LT_Interrupted) (ls_runs (rt_db st1)))) st1)"

end
