(* ===== verification/Longtask_Inv.thy ===== *)
theory Longtask_Inv
  imports Longtask_Runtime
begin

section \<open>Long tasks: what every operation keeps\<close>

text \<open>
  The invariant of the tables (\<open>lt_ok\<close>): the budget of a run is the sum of its segments, an admitted segment
  charges its bound until it is settled, and what a run was charged lies within its limit but for what
  settled segments ran over their bound; keys of segments and of queued turns are unique. The relation between the tables before and after
  (\<open>store_grows\<close>): receipts and answers stay, a turn that left the queue never returns to it, epochs and revisions never go back, a lease epoch has one
  holder, and a closed run changes its state only with its stop epoch. \<open>evolves\<close> is both, for one step.
\<close>

subsection \<open>The account of a run\<close>

definition segments_of :: "string \<Rightarrow> lt_segment list \<Rightarrow> lt_segment list" where
  "segments_of i ss = filter (\<lambda>s. se_run s = i) ss"

definition charge :: "lt_segment \<Rightarrow> rat" where
  "charge s = (if se_settled s then (case se_used s of None \<Rightarrow> 0 | Some u \<Rightarrow> u) else se_bound s)"

definition overrun :: "lt_segment \<Rightarrow> rat" where
  "overrun s = max 0 (charge s - se_bound s)"

definition time_charged :: "string \<Rightarrow> lt_segment list \<Rightarrow> rat" where
  "time_charged i ss = sum_list (map charge (segments_of i ss))"

definition time_over :: "string \<Rightarrow> lt_segment list \<Rightarrow> rat" where
  "time_over i ss = sum_list (map overrun (segments_of i ss))"

definition steps_charged :: "string \<Rightarrow> lt_segment list \<Rightarrow> int" where
  "steps_charged i ss = sum_list (map se_steps (segments_of i ss))"

definition accounted :: "lt_segment list \<Rightarrow> lt_run \<Rightarrow> bool" where
  "accounted ss r =
     (let b = lr_budget r; i = lr_id r in
      bu_steps b = steps_charged i ss \<and> bu_time b = time_charged i ss \<and>
      bu_reserve_steps b = 1 \<and> bu_reserve_ms b = 1000 \<and> 0 < bu_time_limit b \<and>
      bu_steps b + 1 \<le> bu_step_limit b \<and>
      (segments_of i ss = [] \<or> bu_time b + 1000 \<le> bu_time_limit b + time_over i ss))"

definition sound_segment :: "lt_store \<Rightarrow> lt_segment \<Rightarrow> bool" where
  "sound_segment db s = (0 \<le> se_steps s \<and> 0 < se_bound s \<and> se_run s \<in> lr_id ` set (ls_runs db))"

text \<open>A queued turn is named by its run and source, and is open until it is admitted, cancelled or interrupted.\<close>

definition row_key :: "lt_continuation \<Rightarrow> string \<times> string" where
  "row_key c = (co_run c, co_source c)"

definition row_open :: "lt_continuation \<Rightarrow> bool" where
  "row_open c = (co_state c \<in> {CO_Pending, CO_Claimed})"

definition turn_used :: "lt_store \<Rightarrow> string \<times> string \<Rightarrow> bool" where
  "turn_used db k = (k \<in> row_key ` set (ls_conts db) \<and> k \<notin> row_key ` set (filter row_open (ls_conts db)))"

definition lt_ok :: "lt_store \<Rightarrow> bool" where
  "lt_ok db = (distinct (map row_key (ls_conts db)) \<and> distinct (map lr_id (ls_runs db)) \<and> distinct (map (\<lambda>s. (se_run s, se_key s)) (ls_segments db)) \<and>
     list_all (sound_segment db) (ls_segments db) \<and> list_all (accounted (ls_segments db)) (ls_runs db))"

lemma empty_longtask_ok: "lt_ok empty_longtask"
  by (simp add: lt_ok_def empty_longtask_def)

lemma lt_okD:
  assumes "lt_ok db"
  shows "distinct (map lr_id (ls_runs db))" "distinct (map (\<lambda>s. (se_run s, se_key s)) (ls_segments db))"
    "s \<in> set (ls_segments db) \<Longrightarrow> sound_segment db s" "r \<in> set (ls_runs db) \<Longrightarrow> accounted (ls_segments db) r"
  using assms by (auto simp: lt_ok_def list_all_iff)

text \<open>Lists of segments: the sums after one more, and after one was settled.\<close>

lemma charged_append [simp]:
  "steps_charged i (ss @ [s]) = steps_charged i ss + (if se_run s = i then se_steps s else 0)"
  "time_charged i (ss @ [s]) = time_charged i ss + (if se_run s = i then charge s else 0)"
  "time_over i (ss @ [s]) = time_over i ss + (if se_run s = i then overrun s else 0)"
  by (simp_all add: steps_charged_def time_charged_def time_over_def segments_of_def)

lemma time_over_nonneg: "0 \<le> time_over i ss"
  unfolding time_over_def by (rule sum_list_nonneg) (auto simp: overrun_def)

lemma steps_charged_nonneg: "list_all (sound_segment db) ss \<Longrightarrow> 0 \<le> steps_charged i ss"
  unfolding steps_charged_def by (rule sum_list_nonneg) (auto simp: segments_of_def sound_segment_def list_all_iff)

lemma sum_list_swap:
  fixes g :: "'a \<Rightarrow> rat"
  assumes "distinct xs" and "s \<in> set xs" and "\<And>x. x \<in> set xs \<Longrightarrow> x \<noteq> s \<Longrightarrow> f x = x"
  shows "sum_list (map g (map f xs)) = sum_list (map g xs) + (g (f s) - g s)"
  using assms
proof (induction xs)
  case (Cons x xs)
  show ?case
  proof (cases "x = s")
    case True
    have "f y = y" if "y \<in> set xs" for y using Cons.prems True that by (metis distinct.simps(2) list.set_intros(2))
    then have e: "sum_list (map (\<lambda>x. g (f x)) xs) = sum_list (map g xs)" by (metis (no_types, lifting) map_eq_conv)
    show ?thesis by (simp add: True comp_def e)
  next
    case False
    then show ?thesis using Cons by simp
  qed
qed simp

lemma settle_row_keys [simp]: "se_run (settle_row i k u s) = se_run s" "se_key (settle_row i k u s) = se_key s"
    "se_steps (settle_row i k u s) = se_steps s" "se_bound (settle_row i k u s) = se_bound s"
  by (simp_all add: settle_row_def)

lemma segments_of_settle: "segments_of j (map (settle_row i k u) ss) = map (settle_row i k u) (segments_of j ss)"
  by (induction ss) (auto simp: segments_of_def)

lemma settle_other: "j \<noteq> i \<Longrightarrow> map (settle_row i k u) (segments_of j ss) = segments_of j ss"
  by (intro map_idI) (auto simp: segments_of_def settle_row_def)

lemma steps_settle [simp]: "steps_charged j (map (settle_row i k u) ss) = steps_charged j ss"
  by (simp add: steps_charged_def segments_of_settle comp_def)

lemma sums_settle:
  assumes d: "distinct (map (\<lambda>s. (se_run s, se_key s)) ss)" and s: "s \<in> set ss" "se_run s = i" "se_key s = k" "\<not> se_settled s"
  shows "time_charged i (map (settle_row i k u) ss) = time_charged i ss + (u - se_bound s)"
    and "time_over i (map (settle_row i k u) ss) = time_over i ss + max 0 (u - se_bound s)"
proof -
  have dist: "distinct (segments_of i ss)" using d by (simp add: segments_of_def distinct_map)
  have mem: "s \<in> set (segments_of i ss)" using s by (simp add: segments_of_def)
  have other: "settle_row i k u x = x" if "x \<in> set (segments_of i ss)" "x \<noteq> s" for x
  proof -
    have "(se_run x, se_key x) \<noteq> (se_run s, se_key s)"
      using d that s(1) by (auto simp: segments_of_def distinct_map inj_on_def)
    then show ?thesis using s by (auto simp: settle_row_def)
  qed
  have now: "charge (settle_row i k u s) = u" "overrun (settle_row i k u s) = max 0 (u - se_bound s)"
    "charge s = se_bound s" "overrun s = 0"
    using s by (simp_all add: charge_def overrun_def settle_row_def)
  show "time_charged i (map (settle_row i k u) ss) = time_charged i ss + (u - se_bound s)"
    unfolding time_charged_def segments_of_settle using sum_list_swap [OF dist mem other, of charge] now by simp
  show "time_over i (map (settle_row i k u) ss) = time_over i ss + max 0 (u - se_bound s)"
    unfolding time_over_def segments_of_settle using sum_list_swap [OF dist mem other, of overrun] now by simp
qed

subsection \<open>Rows by id\<close>

lemma lt_by_id_Some: "lt_by_id db i = Some r \<Longrightarrow> r \<in> set (ls_runs db) \<and> lr_id r = i"
  unfolding lt_by_id_def by (drule find_SomeD) simp

lemma find_distinct:
  "distinct (map key xs) \<Longrightarrow> x \<in> set xs \<Longrightarrow> List.find (\<lambda>y. key y = key x) xs = Some x"
  by (induction xs) auto

lemma lt_by_id_unique: "lt_ok db \<Longrightarrow> r \<in> set (ls_runs db) \<Longrightarrow> lt_by_id db (lr_id r) = Some r"
  unfolding lt_by_id_def by (rule find_distinct) (simp_all add: lt_okD)

lemma find_map_id:
  "(\<And>r. lr_id (g r) = lr_id r) \<Longrightarrow> List.find (\<lambda>r. lr_id r = i) (map g rs) = map_option g (List.find (\<lambda>r. lr_id r = i) rs)"
  by (induction rs) auto

lemma later_run_inv: "fold (later_run sid) rs acc = Some r \<Longrightarrow> acc = Some r \<or> r \<in> set rs \<and> lr_session r = sid"
proof (induction rs arbitrary: acc)
  case (Cons x rs)
  then have "later_run sid x acc = Some r \<or> r \<in> set rs \<and> lr_session r = sid" by simp
  then show ?case by (auto simp: later_run_def split: if_splits)
qed simp

lemma lt_of_session_Some: "lt_of_session db sid = Some r \<Longrightarrow> r \<in> set (ls_runs db) \<and> lr_session r = sid"
  unfolding lt_of_session_def using later_run_inv [of sid "ls_runs db" None r] by simp

lemma lt_commit_Inr: "lt_commit a db = Inr (b, db') \<Longrightarrow> b = a \<and> db' = db"
  by (simp add: lt_commit_def split: if_splits)

subsection \<open>Growth\<close>

definition row_grows :: "lt_run \<Rightarrow> lt_run \<Rightarrow> bool" where
  "row_grows r r' = (lr_id r' = lr_id r \<and> lr_session r' = lr_session r \<and>
     lr_stop r \<le> lr_stop r' \<and> lr_revision r \<le> lr_revision r' \<and> lr_lease_epoch r \<le> lr_lease_epoch r' \<and>
     bu_revision (lr_budget r) \<le> bu_revision (lr_budget r') \<and>
     (lr_lease_epoch r' = lr_lease_epoch r \<and> lr_lease r \<noteq> None \<longrightarrow> lr_lease r' = lr_lease r) \<and>
     (lr_stop r' = lr_stop r \<and> lr_state r \<in> set LT_TERMINAL \<longrightarrow> lr_state r' = lr_state r))"

lemma row_grows_refl [simp]: "row_grows r r"
  by (simp add: row_grows_def)

lemma row_grows_trans: "row_grows a b \<Longrightarrow> row_grows b c \<Longrightarrow> row_grows a c"
  unfolding row_grows_def by (smt (verit))

definition remembered :: "lt_store \<Rightarrow> string \<Rightarrow> string \<Rightarrow> lt_invocation option" where
  "remembered db sid i = List.find (\<lambda>x. iv_session x = sid \<and> iv_id x = i) (ls_invocations db)"

definition store_grows :: "lt_store \<Rightarrow> lt_store \<Rightarrow> bool" where
  "store_grows db db' =
     ((\<forall>i r. lt_by_id db i = Some r \<longrightarrow> (\<exists>r'. lt_by_id db' i = Some r' \<and> row_grows r r')) \<and>
      (\<forall>i k. find_segment db i k \<noteq> None \<longrightarrow> find_segment db' i k \<noteq> None) \<and>
      (\<forall>k. turn_used db k \<longrightarrow> turn_used db' k) \<and>
      (\<forall>sid i x. remembered db sid i = Some x \<longrightarrow> remembered db' sid i = Some x))"

lemma store_grows_refl [simp]: "store_grows db db"
  by (auto simp: store_grows_def)

lemma store_grows_trans: "store_grows a b \<Longrightarrow> store_grows b c \<Longrightarrow> store_grows a c"
  unfolding store_grows_def by (meson row_grows_trans)

definition evolves :: "lt_store \<Rightarrow> lt_store \<Rightarrow> bool" where
  "evolves db db' = (lt_ok db \<longrightarrow> lt_ok db' \<and> store_grows db db')"

lemma evolves_refl [simp]: "evolves db db"
  by (simp add: evolves_def)

lemma evolves_trans: "evolves a b \<Longrightarrow> evolves b c \<Longrightarrow> evolves a c"
  unfolding evolves_def using store_grows_trans by blast

subsection \<open>The primitive changes\<close>

text \<open>Tables the invariant does not read, and a new answer.\<close>

lemma evolves_inspections [simp]: "evolves db (db\<lparr>ls_inspections := xs\<rparr>)"
  by (auto simp: evolves_def store_grows_def lt_ok_def sound_segment_def lt_by_id_def find_segment_def remembered_def
      turn_used_def cong: list.pred_cong)

lemma evolves_conts:
  assumes "distinct (map row_key (ls_conts db)) \<Longrightarrow> distinct (map row_key cs)"
    and "\<And>k. turn_used db k \<Longrightarrow> turn_used (db\<lparr>ls_conts := cs\<rparr>) k"
  shows "evolves db (db\<lparr>ls_conts := cs\<rparr>)"
  using assms
  by (auto simp: evolves_def store_grows_def lt_ok_def sound_segment_def lt_by_id_def find_segment_def remembered_def
      cong: list.pred_cong)

lemma evolves_cont_map:
  assumes key: "\<And>c. row_key (f c) = row_key c" and closed: "\<And>c. row_open (f c) \<Longrightarrow> row_open c"
  shows "evolves db (db\<lparr>ls_conts := map f (ls_conts db)\<rparr>)"
proof (rule evolves_conts)
  have keys: "row_key \<circ> f = row_key" using key by (simp add: fun_eq_iff)
  show "distinct (map row_key (map f (ls_conts db)))" if "distinct (map row_key (ls_conts db))" using that keys by simp
  show "turn_used (db\<lparr>ls_conts := map f (ls_conts db)\<rparr>) k" if "turn_used db k" for k
  proof -
    have "row_key ` set (map f (ls_conts db)) = row_key ` set (ls_conts db)" by (simp add: image_image key)
    moreover have "row_key y \<in> row_key ` set (filter row_open (ls_conts db))" if y: "y \<in> set (filter row_open (map f (ls_conts db)))" for y
    proof -
      obtain c where "c \<in> set (ls_conts db)" "y = f c" "row_open y" using y by auto
      then show ?thesis using key closed by (intro image_eqI [of _ _ c]) auto
    qed
    ultimately show ?thesis using that unfolding turn_used_def by auto
  qed
qed

lemma evolves_cont_new:
  assumes "row_key c \<notin> row_key ` set (ls_conts db)"
  shows "evolves db (db\<lparr>ls_conts := ls_conts db @ [c]\<rparr>)"
  using assms by (intro evolves_conts) (auto simp: turn_used_def)

lemma evolves_remember [simp]: "evolves db (lt_remember sid i h r db)"
  by (auto simp: evolves_def store_grows_def lt_ok_def sound_segment_def lt_by_id_def find_segment_def remembered_def
      lt_remember_def find_append turn_used_def cong: list.pred_cong)

text \<open>Rows rewritten in place.\<close>

lemma evolves_rows:
  assumes id: "\<And>r. lr_id (g r) = lr_id r"
    and g: "\<And>r. lt_ok db \<Longrightarrow> r \<in> set (ls_runs db) \<Longrightarrow> row_grows r (g r) \<and> (accounted (ls_segments db) r \<longrightarrow> accounted (ls_segments db) (g r))"
  shows "evolves db (db\<lparr>ls_runs := map g (ls_runs db)\<rparr>)"
  unfolding evolves_def
proof
  assume ok: "lt_ok db"
  have ids: "lr_id \<circ> g = lr_id" using id by (simp add: fun_eq_iff)
  have "list_all (accounted (ls_segments db)) (map g (ls_runs db))"
    using g [OF ok] lt_okD(4) [OF ok] by (auto simp: list_all_iff)
  moreover have "sound_segment (db\<lparr>ls_runs := map g (ls_runs db)\<rparr>) s" if "sound_segment db s" for s
    using that id by (auto simp: sound_segment_def image_iff)
  ultimately have "lt_ok (db\<lparr>ls_runs := map g (ls_runs db)\<rparr>)"
    using ok ids by (auto simp: lt_ok_def list_all_iff)
  moreover have "store_grows db (db\<lparr>ls_runs := map g (ls_runs db)\<rparr>)"
    unfolding store_grows_def
  proof (intro conjI allI impI)
    fix i r assume r: "lt_by_id db i = Some r"
    have "lt_by_id (db\<lparr>ls_runs := map g (ls_runs db)\<rparr>) i = map_option g (lt_by_id db i)"
      by (simp add: lt_by_id_def find_map_id [OF id])
    then show "\<exists>r'. lt_by_id (db\<lparr>ls_runs := map g (ls_runs db)\<rparr>) i = Some r' \<and> row_grows r r'"
      using r g [OF ok] lt_by_id_Some [OF r] by simp
  qed (simp_all add: find_segment_def remembered_def turn_used_def)
  ultimately show "lt_ok (db\<lparr>ls_runs := map g (ls_runs db)\<rparr>) \<and> store_grows db (db\<lparr>ls_runs := map g (ls_runs db)\<rparr>)" ..
qed

lemma evolves_put:
  assumes id: "\<And>r. lr_id (f r) = lr_id r"
    and f: "\<And>r. lt_ok db \<Longrightarrow> lt_by_id db i = Some r \<Longrightarrow>
      row_grows r (f r) \<and> (accounted (ls_segments db) r \<longrightarrow> accounted (ls_segments db) (f r))"
  shows "evolves db (put_run i f db)"
  unfolding put_run_def
proof (rule evolves_rows)
  fix r assume "lt_ok db" "r \<in> set (ls_runs db)"
  then show "row_grows r (if lr_id r = i then f r else r) \<and>
      (accounted (ls_segments db) r \<longrightarrow> accounted (ls_segments db) (if lr_id r = i then f r else r))"
    using f [of r] lt_by_id_unique [of db r] by auto
qed (simp add: id)

text \<open>The budget untouched, the rest as \<open>row_grows\<close> asks.\<close>

lemma evolves_put_plain:
  assumes "\<And>r. lr_id (f r) = lr_id r" and "\<And>r. lr_budget (f r) = lr_budget r"
    and "\<And>r. lt_by_id db i = Some r \<Longrightarrow> row_grows r (f r)"
  shows "evolves db (put_run i f db)"
  using assms by (intro evolves_put) (auto simp: accounted_def)

lemma lt_by_id_put: "(\<And>r. lr_id (f r) = lr_id r) \<Longrightarrow> lt_by_id (put_run i f db) j =
    (if j = i then map_option f (lt_by_id db j) else lt_by_id db j)"
proof -
  assume id: "\<And>r. lr_id (f r) = lr_id r"
  have "lt_by_id (put_run i f db) j = map_option (\<lambda>r. if lr_id r = i then f r else r) (lt_by_id db j)"
    unfolding lt_by_id_def put_run_def by (simp add: find_map_id id)
  then show ?thesis using lt_by_id_Some [of db j] by (cases "lt_by_id db j") auto
qed

lemma answer_run_Inr: "answer_run i db = Inr (r, db') \<Longrightarrow> db' = db \<and> lt_by_id db i = Some r"
  by (auto simp: answer_run_def dest: lt_commit_Inr split: option.splits)

end
