(* ===== verification/Longtask_Steps.thy ===== *)
theory Longtask_Steps
  imports Longtask_Inv
begin

section \<open>Long tasks: every operation evolves the store\<close>

text \<open>
  The operations of the store and of the runtime, one lemma each: what they leave evolved from what they
  found. A refused operation leaves the tables, so only answers matter.
\<close>

subsection \<open>The store\<close>

lemma row_grows_barred: "row_grows r (barred s why r)"
  by (simp add: row_grows_def barred_def)

lemma evolves_bar: "evolves db (lt_bar s why i db)"
proof -
  have "evolves db (put_run i (barred s why) db)"
    by (intro evolves_put_plain) (simp_all add: row_grows_barred, simp_all add: barred_def)
  then show ?thesis unfolding lt_bar_def Let_def
    by (rule evolves_trans) (rule evolves_cont_map; simp add: cancel_open_def row_key_def row_open_def split: if_splits)
qed

lemma evolves_barrier: "lt_barrier sid s why db = Inr (a, db') \<Longrightarrow> evolves db db'"
  by (auto simp: lt_barrier_def Let_def evolves_bar dest!: lt_commit_Inr split: option.splits if_splits)

text \<open>A new run has an account of its own: no segment names it.\<close>

lemma parse_budget_fresh:
  assumes "parse_budget now b v = Inr bu"
  shows "bu_steps bu = 0" "bu_time bu = 0" "bu_reserve_steps bu = 1" "bu_reserve_ms bu = 1000" "0 < bu_time_limit bu"
    "1 \<le> bu_step_limit bu"
proof -
  have pos: "finite_integer j = Inr n \<Longrightarrow> 1 \<le> n" "finite_number j = Inr q \<Longrightarrow> 0 < q" for j n q
    by (cases j; simp split: if_splits)+
  show "bu_steps bu = 0" "bu_time bu = 0" "bu_reserve_steps bu = 1" "bu_reserve_ms bu = 1000" "0 < bu_time_limit bu"
    "1 \<le> bu_step_limit bu"
    using assms by (auto simp: parse_budget_def dest: pos split: json.splits)
qed

lemma evolves_new:
  assumes "i \<notin> lr_id ` set (ls_runs db)" and bu: "parse_budget t b v = Inr bu"
  shows "evolves db (db\<lparr>ls_runs := ls_runs db @ [new_run i now sid b p bu]\<rparr>)"
  unfolding evolves_def
proof
  let ?db = "db\<lparr>ls_runs := ls_runs db @ [new_run i now sid b p bu]\<rparr>"
  assume ok: "lt_ok db"
  have none: "segments_of i (ls_segments db) = []"
    using lt_okD(3) [OF ok] assms(1) by (auto simp: segments_of_def filter_empty_conv sound_segment_def)
  then have "accounted (ls_segments db) (new_run i now sid b p bu)"
    using parse_budget_fresh [OF bu]
    by (simp add: accounted_def new_run_def steps_charged_def time_charged_def)
  moreover have "sound_segment ?db s" if "sound_segment db s" for s
    using that by (auto simp: sound_segment_def)
  ultimately have "lt_ok ?db" using ok assms(1) by (auto simp: lt_ok_def list_all_iff new_run_def)
  moreover have "store_grows db ?db"
    by (auto simp: store_grows_def lt_by_id_def find_segment_def remembered_def turn_used_def find_append)
  ultimately show "lt_ok ?db \<and> store_grows db ?db" ..
qed

lemma evolves_enable: "lt_enable i now sid body b db = Inr (r, db') \<Longrightarrow> evolves db db'"
  by (auto simp: lt_enable_def evolves_new dest!: answer_run_Inr split: if_splits)

lemma evolves_disable: "lt_disable body r db = Inr (x, db') \<Longrightarrow> evolves db db'"
  by (auto simp: lt_disable_def evolves_bar dest!: answer_run_Inr)

lemma evolves_configure:
  assumes "lt_configure h i now sid body b db = Inr (r, db')"
  shows "evolves db db'"
proof -
  obtain call cached where c: "lt_retry h db sid (dict_get body ''invocationId'') = Inr (call, cached)"
    using assms by (auto simp: lt_configure_def)
  show ?thesis
  proof (cases cached)
    case None
    then obtain db1 where d: "evolves db db1" "db' = lt_remember sid call h r db1"
      using assms c by (auto simp: lt_configure_def dest: evolves_enable evolves_disable split: option.splits if_splits)
    then show ?thesis by (auto intro: evolves_trans)
  qed (use assms c in \<open>simp add: lt_configure_def\<close>)
qed

lemma evolves_repin:
  assumes "r \<in> set (ls_runs db)" and "lt_repin r b p db = Inr (x, db')"
  shows "evolves db db'"
proof -
  have "evolves db (put_run (lr_id r) (repinned r b p) db)"
  proof (intro evolves_put)
    fix y assume "lt_ok db" "lt_by_id db (lr_id r) = Some y"
    then have "y = r" using lt_by_id_unique [of db r] assms(1) by simp
    then show "row_grows y (repinned r b p y) \<and> (accounted (ls_segments db) y \<longrightarrow> accounted (ls_segments db) (repinned r b p y))"
      by (auto simp: row_grows_def repinned_def Let_def LT_TERMINAL_def accounted_def)
  qed (simp add: repinned_def Let_def)
  then show ?thesis using assms(2)
    by (auto simp: lt_repin_def Let_def intro: evolves_trans dest!: lt_commit_Inr split: option.splits)
qed

text \<open>Reopening or completing a run that is not closed.\<close>

lemma evolves_reopen:
  assumes "r \<in> set (ls_runs db)" and "lr_state r \<notin> set LT_TERMINAL"
  shows "evolves db (put_run (lr_id r) (\<lambda>x. x\<lparr>lr_state := s, lr_blocked := why, lr_revision := lr_revision x + 1\<rparr>) db)"
proof (intro evolves_put)
  fix y assume "lt_ok db" "lt_by_id db (lr_id r) = Some y"
  then have "y = r" using lt_by_id_unique [of db r] assms(1) by simp
  then show "row_grows y (y\<lparr>lr_state := s, lr_blocked := why, lr_revision := lr_revision y + 1\<rparr>) \<and>
      (accounted (ls_segments db) y \<longrightarrow> accounted (ls_segments db) (y\<lparr>lr_state := s, lr_blocked := why, lr_revision := lr_revision y + 1\<rparr>))"
    using assms(2) by (simp add: row_grows_def accounted_def)
qed simp

lemma put_run_inspections: "put_run i f (db\<lparr>ls_inspections := xs\<rparr>) = (put_run i f db)\<lparr>ls_inspections := xs\<rparr>"
  by (simp add: put_run_def)

lemma evolves_inspect:
  assumes "r \<in> set (ls_runs db)" and "lt_inspect ss evs accept call acc body r db = Inr db'"
  shows "evolves db db'"
proof -
  have open_run: "lr_state r \<notin> set LT_TERMINAL"
    using assms(2) by (auto simp: lt_inspect_def INSPECTABLE_def LT_TERMINAL_def)
  have "evolves db (put_run (lr_id r) (\<lambda>x. x\<lparr>lr_state := (if accept then LT_Completed else LT_Ready), lr_blocked := None,
      lr_revision := lr_revision x + 1\<rparr>) db)" (is "evolves db ?db")
    using evolves_reopen [OF assms(1) open_run, where s = "if accept then LT_Completed else LT_Ready" and why = None] by simp
  moreover obtain xs where "db' = ?db\<lparr>ls_inspections := xs\<rparr>"
    using assms(2) by (auto simp: lt_inspect_def Let_def put_run_inspections split: option.splits if_splits)
  ultimately show ?thesis by (auto intro: evolves_trans)
qed

lemma evolves_act:
  assumes "r \<in> set (ls_runs db)" and "lt_act ss evs call acc body r db = Inr db'"
  shows "evolves db db'"
  using assms evolves_inspect [OF assms(1)]
  by (auto simp: lt_act_def Let_def lt_resume_def evolves_bar evolves_reopen split: if_splits)

lemma evolves_action:
  assumes "lt_action ss evs h sid body acc db = Inr (r, db')"
  shows "evolves db db'"
proof -
  obtain call cached where c: "lt_retry h db sid (dict_get body ''invocationId'') = Inr (call, cached)"
    using assms by (auto simp: lt_action_def)
  show ?thesis
  proof (cases cached)
    case None
    then obtain r0 db1 where "lt_of_session db sid = Some r0" "lt_act ss evs call acc body r0 db = Inr db1"
        "db' = lt_remember sid call h r db1"
      using assms c by (auto simp: lt_action_def dest!: lt_commit_Inr split: option.splits)
    then show ?thesis using evolves_act [of r0 db ss evs call acc body db1] lt_of_session_Some [of db sid r0]
        evolves_trans [OF _ evolves_remember] by blast
  qed (use assms c in \<open>simp add: lt_action_def\<close>)
qed

lemma evolves_transition: "lt_transition old s why check progress db = Inr (r, db') \<Longrightarrow> evolves db db'"
  by (auto simp: lt_transition_def dest!: answer_run_Inr split: option.splits if_splits
      intro!: evolves_put_plain simp: row_grows_def)

lemma evolves_claim: "lt_claim old runner t db = Inr (r, db') \<Longrightarrow> evolves db db'"
  by (auto simp: lt_claim_def dest!: answer_run_Inr split: option.splits
      intro!: evolves_put_plain simp: row_grows_def)

subsection \<open>Segments\<close>

lemma find_segment_Some: "find_segment db i k = Some s \<Longrightarrow> s \<in> set (ls_segments db) \<and> se_run s = i \<and> se_key s = k"
  unfolding find_segment_def by (drule find_SomeD) simp

lemma find_segment_None: "find_segment db i k = None \<Longrightarrow> (i, k) \<notin> (\<lambda>s. (se_run s, se_key s)) ` set (ls_segments db)"
  unfolding find_segment_def by (auto simp: find_None_set)

lemma sound_segment_rows: "lr_id ` set (ls_runs db') = lr_id ` set (ls_runs db) \<Longrightarrow> sound_segment db' = sound_segment db"
  by (simp add: sound_segment_def fun_eq_iff)

lemma put_run_ids: "(\<And>r. lr_id (f r) = lr_id r) \<Longrightarrow> map lr_id (ls_runs (put_run i f db)) = map lr_id (ls_runs db)"
  by (simp add: put_run_def comp_def if_distrib cong: if_cong)

lemma put_run_id_set: "(\<And>r. lr_id (f r) = lr_id r) \<Longrightarrow> lr_id ` set (ls_runs (put_run i f db)) = lr_id ` set (ls_runs db)"
  using put_run_ids [of f i db] by (metis image_set)

text \<open>Both writes to the segment table: the rows of the run and the segments change together.\<close>

lemma evolves_segments:
  assumes id: "\<And>r. lr_id (f r) = lr_id r" and grow: "\<And>r. lt_by_id db i = Some r \<Longrightarrow> row_grows r (f r)"
    and keys: "\<And>a k. find_segment db a k \<noteq> None \<Longrightarrow> List.find (\<lambda>s. se_run s = a \<and> se_key s = k) ss \<noteq> None"
    and ok: "lt_ok db \<Longrightarrow> distinct (map (\<lambda>s. (se_run s, se_key s)) ss) \<and> list_all (sound_segment db) ss \<and>
        (\<forall>r. lt_by_id db i = Some r \<longrightarrow> accounted ss (f r)) \<and>
        (\<forall>r \<in> set (ls_runs db). lr_id r \<noteq> i \<longrightarrow> accounted ss r)"
  shows "evolves db ((put_run i f db)\<lparr>ls_segments := ss\<rparr>)"
  unfolding evolves_def
proof
  let ?db = "(put_run i f db)\<lparr>ls_segments := ss\<rparr>"
  assume db: "lt_ok db"
  have acc: "accounted ss r" if "r \<in> set (ls_runs (put_run i f db))" for r
  proof -
    from that have "r \<in> (\<lambda>x. if lr_id x = i then f x else x) ` set (ls_runs db)" by (simp add: put_run_def)
    then obtain x where x: "r = (if lr_id x = i then f x else x)" "x \<in> set (ls_runs db)" by (rule imageE)
    then show ?thesis using ok [OF db] lt_by_id_unique [OF db x(2)] by (cases "lr_id x = i") auto
  qed
  have "sound_segment ?db = sound_segment db" by (rule sound_segment_rows) (simp add: put_run_id_set id)
  then have "lt_ok ?db" using ok [OF db] acc db by (simp add: lt_ok_def put_run_ids id list_all_iff) (simp add: put_run_def)
  moreover have "store_grows db ?db"
    unfolding store_grows_def
  proof (intro conjI allI impI)
    fix j r assume r: "lt_by_id db j = Some r"
    have "lt_by_id ?db j = lt_by_id (put_run i f db) j" by (simp add: lt_by_id_def)
    then show "\<exists>r'. lt_by_id ?db j = Some r' \<and> row_grows r r'" using r grow by (auto simp: lt_by_id_put id)
  next
    fix a k assume "find_segment db a k \<noteq> None"
    then show "find_segment ?db a k \<noteq> None" using keys by (simp add: find_segment_def)
  next
    fix k assume "turn_used db k"
    then show "turn_used ?db k" by (simp add: turn_used_def put_run_def)
  next
    fix sid j x assume "remembered db sid j = Some x"
    then show "remembered ?db sid j = Some x" by (simp add: remembered_def put_run_def)
  qed
  ultimately show "lt_ok ?db \<and> store_grows db ?db" ..
qed

lemma admit_account:
  assumes ok: "lt_ok db" and now: "lt_by_id db i = Some r" and w: "within_budget (lr_budget r) n b" and s: "se_run s = i"
    "se_steps s = n" "se_bound s = b" "\<not> se_settled s"
  shows "accounted (ls_segments db @ [s]) (spend n b r)"
proof -
  have "accounted (ls_segments db) r" "lr_id r = i" using lt_okD(4) [OF ok] lt_by_id_Some [OF now] by auto
  moreover have "charge s = b" "overrun s = 0" using s by (simp_all add: charge_def overrun_def)
  moreover have "0 \<le> time_over i (ls_segments db)" by (rule time_over_nonneg)
  ultimately show ?thesis using w s by (simp add: accounted_def spend_def within_budget_def Let_def)
qed

lemma account_other: "se_run s \<noteq> lr_id r \<Longrightarrow> accounted (ss @ [s]) r = accounted ss r"
  by (simp add: accounted_def segments_of_def Let_def)

lemma evolves_reserve:
  assumes "lt_reserve old key n b manual clock db = Inr (k, db')" and "0 \<le> n"
  shows "evolves db db'"
proof -
  let ?s = "\<lparr>se_run = lr_id old, se_key = key, se_steps = n, se_bound = b, se_used = None, se_settled = False, se_stop = lr_stop old\<rparr>"
  obtain now where now: "lt_by_id db (lr_id old) = Some now" "find_segment db (lr_id old) key = None" "0 < b"
      "within_budget (lr_budget now) n b" "lr_state now \<in> set (ADMISSIBLE manual)"
      "db' = (put_run (lr_id old) (spend n b) db)\<lparr>ls_segments := ls_segments db @ [?s]\<rparr>"
    using assms(1) by (auto simp: lt_reserve_def admit_segment_def dest!: lt_commit_Inr split: option.splits if_splits)
  have grow: "row_grows now (spend n b now)"
    using now(5) by (auto simp: row_grows_def spend_def ADMISSIBLE_def LT_TERMINAL_def split: if_splits)
  show ?thesis unfolding now(6)
  proof (intro evolves_segments)
    assume ok: "lt_ok db"
    have "lr_id old \<in> lr_id ` set (ls_runs db)" using lt_by_id_Some [OF now(1)] by (metis imageI)
    then show "distinct (map (\<lambda>s. (se_run s, se_key s)) (ls_segments db @ [?s])) \<and>
        list_all (sound_segment db) (ls_segments db @ [?s]) \<and>
        (\<forall>r. lt_by_id db (lr_id old) = Some r \<longrightarrow> accounted (ls_segments db @ [?s]) (spend n b r)) \<and>
        (\<forall>r \<in> set (ls_runs db). lr_id r \<noteq> lr_id old \<longrightarrow> accounted (ls_segments db @ [?s]) r)"
      using ok now(1,3,4) assms(2) find_segment_None [OF now(2)] admit_account [OF ok now(1,4), of ?s] lt_okD(4) [OF ok]
      by (auto simp: lt_ok_def sound_segment_def account_other)
  qed (use now(1) grow in \<open>auto simp: find_segment_def find_append split: option.splits\<close>, simp_all add: spend_def)
qed

lemma find_settled:
  "List.find (\<lambda>s. se_run s = a \<and> se_key s = k) (map (settle_row i j u) ss) =
   map_option (settle_row i j u) (List.find (\<lambda>s. se_run s = a \<and> se_key s = k) ss)"
  by (induction ss) auto

lemma sums_settle_other:
  "j \<noteq> i \<Longrightarrow> time_charged j (map (settle_row i k u) ss) = time_charged j ss"
  "j \<noteq> i \<Longrightarrow> time_over j (map (settle_row i k u) ss) = time_over j ss"
  by (simp_all add: time_charged_def time_over_def segments_of_settle settle_other del: map_map)

lemma settle_accounts:
  assumes ok: "lt_ok db" and s: "find_segment db i k = Some s" "\<not> se_settled s"
  shows "accounted (ls_segments db) r \<Longrightarrow> lr_id r = i \<Longrightarrow>
      accounted (map (settle_row i k u) (ls_segments db)) (r\<lparr>lr_budget := (lr_budget r)\<lparr>bu_time := bu_time (lr_budget r) + (u - se_bound s)\<rparr>\<rparr>)"
    and "accounted (ls_segments db) r \<Longrightarrow> lr_id r \<noteq> i \<Longrightarrow> accounted (map (settle_row i k u) (ls_segments db)) r"
proof -
  have m: "s \<in> set (ls_segments db)" "se_run s = i" "se_key s = k" using find_segment_Some [OF s(1)] by auto
  note sums = sums_settle [OF lt_okD(2) [OF ok] m s(2), of u]
  have empty: "segments_of j (map (settle_row i k u) (ls_segments db)) = [] \<longleftrightarrow> segments_of j (ls_segments db) = []" for j
    by (simp add: segments_of_settle)
  show "accounted (map (settle_row i k u) (ls_segments db)) (r\<lparr>lr_budget := (lr_budget r)\<lparr>bu_time := bu_time (lr_budget r) + (u - se_bound s)\<rparr>\<rparr>)"
    if "accounted (ls_segments db) r" "lr_id r = i"
    using that by (auto simp: accounted_def Let_def sums empty)
  show "accounted (map (settle_row i k u) (ls_segments db)) r" if "accounted (ls_segments db) r" "lr_id r \<noteq> i"
    using that by (auto simp: accounted_def Let_def empty sums_settle_other)
qed

lemma sound_settled: "sound_segment db (settle_row i k u s) = sound_segment db s"
  by (simp add: sound_segment_def)

lemma evolves_settle:
  assumes "lt_settle old key ms db = Inr (a, db')"
  shows "evolves db db'"
proof (cases "find_segment db (lr_id old) key")
  case None
  then show ?thesis using assms by (simp add: lt_settle_def)
next
  case (Some s)
  show ?thesis
  proof (cases "se_settled s")
    case True
    then show ?thesis using assms Some by (simp add: lt_settle_def)
  next
    case False
    let ?f = "\<lambda>r. r\<lparr>lr_budget := (lr_budget r)\<lparr>bu_time := bu_time (lr_budget r) + (max 0 ms - se_bound s)\<rparr>\<rparr>"
    have db': "db' = (put_run (lr_id old) ?f db)\<lparr>ls_segments := map (settle_row (lr_id old) key (max 0 ms)) (ls_segments db)\<rparr>"
      using assms Some False by (auto simp: lt_settle_def Let_def dest!: lt_commit_Inr split: if_splits)
    show ?thesis unfolding db'
    proof (intro evolves_segments)
      assume ok: "lt_ok db"
      have keys: "map (\<lambda>s. (se_run s, se_key s)) (map (settle_row (lr_id old) key (max 0 ms)) (ls_segments db)) =
          map (\<lambda>s. (se_run s, se_key s)) (ls_segments db)" by simp
      show "distinct (map (\<lambda>s. (se_run s, se_key s)) (map (settle_row (lr_id old) key (max 0 ms)) (ls_segments db))) \<and>
          list_all (sound_segment db) (map (settle_row (lr_id old) key (max 0 ms)) (ls_segments db)) \<and>
          (\<forall>r. lt_by_id db (lr_id old) = Some r \<longrightarrow> accounted (map (settle_row (lr_id old) key (max 0 ms)) (ls_segments db)) (?f r)) \<and>
          (\<forall>r \<in> set (ls_runs db). lr_id r \<noteq> lr_id old \<longrightarrow> accounted (map (settle_row (lr_id old) key (max 0 ms)) (ls_segments db)) r)"
      proof (intro conjI allI ballI impI)
        show "distinct (map (\<lambda>s. (se_run s, se_key s)) (map (settle_row (lr_id old) key (max 0 ms)) (ls_segments db)))"
          unfolding keys by (rule lt_okD(2) [OF ok])
        show "list_all (sound_segment db) (map (settle_row (lr_id old) key (max 0 ms)) (ls_segments db))"
          using lt_okD(3) [OF ok] by (simp add: list_all_iff sound_settled)
        show "accounted (map (settle_row (lr_id old) key (max 0 ms)) (ls_segments db)) (?f r)"
          if "lt_by_id db (lr_id old) = Some r" for r
          using settle_accounts(1) [OF ok Some False] lt_okD(4) [OF ok] lt_by_id_Some [OF that] by blast
        show "accounted (map (settle_row (lr_id old) key (max 0 ms)) (ls_segments db)) r"
          if "r \<in> set (ls_runs db)" "lr_id r \<noteq> lr_id old" for r
          using settle_accounts(2) [OF ok Some False] lt_okD(4) [OF ok] that by blast
      qed
    qed (auto simp: row_grows_def find_segment_def find_settled)
  qed
qed

subsection \<open>The outbox, restarts and the budget card\<close>

lemma evolves_queue: "lt_queue old source db = Inr (a, db') \<Longrightarrow> evolves db db'"
  by (auto simp: lt_queue_def row_key_def list_ex_iff split: option.splits if_splits intro!: evolves_cont_new)

lemma evolves_recover: "evolves db (lt_recover db)"
proof -
  have "evolves db (db\<lparr>ls_runs := map recover_run (ls_runs db)\<rparr>)"
    by (rule evolves_rows) (auto simp: recover_run_def row_grows_def accounted_def LT_TERMINAL_def)
  moreover have "evolves d (d\<lparr>ls_conts := map recover_continuation (ls_conts d)\<rparr>)" for d
    by (rule evolves_cont_map)
       (auto simp: recover_continuation_def row_key_def row_open_def split: continuation_state.splits)
  from this [of "db\<lparr>ls_runs := map recover_run (ls_runs db)\<rparr>"]
  have "evolves (db\<lparr>ls_runs := map recover_run (ls_runs db)\<rparr>)
      ((db\<lparr>ls_runs := map recover_run (ls_runs db)\<rparr>)\<lparr>ls_conts := map recover_continuation (ls_conts db)\<rparr>)" by simp
  moreover have "lt_recover db = (db\<lparr>ls_runs := map recover_run (ls_runs db)\<rparr>)\<lparr>ls_conts := map recover_continuation (ls_conts db)\<rparr>"
    by (cases db) (simp add: lt_recover_def)
  ultimately show ?thesis by (auto intro: evolves_trans)
qed

lemma extend_account:
  assumes "lt_ok db" and "accounted (ls_segments db) r"
  shows "accounted (ls_segments db) (extend_budget r)"
proof -
  have "0 \<le> steps_charged (lr_id r) (ls_segments db)"
    using assms(1) by (intro steps_charged_nonneg) (auto simp: lt_ok_def)
  then show ?thesis using assms(2) by (auto simp: accounted_def extend_budget_def Let_def)
qed

lemma evolves_budget_effect:
  assumes "lt_budget_effect i shown yes db = Inr db'"
  shows "evolves db db'"
proof -
  obtain r where r: "lt_by_id db i = Some r" using assms by (auto simp: lt_budget_effect_def split: option.splits)
  show ?thesis
  proof (cases "lr_state r \<in> set LT_TERMINAL")
    case True
    then show ?thesis using assms r by (auto simp: lt_budget_effect_def split: if_splits)
  next
    case False
    then have "db' = put_run i (if yes then extend_budget else (\<lambda>x. x\<lparr>lr_state := LT_Paused, lr_revision := lr_revision x + 1\<rparr>)) db"
      using assms r by (auto simp: lt_budget_effect_def split: if_splits)
    moreover have "evolves db (put_run i extend_budget db)"
      using False r by (intro evolves_put) (auto simp: extend_account, auto simp: extend_budget_def row_grows_def)
    moreover have "evolves db (put_run i (\<lambda>x. x\<lparr>lr_state := LT_Paused, lr_revision := lr_revision x + 1\<rparr>) db)"
      using False r by (intro evolves_put_plain) (auto simp: row_grows_def)
    ultimately show ?thesis by simp
  qed
qed

end
