(* ===== verification/Longtask_Runs.thy ===== *)
theory Longtask_Runs
  imports Longtask_Steps
begin

section \<open>Long tasks: runs of the runtime\<close>

text \<open>
  The operations of the runtime as events (\<open>lt_event\<close>), each with what the other services answer at that
  moment, in the order they happen. The contract of an event is the locale \<open>growing_system\<close>: it keeps the
  invariant and the store only grows. It is interpreted for the step of the runtime, so it holds along
  every run.
\<close>

subsection \<open>Systems whose state only grows\<close>

text \<open>
  The contract every event is held to: it keeps the invariant, and the state after it has grown from the
  state before. Both then hold of every run.
\<close>

locale growing_system =
  fixes step :: "'e \<Rightarrow> 's \<Rightarrow> 's" and ok :: "'s \<Rightarrow> bool" and grows :: "'s \<Rightarrow> 's \<Rightarrow> bool"
  assumes step_ok: "ok s \<Longrightarrow> ok (step e s)"
    and step_grows: "ok s \<Longrightarrow> grows s (step e s)"
    and grows_refl: "grows s s"
    and grows_trans: "grows a b \<Longrightarrow> grows b c \<Longrightarrow> grows a c"
begin

lemma run_ok: "ok s \<Longrightarrow> ok (run step es s)"
  by (rule run_invariant) (auto intro: step_ok)

lemma run_grows: "ok s \<Longrightarrow> grows s (run step es s)"
proof (induction es arbitrary: s)
  case (Cons e es)
  then show ?case using grows_trans [OF step_grows Cons.IH] step_ok by simp
qed (simp add: grows_refl)

lemma later_grows: "ok s \<Longrightarrow> grows (run step es s) (run step (es @ es') s)"
  unfolding run_append by (intro run_grows run_ok)

end

subsection \<open>The gates evolve the store\<close>

definition moves :: "lt_runtime \<Rightarrow> lt_runtime \<Rightarrow> bool" where
  "moves st st' = evolves (rt_db st) (rt_db st')"

lemma moves_refl [simp]: "moves st st"
  by (simp add: moves_def)

lemma moves_trans: "moves a b \<Longrightarrow> moves b c \<Longrightarrow> moves a c"
  unfolding moves_def by (rule evolves_trans)

lemma moves_snap [simp]: "moves st (snap sid r st')= moves st st'"
  by (simp add: moves_def snap_def)

text \<open>What a call leaves, and a call followed by another.\<close>

definition leaves :: "lt_runtime \<Rightarrow> 'a lt_call \<Rightarrow> bool" where
  "leaves st c = moves st (snd c)"

lemma leaves_pair [simp]: "leaves st (x, st') = moves st st'"
  by (simp add: leaves_def)

lemma leaves_then:
  assumes "leaves st c" and "\<And>a st1. c = (a, st1) \<Longrightarrow> leaves st1 (k a st1)"
  shows "leaves st (case c of (a, st1) \<Rightarrow> k a st1)"
  using assms by (cases c) (auto simp: leaves_def intro: moves_trans)

lemma leaves_with_db:
  assumes "\<And>a db. res = Inr (a, db) \<Longrightarrow> evolves (rt_db st) db"
  shows "leaves st (with_db res st)"
  using assms by (auto simp: with_db_def leaves_def moves_def split: sum.splits)

lemma leaves_if: "(b \<Longrightarrow> leaves st x) \<Longrightarrow> (\<not> b \<Longrightarrow> leaves st y) \<Longrightarrow> leaves st (if b then x else y)"
  by simp

lemma root_run_mem: "root_run w sid db = Some r \<Longrightarrow> r \<in> set (ls_runs db)"
  by (auto simp: root_run_def dest: lt_of_session_Some split: option.splits if_splits)

lemma gate_binding_leaves: "r \<in> set (ls_runs (rt_db st)) \<Longrightarrow> leaves st (gate_binding w auto r st)"
  by (auto simp: gate_binding_def intro!: leaves_with_db evolves_repin split: option.splits)

lemma gate_leaves: "r \<in> set (ls_runs (rt_db st)) \<Longrightarrow> leaves st (lt_gate w sid snapped auto fl r st)"
  unfolding lt_gate_def
  by (auto split: option.splits sum.splits intro!: leaves_then gate_binding_leaves simp: Let_def)

lemma snapped_gate_leaves: "r \<in> set (ls_runs (rt_db st)) \<Longrightarrow>
    leaves st (lt_gate w sid True auto fl r (if b then snap sid r st else st))"
  using gate_leaves [of r "snap sid r st"] gate_leaves [of r st] by (auto simp: leaves_def moves_def snap_def)

lemma check_leaves: "leaves st (lt_check w sid s auto fl st)"
proof (cases s)
  case None
  then show ?thesis using root_run_mem by (auto simp: lt_check_def intro: gate_leaves split: option.splits)
next
  case (Some x)
  show ?thesis
  proof (cases "lt_by_id (rt_db st) (lr_id x)")
    case found: (Some r)
    have "r \<in> set (ls_runs (rt_db st))" using lt_by_id_Some [OF found] by simp
    then show ?thesis using Some found snapped_gate_leaves by (simp add: lt_check_def)
  qed (simp add: lt_check_def Some)
qed

text \<open>The store operations as the runtime calls them.\<close>

lemma store_leaves:
  "leaves st (with_db (lt_transition r s why c p (rt_db st)) st)"
  "leaves st (with_db (lt_queue r source (rt_db st)) st)"
  "leaves st (with_db (lt_claim r runner t (rt_db st)) st)"
  "0 \<le> n \<Longrightarrow> leaves st (with_db (lt_reserve r key n b m clock (rt_db st)) st)"
  "leaves st (with_db (lt_barrier sid s' why' (rt_db st)) st)"
  by (rule leaves_with_db, erule evolves_transition evolves_queue evolves_claim evolves_reserve evolves_barrier, assumption?)+

lemma block_moves: "moves st (lt_block w sid e st)"
  using store_leaves(1) by (auto simp: lt_block_def leaves_def split: option.splits)

lemma park_moves: "moves st (lt_park_failed w sid st)"
  by (auto simp: lt_park_failed_def block_moves split: option.splits)

lemma admit_call_leaves:
  assumes "0 \<le> n"
  shows "leaves st (lt_admit_call w sid key n b auto fl clock st)"
  unfolding lt_admit_call_def
  by (intro leaves_then check_leaves)
     (auto split: sum.splits option.splits intro!: leaves_then store_leaves(4) [OF assms] simp: block_moves)

lemma settle_call_moves: "moves st (lt_settle_call r key ms st)"
  using leaves_with_db [of "lt_settle r key ms (rt_db st)" st] evolves_settle
  by (auto simp: lt_settle_call_def leaves_def)

lemma continue_leaves: "leaves st (continue_run w source r st)"
  unfolding continue_run_def
  by (auto split: sum.splits intro!: leaves_then store_leaves)

lemma end_turn_leaves: "leaves st (end_turn w source p s r st)"
proof -
  obtain s' why pg where "turn_end r s p = (s', why, pg)" by (cases "turn_end r s p")
  then show ?thesis
    by (auto simp: end_turn_def split: sum.splits intro!: leaves_then store_leaves continue_leaves)
qed

lemma finish_leaves: "leaves st (lt_finish w sid prop source st)"
  unfolding lt_finish_def
  by (intro leaves_then check_leaves)
     (auto split: sum.splits option.splits intro: end_turn_leaves simp: block_moves)

lemma start_leaves: "leaves st (lt_start w sid auto runner t st)"
  unfolding lt_start_def
  by (intro leaves_if leaves_then check_leaves)
     (auto split: sum.splits option.splits intro!: leaves_then store_leaves simp: block_moves)

lemma evolves_admit_row: "moves st (st\<lparr>rt_db := admit_row c (rt_db st)\<rparr>)"
proof -
  let ?f = "\<lambda>x. if co_run x = co_run c \<and> co_source x = co_source c \<and> co_state x = CO_Pending \<and>
      admissible_row (rt_db st) x then x\<lparr>co_state := CO_Admitted\<rparr> else x"
  have "evolves (rt_db st) ((rt_db st)\<lparr>ls_conts := map ?f (ls_conts (rt_db st))\<rparr>)"
    by (rule evolves_cont_map) (auto simp: row_key_def row_open_def split: if_splits)
  then show ?thesis by (simp add: moves_def admit_row_def)
qed

lemma call_pump_leaves: "leaves st (call_pump w sid c runner t st)"
proof -
  have "leaves st1 (lt_start w sid True runner t (st1\<lparr>rt_db := admit_row c (rt_db st1)\<rparr>))" for st1
    using start_leaves [of "st1\<lparr>rt_db := admit_row c (rt_db st1)\<rparr>" w sid True runner t] evolves_admit_row [of st1 c]
    by (auto simp: leaves_def intro: moves_trans)
  then show ?thesis unfolding call_pump_def
    by (intro leaves_then check_leaves) (auto split: sum.splits option.splits intro!: leaves_then)
qed

lemma pump_row_leaves: "leaves st (pump_row w runner t c st)"
  unfolding pump_row_def Let_def
  by (auto split: option.splits sum.splits
      intro!: leaves_if leaves_then call_pump_leaves store_leaves simp: block_moves)

lemma pump_rows_leaves: "leaves st (pump_rows w runner t cs st)"
proof (induction cs arbitrary: w st)
  case (Cons c cs)
  show ?case unfolding pump_rows.simps
    by (intro leaves_then pump_row_leaves)
       (auto split: sum.splits intro!: leaves_then Cons.IH)
qed simp

lemma resume_interrupted_leaves: "leaves st (resume_interrupted w p r st)"
  unfolding resume_interrupted_def
  by (intro leaves_then check_leaves)
     (auto split: sum.splits option.splits bool.splits
       intro!: leaves_then store_leaves)

lemma recover_one_leaves: "leaves st (recover_one w p r st)"
  unfolding recover_one_def
  by (intro leaves_if leaves_then store_leaves resume_interrupted_leaves)
     (auto split: sum.splits simp: block_moves)

lemma recover_rows_leaves: "leaves st (recover_rows w p is st)"
proof (induction "is" arbitrary: st)
  case (Cons i "is")
  have "leaves st (case recover_one w (p r) r st of
      (a, st') \<Rightarrow> (case a of Inl e \<Rightarrow> (Inl e, st') | Inr _ \<Rightarrow> recover_rows w p is st'))" for r
    by (intro leaves_then recover_one_leaves) (auto split: sum.splits intro: Cons.IH)
  then show ?case by (auto split: option.splits)
qed simp

lemma recover_all_leaves: "leaves st (recover_all w p st)"
proof -
  have "moves st (st\<lparr>rt_db := lt_recover (rt_db st)\<rparr>)" by (simp add: moves_def evolves_recover)
  then show ?thesis unfolding recover_all_def Let_def
    using recover_rows_leaves unfolding leaves_def by (rule moves_trans)
qed

subsection \<open>Events\<close>

text \<open>
  \<open>LV_Call\<close> admits a model call (one step) or a tool
  call (none), \<open>LV_Settle\<close> ends it.
\<close>

datatype lt_event =
    LV_Configure string string rat string bool "(string \<times> json) list" "lt_binding option"
  | LV_Action "(string \<times> string option) list" "event_row list" string string "(string \<times> json) list" "(string \<times> json) list"
  | LV_Barrier string lt_state string
  | LV_Start lt_env string bool string rat
  | LV_Call lt_env string string bool rat bool "(string \<times> int) option" rat
  | LV_Settle lt_run string rat
  | LV_Finish lt_env string "proposal option" string
  | LV_Failed lt_env string
  | LV_Pump lt_env string rat
  | LV_Card string int bool
  | LV_Restart lt_env "lt_run \<Rightarrow> bool option"

definition store_event :: "('a \<times> lt_store) lt_outcome \<Rightarrow> lt_runtime \<Rightarrow> lt_runtime" where
  "store_event res st = snd (with_db res st)"

fun lt_step :: "lt_event \<Rightarrow> lt_runtime \<Rightarrow> lt_runtime" where
  "lt_step (LV_Configure h i now sid child body hook) st = store_event (lt_setup h i now sid child body hook (rt_db st)) st"
| "lt_step (LV_Action ss evs h sid body acc) st = store_event (lt_action ss evs h sid body acc (rt_db st)) st"
| "lt_step (LV_Barrier sid s why) st = store_event (lt_barrier sid s why (rt_db st)) st"
| "lt_step (LV_Start w sid auto runner t) st = snd (lt_start w sid auto runner t st)"
| "lt_step (LV_Call w sid key model b auto fl clock) st =
     snd (lt_admit_call w sid key (if model then 1 else 0) b auto fl clock st)"
| "lt_step (LV_Settle r key ms) st = lt_settle_call r key ms st"
| "lt_step (LV_Finish w sid prop source) st = snd (lt_finish w sid prop source st)"
| "lt_step (LV_Failed w sid) st = lt_park_failed w sid st"
| "lt_step (LV_Pump w runner t) st = snd (lt_pump w runner t st)"
| "lt_step (LV_Card i shown yes) st =
     (case lt_budget_effect i shown yes (rt_db st) of Inl _ \<Rightarrow> st | Inr db \<Rightarrow> st\<lparr>rt_db := db\<rparr>)"
| "lt_step (LV_Restart w p) st = snd (recover_all w p (st\<lparr>rt_snaps := []\<rparr>))"

lemma store_event_moves: "(\<And>a db. res = Inr (a, db) \<Longrightarrow> evolves (rt_db st) db) \<Longrightarrow> moves st (store_event res st)"
  using leaves_with_db [of res st] by (simp add: store_event_def leaves_def)

lemma evolves_setup: "lt_setup h i now sid child body hook db = Inr (r, db') \<Longrightarrow> evolves db db'"
  using lt_of_session_Some [of db sid]
  by (auto simp: lt_setup_def setup_first_def dest: evolves_configure split: option.splits if_splits intro: evolves_repin)

lemma card_moves: "moves st (lt_step (LV_Card i shown yes) st)"
  by (auto simp: moves_def evolves_budget_effect split: sum.splits)

lemma lt_step_moves: "moves st (lt_step e st)"
proof (cases e)
  case (LV_Configure h i now sid child body hook)
  then show ?thesis by (auto intro!: store_event_moves intro: evolves_setup)
next
  case (LV_Action ss evs h sid body acc)
  then show ?thesis by (auto intro!: store_event_moves intro: evolves_action)
next
  case (LV_Barrier sid s why)
  then show ?thesis by (auto intro!: store_event_moves intro: evolves_barrier)
next
  case (LV_Call w sid key model b auto fl clock)
  have "leaves st (lt_admit_call w sid key (if model then 1 else 0) b auto fl clock st)" by (rule admit_call_leaves) simp
  then show ?thesis using LV_Call by (simp add: leaves_def)
next
  case (LV_Restart w p)
  have "moves st (st\<lparr>rt_snaps := []\<rparr>)" by (simp add: moves_def)
  then show ?thesis using LV_Restart recover_all_leaves unfolding leaves_def by (auto intro: moves_trans)
qed (use card_moves start_leaves finish_leaves pump_rows_leaves settle_call_moves park_moves
      in \<open>simp_all add: leaves_def lt_pump_def\<close>)

interpretation lt: growing_system lt_step "\<lambda>st. lt_ok (rt_db st)" "\<lambda>st st'. store_grows (rt_db st) (rt_db st')"
  using lt_step_moves store_grows_trans by unfold_locales (auto simp: moves_def evolves_def)

text \<open>Along every run.\<close>

lemmas run_evolves = lt.run_ok lt.run_grows

end
