(* ===== verification/Decision_Cards.thy ===== *)
theory Decision_Cards
  imports Decision_Store Longtask_Runs
begin

section \<open>Decision cards: asking, answering, stopping\<close>

text \<open>
  The part of \<open>agent_core/runtime.py\<close> around the cards (\<open>decision_binding\<close>, \<open>current_decision_binding\<close>,
  \<open>hydrate_decisions\<close>, \<open>settle\<close>, \<open>resolve_decision\<close>, the head of \<open>stop\<close>) and the budget card of
  \<open>agent_core/longtask_runtime.py\<close>, on the rows of the store and the runs of the long tasks. The memory of
  pending records is read back from the store before every use, so a record is its row; \<open>ce_forgot\<close> are the
  settled ones dropped from that memory. The plan ledger, work feedback and interviews are other stores:
  whether recording a plan decision raises and what a plan's verification says are fields of \<open>card_env\<close>.
\<close>

record card_binding =
  cb_call :: "string option"
  cb_args :: string
  cb_step :: int
  cb_pin :: "(string \<times> int \<times> int \<times> int \<times> int \<times> string) option"
  cb_plan :: "(string \<times> string \<times> string) option"

record card_env =
  ce_lt :: lt_env
  ce_plan :: "string \<Rightarrow> lt_error option"
  ce_verify :: "string \<Rightarrow> string \<Rightarrow> string"
  ce_forgot :: "string \<Rightarrow> bool"

type_synonym decision_card = "card_binding card_row"

record desk =
  dk_cards :: "decision_card list"
  dk_rt :: lt_runtime

type_synonym 'a desk_call = "(lt_error, 'a) card_result \<times> desk"

subsection \<open>Bindings\<close>

text \<open>What of the run a card is pinned to: goal, contract with its revision, capabilities and the stop epoch.\<close>

definition pin_of :: "lt_run \<Rightarrow> string \<times> int \<times> int \<times> int \<times> int \<times> string" where
  "pin_of r = (lr_id r, lr_goal r, (case bn_contract_revision (lr_binding r) of None \<Rightarrow> lr_goal r | Some v \<Rightarrow> v),
     lr_capability r, lr_stop r, lr_contract r)"

definition decision_binding :: "card_env \<Rightarrow> string \<Rightarrow> string option \<Rightarrow> string \<Rightarrow> int \<Rightarrow> (string \<times> string) option
    \<Rightarrow> lt_store \<Rightarrow> card_binding" where
  "decision_binding e sid call args step plan db =
     \<lparr>cb_call = call, cb_args = args, cb_step = step, cb_pin = map_option pin_of (root_run (ce_lt e) sid db),
      cb_plan = map_option (\<lambda>(i, v). (i, v, ce_verify e i v)) plan\<rparr>"

definition current_binding :: "card_env \<Rightarrow> string \<Rightarrow> card_binding \<Rightarrow> lt_store \<Rightarrow> card_binding option" where
  "current_binding e sid b db =
     (let b' = b\<lparr>cb_plan := map_option (\<lambda>(i, v, _). (i, v, ce_verify e i v)) (cb_plan b)\<rparr>
      in case cb_pin b of
        None \<Rightarrow> Some b'
      | Some _ \<Rightarrow>
          (case root_run (ce_lt e) sid db of
             None \<Rightarrow> None
           | Some r \<Rightarrow> Some (b'\<lparr>cb_pin := Some (pin_of r)\<rparr>)))"

subsection \<open>The budget card\<close>

text \<open>The id is a digest of run and budget revision.\<close>

definition budget_card_id :: "lt_run \<Rightarrow> string" where
  "budget_card_id r = lr_id r @ '':budget:'' @ int_str (bu_revision (lr_budget r))"

definition BUDGET_OPTIONS :: json where
  "BUDGET_OPTIONS = JList
     [JObj [(''id'', JStr ''extend''), (''label'', JStr ''Add the same finite budget''), (''kind'', JStr ''approve'')],
      JObj [(''id'', JStr ''reject''), (''label'', JStr ''Keep checkpoint paused''), (''kind'', JStr ''reject'')]]"

text \<open>The offered amounts and the used budget are shown to the owner; the effect reads them from the run.\<close>

definition budget_record :: "lt_run \<Rightarrow> (string \<times> json) list" where
  "budget_record r =
     [(''decisionId'', JStr (budget_card_id r)), (''sessionId'', JStr (lr_session r)), (''kind'', JStr ''budget''),
      (''options'', BUDGET_OPTIONS), (''deadline'', JNull), (''defaultChoice'', JStr ''reject''),
      (''resolved'', JBool False), (''outcome'', JNull), (''toolCallId'', JNull),
      (''budgetRevision'', JInt (bu_revision (lr_budget r))), (''runId'', JStr (lr_id r))]"

definition budget_card :: "card_env \<Rightarrow> string \<Rightarrow> int \<Rightarrow> rat \<Rightarrow> lt_run \<Rightarrow> desk \<Rightarrow> unit desk_call" where
  "budget_card e args step now r d =
     (if ds_get (lr_session r) (budget_card_id r) (dk_cards d) \<noteq> None then (Inr (), d)
      else case ds_request (lr_session r) (budget_card_id r) ''budget'' None (budget_record r)
          [(''question'', JStr ''Task budget exhausted. Add steps/time without changing scope?'')]
          (decision_binding e (lr_session r) None args step None (rt_db (dk_rt d))) now (dk_cards d) of
        Inl er \<Rightarrow> (Inl er, d)
      | Inr (_, cs) \<Rightarrow> (Inr (), d\<lparr>dk_cards := cs\<rparr>))"

text \<open>\<open>block\<close> with its card: the run is parked, and one that ran out of budget gets the card.\<close>

definition block_desk :: "card_env \<Rightarrow> string \<Rightarrow> int \<Rightarrow> rat \<Rightarrow> string \<Rightarrow> lt_error \<Rightarrow> desk \<Rightarrow> unit desk_call" where
  "block_desk e args step now sid er d =
     (case root_run (ce_lt e) sid (rt_db (dk_rt d)) of
        None \<Rightarrow> (Inr (), d)
      | Some r \<Rightarrow>
          if lr_state r \<in> {LT_Cancelled, LT_Paused} \<or> er = LE_Pending_Decision \<and> lr_state r = LT_Budget_Exhausted
          then (Inr (), d)
          else (case lt_transition r (parked_state er) (Some (lt_code er)) (Some (le_checkpoint (ce_lt e))) None (rt_db (dk_rt d)) of
              Inl x \<Rightarrow> (Inl (DE_Effect x), d)
            | Inr (r', db) \<Rightarrow>
                (let d' = d\<lparr>dk_rt := (dk_rt d)\<lparr>rt_db := db\<rparr>\<rparr>
                 in if parked_state er = LT_Budget_Exhausted then budget_card e args step now r' d' else (Inr (), d'))))"

subsection \<open>Settling\<close>

definition card_options :: "decision_card \<Rightarrow> (string \<times> json) list list" where
  "card_options c = (case dict_get (dc_request c) ''options'' of
     JList os \<Rightarrow> map (\<lambda>v. case v of JObj d \<Rightarrow> d | _ \<Rightarrow> []) os | _ \<Rightarrow> [])"

definition find_option :: "decision_card \<Rightarrow> string \<Rightarrow> (string \<times> json) list option" where
  "find_option c choice = List.find (\<lambda>d. dict_get d ''id'' = JStr choice) (card_options c)"

definition card_effect :: "card_env \<Rightarrow> decision_card \<Rightarrow> string \<Rightarrow> lt_store \<Rightarrow> lt_store lt_outcome" where
  "card_effect e c choice db =
     (case ce_plan e (dc_id c) of
        Some er \<Rightarrow> Inl er
      | None \<Rightarrow>
          if dc_kind c \<noteq> ''budget'' then Inr db
          else (case (dict_get (dc_request c) ''runId'', dict_get (dc_request c) ''budgetRevision'') of
              (JStr i, JInt v) \<Rightarrow>
                if find_option c choice = None then Inl LE_Crash else lt_budget_effect i v (choice = ''extend'') db
            | _ \<Rightarrow> Inl LE_Crash))"

definition status_name :: "card_status \<Rightarrow> string" where
  "status_name s = (case s of CS_Pending \<Rightarrow> ''pending'' | CS_Approved \<Rightarrow> ''approved'' | CS_Answered \<Rightarrow> ''answered''
     | CS_Rejected \<Rightarrow> ''rejected'' | CS_Expired \<Rightarrow> ''expired'' | CS_Cancelled \<Rightarrow> ''cancelled'')"

definition outcome_doc :: "string \<Rightarrow> string \<Rightarrow> card_status \<Rightarrow> string \<Rightarrow> string option \<Rightarrow> json" where
  "outcome_doc did choice s reason note = JObj
     [(''decision'', JStr (if s \<in> {CS_Approved, CS_Answered} then status_name s else ''rejected'')), (''choice'', JStr choice),
      (''status'', JStr (status_name s)), (''reason'', JStr reason),
      (''note'', case note of None \<Rightarrow> JNull | Some t \<Rightarrow> JStr t), (''decisionId'', JStr did)]"

text \<open>How an answer is retried: its invocation, the digest of its payload, the reply to remember.\<close>

record answer_key =
  ak_invocation :: "string option"
  ak_hash :: string
  ak_reply :: "json option"
  ak_expected :: json

definition no_key :: answer_key where
  "no_key = \<lparr>ak_invocation = None, ak_hash = [], ak_reply = None, ak_expected = JNull\<rparr>"

definition card_settle :: "card_env \<Rightarrow> rat \<Rightarrow> string \<Rightarrow> card_status \<Rightarrow> string \<Rightarrow> string option \<Rightarrow> answer_key \<Rightarrow> decision_card
    \<Rightarrow> desk \<Rightarrow> bool desk_call" where
  "card_settle e now choice s reason note k c d =
     (if dc_status c \<noteq> CS_Pending then (Inr False, d)
      else (let current = current_binding e (dc_session c) (dc_binding c) (rt_db (dk_rt d))
        in if reason = ''user'' \<and> current = None then (Inl DE_Stale, d)
           else case ds_settle (dc_session c) (dc_id c)
               \<lparr>oc_status = s, oc_by_user = (reason = ''user''), oc_doc = outcome_doc (dc_id c) choice s reason note\<rparr>
               (ak_invocation k) (ak_hash k) (ak_reply k) (ak_expected k) (if reason = ''user'' then current else None)
               (card_effect e c choice) now (dk_cards d, rt_db (dk_rt d)) of
             Inl er \<Rightarrow> (Inl er, d)
           | Inr (_, cs, db) \<Rightarrow> (Inr True, \<lparr>dk_cards = cs, dk_rt = (dk_rt d)\<lparr>rt_db := db\<rparr>\<rparr>)))"

definition default_choice :: "decision_card \<Rightarrow> string" where
  "default_choice c = (case dict_get (dc_request c) ''defaultChoice'' of JStr s \<Rightarrow> s | _ \<Rightarrow> [])"

text \<open>
  \<open>hydrate_decisions\<close>: every card of the session in the order of the pages; a pending one past its deadline
  expires. Settling changes no id, so the walk is taken first.
\<close>

definition overdue :: "rat \<Rightarrow> decision_card \<Rightarrow> bool" where
  "overdue now c = (dc_status c = CS_Pending \<and> (case dc_deadline c of None \<Rightarrow> False | Some t \<Rightarrow> t \<le> now))"

definition expire_card :: "card_env \<Rightarrow> rat \<Rightarrow> string \<Rightarrow> string \<Rightarrow> desk \<Rightarrow> unit desk_call" where
  "expire_card e now sid did d =
     (case ds_find sid did (dk_cards d) of
        None \<Rightarrow> (Inr (), d)
      | Some c \<Rightarrow>
          if \<not> overdue now c then (Inr (), d)
          else (case card_settle e now (default_choice c) CS_Expired ''timeout'' None no_key c d of
              (Inl er, d') \<Rightarrow> (Inl er, d') | (Inr _, d') \<Rightarrow> (Inr (), d')))"

definition cancel_card :: "card_env \<Rightarrow> rat \<Rightarrow> string \<Rightarrow> string \<Rightarrow> desk \<Rightarrow> unit desk_call" where
  "cancel_card e now sid did d =
     (case ds_find sid did (dk_cards d) of
        None \<Rightarrow> (Inr (), d)
      | Some c \<Rightarrow>
          (case card_settle e now (default_choice c) CS_Cancelled ''session_cancelled'' None no_key c d of
             (Inl er, d') \<Rightarrow> (Inl er, d') | (Inr _, d') \<Rightarrow> (Inr (), d')))"

fun each_card :: "(string \<Rightarrow> desk \<Rightarrow> unit desk_call) \<Rightarrow> string list \<Rightarrow> desk \<Rightarrow> unit desk_call" where
  "each_card f [] d = (Inr (), d)"
| "each_card f (i # is) d = (case f i d of (Inl er, d') \<Rightarrow> (Inl er, d') | (Inr _, d') \<Rightarrow> each_card f is d')"

definition hydrate :: "card_env \<Rightarrow> rat \<Rightarrow> string \<Rightarrow> desk \<Rightarrow> unit desk_call" where
  "hydrate e now sid d = each_card (expire_card e now sid) (map cv_id (walk sid 100 None (dk_cards d))) d"

subsection \<open>Answering\<close>

definition NOTE_MAX :: nat where "NOTE_MAX = 2000"

text \<open>The checks on an answer to a card that is there: the status it settles the card with.\<close>

definition answer_status :: "decision_card \<Rightarrow> string \<Rightarrow> string \<Rightarrow> (lt_error, card_status) card_result" where
  "answer_status c choice written =
     (if dc_status c \<noteq> CS_Pending then Inl DE_Resolved
      else case find_option c choice of
        None \<Rightarrow> Inl DE_Invalid
      | Some o' \<Rightarrow>
          let free = (dict_get o' ''allowFreeText'' = JBool True)
          in require (\<not> (free \<and> written = [])) DE_Note_Required
               (require (length written \<le> NOTE_MAX) DE_Note_Too_Long
                 (Inr (if free then CS_Answered
                       else if dict_get o' ''kind'' \<in> {JStr ''approve'', JStr ''alternative''} then CS_Approved else CS_Rejected))))"

definition reply_doc :: "string \<Rightarrow> string \<Rightarrow> card_status \<Rightarrow> int option \<Rightarrow> json" where
  "reply_doc did choice s nr = JObj ([(''status'', JStr ''resolved''), (''decisionId'', JStr did), (''choice'', JStr choice),
     (''outcome'', JStr (status_name s))] @ (case nr of None \<Rightarrow> [] | Some n \<Rightarrow> [(''revision'', JInt n)]))"

text \<open>\<open>known_card\<close>: \<open>pending.get\<close>, which has forgotten the oldest settled records.\<close>

definition known_card :: "card_env \<Rightarrow> string \<Rightarrow> string \<Rightarrow> desk \<Rightarrow> decision_card option" where
  "known_card e sid did d = (case ds_find sid did (dk_cards d) of
     None \<Rightarrow> None | Some c \<Rightarrow> if dc_status c \<noteq> CS_Pending \<and> ce_forgot e did then None else Some c)"

definition answer_known :: "card_env \<Rightarrow> rat \<Rightarrow> string \<Rightarrow> string \<Rightarrow> json \<Rightarrow> json \<Rightarrow> string option \<Rightarrow> string \<Rightarrow> json \<Rightarrow> desk
    \<Rightarrow> json desk_call" where
  "answer_known e now sid did choice note ik h expected d =
     (case (choice, note) of
        (JStr ch, n) \<Rightarrow>
          if did = [] \<or> ch = [] \<or> \<not> (case n of JNull \<Rightarrow> True | JStr _ \<Rightarrow> True | _ \<Rightarrow> False) then (Inl DE_Invalid, d)
          else (case known_card e sid did d of
              None \<Rightarrow> (Inl DE_Not_Found, d)
            | Some c \<Rightarrow>
                let written = strip (case n of JStr t \<Rightarrow> t | _ \<Rightarrow> [])
                in case answer_status c ch written of
                  Inl er \<Rightarrow> (Inl er, d)
                | Inr s \<Rightarrow>
                    let reply = reply_doc did ch s (if ik \<noteq> None \<or> expected \<noteq> JNull then Some (dc_revision c + 1) else None);
                        k = \<lparr>ak_invocation = ik, ak_hash = h, ak_reply = Some reply, ak_expected = expected\<rparr>
                    in case card_settle e now ch s ''user'' (if written = [] then None else Some written) k c d of
                      (Inl er, d') \<Rightarrow> (Inl er, d') | (Inr _, d') \<Rightarrow> (Inr reply, d'))
      | _ \<Rightarrow> (Inl DE_Invalid, d))"

definition elsewhere :: "card_env \<Rightarrow> string \<Rightarrow> string \<Rightarrow> desk \<Rightarrow> bool" where
  "elsewhere e sid did d = (starts_with ''wr-'' did \<or>
     (case known_card e sid did d of None \<Rightarrow> False | Some c \<Rightarrow> dc_kind c = ''interview''))"

definition answer_card :: "card_env \<Rightarrow> rat \<Rightarrow> string \<Rightarrow> string \<Rightarrow> json \<Rightarrow> json \<Rightarrow> string option \<Rightarrow> string \<Rightarrow> json \<Rightarrow> desk
    \<Rightarrow> json desk_call" where
  "answer_card e now sid did choice note ik h expected d =
     (case ds_retry sid did ik h (dk_cards d) of
        Inl er \<Rightarrow> (Inl er, d)
      | Inr (Some r) \<Rightarrow> (Inr r, d)
      | Inr None \<Rightarrow>
          (case hydrate e now sid d of
             (Inl er, d1) \<Rightarrow> (Inl er, d1)
           | (Inr _, d1) \<Rightarrow>
               if elsewhere e sid did d1 then (Inl DE_Elsewhere, d1)
               else answer_known e now sid did choice note ik h expected d1))"

subsection \<open>Stopping\<close>

text \<open>
  The head of \<open>stop\<close>: the barrier, then every pending card is cancelled with its default choice. When one
  raises, the rest of \<open>stop\<close> is not reached. Jobs, research, the work graph and the children are stopped in
  between by their own services.
\<close>

definition pending_ids :: "string \<Rightarrow> desk \<Rightarrow> string list" where
  "pending_ids sid d = map dc_id (filter (\<lambda>c. dc_session c = sid \<and> dc_status c = CS_Pending) (dk_cards d))"

definition stop_session :: "card_env \<Rightarrow> rat \<Rightarrow> string \<Rightarrow> desk \<Rightarrow> unit desk_call" where
  "stop_session e now sid d =
     (case lt_barrier sid LT_Paused ''OWNER_STOP'' (rt_db (dk_rt d)) of
        Inl er \<Rightarrow> (Inl (DE_Effect er), d)
      | Inr (_, db) \<Rightarrow>
          (case hydrate e now sid (d\<lparr>dk_rt := (dk_rt d)\<lparr>rt_db := db\<rparr>\<rparr>) of
             (Inl er, d1) \<Rightarrow> (Inl er, d1)
           | (Inr _, d1) \<Rightarrow> each_card (cancel_card e now sid) (pending_ids sid d1) d1))"

end
