(* ===== verification/Longtask_Props.thy ===== *)
theory Longtask_Props
  imports Longtask_Runs
begin

section \<open>Long tasks: properties\<close>

text \<open>
  What holds of the long-task tables along every sequence of the runtime's operations: the account of a
  run, the receipts of its segments, the fence a stop puts up, the queue of turns, the owner's repeated
  calls. The samples at the end are short concrete histories.
\<close>

definition no_tasks :: lt_runtime where
  "no_tasks = \<lparr>rt_db = empty_longtask, rt_snaps = []\<rparr>"

definition after :: "lt_event list \<Rightarrow> lt_runtime" where
  "after es = run lt_step es no_tasks"

lemma after_ok: "lt_ok (rt_db (after es))"
  unfolding after_def by (rule lt.run_ok) (simp add: no_tasks_def empty_longtask_ok)

lemma after_append: "after (es @ es') = run lt_step es' (after es)"
  by (simp add: after_def run_append)

lemma after_grows: "store_grows (rt_db (after es)) (rt_db (after (es @ es')))"
  unfolding after_def by (rule lt.later_grows) (simp add: no_tasks_def empty_longtask_ok)

lemma after_row:
  assumes "lt_by_id (rt_db (after es)) i = Some r"
  shows "\<exists>r'. lt_by_id (rt_db (after (es @ es'))) i = Some r' \<and> row_grows r r'"
  using after_grows [of es es'] assms by (simp add: store_grows_def)

lemma after_segment:
  "find_segment (rt_db (after es)) i k \<noteq> None \<Longrightarrow> find_segment (rt_db (after (es @ es'))) i k \<noteq> None"
  using after_grows [of es es'] by (simp add: store_grows_def)

lemma after_remembered:
  "remembered (rt_db (after es)) sid i = Some x \<Longrightarrow> remembered (rt_db (after (es @ es'))) sid i = Some x"
  using after_grows [of es es'] by (simp add: store_grows_def)

subsection \<open>A small history\<close>

definition sample_binding :: lt_binding where
  "sample_binding = \<lparr>bn_project = ''p'', bn_goal = 1, bn_contract_revision = Some 1, bn_contract = ''c'', bn_event = ''e'',
     bn_capability = 1, bn_allocation = None, bn_work = None, bn_plan = None\<rparr>"

definition sample_env :: lt_env where
  "sample_env = \<lparr>le_enabled = True, le_root = (\<lambda>s. s), le_authority = Some lr_binding, le_pending = (\<lambda>_. False),
     le_interrupted = (\<lambda>_. []), le_live = (\<lambda>_. False), le_sessions = [(''s'', None)], le_events = [],
     le_checkpoint = JInt 7, le_controller = False\<rparr>"

definition sample_body :: "(string \<times> json) list" where
  "sample_body = [(''invocationId'', JStr ''i1''), (''enabled'', JBool True), (''resumePolicy'', JStr ''safe_auto''),
     (''goalRevision'', JInt 1), (''budget'', JObj [(''totalStepLimit'', JInt 10), (''activeTimeLimitMs'', JInt 60000)])]"

definition sample_start :: "lt_event list" where
  "sample_start = [LV_Configure ''h'' ''lt-1'' 5 ''s'' False sample_body (Some sample_binding), LV_Start sample_env ''s'' False ''runner'' 100,
     LV_Call sample_env ''s'' ''model-1'' True 5000 False None 6]"

text \<open>The run as it was configured.\<close>

definition sample_old :: lt_run where
  "sample_old = new_run ''lt-1'' 5 ''s'' sample_binding Safe_Auto \<lparr>bu_revision = 1, bu_event = ''e'', bu_step_limit = 10,
     bu_steps = 0, bu_time_limit = 60000, bu_time = 0, bu_started = 5, bu_deadline = None, bu_reserve_steps = 1,
     bu_reserve_ms = 1000, bu_allocation = None\<rparr>"

subsection \<open>The account\<close>

text \<open>
  C12. Whatever the order of operations, a run was charged exactly what its segments say: the steps of each, and
  the time each used once it is settled and its whole bound until then. The steps never pass the limit less the
  step kept for a checkpoint, and the time passes its limit by no more than what settled segments ran over
  the bound they were admitted with.
\<close>
theorem longtask_budget_accounted:
  "lt_by_id (rt_db (after es)) i = Some r \<Longrightarrow>
     let b = lr_budget r; segs = filter (\<lambda>s. se_run s = i) (ls_segments (rt_db (after es)))
     in bu_steps b = sum_list (map se_steps segs) \<and> bu_time b = sum_list (map charge segs) \<and>
        bu_steps b + 1 \<le> bu_step_limit b \<and> bu_time b \<le> bu_time_limit b + sum_list (map overrun segs)"
  using lt_okD(4) [OF after_ok, of r es] lt_by_id_Some [of "rt_db (after es)" i r]
  by (auto simp: accounted_def Let_def steps_charged_def time_charged_def time_over_def segments_of_def)

theorem longtask_budget_accounted_witness:
  "\<exists>r. lt_by_id (rt_db (after sample_start)) ''lt-1'' = Some r \<and> bu_steps (lr_budget r) = 1 \<and>
     bu_time (lr_budget r) = sum_list (map charge (filter (\<lambda>s. se_run s = ''lt-1'') (ls_segments (rt_db (after sample_start)))))"
proof -
  have "map_option (bu_steps \<circ> lr_budget) (lt_by_id (rt_db (after sample_start)) ''lt-1'') = Some 1" by code_simp
  then obtain r where "lt_by_id (rt_db (after sample_start)) ''lt-1'' = Some r" "bu_steps (lr_budget r) = 1" by auto
  then show ?thesis using longtask_budget_accounted [of sample_start "''lt-1''" r] by (simp add: Let_def)
qed

text \<open>
  C20. A call key is admitted once: after it was, no later state admits it again, whoever asks and whatever
  happened in between, restarts included.
\<close>
theorem segment_admitted_once:
  "find_segment (rt_db (after es)) (lr_id old) key \<noteq> None \<Longrightarrow> 0 < bound \<Longrightarrow>
     lt_reserve old key n bound manual clock (rt_db (after (es @ es'))) = Inl LE_Segment_Replay"
  using after_segment [of es "lr_id old" key es'] by (auto simp: lt_reserve_def require_def)

theorem segment_admitted_once_witness:
  "lt_reserve sample_old ''model-1'' 1 5000 True 6
     (rt_db (after (sample_start @ [LV_Restart sample_env (\<lambda>_. None)]))) = Inl LE_Segment_Replay"
proof -
  have "find_segment (rt_db (after sample_start)) ''lt-1'' ''model-1'' \<noteq> None" by code_simp
  then show ?thesis
    using segment_admitted_once [of sample_start sample_old "''model-1''" 5000]
    by (simp add: sample_old_def new_run_def)
qed

text \<open>
  C17. An offer of more budget is taken at most once: the limits are doubled by a card only for the budget revision
  it was made for, and once they were, the card is stale for ever, whatever is answered to it again.
\<close>
theorem budget_offer_taken_once:
  assumes "lt_budget_effect i shown True (rt_db (after es)) = Inr db"
    and "lt_by_id (rt_db (after es)) i = Some r" and "lr_state r \<notin> set LT_TERMINAL"
  shows "lt_budget_effect i shown yes (rt_db (after (es @ LV_Card i shown True # es'))) = Inl LE_Decision_Stale"
proof -
  have r: "bu_revision (lr_budget r) = shown" "db = put_run i extend_budget (rt_db (after es))"
    using assms by (auto simp: lt_budget_effect_def split: if_splits)
  have "rt_db (after (es @ [LV_Card i shown True])) = db" using assms(1) by (simp add: after_append)
  then have "lt_by_id (rt_db (after (es @ [LV_Card i shown True]))) i = Some (extend_budget r)"
    using assms(2) r(2) by (simp add: lt_by_id_put extend_budget_def)
  from after_row [OF this, of es'] obtain r' where
      r': "lt_by_id (rt_db (after (es @ LV_Card i shown True # es'))) i = Some r'" "row_grows (extend_budget r) r'" by auto
  then have "shown < bu_revision (lr_budget r')" using r(1) by (simp add: row_grows_def extend_budget_def)
  then show ?thesis using r'(1) by (simp add: lt_budget_effect_def)
qed

definition sample_spent :: "lt_event list" where
  "sample_spent = sample_start @ [LV_Settle (snd (hd (rt_snaps (after sample_start)))) ''model-1'' 58000,
     LV_Call sample_env ''s'' ''model-2'' True 5000 False None 7]"

theorem budget_offer_taken_once_witness:
  "lt_budget_effect ''lt-1'' 1 False (rt_db (after (sample_spent @ LV_Card ''lt-1'' 1 True # [LV_Restart sample_env (\<lambda>_. None)])))
     = Inl LE_Decision_Stale"
proof -
  have c: "(case lt_by_id (rt_db (after sample_spent)) ''lt-1'' of None \<Rightarrow> False | Some r \<Rightarrow> lr_state r = LT_Budget_Exhausted)"
    "is_ok (lt_budget_effect ''lt-1'' 1 True (rt_db (after sample_spent)))" by code_simp+
  obtain r where r: "lt_by_id (rt_db (after sample_spent)) ''lt-1'' = Some r" "lr_state r = LT_Budget_Exhausted"
    using c(1) by (auto split: option.splits)
  obtain db where "lt_budget_effect ''lt-1'' 1 True (rt_db (after sample_spent)) = Inr db"
    using c(2) by (cases "lt_budget_effect ''lt-1'' 1 True (rt_db (after sample_spent))") auto
  from budget_offer_taken_once [OF this r(1)] r(2) show ?thesis by (simp add: LT_TERMINAL_def)
qed

subsection \<open>The fence\<close>

text \<open>
  C14. What was read of a run before it was stopped is fenced off for good: from the stop on, a turn that
  still holds it passes no gate, admits no call, claims no lease and queues no turn, and the state it would
  record is dropped without a trace.
\<close>
theorem stopped_turn_is_fenced:
  assumes "lt_by_id (rt_db (after es)) (lr_id old) = Some now" and "lr_stop old < lr_stop now"
  shows "lt_check w sid (Some old) auto flight (after (es @ es')) = (Inl LE_Stale, after (es @ es')) \<and>
    \<not> is_ok (lt_reserve old key n bound manual clock (rt_db (after (es @ es')))) \<and>
    \<not> is_ok (lt_claim old runner t (rt_db (after (es @ es')))) \<and>
    \<not> is_ok (lt_queue old source (rt_db (after (es @ es')))) \<and>
    (\<exists>r. lt_transition old s why check pg (rt_db (after (es @ es'))) = Inr (r, rt_db (after (es @ es'))))"
proof -
  obtain r where r: "lt_by_id (rt_db (after (es @ es'))) (lr_id old) = Some r" "row_grows now r"
    using after_row [OF assms(1)] by blast
  then have "lr_stop r \<noteq> lr_stop old" "lr_stop old \<noteq> lr_stop r" using assms(2) by (auto simp: row_grows_def)
  then show ?thesis using r(1)
    by (simp add: lt_check_def stale_snapshot_def lt_reserve_def lt_claim_def lt_queue_def lt_transition_def require_def)
qed

definition sample_stop :: "lt_event list" where
  "sample_stop = sample_start @ [LV_Barrier ''s'' LT_Paused ''OWNER_STOP'']"

theorem stopped_turn_is_fenced_witness:
  "\<exists>old. lt_by_id (rt_db (after sample_start)) ''lt-1'' = Some old \<and>
     \<not> is_ok (lt_reserve old ''model-2'' 1 5000 True 7 (rt_db (after sample_stop)))"
proof -
  have "map_option lr_stop (lt_by_id (rt_db (after sample_start)) ''lt-1'') = Some 0"
    and "map_option lr_stop (lt_by_id (rt_db (after sample_stop)) ''lt-1'') = Some 1" by code_simp+
  then obtain old now where o: "lt_by_id (rt_db (after sample_start)) ''lt-1'' = Some old" "lr_stop old = 0"
      and n: "lt_by_id (rt_db (after sample_stop)) ''lt-1'' = Some now" "lr_stop now = 1" by auto
  have "lr_id old = ''lt-1''" using lt_by_id_Some [OF o(1)] by simp
  then show ?thesis using o n stopped_turn_is_fenced [of sample_stop old now, where es' = "[]" and key = "''model-2''" and n = 1
      and bound = 5000 and manual = True and clock = 7] by (intro exI [of _ old]) simp
qed

text \<open>
  The row of a run only moves forward: revision, stop epoch and lease epoch never decrease, a lease epoch
  that has a holder keeps it, and a closed run keeps its state as long as its stop epoch stands.
\<close>
theorem longtask_row_moves_forward:
  "lt_by_id (rt_db (after es)) i = Some r \<Longrightarrow>
     \<exists>r'. lt_by_id (rt_db (after (es @ es'))) i = Some r' \<and> lr_session r' = lr_session r \<and>
       lr_revision r \<le> lr_revision r' \<and> lr_stop r \<le> lr_stop r' \<and> lr_lease_epoch r \<le> lr_lease_epoch r' \<and>
       (lr_lease_epoch r' = lr_lease_epoch r \<and> lr_lease r \<noteq> None \<longrightarrow> lr_lease r' = lr_lease r) \<and>
       (lr_stop r' = lr_stop r \<and> lr_state r \<in> set LT_TERMINAL \<longrightarrow> lr_state r' = lr_state r)"
  using after_row [of es i r es'] by (auto simp: row_grows_def)

theorem longtask_row_moves_forward_witness:
  "\<exists>r r'. lt_by_id (rt_db (after sample_start)) ''lt-1'' = Some r \<and>
     lt_by_id (rt_db (after (sample_start @ [LV_Settle r ''model-1'' 4000]))) ''lt-1'' = Some r' \<and>
     lr_lease_epoch r \<le> lr_lease_epoch r'"
proof -
  have "lt_by_id (rt_db (after sample_start)) ''lt-1'' \<noteq> None" by code_simp
  then obtain r where "lt_by_id (rt_db (after sample_start)) ''lt-1'' = Some r" by auto
  then show ?thesis using longtask_row_moves_forward [of sample_start "''lt-1''" r "[LV_Settle r ''model-1'' 4000]"] by blast
qed

subsection \<open>The queue of turns\<close>

lemma grows_used: "store_grows db db' \<Longrightarrow> turn_used db k \<Longrightarrow> turn_used db' k"
  by (cases k) (simp add: store_grows_def)

lemma leaves_used:
  assumes "leaves st c" and "lt_ok (rt_db st)"
  shows "lt_ok (rt_db (snd c))" and "turn_used (rt_db st) k \<Longrightarrow> turn_used (rt_db (snd c)) k"
  using assms grows_used unfolding leaves_def moves_def evolves_def by blast+

lemma used_not_pending: "turn_used db (row_key c) \<Longrightarrow> \<not> row_pending c db"
proof
  assume used: "turn_used db (row_key c)" and "row_pending c db"
  then obtain x where "x \<in> set (filter row_open (ls_conts db))" "row_key x = row_key c"
    by (auto simp: row_pending_def row_key_def row_open_def list_ex_iff)
  then have "row_key c \<in> row_key ` set (filter row_open (ls_conts db))" by (metis image_eqI)
  then show False using used by (simp add: turn_used_def)
qed

lemma pending_admitted_used:
  assumes "lt_ok db" and "row_pending c db"
  shows "turn_used (admit_row c db) (row_key c)"
proof -
  obtain x where x: "x \<in> set (ls_conts db)" "row_key x = row_key c" "co_state x = CO_Pending" "admissible_row db x"
    using assms(2) by (auto simp: row_pending_def row_key_def list_ex_iff)
  have only: "y = x" if "y \<in> set (ls_conts db)" "row_key y = row_key c" for y
    using assms(1) that x(1,2) by (auto simp: lt_ok_def distinct_map inj_on_def)
  define f where "f = (\<lambda>y. if co_run y = co_run c \<and> co_source y = co_source c \<and> co_state y = CO_Pending \<and>
    admissible_row db y then y\<lparr>co_state := CO_Admitted\<rparr> else y)"
  have keys: "row_key (f y) = row_key y" for y by (simp add: row_key_def f_def)
  have admitted: "\<not> row_open (f y)" if "y \<in> set (ls_conts db)" "row_key y = row_key c" for y
    using only [OF that] x by (simp add: row_key_def row_open_def f_def)
  have rows: "set (ls_conts (admit_row c db)) = f ` set (ls_conts db)" by (simp add: admit_row_def f_def)
  have "row_key c \<in> row_key ` f ` set (ls_conts db)" using x(1,2) keys by (metis image_eqI)
  moreover have "row_key c \<notin> row_key ` {z \<in> f ` set (ls_conts db). row_open z}"
  proof
    assume "row_key c \<in> row_key ` {z \<in> f ` set (ls_conts db). row_open z}"
    then obtain y where "y \<in> set (ls_conts db)" "row_open (f y)" "row_key c = row_key (f y)" by blast
    then show False using admitted keys by metis
  qed
  ultimately show ?thesis by (simp add: turn_used_def rows)
qed

lemma used_never_started:
  assumes "lt_ok (rt_db st)" and "turn_used (rt_db st) (row_key c)"
  shows "fst (call_pump w sid c runner t st) \<noteq> Inr True"
proof -
  obtain a st1 where check: "lt_check w sid None True None st = (a, st1)" by (cases "lt_check w sid None True None st")
  then have "\<not> row_pending c (rt_db st1)"
    using leaves_used(2) [OF check_leaves assms(1)] assms(2) used_not_pending by (metis snd_conv)
  then show ?thesis using check by (auto simp: call_pump_def split: sum.splits option.splits)
qed

lemma started_is_used:
  assumes "lt_ok (rt_db st)" and "call_pump w sid c runner t st = (Inr True, st')"
  shows "lt_ok (rt_db st') \<and> turn_used (rt_db st') (row_key c)"
proof -
  obtain r st1 where check: "lt_check w sid None True None st = (Inr (Some r), st1)" and pending: "row_pending c (rt_db st1)"
      and start: "snd (lt_start w sid True runner t (st1\<lparr>rt_db := admit_row c (rt_db st1)\<rparr>)) = st'"
    using assms(2) by (auto simp: call_pump_def split: prod.splits sum.splits option.splits if_splits)
  have ok1: "lt_ok (rt_db st1)" using leaves_used(1) [OF check_leaves assms(1)] check by (metis snd_conv)
  let ?mid = "st1\<lparr>rt_db := admit_row c (rt_db st1)\<rparr>"
  have mid: "lt_ok (rt_db ?mid)" using ok1 evolves_admit_row [of st1 c] by (simp add: moves_def evolves_def)
  have "turn_used (rt_db ?mid) (row_key c)" using pending_admitted_used [OF ok1 pending] by simp
  then show ?thesis using leaves_used [OF start_leaves [of ?mid w sid True runner t] mid] unfolding start by blast
qed

lemma pump_row_started:
  "fst (pump_row w runner t c st) = Inr True \<Longrightarrow> \<exists>sid. pump_row w runner t c st = call_pump w sid c runner t st"
proof -
  assume started: "fst (pump_row w runner t c st) = Inr True"
  then obtain r where r: "lt_by_id (rt_db st) (co_run c) = Some r" by (auto simp: pump_row_def split: option.splits)
  have live: "\<not> le_live w (lr_session r)" using started r by (auto simp: pump_row_def)
  have auto: "le_enabled w \<and> lr_policy r = Safe_Auto"
    using started r live by (auto simp: pump_row_def Let_def split: prod.splits sum.splits if_splits)
  obtain a st' where a: "call_pump w (lr_session r) c runner t st = (a, st')" by fastforce
  have "pump_row w runner t c st = call_pump w (lr_session r) c runner t st"
    using started r live auto a by (cases a) (simp_all add: pump_row_def Let_def split: if_splits)
  then show ?thesis by blast
qed

text \<open>
  C13. A queued turn is started once: when the pump has started the turn of a row, no later pump starts a turn
  for that row, whatever happened in between, another queueing under the same key and a restart included.
\<close>
theorem queued_turn_starts_once:
  assumes "pump_row w runner t c (after es) = (Inr True, st)" and "co_run c' = co_run c" and "co_source c' = co_source c"
  shows "fst (pump_row w' runner' t' c' (run lt_step es' st)) \<noteq> Inr True"
proof
  assume again: "fst (pump_row w' runner' t' c' (run lt_step es' st)) = Inr True"
  have used: "lt_ok (rt_db st)" "turn_used (rt_db st) (row_key c')"
    using pump_row_started [of w runner t c "after es"] started_is_used [OF after_ok] assms by (auto simp: row_key_def)
  then have "lt_ok (rt_db (run lt_step es' st))" "turn_used (rt_db (run lt_step es' st)) (row_key c')"
    using run_evolves [of st es'] grows_used by blast+
  then show False using pump_row_started [OF again] used_never_started again by metis
qed

text \<open>The first turn ended with work left, so the next one is queued.\<close>

definition sample_proposal :: "string option \<Rightarrow> proposal" where
  "sample_proposal f = \<lparr>pr_state = Some P_Runnable, pr_satisfied = False, pr_open = False, pr_fingerprint = f, pr_reason = None\<rparr>"

definition sample_queued :: "lt_event list" where
  "sample_queued = sample_start @ [LV_Finish sample_env ''s'' (Some (sample_proposal (Some ''f1''))) ''turn:1'']"

definition sample_row :: lt_continuation where
  "sample_row = \<lparr>co_run = ''lt-1'', co_source = ''turn:1'', co_revision = 2, co_stop = 0, co_state = CO_Pending\<rparr>"

theorem queued_turn_starts_once_witness:
  "\<exists>st. pump_row sample_env ''runner'' 200 sample_row (after sample_queued) = (Inr True, st) \<and>
     fst (pump_row sample_env ''runner'' 300 sample_row (run lt_step [LV_Restart sample_env (\<lambda>_. Some True)] st)) \<noteq> Inr True"
proof -
  have "fst (pump_row sample_env ''runner'' 200 sample_row (after sample_queued)) = Inr True" by code_simp
  then obtain st where "pump_row sample_env ''runner'' 200 sample_row (after sample_queued) = (Inr True, st)"
    by (cases "pump_row sample_env ''runner'' 200 sample_row (after sample_queued)") auto
  then show ?thesis using queued_turn_starts_once [of sample_env "''runner''" 200 sample_row sample_queued st sample_row] by blast
qed

subsection \<open>Repeated calls of the owner\<close>

lemma act_invocations: "lt_act ss evs call acc body r db = Inr db' \<Longrightarrow> ls_invocations db' = ls_invocations db"
  by (auto simp: lt_act_def lt_inspect_def lt_resume_def lt_bar_def put_run_def Let_def split: if_splits option.splits)

lemma lt_retry_Inr:
  assumes "lt_retry h db sid v = Inr (call, old)"
  shows "v = JStr call" "strip call \<noteq> []"
    "case remembered db sid call of None \<Rightarrow> old = None | Some x \<Rightarrow> iv_hash x = h \<and> old = Some (iv_result x)"
  using assms by (auto simp: lt_retry_def remembered_def split: json.splits option.splits if_splits)

lemma action_remembered:
  assumes "lt_action ss evs h sid body acc db = Inr (r, db')"
  shows "\<exists>call x. dict_get body ''invocationId'' = JStr call \<and> strip call \<noteq> [] \<and>
    remembered db' sid call = Some x \<and> iv_hash x = h \<and> iv_result x = r"
proof -
  obtain call cached where c: "lt_retry h db sid (dict_get body ''invocationId'') = Inr (call, cached)"
    using assms by (auto simp: lt_action_def)
  note call = lt_retry_Inr [OF c]
  show ?thesis
  proof (cases cached)
    case None
    then have none: "remembered db sid call = None" using call(3) by (auto split: option.splits)
    obtain r0 db1 where "lt_act ss evs call acc body r0 db = Inr db1" "db' = lt_remember sid call h r db1"
      using assms c None by (auto simp: lt_action_def dest!: lt_commit_Inr split: option.splits)
    then have "remembered db' sid call = Some \<lparr>iv_session = sid, iv_id = call, iv_hash = h, iv_result = r\<rparr>"
      using none by (simp add: remembered_def lt_remember_def find_append act_invocations)
    then show ?thesis using call by simp
  next
    case (Some x)
    then have "db' = db" "r = x" using assms c by (simp_all add: lt_action_def)
    then show ?thesis using call Some by (auto split: option.splits)
  qed
qed

text \<open>
  C21. An action of the owner is done once: the same call repeated, with the same invocation and body, answers
  the row it answered the first time and changes nothing, at any later time and whatever the row is by then.
\<close>
theorem owner_action_done_once:
  assumes "lt_action ss evs h sid body acc (rt_db (after es)) = Inr (r, db)"
    and "st = after (es @ LV_Action ss evs h sid body acc # es')"
  shows "lt_action ss' evs' h sid body acc' (rt_db st) = Inr (r, rt_db st)"
proof -
  have "rt_db (after (es @ [LV_Action ss evs h sid body acc])) = db"
    using assms(1) by (simp add: after_append store_event_def with_db_def)
  then obtain call x where call: "dict_get body ''invocationId'' = JStr call" "strip call \<noteq> []"
      and x: "remembered (rt_db (after (es @ [LV_Action ss evs h sid body acc]))) sid call = Some x" "iv_hash x = h" "iv_result x = r"
    using action_remembered [OF assms(1)] by auto
  have "remembered (rt_db st) sid call = Some x"
    using after_remembered [OF x(1), of es'] by (simp add: assms(2))
  then show ?thesis using call x by (simp add: lt_action_def lt_retry_def remembered_def)
qed

definition sample_cancel :: "(string \<times> json) list" where
  "sample_cancel = [(''invocationId'', JStr ''i2''), (''runId'', JStr ''lt-1''), (''expectedRevision'', JInt 1),
     (''action'', JStr ''cancel'')]"

theorem owner_action_done_once_witness:
  "\<exists>r. lt_action [] [] ''h2'' ''s'' sample_cancel []
       (rt_db (after (sample_start @ LV_Action [] [] ''h2'' ''s'' sample_cancel [] # [LV_Restart sample_env (\<lambda>_. None)]))) =
     Inr (r, rt_db (after (sample_start @ LV_Action [] [] ''h2'' ''s'' sample_cancel [] # [LV_Restart sample_env (\<lambda>_. None)])))"
proof -
  have "is_ok (lt_action [] [] ''h2'' ''s'' sample_cancel [] (rt_db (after sample_start)))" by code_simp
  then obtain r db where "lt_action [] [] ''h2'' ''s'' sample_cancel [] (rt_db (after sample_start)) = Inr (r, db)"
    by (cases "lt_action [] [] ''h2'' ''s'' sample_cancel [] (rt_db (after sample_start))") auto
  then show ?thesis using owner_action_done_once [of "[]" "[]" "''h2''" "''s''" sample_cancel "[]" sample_start r db] by blast
qed

subsection \<open>Turns without progress\<close>

text \<open>Turns whose hook says there is work left: the run after them, \<open>None\<close> once one of them parked it.\<close>

fun turns :: "lt_run \<Rightarrow> string option list \<Rightarrow> lt_run option" where
  "turns r [] = Some r"
| "turns r (f # fs) =
     (case turn_end r P_Runnable (sample_proposal f) of
        (P_Runnable, _, pg) \<Rightarrow> turns (r\<lparr>lr_progress := pg\<rparr>) fs
      | _ \<Rightarrow> None)"

lemma sample_proposal_fields [simp]: "pr_fingerprint (sample_proposal f) = f" "pr_reason (sample_proposal f) = None"
  by (simp_all add: sample_proposal_def)




text \<open>Evidence forgotten by a turn without any counts as new in the next one: such a run is never parked.\<close>

lemma flapping_evidence_never_parks:
  "lr_work r = None \<Longrightarrow> pg_unchanged (lr_progress r) = 0 \<Longrightarrow> pg_fingerprint (lr_progress r) = Some f \<Longrightarrow>
     turns r (concat (replicate n [None, Some f])) \<noteq> None"
proof (induction n arbitrary: r)
  case (Suc n)
  then show ?case by (simp add: turn_end_def next_progress_def NO_PROGRESS_def Let_def)
qed simp

subsection \<open>Where the code strays\<close>

text \<open>A run the owner cancelled is revived by a late \<open>pause\<close> of the owner: it is active again.\<close>

definition sample_pause :: "(string \<times> json) list" where
  "sample_pause = [(''invocationId'', JStr ''i3''), (''runId'', JStr ''lt-1''), (''expectedRevision'', JInt 2),
     (''action'', JStr ''pause'')]"

lemma pause_revives_cancelled:
  "map (map lr_state \<circ> ls_runs \<circ> rt_db \<circ> after)
     [sample_start @ [LV_Action [] [] ''h2'' ''s'' sample_cancel []],
      sample_start @ [LV_Action [] [] ''h2'' ''s'' sample_cancel [], LV_Action [] [] ''h3'' ''s'' sample_pause []]] =
   [[LT_Cancelled], [LT_Paused]]"
  by code_simp

text \<open>A queued turn of a run the owner accepted kills the pump.\<close>

definition sample_accept :: "(string \<times> json) list" where
  "sample_accept = [(''invocationId'', JStr ''i4''), (''runId'', JStr ''lt-1''), (''expectedRevision'', JInt 2),
     (''action'', JStr ''accept''), (''confirm'', JBool True), (''evidenceRefs'', JList [JStr ''ev''])]"

definition sample_acceptance :: "(string \<times> json) list" where
  "sample_acceptance = [(''acceptanceSatisfied'', JBool True), (''evidenceRefs'', JList [JStr ''ev'']),
     (''evidenceFingerprint'', JStr ''f1'')]"

lemma pump_dies_on_accepted_run:
  "fst (lt_pump sample_env ''runner'' 200
     (after (sample_queued @ [LV_Action [] [] ''h4'' ''s'' sample_accept sample_acceptance]))) = Inl LE_Crash"
  by code_simp

text \<open>
  A turn of the owner between the queueing and the pump leaves the old row behind: the pump then parks the run
  over it, and the row stays pending.
\<close>

definition sample_late_pump :: "lt_event list" where
  "sample_late_pump = sample_queued @
     [LV_Start sample_env ''s'' False ''runner'' 300, LV_Call sample_env ''s'' ''model-2'' True 5000 False None 7,
      LV_Finish sample_env ''s'' (Some (sample_proposal (Some ''f2''))) ''turn:2'', LV_Pump sample_env ''runner'' 400]"

lemma stale_row_parks_the_run:
  "(let db = rt_db (after sample_late_pump) in (map lr_state (ls_runs db), map co_state (ls_conts db))) =
   ([LT_Needs_User], [CO_Pending, CO_Pending])"
  by code_simp

text \<open>A call that runs longer than its bound is charged in full, past the limit.\<close>

lemma settled_past_the_limit:
  "(let st = after sample_start; r = snd (hd (rt_snaps st)); db = rt_db (lt_settle_call r ''model-1'' 70000 st)
    in map (\<lambda>r. bu_time_limit (lr_budget r) < bu_time (lr_budget r)) (ls_runs db)) = [True]"
  by code_simp

end
