(* ===== verification/Decision_Props.thy ===== *)
theory Decision_Props
  imports Decision_Cards Longtask_Props
begin

section \<open>Decision cards: properties\<close>

text \<open>
  The events around the cards, the runtime of the long tasks among them, keep one row per card and the
  invariant of the long tasks, and settled cards stay as they are (\<open>desk_step\<close>, an interpretation of
  \<open>growing_system\<close>). The properties: a card is settled once, a repeated answer gets its first reply, the pages
  tell every card once. The last section is the short history in which \<open>stop\<close> leaves a card nobody can
  answer.
\<close>

subsection \<open>Events\<close>

datatype desk_event =
    DV_Task lt_event
  | DV_Request string string string "rat option" "(string \<times> json) list" "(string \<times> json) list" card_binding rat
  | DV_Block card_env string int rat string lt_error
  | DV_Answer card_env rat string string json json "string option" string json
  | DV_Hydrate card_env rat string
  | DV_Stop card_env rat string

fun desk_step :: "desk_event \<Rightarrow> desk \<Rightarrow> desk" where
  "desk_step (DV_Task e) d = d\<lparr>dk_rt := lt_step e (dk_rt d)\<rparr>"
| "desk_step (DV_Request sid did kind deadline rec payload b now) d =
     (case (ds_request sid did kind deadline rec payload b now (dk_cards d) :: (unit, _) card_result) of
        Inl _ \<Rightarrow> d | Inr (_, cs) \<Rightarrow> d\<lparr>dk_cards := cs\<rparr>)"
| "desk_step (DV_Block e args n now sid er) d = snd (block_desk e args n now sid er d)"
| "desk_step (DV_Answer e now sid did choice note ik h expected) d = snd (answer_card e now sid did choice note ik h expected d)"
| "desk_step (DV_Hydrate e now sid) d = snd (hydrate e now sid d)"
| "desk_step (DV_Stop e now sid) d = snd (stop_session e now sid d)"

definition desk_ok :: "desk \<Rightarrow> bool" where
  "desk_ok d = (cards_ok (dk_cards d) \<and> lt_ok (rt_db (dk_rt d)))"

text \<open>A card that was answered in between was pinned to a run that had not been stopped before.\<close>

definition pinned_to :: "string \<Rightarrow> int \<Rightarrow> decision_card \<Rightarrow> bool" where
  "pinned_to i n c = (case cb_pin (dc_binding c) of None \<Rightarrow> False | Some (i', _, _, _, n', _) \<Rightarrow> i' = i \<and> n' = n)"

definition by_owner :: "decision_card \<Rightarrow> bool" where
  "by_owner c = (dc_status c \<in> {CS_Approved, CS_Answered, CS_Rejected})"

definition answers_fresh :: "desk \<Rightarrow> desk \<Rightarrow> bool" where
  "answers_fresh d d' = (\<forall>s j c c' i n r. ds_find s j (dk_cards d) = Some c \<longrightarrow> ds_find s j (dk_cards d') = Some c' \<longrightarrow>
     dc_status c = CS_Pending \<longrightarrow> by_owner c' \<longrightarrow> pinned_to i n c \<longrightarrow> lt_by_id (rt_db (dk_rt d)) i = Some r \<longrightarrow> lr_stop r \<le> n)"

definition desk_grows :: "desk \<Rightarrow> desk \<Rightarrow> bool" where
  "desk_grows d d' = (cards_grow (dk_cards d) (dk_cards d') \<and> store_grows (rt_db (dk_rt d)) (rt_db (dk_rt d')) \<and>
     answers_fresh d d')"

lemma same_cards_fresh: "dk_cards d' = dk_cards d \<Longrightarrow> answers_fresh d d'"
  by (auto simp: answers_fresh_def by_owner_def)

lemma desk_grows_refl [simp]: "desk_grows d d"
  by (simp add: desk_grows_def same_cards_fresh)

lemma fresh_trans:
  assumes g: "cards_grow (dk_cards a) (dk_cards b)" "store_grows (rt_db (dk_rt a)) (rt_db (dk_rt b))"
    and f: "answers_fresh a b" "cards_grow (dk_cards b) (dk_cards c)" "answers_fresh b c"
  shows "answers_fresh a c"
  unfolding answers_fresh_def
proof (intro allI impI)
  fix s j x z i n r
  assume x: "ds_find s j (dk_cards a) = Some x" and z: "ds_find s j (dk_cards c) = Some z" and p: "dc_status x = CS_Pending"
    and o': "by_owner z" and pin: "pinned_to i n x" and r: "lt_by_id (rt_db (dk_rt a)) i = Some r"
  obtain y where y: "ds_find s j (dk_cards b) = Some y" "dc_binding y = dc_binding x" using g(1) x unfolding cards_grow_def by blast
  obtain r' where r': "lt_by_id (rt_db (dk_rt b)) i = Some r'" "lr_stop r \<le> lr_stop r'"
    using g(2) r unfolding store_grows_def row_grows_def by blast
  show "lr_stop r \<le> n"
  proof (cases "dc_status y = CS_Pending")
    case True
    have "pinned_to i n y" using pin y(2) by (simp add: pinned_to_def)
    then have "lr_stop r' \<le> n" using f(3) y(1) z True o' r'(1) unfolding answers_fresh_def by blast
    then show ?thesis using r'(2) by simp
  next
    case False
    then have "z = y" using f(2) y(1) z unfolding cards_grow_def by fastforce
    then show ?thesis using f(1) x y(1) p o' pin r unfolding answers_fresh_def by blast
  qed
qed

lemma desk_grows_trans: "desk_grows a b \<Longrightarrow> desk_grows b c \<Longrightarrow> desk_grows a c"
  unfolding desk_grows_def using cards_grow_trans store_grows_trans fresh_trans by blast

text \<open>A call keeps the desk: what it leaves, error or not, is sound and has grown.\<close>

definition keeps :: "desk \<Rightarrow> desk \<Rightarrow> bool" where
  "keeps d d' = (desk_ok d \<longrightarrow> desk_ok d' \<and> desk_grows d d')"

lemma keeps_refl [simp]: "keeps d d"
  by (simp add: keeps_def)

lemma keeps_trans: "keeps a b \<Longrightarrow> keeps b c \<Longrightarrow> keeps a c"
  unfolding keeps_def using desk_grows_trans by blast

lemma keeps_tasks: "evolves (rt_db (dk_rt d)) db \<Longrightarrow> keeps d (d\<lparr>dk_rt := (dk_rt d)\<lparr>rt_db := db\<rparr>\<rparr>)"
  by (simp add: keeps_def evolves_def desk_ok_def desk_grows_def same_cards_fresh)

lemma request_fresh: "ds_request sid did kind deadline rec payload b now (dk_cards d) = Inr (v, cs) \<Longrightarrow> answers_fresh d (d\<lparr>dk_cards := cs\<rparr>)"
  by (auto simp: ds_request_def Let_def answers_fresh_def ds_find_append by_owner_def split: if_splits)

lemma keeps_request:
  "ds_request sid did kind deadline rec payload b now (dk_cards d) = Inr (v, cs) \<Longrightarrow> keeps d (d\<lparr>dk_cards := cs\<rparr>)"
  using request_grows [of sid did kind deadline rec payload b now "dk_cards d" v cs]
    request_fresh [of sid did kind deadline rec payload b now d v cs]
  by (auto simp: keeps_def desk_ok_def desk_grows_def)

lemma keeps_step_task: "keeps d (d\<lparr>dk_rt := lt_step e (dk_rt d)\<rparr>)"
  using lt_step_moves [of "dk_rt d" e]
  by (auto simp: keeps_def desk_ok_def desk_grows_def moves_def evolves_def same_cards_fresh)

lemma budget_card_keeps: "keeps d (snd (budget_card e args n now r d))"
  by (auto simp: budget_card_def intro: keeps_request split: sum.splits prod.splits)

lemma block_keeps: "keeps d (snd (block_desk e args n now sid er d))"
proof (cases "root_run (ce_lt e) sid (rt_db (dk_rt d))")
  case (Some r)
  have tr: "keeps d (d\<lparr>dk_rt := (dk_rt d)\<lparr>rt_db := db\<rparr>\<rparr>)"
    if "lt_transition r s why c p (rt_db (dk_rt d)) = Inr (r', db)" for s why c p r' db
    using that by (intro keeps_tasks evolves_transition)
  show ?thesis using Some
    by (auto simp: block_desk_def Let_def split: sum.splits intro: tr keeps_trans [OF tr budget_card_keeps])
qed (simp add: block_desk_def)

lemma card_effect_evolves: "card_effect e c choice db = Inr db' \<Longrightarrow> evolves db db'"
  by (auto simp: card_effect_def evolves_budget_effect split: option.splits json.splits if_splits)

lemma settle_effect:
  "ds_settle sid did oc ik h reply expected current effect now (db, x) = Inr (r, db', x') \<Longrightarrow> x' = x \<or> effect x = Inr x'"
  by (auto simp: ds_settle_def split: option.splits sum.splits)

text \<open>What a settlement does to the rows: none, or the pending one under the binding the caller insisted on.\<close>

lemma settle_rows:
  "ds_settle sid did oc ik h reply expected current effect now (db, x) = Inr (r, db', x') \<Longrightarrow>
     db' = db \<or> (\<exists>c. ds_find sid did db = Some c \<and> dc_status c = CS_Pending \<and> (current = None \<or> current = Some (dc_binding c)) \<and>
       db' = ds_put sid did (settled_card oc ik h reply) db)"
  by (auto simp: ds_settle_def split: option.splits sum.splits)

lemma current_binding_fresh:
  assumes "current_binding e sid b db = Some b'" and "cb_pin b' = Some (i, g, v, k, n, h)" and "lt_ok db"
    and "lt_by_id db i = Some r"
  shows "lr_stop r = n"
proof -
  obtain p where "cb_pin b = Some p" using assms(1,2) by (cases "cb_pin b") (auto simp: current_binding_def Let_def)
  then obtain x where x: "root_run (ce_lt e) sid db = Some x" "pin_of x = (i, g, v, k, n, h)"
    using assms(1,2) by (auto simp: current_binding_def Let_def split: option.splits)
  have "lt_by_id db (lr_id x) = Some x" using root_run_mem [OF x(1)] lt_by_id_unique [OF assms(3)] by blast
  then show ?thesis using x(2) assms(4) by (simp add: pin_of_def)
qed

lemma settle_fresh:
  assumes st: "ds_settle sid did oc ik h reply expected current effect now (dk_cards d, x) = Inr (r, cs, db)"
    and ok: "desk_ok d" and status: "oc_status oc \<in> {CS_Expired, CS_Cancelled} \<or> current \<noteq> None"
    and current: "\<And>b. current = Some b \<Longrightarrow> current_binding e s' b' (rt_db (dk_rt d)) = Some b"
  shows "answers_fresh d (d\<lparr>dk_cards := cs, dk_rt := y\<rparr>)"
  unfolding answers_fresh_def
proof (intro allI impI)
  fix s j c c' i n r
  assume c: "ds_find s j (dk_cards d) = Some c" and c': "ds_find s j (dk_cards (d\<lparr>dk_cards := cs, dk_rt := y\<rparr>)) = Some c'"
    and p: "dc_status c = CS_Pending" and o': "by_owner c'" and pin: "pinned_to i n c" and r: "lt_by_id (rt_db (dk_rt d)) i = Some r"
  have "c' \<noteq> c" using p o' by (auto simp: by_owner_def)
  then have here: "s = sid" "j = did" "c' = settled_card oc ik h reply c" "current = None \<or> current = Some (dc_binding c)"
    using settle_rows [OF st] c c' by (auto simp: ds_find_put split: if_splits)
  then have "oc_status oc \<notin> {CS_Expired, CS_Cancelled}" using o' by (auto simp: by_owner_def settled_card_def)
  then have "current = Some (dc_binding c)" using status here(4) by auto
  then show "lr_stop r \<le> n"
    using current_binding_fresh [OF current, of "dc_binding c"] pin r ok
    by (auto simp: pinned_to_def desk_ok_def split: option.splits)
qed

text \<open>A settlement is the owner's, or an expiry or a cancellation.\<close>

definition settling :: "string \<Rightarrow> card_status \<Rightarrow> bool" where
  "settling reason s = (s \<noteq> CS_Pending \<and> (reason = ''user'' \<or> s \<in> {CS_Expired, CS_Cancelled}))"

lemma card_settle_keeps:
  assumes "settling reason s"
  shows "keeps d (snd (card_settle e now choice s reason nt k c d))"
proof -
  let ?cur = "current_binding e (dc_session c) (dc_binding c) (rt_db (dk_rt d))"
  let ?b = "if reason = ''user'' then ?cur else None"
  let ?oc = "\<lparr>oc_status = s, oc_by_user = (reason = ''user''), oc_doc = outcome_doc (dc_id c) choice s reason nt\<rparr>"
  have kept: "keeps d \<lparr>dk_cards = cs, dk_rt = (dk_rt d)\<lparr>rt_db := db\<rparr>\<rparr>"
    if st: "ds_settle (dc_session c) (dc_id c) ?oc (ak_invocation k) (ak_hash k) (ak_reply k) (ak_expected k) ?b
        (card_effect e c choice) now (dk_cards d, rt_db (dk_rt d)) = Inr (r, cs, db)"
      and cur: "\<not> (reason = ''user'' \<and> ?cur = None)" for r cs db
    unfolding keeps_def
  proof
    assume ok: "desk_ok d"
    have cards: "cards_ok cs \<and> cards_grow (dk_cards d) cs"
      using settle_grows [OF st] ok assms by (simp add: desk_ok_def settling_def)
    have "evolves (rt_db (dk_rt d)) db" using settle_effect [OF st] card_effect_evolves by auto
    moreover have "answers_fresh d (d\<lparr>dk_cards := cs, dk_rt := (dk_rt d)\<lparr>rt_db := db\<rparr>\<rparr>)"
      using cur assms by (intro settle_fresh [OF st ok]) (auto simp: settling_def split: if_splits)
    moreover have "d\<lparr>dk_cards := cs, dk_rt := (dk_rt d)\<lparr>rt_db := db\<rparr>\<rparr> = \<lparr>dk_cards = cs, dk_rt = (dk_rt d)\<lparr>rt_db := db\<rparr>\<rparr>"
      by simp
    ultimately show "desk_ok \<lparr>dk_cards = cs, dk_rt = (dk_rt d)\<lparr>rt_db := db\<rparr>\<rparr> \<and> desk_grows d \<lparr>dk_cards = cs, dk_rt = (dk_rt d)\<lparr>rt_db := db\<rparr>\<rparr>"
      using cards ok by (simp add: desk_ok_def desk_grows_def evolves_def)
  qed
  show ?thesis
  proof (cases "dc_status c \<noteq> CS_Pending \<or> reason = ''user'' \<and> ?cur = None")
    case False
    then show ?thesis using kept
      by (cases "ds_settle (dc_session c) (dc_id c) ?oc (ak_invocation k) (ak_hash k) (ak_reply k) (ak_expected k) ?b
          (card_effect e c choice) now (dk_cards d, rt_db (dk_rt d))")
        (auto simp: card_settle_def Let_def)
  qed (auto simp: card_settle_def)
qed

lemma settled_then:
  assumes "settling reason s"
  shows "keeps d (snd (case card_settle e now choice s reason nt k c d of (Inl er, d') \<Rightarrow> (Inl er, d') | (Inr _, d') \<Rightarrow> (Inr r, d')))"
proof -
  obtain a d' where st: "card_settle e now choice s reason nt k c d = (a, d')" by fastforce
  then show ?thesis using card_settle_keeps [OF assms, of d e now choice nt k c] by (cases a) simp_all
qed

lemma answer_status_settles: "answer_status c choice written = Inr s \<Longrightarrow> dc_status c = CS_Pending \<and> s \<noteq> CS_Pending"
  by (auto simp: answer_status_def Let_def split: option.splits if_splits)

lemma answered_then:
  "answer_status c choice written = Inr s \<Longrightarrow>
     keeps d (snd (case card_settle e now choice s ''user'' nt k c d of (Inl er, d') \<Rightarrow> (Inl er, d') | (Inr _, d') \<Rightarrow> (Inr r, d')))"
  using answer_status_settles by (intro settled_then) (auto simp: settling_def)

lemma expire_keeps: "keeps d (snd (expire_card e now sid did d))"
  by (auto simp: expire_card_def settling_def intro!: settled_then split: option.splits)

lemma cancel_keeps: "keeps d (snd (cancel_card e now sid did d))"
  by (auto simp: cancel_card_def settling_def intro!: settled_then split: option.splits)

lemma each_card_keeps: "(\<And>i d. keeps d (snd (f i d))) \<Longrightarrow> keeps d (snd (each_card f is d))"
proof (induction "is" arbitrary: d)
  case (Cons i "is")
  obtain a d' where f: "f i d = (a, d')" by fastforce
  have "keeps d d'" using Cons.prems [of d i] f by simp
  then show ?case using f Cons.IH [OF Cons.prems, of d'] by (cases a) (auto intro: keeps_trans)
qed simp

lemma hydrate_keeps: "keeps d (snd (hydrate e now sid d))"
  unfolding hydrate_def by (intro each_card_keeps expire_keeps)

lemma answer_known_keeps: "keeps d (snd (answer_known e now sid did choice note ik h expected d))"
  by (auto simp: answer_known_def Let_def intro!: answered_then split: json.splits option.splits sum.splits)

lemma answer_keeps: "keeps d (snd (answer_card e now sid did choice note ik h expected d))"
proof -
  obtain a d1 where h: "hydrate e now sid d = (a, d1)" by fastforce
  have "keeps d d1" using hydrate_keeps [of d e now sid] h by simp
  then show ?thesis using h answer_known_keeps [of d1]
    by (auto simp: answer_card_def split: sum.splits option.splits intro: keeps_trans)
qed

lemma stop_keeps: "keeps d (snd (stop_session e now sid d))"
proof (cases "lt_barrier sid LT_Paused ''OWNER_STOP'' (rt_db (dk_rt d))")
  case (Inr p)
  obtain r db where p: "p = (r, db)" by fastforce
  let ?d = "d\<lparr>dk_rt := (dk_rt d)\<lparr>rt_db := db\<rparr>\<rparr>"
  obtain a d1 where h: "hydrate e now sid ?d = (a, d1)" by fastforce
  have "keeps d ?d" using Inr p by (intro keeps_tasks evolves_barrier) simp
  moreover have "keeps ?d d1" using hydrate_keeps [of ?d e now sid] h by simp
  ultimately have "keeps d d1" by (rule keeps_trans)
  then show ?thesis using Inr p h each_card_keeps [OF cancel_keeps]
    by (auto simp: stop_session_def split: sum.splits intro: keeps_trans)
qed (simp add: stop_session_def)

lemma desk_step_keeps: "keeps d (desk_step ev d)"
  by (cases ev) (auto simp: keeps_step_task block_keeps answer_keeps hydrate_keeps stop_keeps
      intro: keeps_request split: sum.splits)

interpretation desk: growing_system desk_step desk_ok desk_grows
  using desk_step_keeps desk_grows_trans by unfold_locales (auto simp: keeps_def)

subsection \<open>Along every history\<close>

definition at_desk :: "desk_event list \<Rightarrow> desk" where
  "at_desk es = run desk_step es \<lparr>dk_cards = [], dk_rt = no_tasks\<rparr>"

lemma empty_desk_ok: "desk_ok \<lparr>dk_cards = [], dk_rt = no_tasks\<rparr>"
  by (simp add: desk_ok_def cards_ok_def no_tasks_def empty_longtask_ok)

lemma at_desk_ok: "desk_ok (at_desk es)"
  unfolding at_desk_def by (rule desk.run_ok) (rule empty_desk_ok)

lemma at_desk_grows: "desk_grows (at_desk es) (at_desk (es @ es'))"
  unfolding at_desk_def by (rule desk.later_grows) (rule empty_desk_ok)

lemma at_desk_append: "at_desk (es @ es') = run desk_step es' (at_desk es)"
  by (simp add: at_desk_def run_append)

lemma later_card:
  assumes "ds_find sid did (dk_cards (at_desk es)) = Some c"
  shows "\<exists>c'. ds_find sid did (dk_cards (at_desk (es @ es'))) = Some c' \<and> (dc_status c \<noteq> CS_Pending \<longrightarrow> c' = c)"
  using at_desk_grows [of es es'] assms unfolding desk_grows_def cards_grow_def by blast

definition sample_cards :: card_env where
  "sample_cards = \<lparr>ce_lt = sample_env, ce_plan = (\<lambda>_. None), ce_verify = (\<lambda>_ _. []), ce_forgot = (\<lambda>_. False)\<rparr>"

text \<open>The budget of the sample run is spent, and the owner is asked for more.\<close>

definition sample_asked :: "desk_event list" where
  "sample_asked = map DV_Task sample_spent @ [DV_Block sample_cards ''a'' 1 10 ''s'' LE_Budget_Exhausted]"

abbreviation sample_card_id :: string where
  "sample_card_id \<equiv> ''lt-1:budget:1''"

definition sample_answer :: desk_event where
  "sample_answer = DV_Answer sample_cards 20 ''s'' sample_card_id (JStr ''extend'') JNull (Some ''k1'') ''h1'' JNull"

text \<open>
  C16. A card is settled once: its row, with its status, outcome, reply and revision, never changes again, whoever
  answers it, whenever it would expire and whichever sessions are stopped.
\<close>
theorem card_settled_once:
  "ds_find sid did (dk_cards (at_desk es)) = Some c \<Longrightarrow> dc_status c \<noteq> CS_Pending \<Longrightarrow>
     ds_find sid did (dk_cards (at_desk (es @ es'))) = Some c"
  using later_card [of sid did es c es'] by auto

theorem card_settled_once_witness:
  "\<exists>c. dc_status c = CS_Approved \<and>
     ds_find ''s'' sample_card_id (dk_cards (at_desk ((sample_asked @ [sample_answer]) @ [DV_Stop sample_cards 30 ''s'']))) = Some c"
proof -
  have "map_option dc_status (ds_find ''s'' sample_card_id (dk_cards (at_desk (sample_asked @ [sample_answer])))) = Some CS_Approved"
    by code_simp
  then obtain c where "ds_find ''s'' sample_card_id (dk_cards (at_desk (sample_asked @ [sample_answer]))) = Some c"
      "dc_status c = CS_Approved" by auto
  then show ?thesis
    using card_settled_once [of "''s''" sample_card_id "sample_asked @ [sample_answer]" c "[DV_Stop sample_cards 30 ''s'']"] by auto
qed




subsection \<open>Answers and pages\<close>

text \<open>An answer under an invocation that was accepted is on record.\<close>

definition on_record :: "string \<Rightarrow> string \<Rightarrow> string \<Rightarrow> string \<Rightarrow> json \<Rightarrow> desk \<Rightarrow> bool" where
  "on_record sid did ik h r d = (\<exists>c. ds_find sid did (dk_cards d) = Some c \<and> dc_status c \<noteq> CS_Pending \<and>
     dc_invocation c = Some ik \<and> dc_hash c = Some h \<and> dc_reply c = Some r)"

lemma retry_on_record: "on_record sid did ik h r d \<Longrightarrow> ik \<noteq> [] \<Longrightarrow> ds_retry sid did (Some ik) h (dk_cards d) = Inr (Some r)"
  by (auto simp: on_record_def ds_retry_def)

lemma retried_on_record:
  assumes "ds_retry sid did (Some ik) h (dk_cards d) = Inr (Some r)" and "desk_ok d"
  shows "on_record sid did ik h r d"
proof -
  obtain c where c: "ds_find sid did (dk_cards d) = Some c" "dc_invocation c = Some ik" "dc_hash c = Some h" "dc_reply c = Some r"
    using assms(1) by (auto simp: ds_retry_def split: option.splits if_splits)
  then have "dc_status c \<noteq> CS_Pending"
    using assms(2) ds_find_Some [OF c(1)] by (auto simp: desk_ok_def cards_ok_def list_all_iff)
  then show ?thesis using c by (auto simp: on_record_def)
qed

lemma settled_on_record:
  assumes st: "card_settle e now choice s reason nt \<lparr>ak_invocation = Some ik, ak_hash = h, ak_reply = Some r, ak_expected = x\<rparr> c d = (Inr b, d')"
    and c: "ds_find sid did (dk_cards d) = Some c" "dc_status c = CS_Pending" and s: "s \<noteq> CS_Pending" and ik: "ik \<noteq> []"
    and ok: "desk_ok d"
  shows "on_record sid did ik h r d'"
proof -
  have key: "dc_session c = sid" "dc_id c = did" using ds_find_Some [OF c(1)] by auto
  have fresh: "ds_retry sid did (Some ik) h (dk_cards d) = (Inr None :: (lt_error, json option) card_result)"
    using c ok ds_find_Some [OF c(1)] by (auto simp: ds_retry_def desk_ok_def cards_ok_def list_all_iff)
  obtain oc where "ds_find sid did (dk_cards d') = Some (settled_card oc (Some ik) h (Some r) c)" "oc_status oc = s"
    using st c(1) key fresh
    by (auto simp: card_settle_def c(2) Let_def ds_settle_def ds_find_put split: sum.splits if_splits option.splits)
  then show ?thesis using s ik by (auto simp: on_record_def settled_card_def)
qed

lemma answered_on_record:
  assumes a: "answer_card e now sid did choice n (Some ik) h expected d = (Inr r, d')" and ok: "desk_ok d" and ik: "ik \<noteq> []"
  shows "on_record sid did ik h r d'"
proof (cases "ds_retry sid did (Some ik) h (dk_cards d) :: (lt_error, json option) card_result")
  case (Inr old)
  show ?thesis
  proof (cases old)
    case None
    obtain u d1 where hy: "hydrate e now sid d = (u, d1)" by fastforce
    then have ok1: "desk_ok d1" using hydrate_keeps [of d e now sid] ok by (simp add: keeps_def)
    have known: "answer_known e now sid did choice n (Some ik) h expected d1 = (Inr r, d')"
      using a Inr None hy by (auto simp: answer_card_def split: sum.splits if_splits)
    obtain ch where ch: "choice = JStr ch" using known by (cases choice) (auto simp: answer_known_def)
    let ?w = "strip (case n of JStr t \<Rightarrow> t | _ \<Rightarrow> [])"
    obtain c s where c: "known_card e sid did d1 = Some c" "answer_status c ch ?w = Inr s"
      using known unfolding ch answer_known_def Let_def by (auto split: if_splits option.splits sum.splits)
    define reply where "reply = reply_doc did ch s (Some (dc_revision c + 1))"
    obtain a d2 where st: "card_settle e now ch s ''user'' (if ?w = [] then None else Some ?w)
        \<lparr>ak_invocation = Some ik, ak_hash = h, ak_reply = Some reply, ak_expected = expected\<rparr> c d1 = (a, d2)" by fastforce
    then have "case a of Inl er \<Rightarrow> False | Inr _ \<Rightarrow> r = reply \<and> d' = d2"
      using known c unfolding ch answer_known_def Let_def
      by (auto simp: reply_def split: if_splits sum.splits)
    then obtain b where b: "a = Inr b" "r = reply" "d' = d2" by (auto split: sum.splits)
    have "ds_find sid did (dk_cards d1) = Some c" using c(1) by (auto simp: known_card_def split: option.splits if_splits)
    then show ?thesis using settled_on_record [OF st [unfolded b(1)]] answer_status_settles [OF c(2)] ik ok1 b(2,3) by simp
  next
    case (Some x)
    then show ?thesis using a Inr retried_on_record ok by (auto simp: answer_card_def)
  qed
qed (use a in \<open>simp add: answer_card_def\<close>)

text \<open>
  C18. An answer sent again gets its first reply: when an answer was accepted under an invocation, the same call, at
  any later time and whatever became of the card's run, answers the same reply and changes nothing.
\<close>
theorem answer_sent_again:
  assumes "fst (answer_card e now sid did choice n (Some ik) h expected (at_desk es)) = Inr r" and "ik \<noteq> []"
    and "d = at_desk (es @ DV_Answer e now sid did choice n (Some ik) h expected # es')"
  shows "answer_card e' now' sid did choice' n' (Some ik) h expected' d = (Inr r, d)"
proof -
  let ?d1 = "snd (answer_card e now sid did choice n (Some ik) h expected (at_desk es))"
  have "on_record sid did ik h r ?d1"
    using answered_on_record [OF _ at_desk_ok assms(2), of e now sid did choice n h expected es r ?d1] assms(1)
    by (simp add: prod_eq_iff)
  moreover have "?d1 = at_desk (es @ [DV_Answer e now sid did choice n (Some ik) h expected])" by (simp add: at_desk_append)
  ultimately have "on_record sid did ik h r d"
    using later_card [of sid did "es @ [DV_Answer e now sid did choice n (Some ik) h expected]" _ es'] assms(3)
    by (auto simp: on_record_def)
  then show ?thesis by (simp add: answer_card_def retry_on_record [OF _ assms(2)])
qed

theorem answer_sent_again_witness:
  "\<exists>r. answer_card sample_cards 40 ''s'' sample_card_id (JStr ''extend'') JNull (Some ''k1'') ''h1'' JNull
       (at_desk (sample_asked @ sample_answer # [DV_Stop sample_cards 30 ''s''])) =
     (Inr r, at_desk (sample_asked @ sample_answer # [DV_Stop sample_cards 30 ''s'']))"
proof -
  have "is_ok (fst (answer_card sample_cards 20 ''s'' sample_card_id (JStr ''extend'') JNull (Some ''k1'') ''h1'' JNull (at_desk sample_asked)))"
    by code_simp
  then obtain r where "fst (answer_card sample_cards 20 ''s'' sample_card_id (JStr ''extend'') JNull (Some ''k1'') ''h1'' JNull
      (at_desk sample_asked)) = Inr r" by (metis sum.collapse(2))
  from answer_sent_again [OF this] show ?thesis unfolding sample_answer_def by blast
qed

text \<open>
  C19. Walking the pages of a session, in pages of any size allowed, tells every card of it exactly once, in the
  order of the ids: what \<open>hydrate_decisions\<close> reads is the whole table.
\<close>
theorem pages_tell_every_card:
  "1 \<le> n \<Longrightarrow> n \<le> 100 \<Longrightarrow> walk sid n None (dk_cards (at_desk es)) =
     map view_of (sort_key dc_id (filter (\<lambda>c. dc_session c = sid \<and> dc_id c \<noteq> []) (dk_cards (at_desk es))))"
proof -
  assume n: "1 \<le> n" "n \<le> 100"
  have "([] < i) = (i \<noteq> [])" for i :: string by (cases i) simp_all
  then show ?thesis using walk_page_rows [of "dk_cards (at_desk es)" n sid None] at_desk_ok [of es] n
    by (simp add: desk_ok_def page_rows_def cursor_def)
qed

theorem pages_tell_every_card_witness:
  "map cv_id (walk ''s'' 1 None (dk_cards (at_desk (sample_asked @ [DV_Request ''s'' ''b'' ''question'' None [] []
     (decision_binding sample_cards ''s'' None [] 1 None (rt_db no_tasks)) 5])))) = [''b'', sample_card_id]"
  unfolding pages_tell_every_card [OF order_refl, of "''s''", simplified] by code_simp

subsection \<open>Where the code strays\<close>

text \<open>
  \<open>stop\<close> with a budget card open raises after it has parked the run, before it cancels the turn; the card
  stays, and from then on neither the owner nor another stop can settle it.
\<close>

lemma stop_wedges_budget_card:
  "(case stop_session sample_cards 20 ''s'' (at_desk sample_asked) of (r1, d1) \<Rightarrow>
    (case answer_card sample_cards 21 ''s'' sample_card_id (JStr ''reject'') JNull None [] JNull d1 of (r2, d2) \<Rightarrow>
     (case stop_session sample_cards 22 ''s'' d2 of (r3, d3) \<Rightarrow>
        (r1, r2, r3, map dc_status (dk_cards d3), map lr_state (ls_runs (rt_db (dk_rt d3))))))) =
   (Inl (DE_Effect LE_Decision_Stale), Inl DE_Stale, Inl (DE_Effect LE_Decision_Stale), [CS_Pending], [LT_Paused])"
  by code_simp

end
