(* ===== verification/Spec2Isabelle.thy ===== *)
theory Spec2Isabelle
  imports Desktop_Safety Retry_Safety Permission_Paths Job_Control Job_Wake Work_Props Decision_Props
begin

text \<open>
  A model of the core of BoxFox Agent Box, the Python code under \<open>src/backend/src/agentbox\<close>: an
  agent service whose model calls tools on a user's machine, keeps background jobs, drives larger work as a
  graph of nodes executed by child agents, and continues long tasks within a budget. The theories translate
  the code that decides: who may touch the desktop, whether a failed request is sent again, which tool call
  runs, what becomes of a background job, when a node of the work graph may start, is accepted, is merged
  and is executed, whether a long task goes on, and what an answer of the owner still means. What only talks
  to the network, a database, a shell or a screen is a parameter.

  \<^bold>\<open>Shared theories.\<close> \<open>Prelude\<close>: the outcome of code that raises (\<open>Inl\<close> the error), runs as a step
  function folded over events with the two induction principles used (invariants, counters that only grow),
  association lists as dictionaries. \<open>Py_Values\<close>: decoded JSON, \<open>str\<close>, \<open>strip\<close>, truth values. \<open>Regex\<close>: the
  fragment of \<open>re\<close> the tables use, as data with Python's backtracking order; every search is structurally
  recursive, so it ends for every text.

  \<^bold>\<open>The desktop.\<close> \<open>Desktop_Lease\<close> and \<open>Desktop_Control\<close> are \<open>agent_core/desktop_control.py\<close> (\<open>DesktopLease\<close>,
  \<open>InputMutex\<close>, \<open>DesktopControl\<close>): the lease file and the fate of the next write are state, the platform a
  record of the injected methods. \<open>X11_Platform\<close> is the part of \<open>sandbox/x11/platform.py\<close> it relies on,
  \<open>Host_Actions\<close> the bracket of \<open>sandbox/host_executor.py\<close>. \<open>Desktop_Fence\<close> has the events of other parties and
  the counters that never go back; \<open>Host_Actions\<close> and \<open>Desktop_Safety\<close> show that a token taken before a human
  takes over never passes the fence, that only a readable lease of the agent grants control, and that a
  human's touch is not lost.

  \<^bold>\<open>Failures and retries.\<close> \<open>Recovery_Policy\<close> is \<open>agent_core/recovery_policy.py\<close> with its tables, \<open>Failures\<close> is
  \<open>agent_core/failures.py\<close> with the retry loop of \<open>HarnessRuntime._run\<close> in \<open>agent_core/runtime.py\<close>. \<open>Retry_Safety\<close>:
  exactly when a request is sent again, the bounds of the waits, and that the loop ends. The loop runs on
  fuel; four rounds, five with a thinking level, are shown to be enough.

  \<^bold>\<open>What a tool call may do.\<close> \<open>Cua_Target\<close> is \<open>agent_core/cua_target.py\<close>: the window a computer-use call acts on.
  \<open>Permissions\<close> (rule tables, command normal form, matching) and \<open>Permission_Policy\<close> (levels, decision,
  memory, saving rules, and the gate of \<open>HostExecutor.execute\<close>) are \<open>agent_core/permissions.py\<close>.
  \<open>Permission_Safety\<close> and \<open>Permission_Paths\<close>: the hard floor and the guarded group come before every list, deny
  wins over allow, a call is allowed only on a ground, a path is compared part by part.

  \<^bold>\<open>Background jobs.\<close> \<open>Contracts\<close> is \<open>agent_core/orchestration_contracts.py\<close>; \<open>Job_Ledger\<close> (tables, requests,
  events), \<open>Job_Ops\<close> (append, cancel, start, reconcile) and \<open>Job_Wait\<close> (subscriptions, wake lock, waiting) are
  \<open>agent_core/harness_jobs.py\<close>. \<open>Job_Invariant\<close>, \<open>Job_Steps\<close> and \<open>Job_Safety\<close> hold the invariant, the contract of
  an operation (\<open>locale ledger_operation\<close>, interpreted for each operation) and the step relation; \<open>Job_Props\<close>,
  \<open>Job_Control\<close> and \<open>Job_Wake\<close> show one open job per alias, final states, replays applied once, the refinement
  of the abstract job life, cancellation, reconciliation, the wake lock and snapshots.

  \<^bold>\<open>The work graph.\<close> \<open>Work_Graph\<close> are the pure helpers of \<open>agent_core/work_graph.py\<close> (nodes, issues, cycle
  search, waves), \<open>Work_Ready\<close> its readiness and blocking, \<open>Work_State\<close> the run document with its check rows,
  \<open>Work_Policy\<close> is \<open>agent_core/work_policy.py\<close>, \<open>Work_Gate\<close> the binding and the gate of \<open>agent_core/work_checks.py\<close>,
  \<open>Work_Refresh\<close> the invalidation of what rests on changed inputs, \<open>Work_Edit\<close> the editing actions, \<open>Work_Merge\<close>
  the run branch, \<open>Work_Life\<close> admission, the end of a phase, review, approval, checks and shipping. What children,
  git and the owner answer is a field of the record \<open>world\<close> or an argument of the event. Digests are the
  data digested, so they agree exactly when the data does. \<open>Work_Cycle\<close>: the search is correct both ways (fuel:
  the number of nodes; a visit greys a node, so it cannot run out). \<open>Work_Valid\<close>, \<open>Work_Waves\<close>: what a valid graph
  is, and that the waves layer it. \<open>Work_Fresh\<close>: nothing stale stays accepted (the loop ends because every reset
  drops an artifact). \<open>Work_Approval\<close>: the contract that a run that may execute has an approval, as a locale
  interpreted for every operation, and the bypasses. \<open>Work_Props\<close> holds the properties and the runs that show
  the bypasses.

  \<^bold>\<open>Long tasks.\<close> \<open>Longtask_Store\<close> is \<open>agent_core/longtask_store.py\<close> (\<open>LongtaskStore\<close>): the runs with their budget,
  lease and stop epoch, the receipts of calls, the queue of turns, inspections and remembered invocations, one
  list per table. \<open>Longtask_Runtime\<close> is \<open>agent_core/longtask_runtime.py\<close>: configuration, the gate of a turn and of
  a call, parking, the end of a turn, the pump and recovery, with the head of \<open>HarnessRuntime.start\<close>; the
  record \<open>lt_env\<close> holds what other services answer. \<open>Longtask_Inv\<close> states the account of a run and what only
  grows, \<open>Longtask_Steps\<close> has one lemma per operation of the store, \<open>Longtask_Runs\<close> the events of the runtime
  with the contract of an event (\<open>locale growing_system\<close>, interpreted for the step of the runtime).
  \<open>Longtask_Props\<close>: the account, calls and queued turns admitted once, the fence of a stop, the owner's repeated
  calls, the stop of a run without progress, and the short histories that show where the code strays.

  \<^bold>\<open>Decision cards.\<close> \<open>Decision_Store\<close> is \<open>agent_core/decision_store.py\<close> (\<open>DecisionStore\<close>): one row per card the
  owner is asked, its pages, its settlement with the side effect inside. \<open>Decision_Cards\<close> is what
  \<open>agent_core/runtime.py\<close> does with them (\<open>decision_binding\<close>, \<open>hydrate_decisions\<close>, \<open>settle\<close>, \<open>resolve_decision\<close>, the
  cards of \<open>stop\<close>) and the budget card of \<open>LongtaskRuntime\<close>; here the two components meet, a settlement changes
  the run in the same transaction. \<open>Decision_Props\<close>: the second interpretation of \<open>growing_system\<close>, a card
  settled once, no answer to a card whose run was stopped, repeated answers, pages (the walk ends because the
  rows after the cursor get fewer), and the history in which \<open>stop\<close> leaves a card nobody can settle.

  \<^bold>\<open>Conventions.\<close> Strings are character lists, so texts are ASCII and lengths are counted in characters; numbers
  of Python are \<open>int\<close>, times and waits \<open>rat\<close>; dictionaries are association lists where order is visible and
  maps otherwise. An operation that can raise answers \<open>Inl\<close>, or the error beside the stored state when the
  code has written before raising.

  \<^bold>\<open>Not modelled.\<close> Prompt texts, Markdown documents and reports, the children of a work run (\<open>run_stage\<close>, \<open>spawn\<close>)
  and their stores; research and search (network and Unicode text scoring), context compression and history,
  the usage ledger, the API server, skills and tools, browser, shell and desktop drivers: they are adapters
  around external services, and what the modelled code relies on of them is a parameter. The vendored code,
  the router (JavaScript) and the frontend are other programs.
\<close>

end
